(* ===== verification/Sql.thy ===== *)
theory Sql
  imports Prelude "HOL-Library.Product_Lexorder"
begin

text \<open>
  The SQLite statements the program issues, on a table that is the list of its rows in the
  order of insertion: \<open>UPDATE .. WHERE\<close>, \<open>SELECT .. ORDER BY .. LIMIT 1\<close> and
  \<open>INSERT .. ON CONFLICT DO UPDATE\<close>. SQLite leaves the order of rows with equal sort keys
  open; the model takes the order of insertion, and no property depends on that choice.
\<close>

section \<open>Statements\<close>

definition sql_update :: "('r \<Rightarrow> bool) \<Rightarrow> ('r \<Rightarrow> 'r) \<Rightarrow> 'r list \<Rightarrow> 'r list" where
  "sql_update P f rows = map (\<lambda>r. if P r then f r else r) rows"

text \<open>\<open>cursor.rowcount\<close> of an update\<close>

definition sql_rowcount :: "('r \<Rightarrow> bool) \<Rightarrow> 'r list \<Rightarrow> nat" where
  "sql_rowcount P rows = length (filter P rows)"

text \<open>\<open>SELECT .. WHERE P ORDER BY k LIMIT 1\<close> with \<open>fetchone\<close>\<close>

definition sql_first :: "('r \<Rightarrow> bool) \<Rightarrow> ('r \<Rightarrow> 'k :: linorder) \<Rightarrow> 'r list \<Rightarrow> 'r option" where
  "sql_first P k rows =
     (case sort_key k (filter P rows) of [] \<Rightarrow> None | r # _ \<Rightarrow> Some r)"

text \<open>
  \<open>INSERT .. ON CONFLICT(k) DO UPDATE\<close>: the row with the key of the new one is merged with
  it, otherwise the new row is appended.
\<close>

definition sql_upsert :: "('r \<Rightarrow> 'k) \<Rightarrow> ('r \<Rightarrow> 'r \<Rightarrow> 'r) \<Rightarrow> 'r \<Rightarrow> 'r list \<Rightarrow> 'r list" where
  "sql_upsert k merge new rows =
     (if list_ex (\<lambda>r. k r = k new) rows
      then sql_update (\<lambda>r. k r = k new) (\<lambda>r. merge r new) rows
      else rows @ [new])"

section \<open>Updates\<close>

lemma sql_update_map:
  "(\<And>r. P r \<Longrightarrow> g (f r) = g r) \<Longrightarrow> map g (sql_update P f rows) = map g rows"
  by (simp add: sql_update_def)

lemma sql_update_in:
  "r \<in> set (sql_update P f rows) \<longleftrightarrow>
     (\<exists>r' \<in> set rows. r = (if P r' then f r' else r'))"
  by (auto simp: sql_update_def)

lemma set_sql_update:
  "set (sql_update P f rows) = f ` {r \<in> set rows. P r} \<union> {r \<in> set rows. \<not> P r}"
  by (auto simp: sql_update_def)

text \<open>Updating the one row with a given key.\<close>

lemma set_sql_update_key:
  assumes "distinct (map k rows)" and "r \<in> set rows"
  shows "set (sql_update (\<lambda>s. k s = k r) f rows) = insert (f r) (set rows - {r})"
proof -
  have "inj_on k (set rows)" using assms(1) by (simp add: distinct_map)
  then have same: "k s = k r \<longleftrightarrow> s = r" if "s \<in> set rows" for s
    using that assms(2) by (auto dest: inj_onD)
  have "{s \<in> set rows. k s = k r} = {r}" and "{s \<in> set rows. k s \<noteq> k r} = set rows - {r}"
    using same assms(2) by auto
  then show ?thesis by (simp add: set_sql_update)
qed

lemma sql_update_all:
  "(\<And>r. r \<in> set rows \<Longrightarrow> P r \<Longrightarrow> Q (f r)) \<Longrightarrow>
     (\<And>r. r \<in> set rows \<Longrightarrow> \<not> P r \<Longrightarrow> Q r) \<Longrightarrow> \<forall>r \<in> set (sql_update P f rows). Q r"
  by (auto simp: sql_update_def)

lemma sql_update_keep: "r \<in> set rows \<Longrightarrow> \<not> P r \<Longrightarrow> r \<in> set (sql_update P f rows)"
  by (auto simp: sql_update_in)

lemma length_sql_update [simp]: "length (sql_update P f rows) = length rows"
  by (simp add: sql_update_def)

lemma sql_update_none: "(\<And>r. r \<in> set rows \<Longrightarrow> \<not> P r) \<Longrightarrow> sql_update P f rows = rows"
  unfolding sql_update_def by (rule map_idI) simp

lemma sql_update_twice:
  "(\<And>r. P r \<Longrightarrow> P (f r)) \<Longrightarrow>
     sql_update P g (sql_update P f rows) = sql_update P (\<lambda>r. g (f r)) rows"
  by (simp add: sql_update_def)

lemma sql_rowcount_pos: "0 < sql_rowcount P rows \<longleftrightarrow> (\<exists>r \<in> set rows. P r)"
  by (auto simp: sql_rowcount_def filter_empty_conv)

text \<open>A statement that leaves the key of every row alone keeps the lookup by key.\<close>

lemma find_sql_update:
  assumes "\<And>r. P r \<Longrightarrow> k (f r) = k r"
  shows "find (\<lambda>r. k r = x) (sql_update P f rows) =
     map_option (\<lambda>r. if P r then f r else r) (find (\<lambda>r. k r = x) rows)"
  by (induction rows) (auto simp: sql_update_def assms)

lemma find_unique:
  assumes "distinct (map k rows)" and "r \<in> set rows"
  shows "find (\<lambda>s. k s = k r) rows = Some r"
  using assms by (induction rows) (auto simp: rev_image_eqI)

lemma find_append:
  "find P (xs @ ys) = (case find P xs of None \<Rightarrow> find P ys | Some x \<Rightarrow> Some x)"
  by (induction xs) simp_all

section \<open>Selection\<close>

lemma sql_first_Some:
  assumes "sql_first P k rows = Some r"
  shows "r \<in> set rows" and "P r" and "\<And>s. s \<in> set rows \<Longrightarrow> P s \<Longrightarrow> k r \<le> k s"
proof -
  obtain rs where rs: "sort_key k (filter P rows) = r # rs"
    using assms by (auto simp: sql_first_def split: list.splits)
  then have "set (r # rs) = set (filter P rows)"
    by (metis set_sort)
  then show "r \<in> set rows" and "P r" by auto
  have "sorted (map k (r # rs))"
    by (metis rs sorted_sort_key)
  then have "\<forall>s \<in> set (r # rs). k r \<le> k s" by auto
  with \<open>set (r # rs) = set (filter P rows)\<close>
  show "\<And>s. s \<in> set rows \<Longrightarrow> P s \<Longrightarrow> k r \<le> k s" by auto
qed

lemma sql_first_None: "sql_first P k rows = None \<longleftrightarrow> (\<forall>r \<in> set rows. \<not> P r)"
proof -
  have "sql_first P k rows = None \<longleftrightarrow> sort_key k (filter P rows) = []"
    by (auto simp: sql_first_def split: list.splits)
  also have "\<dots> \<longleftrightarrow> filter P rows = []"
    by (metis set_empty set_sort)
  finally show ?thesis by (simp add: filter_empty_conv)
qed

section \<open>Tables with a primary key\<close>

text \<open>
  What a component may rely on when it keeps its rows with \<open>sql_upsert\<close>: the merge of two
  rows has the key of the row in the table. The lookup after an upsert and the uniqueness of
  keys follow, for every table.
\<close>

locale keyed_table =
  fixes key :: "'r \<Rightarrow> 'k" and merge :: "'r \<Rightarrow> 'r \<Rightarrow> 'r"
  assumes key_merge: "key old = key new \<Longrightarrow> key (merge old new) = key old"
begin

lemma keys_upsert:
  "map key (sql_upsert key merge new rows) =
     (if key new \<in> key ` set rows then map key rows else map key rows @ [key new])"
proof (cases "list_ex (\<lambda>r. key r = key new) rows")
  case True
  then have "key new \<in> key ` set rows" unfolding list_ex_iff by (metis imageI)
  with True show ?thesis
    by (simp add: sql_upsert_def sql_update_map key_merge)
next
  case False
  then have "key new \<notin> key ` set rows" unfolding list_ex_iff by (metis imageE)
  with False show ?thesis by (simp add: sql_upsert_def)
qed

lemma distinct_upsert:
  "distinct (map key rows) \<Longrightarrow> distinct (map key (sql_upsert key merge new rows))"
  by (auto simp: keys_upsert)

lemma lookup_upsert:
  "find (\<lambda>r. key r = x) (sql_upsert key merge new rows) =
     (if x = key new
      then Some (case find (\<lambda>r. key r = x) rows of None \<Rightarrow> new | Some old \<Rightarrow> merge old new)
      else find (\<lambda>r. key r = x) rows)"
proof (cases "list_ex (\<lambda>r. key r = key new) rows")
  case True
  then have "find (\<lambda>r. key r = key new) rows \<noteq> None"
    by (auto simp: find_None_iff list_ex_iff)
  then obtain old where old: "find (\<lambda>r. key r = key new) rows = Some old"
    by blast
  have "find (\<lambda>r. key r = x) (sql_update (\<lambda>r. key r = key new) (\<lambda>r. merge r new) rows) =
     map_option (\<lambda>r. if key r = key new then merge r new else r) (find (\<lambda>r. key r = x) rows)"
    by (rule find_sql_update) (rule key_merge)
  with True old show ?thesis
    by (cases "find (\<lambda>r. key r = x) rows")
      (auto simp: sql_upsert_def dest: find_Some_iff_mem)
next
  case False
  then have "find (\<lambda>r. key r = key new) rows = None"
    unfolding list_ex_iff by (simp add: find_None_iff)
  with False show ?thesis
    by (auto simp: sql_upsert_def find_append split: option.splits)
qed

text \<open>As a map from keys to the part of a row that matters, the table is updated at one point.\<close>

lemma lookup_map_upsert:
  assumes "\<And>old. key old = key new \<Longrightarrow> val (merge old new) = upd (val old)"
  shows "(\<lambda>x. map_option val (find (\<lambda>r. key r = x) (sql_upsert key merge new rows))) =
     (\<lambda>x. map_option val (find (\<lambda>r. key r = x) rows))
       (key new \<mapsto> (case map_option val (find (\<lambda>r. key r = key new) rows) of
          None \<Rightarrow> val new | Some v \<Rightarrow> upd v))"
proof (cases "find (\<lambda>r. key r = key new) rows")
  case None
  then show ?thesis by (auto simp: lookup_upsert)
next
  case (Some old)
  then have "key old = key new" by (auto dest: find_Some_iff_mem)
  with Some assms show ?thesis by (auto simp: lookup_upsert)
qed

lemma upsert_twice_keys:
  "map key (sql_upsert key merge new (sql_upsert key merge new rows)) =
     map key (sql_upsert key merge new rows)"
  by (auto simp: keys_upsert simp flip: set_map)

end

end
