(* ===== verification/Json.thy ===== *)
theory Json
  imports Prelude Complex_Main "HOL-Library.Multiset"
begin

text \<open>
  JSON values as Python holds them after \<open>json.loads\<close>, Python floats, Python truth and
  equality on such values, and \<open>json.dumps\<close> as \<open>events.py\<close> and \<open>research/experiment.py\<close>
  call it. The digest and the decimal text of a float are a parameter of the model
  (\<open>py_env\<close>): theorems about hashes hold for every digest function.
\<close>

section \<open>Floats\<close>

text \<open>A double: the rational it denotes, the negative zero, an infinity, or not a number.\<close>

datatype pyfloat = Fin rat | NegZero | PosInf | NegInf | NaN

fun flt :: "pyfloat \<Rightarrow> pyfloat \<Rightarrow> bool" where
  "flt NaN _ = False"
| "flt _ NaN = False"
| "flt PosInf _ = False"
| "flt _ NegInf = False"
| "flt NegInf _ = True"
| "flt _ PosInf = True"
| "flt (Fin p) (Fin q) = (p < q)"
| "flt (Fin p) NegZero = (p < 0)"
| "flt NegZero (Fin q) = (0 < q)"
| "flt NegZero NegZero = False"

fun feq :: "pyfloat \<Rightarrow> pyfloat \<Rightarrow> bool" where
  "feq (Fin p) (Fin q) = (p = q)"
| "feq (Fin p) NegZero = (p = 0)"
| "feq NegZero (Fin q) = (q = 0)"
| "feq NegZero NegZero = True"
| "feq PosInf PosInf = True"
| "feq NegInf NegInf = True"
| "feq _ _ = False"

definition fle :: "pyfloat \<Rightarrow> pyfloat \<Rightarrow> bool" where
  "fle a b = (flt a b \<or> feq a b)"

fun is_finite :: "pyfloat \<Rightarrow> bool" where
  "is_finite (Fin _) = True"
| "is_finite NegZero = True"
| "is_finite _ = False"

lemma flt_irrefl [simp]: "\<not> flt a a"
  by (cases a) simp_all

lemma fle_trans: "fle a b \<Longrightarrow> fle b c \<Longrightarrow> fle a c"
  by (cases a; cases b; cases c) (auto simp: fle_def)

text \<open>Not below is not the same as at least: a NaN is neither.\<close>

lemma not_flt_fle: "a \<noteq> NaN \<Longrightarrow> b \<noteq> NaN \<Longrightarrow> \<not> flt a b \<longleftrightarrow> fle b a"
  by (cases a; cases b) (auto simp: fle_def)

section \<open>Values\<close>

datatype json =
    JNull
  | JBool bool
  | JInt int
  | JFloat pyfloat
  | JStr string
  | JList "json list"
  | JObj "(string \<times> json) list"

text \<open>\<open>bool(v)\<close>\<close>

fun json_truthy :: "json \<Rightarrow> bool" where
  "json_truthy JNull = False"
| "json_truthy (JBool b) = b"
| "json_truthy (JInt i) = (i \<noteq> 0)"
| "json_truthy (JFloat x) = (\<not> feq x (Fin 0))"
| "json_truthy (JStr s) = (s \<noteq> [])"
| "json_truthy (JList xs) = (xs \<noteq> [])"
| "json_truthy (JObj kvs) = (kvs \<noteq> [])"

text \<open>The truth of \<open>d.get(k)\<close>: a missing key is \<open>None\<close>, which is false.\<close>

definition opt_truthy :: "json option \<Rightarrow> bool" where
  "opt_truthy v = (case v of None \<Rightarrow> False | Some w \<Rightarrow> json_truthy w)"

fun is_obj :: "json \<Rightarrow> bool" where
  "is_obj (JObj _) = True"
| "is_obj _ = False"

fun is_jstr :: "json \<Rightarrow> bool" where
  "is_jstr (JStr _) = True"
| "is_jstr _ = False"

text \<open>\<open>isinstance(v, int | float) and not isinstance(v, bool)\<close>\<close>

fun is_number :: "json \<Rightarrow> bool" where
  "is_number (JInt _) = True"
| "is_number (JFloat _) = True"
| "is_number _ = False"

text \<open>The number a value compares as: \<open>True == 1 == 1.0\<close> in Python.\<close>

fun num_of :: "json \<Rightarrow> pyfloat option" where
  "num_of (JBool b) = Some (Fin (if b then 1 else 0))"
| "num_of (JInt i) = Some (Fin (of_int i))"
| "num_of (JFloat x) = Some x"
| "num_of _ = None"

text \<open>Python \<open>==\<close> on these values.\<close>

fun py_eq :: "json \<Rightarrow> json \<Rightarrow> bool"
  and py_eq_list :: "json list \<Rightarrow> json list \<Rightarrow> bool"
  and py_eq_in :: "(string \<times> json) list \<Rightarrow> (string \<times> json) list \<Rightarrow> bool" where
  "py_eq (JStr s) w = (case w of JStr t \<Rightarrow> s = t | _ \<Rightarrow> False)"
| "py_eq JNull w = (w = JNull)"
| "py_eq (JList xs) w = (case w of JList ys \<Rightarrow> py_eq_list xs ys | _ \<Rightarrow> False)"
| "py_eq (JObj kvs) w =
     (case w of JObj kws \<Rightarrow> length kvs = length kws \<and> py_eq_in kvs kws | _ \<Rightarrow> False)"
| "py_eq v w = (case (num_of v, num_of w) of (Some x, Some y) \<Rightarrow> feq x y | _ \<Rightarrow> False)"
| "py_eq_list [] ys = (ys = [])"
| "py_eq_list (x # xs) ys =
     (case ys of [] \<Rightarrow> False | y # ys' \<Rightarrow> py_eq x y \<and> py_eq_list xs ys')"
| "py_eq_in [] kws = True"
| "py_eq_in ((k, v) # kvs) kws =
     (case map_of kws k of None \<Rightarrow> False | Some w \<Rightarrow> py_eq v w \<and> py_eq_in kvs kws)"

section \<open>Serialisation\<close>

text \<open>
  The part of the platform that a model run is given: the \<open>hashlib\<close> digest in hexadecimal,
  \<open>float.__repr__\<close>, \<open>round(sum(xs), 4)\<close> on doubles, and the two directions between a UTC
  time in microseconds and its ISO 8601 text (\<open>None\<close> where \<open>fromisoformat\<close> raises).
\<close>

record py_env =
  sha256_hex :: "string \<Rightarrow> string"
  float_repr :: "rat \<Rightarrow> string"
  round_sum :: "pyfloat list \<Rightarrow> pyfloat"
  iso_text :: "int \<Rightarrow> string"
  iso_parse :: "string \<Rightarrow> int option"

datatype json_error = NotJsonFloat

definition hex_digit :: "nat \<Rightarrow> char" where
  "hex_digit n = (if n < 10 then char_of (48 + n) else char_of (87 + n))"

definition json_escape_char :: "char \<Rightarrow> string" where
  "json_escape_char c =
     (let n = (of_char c :: nat)
      in if n = 34 then [CHR 0x5C, CHR 0x22]
         else if n = 92 then [CHR 0x5C, CHR 0x5C]
         else if n = 10 then [CHR 0x5C, CHR ''n'']
         else if n = 13 then [CHR 0x5C, CHR ''r'']
         else if n = 9 then [CHR 0x5C, CHR ''t'']
         else if n = 8 then [CHR 0x5C, CHR ''b'']
         else if n = 12 then [CHR 0x5C, CHR ''f'']
         else if n < 32 \<or> 126 < n
           then [CHR 0x5C, CHR ''u'', CHR ''0'', CHR ''0'', hex_digit (n div 16), hex_digit (n mod 16)]
         else [c])"

definition json_quote :: "string \<Rightarrow> string" where
  "json_quote s = [CHR 0x22] @ concat (map json_escape_char s) @ [CHR 0x22]"

text \<open>\<open>json.dumps\<close> with its separators, its \<open>allow_nan\<close> and \<open>sort_keys=True\<close>.\<close>

record dump_style =
  item_sep :: string
  key_sep :: string
  allow_nan :: bool

fun dump_float :: "py_env \<Rightarrow> dump_style \<Rightarrow> pyfloat \<Rightarrow> json_error + string" where
  "dump_float E st (Fin q) = Inr (float_repr E q)"
| "dump_float E st NegZero = Inr ''-0.0''"
| "dump_float E st PosInf = (if allow_nan st then Inr ''Infinity'' else Inl NotJsonFloat)"
| "dump_float E st NegInf = (if allow_nan st then Inr ''-Infinity'' else Inl NotJsonFloat)"
| "dump_float E st NaN = (if allow_nan st then Inr ''NaN'' else Inl NotJsonFloat)"

definition dump_member :: "dump_style \<Rightarrow> string \<times> string \<Rightarrow> string" where
  "dump_member st kv = json_quote (fst kv) @ key_sep st @ snd kv"

fun json_dumps :: "py_env \<Rightarrow> dump_style \<Rightarrow> json \<Rightarrow> json_error + string"
  and json_dumps_list :: "py_env \<Rightarrow> dump_style \<Rightarrow> json list \<Rightarrow> json_error + string list"
  and json_dumps_members ::
    "py_env \<Rightarrow> dump_style \<Rightarrow> (string \<times> json) list \<Rightarrow> json_error + (string \<times> string) list" where
  "json_dumps E st JNull = Inr ''null''"
| "json_dumps E st (JBool b) = Inr (if b then ''true'' else ''false'')"
| "json_dumps E st (JInt i) = Inr (int_str i)"
| "json_dumps E st (JFloat x) = dump_float E st x"
| "json_dumps E st (JStr s) = Inr (json_quote s)"
| "json_dumps E st (JList xs) =
     bind_res (json_dumps_list E st xs) (\<lambda>ys. Inr (''['' @ str_join (item_sep st) ys @ '']''))"
| "json_dumps E st (JObj kvs) =
     bind_res (json_dumps_members E st kvs)
       (\<lambda>ms. Inr (''{'' @ str_join (item_sep st) (map (dump_member st) (sort_key fst ms)) @ ''}''))"
| "json_dumps_list E st [] = Inr []"
| "json_dumps_list E st (x # xs) =
     bind_res (json_dumps E st x) (\<lambda>y. bind_res (json_dumps_list E st xs) (\<lambda>ys. Inr (y # ys)))"
| "json_dumps_members E st [] = Inr []"
| "json_dumps_members E st ((k, v) # kvs) =
     bind_res (json_dumps E st v)
       (\<lambda>y. bind_res (json_dumps_members E st kvs) (\<lambda>ms. Inr ((k, y) # ms)))"

text \<open>\<open>events.canonical_json\<close> and the \<open>_fingerprint\<close> of \<open>persistence/__init__.py\<close>.\<close>

definition canonical_style :: dump_style where
  "canonical_style = \<lparr>item_sep = '','', key_sep = '':'', allow_nan = False\<rparr>"

definition canonical_json :: "py_env \<Rightarrow> json \<Rightarrow> json_error + string" where
  "canonical_json E v = json_dumps E canonical_style v"

definition json_digest :: "py_env \<Rightarrow> json \<Rightarrow> json_error + string" where
  "json_digest E v = bind_res (canonical_json E v) (\<lambda>s. Inr (sha256_hex E s))"

definition fingerprint :: "py_env \<Rightarrow> json \<Rightarrow> json_error + string" where
  "fingerprint E v = bind_res (json_digest E v) (\<lambda>s. Inr (take 12 s))"

section \<open>Reading back and text\<close>

text \<open>What \<open>json.loads\<close> makes of the text of a value: the same value with its keys sorted.\<close>

fun json_norm :: "json \<Rightarrow> json"
  and json_norm_list :: "json list \<Rightarrow> json list"
  and json_norm_members :: "(string \<times> json) list \<Rightarrow> (string \<times> json) list" where
  "json_norm (JList xs) = JList (json_norm_list xs)"
| "json_norm (JObj kvs) = JObj (sort_key fst (json_norm_members kvs))"
| "json_norm v = v"
| "json_norm_list [] = []"
| "json_norm_list (x # xs) = json_norm x # json_norm_list xs"
| "json_norm_members [] = []"
| "json_norm_members ((k, v) # kvs) = (k, json_norm v) # json_norm_members kvs"

text \<open>\<open>repr\<close> of a string and of a float, \<open>repr(v)\<close> and \<open>str(v)\<close>.\<close>

definition repr_char :: "char \<Rightarrow> char \<Rightarrow> string" where
  "repr_char q c =
     (let n = (of_char c :: nat)
      in if c = q \<or> n = 92 then [CHR 0x5C, c]
         else if n = 10 then [CHR 0x5C, CHR ''n'']
         else if n = 13 then [CHR 0x5C, CHR ''r'']
         else if n = 9 then [CHR 0x5C, CHR ''t'']
         else if n < 32 \<or> (126 < n \<and> n < 161) \<or> n = 173
           then [CHR 0x5C, CHR ''x'', hex_digit (n div 16), hex_digit (n mod 16)]
         else [c])"

definition str_repr :: "string \<Rightarrow> string" where
  "str_repr s =
     (let q = (if CHR 0x27 \<in> set s \<and> CHR 0x22 \<notin> set s then CHR 0x22 else CHR 0x27)
      in [q] @ concat (map (repr_char q) s) @ [q])"

fun float_text :: "py_env \<Rightarrow> pyfloat \<Rightarrow> string" where
  "float_text E (Fin q) = float_repr E q"
| "float_text E NegZero = ''-0.0''"
| "float_text E PosInf = ''inf''"
| "float_text E NegInf = ''-inf''"
| "float_text E NaN = ''nan''"

fun py_repr :: "py_env \<Rightarrow> json \<Rightarrow> string"
  and py_repr_list :: "py_env \<Rightarrow> json list \<Rightarrow> string list"
  and py_repr_members :: "py_env \<Rightarrow> (string \<times> json) list \<Rightarrow> string list" where
  "py_repr E JNull = ''None''"
| "py_repr E (JBool b) = (if b then ''True'' else ''False'')"
| "py_repr E (JInt i) = int_str i"
| "py_repr E (JFloat x) = float_text E x"
| "py_repr E (JStr s) = str_repr s"
| "py_repr E (JList xs) = ''['' @ str_join '', '' (py_repr_list E xs) @ '']''"
| "py_repr E (JObj kvs) = ''{'' @ str_join '', '' (py_repr_members E kvs) @ ''}''"
| "py_repr_list E [] = []"
| "py_repr_list E (x # xs) = py_repr E x # py_repr_list E xs"
| "py_repr_members E [] = []"
| "py_repr_members E ((k, v) # kvs) = (str_repr k @ '': '' @ py_repr E v) # py_repr_members E kvs"

fun py_str :: "py_env \<Rightarrow> json \<Rightarrow> string" where
  "py_str E (JStr s) = s"
| "py_str E v = py_repr E v"

text \<open>The exceptions the program lets Python raise.\<close>

datatype py_exn =
    ValueError string
  | TypeError
  | KeyError string
  | AttributeError
  | RuntimeError string
  | OSError string
  | OtherError string

text \<open>A digest as its callers see it: \<open>json.dumps\<close> raises \<open>ValueError\<close> on a float outside JSON.\<close>

definition json_exn :: "json_error + 'a \<Rightarrow> py_exn + 'a" where
  "json_exn r = (case r of Inl e \<Rightarrow> Inl (ValueError ''Out of range float values are not JSON compliant'') | Inr x \<Rightarrow> Inr x)"

lemma json_exn_simps [simp]:
  "json_exn (Inr x) = Inr x"
  "json_exn r = Inr y \<longleftrightarrow> r = Inr y"
  by (auto simp: json_exn_def split: sum.splits)

text \<open>\<open>tuple(v)\<close> and \<open>list(v)\<close>, which is what \<open>for x in v\<close> goes through too.\<close>

definition py_tuple :: "json \<Rightarrow> py_exn + json list" where
  "py_tuple v =
     (case v of
        JList xs \<Rightarrow> Inr xs
      | JStr s \<Rightarrow> Inr (map (\<lambda>c. JStr [c]) s)
      | JObj d \<Rightarrow> Inr (map (\<lambda>kv. JStr (fst kv)) d)
      | _ \<Rightarrow> Inl TypeError)"

text \<open>A value that can be a member of a set: \<open>hash(v)\<close> does not raise.\<close>

fun hashable :: "json \<Rightarrow> bool" where
  "hashable (JList _) = False"
| "hashable (JObj _) = False"
| "hashable _ = True"

text \<open>A Python dictionary has each key once, at every depth.\<close>

fun json_ok :: "json \<Rightarrow> bool"
  and json_ok_list :: "json list \<Rightarrow> bool"
  and json_ok_members :: "(string \<times> json) list \<Rightarrow> bool" where
  "json_ok (JList xs) = json_ok_list xs"
| "json_ok (JObj kvs) = (distinct (map fst kvs) \<and> json_ok_members kvs)"
| "json_ok v = True"
| "json_ok_list [] = True"
| "json_ok_list (x # xs) = (json_ok x \<and> json_ok_list xs)"
| "json_ok_members [] = True"
| "json_ok_members ((k, v) # kvs) = (json_ok v \<and> json_ok_members kvs)"

section \<open>Lemmas\<close>

text \<open>The members come out whatever the order of the keys, so the text does not depend on it.\<close>

lemma members_Inr_iff:
  "json_dumps_members E st kvs = Inr ms \<longleftrightarrow>
     list_all2 (\<lambda>kv m. fst m = fst kv \<and> json_dumps E st (snd kv) = Inr (snd m)) kvs ms"
proof (induction kvs arbitrary: ms)
  case Nil
  show ?case by auto
next
  case (Cons kv kvs)
  obtain k v where kv: "kv = (k, v)" by (cases kv)
  show ?case
    by (cases ms) (auto simp: kv bind_res_Inr Cons.IH)
qed

lemma members_Inl_iff:
  "(\<exists>e. json_dumps_members E st kvs = Inl e) \<longleftrightarrow>
     (\<exists>kv \<in> set kvs. \<exists>e. json_dumps E st (snd kv) = Inl e)"
proof (induction kvs)
  case Nil
  show ?case by simp
next
  case (Cons kv kvs)
  obtain k v where kv: "kv = (k, v)" by (cases kv)
  show ?case
    using Cons.IH
    by (cases "json_dumps E st v"; cases "json_dumps_members E st kvs") (auto simp: kv)
qed

definition member_text :: "py_env \<Rightarrow> dump_style \<Rightarrow> string \<times> json \<Rightarrow> string \<times> string" where
  "member_text E st kv =
     (fst kv, case json_dumps E st (snd kv) of Inl _ \<Rightarrow> [] | Inr s \<Rightarrow> s)"

lemma members_map:
  "json_dumps_members E st kvs = Inr ms \<Longrightarrow> ms = map (member_text E st) kvs"
  unfolding members_Inr_iff
  by (induction kvs ms rule: list_all2_induct) (auto simp: member_text_def prod_eq_iff)

lemma json_error_all: "e = NotJsonFloat"
  by (cases e) simp

lemma json_dumps_key_order:
  assumes perm: "mset kvs = mset kws" and keys: "distinct (map fst kvs)"
  shows "json_dumps E st (JObj kvs) = json_dumps E st (JObj kws)"
proof (cases "json_dumps_members E st kvs")
  case (Inl e)
  then have "\<exists>kv \<in> set kvs. \<exists>e. json_dumps E st (snd kv) = Inl e"
    using members_Inl_iff by blast
  then have "\<exists>kv \<in> set kws. \<exists>e. json_dumps E st (snd kv) = Inl e"
    unfolding mset_eq_setD [OF perm] .
  then obtain e' where "json_dumps_members E st kws = Inl e'"
    using members_Inl_iff by blast
  with Inl show ?thesis by (simp add: json_error_all [of e] json_error_all [of e'])
next
  case (Inr ms)
  have "\<not> (\<exists>kv \<in> set kvs. \<exists>e. json_dumps E st (snd kv) = Inl e)"
    using Inr members_Inl_iff [of E st kvs] by simp
  then have "\<not> (\<exists>kv \<in> set kws. \<exists>e. json_dumps E st (snd kv) = Inl e)"
    unfolding mset_eq_setD [OF perm] .
  then obtain ns where ns: "json_dumps_members E st kws = Inr ns"
    using members_Inl_iff [of E st kws] by (cases "json_dumps_members E st kws") auto
  have ms: "ms = map (member_text E st) kvs" and nt: "ns = map (member_text E st) kws"
    using members_map [OF Inr] members_map [OF ns] .
  have "mset ms = mset ns"
    using perm unfolding ms nt mset_map by simp
  moreover have "distinct (map fst ms)"
    using keys by (simp add: ms comp_def member_text_def)
  then have "inj_on fst (set ms)" by (simp add: distinct_map)
  ultimately have "sort_key fst ms = sort_key fst ns"
    by (simp add: sort_key_inj_key_eq)
  with Inr ns show ?thesis by simp
qed

text \<open>Sorting by key commutes with a function that keeps the keys.\<close>

lemma insort_key_map:
  "(\<And>x. g (f x) = k x) \<Longrightarrow> insort_key g (f x) (map f xs) = map f (insort_key k x xs)"
  by (induction xs) auto

lemma sort_key_map:
  "(\<And>x. g (f x) = k x) \<Longrightarrow> sort_key g (map f xs) = map f (sort_key k xs)"
  by (induction xs) (auto simp: insort_key_map)

lemma sort_key_idem: "sort_key k (sort_key k xs) = sort_key k xs"
  by (rule sort_key_id_if_sorted) simp

lemma json_dumps_sort:
  "json_dumps E st (JObj (sort_key fst kvs)) = json_dumps E st (JObj kvs)"
proof (cases "json_dumps_members E st kvs")
  case (Inl e)
  then have "\<exists>kv \<in> set (sort_key fst kvs). \<exists>e. json_dumps E st (snd kv) = Inl e"
    unfolding set_sort using members_Inl_iff by blast
  then obtain e' where "json_dumps_members E st (sort_key fst kvs) = Inl e'"
    using members_Inl_iff by blast
  with Inl show ?thesis by (simp add: json_error_all [of e] json_error_all [of e'])
next
  case (Inr ms)
  have "\<not> (\<exists>kv \<in> set (sort_key fst kvs). \<exists>e. json_dumps E st (snd kv) = Inl e)"
    unfolding set_sort using Inr members_Inl_iff [of E st kvs] by simp
  then obtain ns where ns: "json_dumps_members E st (sort_key fst kvs) = Inr ns"
    using members_Inl_iff [of E st "sort_key fst kvs"]
    by (cases "json_dumps_members E st (sort_key fst kvs)") auto
  have "sort_key fst ns = sort_key fst ms"
    unfolding members_map [OF Inr] members_map [OF ns]
    by (simp add: sort_key_map [where k = fst] member_text_def sort_key_idem)
  with Inr ns show ?thesis by simp
qed

lemma json_dumps_norm:
  "json_dumps E st (json_norm v) = json_dumps E st v"
  "json_dumps_list E st (json_norm_list vs) = json_dumps_list E st vs"
  "json_dumps_members E st (json_norm_members kvs) = json_dumps_members E st kvs"
proof (induction v and vs and kvs rule: json_norm_json_norm_list_json_norm_members.induct)
  case (2 kvs)
  show ?case
    unfolding json_norm.simps json_dumps_sort by (simp add: 2)
qed simp_all

lemma canonical_json_norm [simp]: "canonical_json E (json_norm v) = canonical_json E v"
  by (simp add: canonical_json_def json_dumps_norm)

lemma json_digest_norm [simp]: "json_digest E (json_norm v) = json_digest E v"
  by (simp add: json_digest_def)

lemma fingerprint_norm [simp]: "fingerprint E (json_norm v) = fingerprint E v"
  by (simp add: fingerprint_def)

lemma json_norm_members_map: "json_norm_members kvs = map (\<lambda>(k, v). (k, json_norm v)) kvs"
  by (induction kvs) auto

lemma map_of_sort_key: "distinct (map fst kvs) \<Longrightarrow> map_of (sort_key fst kvs) = map_of kvs"
proof -
  assume d: "distinct (map fst kvs)"
  then have "distinct (map fst (sort_key fst kvs))"
    by (simp add: distinct_map)
  from map_of_inject_set [OF this d] show ?thesis by simp
qed

lemma map_of_norm:
  assumes "distinct (map fst kvs)"
  shows "map_of (sort_key fst (json_norm_members kvs)) k = map_option json_norm (map_of kvs k)"
proof -
  have d: "distinct (map fst (json_norm_members kvs))"
    using assms by (simp add: json_norm_members_map comp_def case_prod_beta)
  show ?thesis
    unfolding map_of_sort_key [OF d] by (simp add: json_norm_members_map map_of_map)
qed

lemma json_norm_scalar [simp]:
  "json_norm v = JStr s \<longleftrightarrow> v = JStr s" "json_norm v = JNull \<longleftrightarrow> v = JNull"
  by (cases v; simp)+

lemma json_truthy_norm [simp]: "json_truthy (json_norm v) = json_truthy v"
proof (cases v)
  case (JList xs)
  then show ?thesis by (cases xs) simp_all
next
  case (JObj kvs)
  have "sort_key fst (json_norm_members kvs) = [] \<longleftrightarrow> kvs = []"
    by (metis json_norm_members_map length_0_conv length_map length_sort)
  with JObj show ?thesis by simp
qed simp_all

end
