(* ===== verification/JobQueue.thy ===== *)
theory JobQueue
  imports Sql Json
begin

text \<open>
  \<open>scheduler/job_queue.py\<close>: the persistent job queue. Its state is the table \<open>jobs\<close>, the table
  \<open>dead_letters\<close>, the in-memory counters of failures per job type and the lease duration. Each
  operation is one function of the clock reading and the state; a payload is the JSON value
  whose text the code stores. Times are microseconds since the epoch: the code's float
  seconds are a multiple of a fraction finer than a microsecond between the years 2004 and
  2038, so adding whole seconds to them and comparing them is exact.
\<close>

section \<open>State\<close>

datatype job_state = QUEUED | LEASED | COMPLETED | FAILED | DEAD_LETTER | CANCELLED

record job =
  job_id :: string
  idempotency_key :: "string option"
  job_type :: string
  job_state :: job_state
  priority :: int
  payload :: json
  checkpoint :: json
  attempt :: int
  max_attempts :: int
  created_at :: int
  updated_at :: int
  lease_expires :: "int option"
  correlation_id :: "string option"
  parent_job_id :: "string option"
  job_error :: "string option"

record dead_letter =
  dl_id :: nat
  dl_job_id :: string
  dl_job_type :: string
  dl_payload :: json
  dl_final_error :: string
  dl_archived_at :: int

record job_queue =
  jobs :: "job list"
  dead_letters :: "dead_letter list"
  circuit_failures :: "(string, int) dict"
  lease_micros :: int

text \<open>A constraint of the table \<open>jobs\<close> that an insert breaks, by the column it is on.\<close>

datatype queue_error = IntegrityError string

definition circuit_threshold :: int where
  "circuit_threshold = 5"

definition new_queue :: "int \<Rightarrow> job_queue" where
  "new_queue lease_seconds =
     \<lparr>jobs = [], dead_letters = [], circuit_failures = [], lease_micros = lease_seconds * 1000000\<rparr>"

text \<open>A restart opens the same database with fresh in-memory counters.\<close>

definition reopen :: "int \<Rightarrow> job_queue \<Rightarrow> job_queue" where
  "reopen lease_seconds q =
     q\<lparr>circuit_failures := [], lease_micros := lease_seconds * 1000000\<rparr>"

section \<open>Operations\<close>

definition get :: "job_queue \<Rightarrow> string \<Rightarrow> job option" where
  "get q jid = find (\<lambda>r. job_id r = jid) (jobs q)"

definition is_lease_expired :: "int \<Rightarrow> job \<Rightarrow> bool" where
  "is_lease_expired now j =
     (job_state j = LEASED \<and> (case lease_expires j of None \<Rightarrow> False | Some e \<Rightarrow> e < now))"

definition enqueue ::
  "int \<Rightarrow> string \<Rightarrow> string \<Rightarrow> json \<Rightarrow> string option \<Rightarrow> int \<Rightarrow> int \<Rightarrow> string option \<Rightarrow> string option \<Rightarrow>
   job_queue \<Rightarrow> queue_error + (job option \<times> job_queue)" where
  "enqueue now jid jtype pl key prio maxa corr parent q =
     (if truthy key \<and> list_ex (\<lambda>r. idempotency_key r = key) (jobs q) then Inr (None, q)
      else if list_ex (\<lambda>r. job_id r = jid) (jobs q) then Inl (IntegrityError ''jobs.job_id'')
      else if key \<noteq> None \<and> list_ex (\<lambda>r. idempotency_key r = key) (jobs q)
        then Inl (IntegrityError ''jobs.idempotency_key'')
      else
        (let row = \<lparr>job_id = jid, idempotency_key = key, job_type = jtype, job_state = QUEUED,
                    priority = prio, payload = pl, checkpoint = JObj [], attempt = 0,
                    max_attempts = maxa, created_at = now, updated_at = now,
                    lease_expires = None, correlation_id = corr, parent_job_id = parent,
                    job_error = None\<rparr>;
             q' = q\<lparr>jobs := jobs q @ [row]\<rparr>
         in Inr (get q' jid, q')))"

text \<open>\<open>state = 'LEASED' AND lease_expires IS NOT NULL AND lease_expires < now\<close>\<close>

definition reset_expired :: "int \<Rightarrow> job list \<Rightarrow> job list" where
  "reset_expired now rows =
     sql_update (is_lease_expired now)
       (\<lambda>r. r\<lparr>job_state := QUEUED, lease_expires := None, updated_at := now\<rparr>) rows"

definition eligible :: "string option \<Rightarrow> job \<Rightarrow> bool" where
  "eligible jt r = (job_state r = QUEUED \<and> (\<not> truthy jt \<or> jt = Some (job_type r)))"

definition lease_row :: "int \<Rightarrow> int \<Rightarrow> job \<Rightarrow> job" where
  "lease_row now expires r =
     r\<lparr>job_state := LEASED, lease_expires := Some expires, updated_at := now,
       attempt := attempt r + 1\<rparr>"

definition lease_next :: "int \<Rightarrow> string option \<Rightarrow> job_queue \<Rightarrow> job option \<times> job_queue" where
  "lease_next now jt q =
     (let rows = reset_expired now (jobs q)
      in case sql_first (eligible jt) (\<lambda>r. (priority r, created_at r)) rows of
           None \<Rightarrow> (None, q\<lparr>jobs := rows\<rparr>)
         | Some row \<Rightarrow>
             (let q' = q\<lparr>jobs := sql_update (\<lambda>r. job_id r = job_id row)
                                 (lease_row now (now + lease_micros q)) rows\<rparr>
              in (get q' (job_id row), q')))"

definition leased_as :: "string \<Rightarrow> job \<Rightarrow> bool" where
  "leased_as jid r = (job_id r = jid \<and> job_state r = LEASED)"

definition renew_lease :: "int \<Rightarrow> string \<Rightarrow> job_queue \<Rightarrow> bool \<times> job_queue" where
  "renew_lease now jid q =
     (0 < sql_rowcount (leased_as jid) (jobs q),
      q\<lparr>jobs := sql_update (leased_as jid)
          (\<lambda>r. r\<lparr>lease_expires := Some (now + lease_micros q), updated_at := now\<rparr>) (jobs q)\<rparr>)"

definition save_checkpoint :: "int \<Rightarrow> string \<Rightarrow> json \<Rightarrow> job_queue \<Rightarrow> bool \<times> job_queue" where
  "save_checkpoint now jid data q =
     (0 < sql_rowcount (leased_as jid) (jobs q),
      q\<lparr>jobs := sql_update (leased_as jid)
          (\<lambda>r. r\<lparr>checkpoint := data, updated_at := now\<rparr>) (jobs q)\<rparr>)"

definition complete :: "int \<Rightarrow> string \<Rightarrow> job_queue \<Rightarrow> bool \<times> job_queue" where
  "complete now jid q =
     (let q' = q\<lparr>jobs := sql_update (leased_as jid)
                   (\<lambda>r. r\<lparr>job_state := COMPLETED, lease_expires := None, updated_at := now\<rparr>)
                   (jobs q)\<rparr>
      in if 0 < sql_rowcount (leased_as jid) (jobs q)
         then (True,
               case get q' jid of
                 None \<Rightarrow> q'
               | Some r \<Rightarrow> q'\<lparr>circuit_failures := dict_pop (job_type r) (circuit_failures q')\<rparr>)
         else (False, q'))"

definition is_circuit_open :: "string \<Rightarrow> job_queue \<Rightarrow> bool" where
  "is_circuit_open jtype q = (circuit_threshold \<le> dict_get_or (circuit_failures q) jtype 0)"

definition reset_circuit :: "string \<Rightarrow> job_queue \<Rightarrow> job_queue" where
  "reset_circuit jtype q = q\<lparr>circuit_failures := dict_pop jtype (circuit_failures q)\<rparr>"

definition count_failure :: "string \<Rightarrow> job_queue \<Rightarrow> job_queue" where
  "count_failure jtype q =
     q\<lparr>circuit_failures :=
         dict_set jtype (dict_get_or (circuit_failures q) jtype 0 + 1) (circuit_failures q)\<rparr>"

definition fail :: "int \<Rightarrow> string \<Rightarrow> string \<Rightarrow> job_queue \<Rightarrow> job option \<times> job_queue" where
  "fail now jid err q =
     (case get q jid of
        None \<Rightarrow> (None, q)
      | Some j \<Rightarrow>
          (let q1 = count_failure (job_type j) q;
               end_as = (\<lambda>s r. r\<lparr>job_state := s, lease_expires := None, updated_at := now,
                                 job_error := Some err\<rparr>);
               q2 = (if max_attempts j \<le> attempt j \<or> is_circuit_open (job_type j) q1
                     then q1\<lparr>jobs := sql_update (\<lambda>r. job_id r = jid) (end_as DEAD_LETTER) (jobs q1),
                             dead_letters := dead_letters q1 @
                               [\<lparr>dl_id = Suc (length (dead_letters q1)), dl_job_id = jid,
                                 dl_job_type = job_type j, dl_payload = payload j,
                                 dl_final_error = err, dl_archived_at = now\<rparr>]\<rparr>
                     else q1\<lparr>jobs := sql_update (\<lambda>r. job_id r = jid) (end_as QUEUED) (jobs q1)\<rparr>)
           in (get q2 jid, q2)))"

definition cancellable :: "string \<Rightarrow> job \<Rightarrow> bool" where
  "cancellable jid r = (job_id r = jid \<and> job_state r \<in> {QUEUED, LEASED})"

definition cancel :: "int \<Rightarrow> string \<Rightarrow> job_queue \<Rightarrow> bool \<times> job_queue" where
  "cancel now jid q =
     (0 < sql_rowcount (cancellable jid) (jobs q),
      q\<lparr>jobs := sql_update (cancellable jid)
          (\<lambda>r. r\<lparr>job_state := CANCELLED, lease_expires := None, updated_at := now\<rparr>) (jobs q)\<rparr>)"

definition resume_in_progress :: "int \<Rightarrow> job_queue \<Rightarrow> job list \<times> job_queue" where
  "resume_in_progress now q =
     (let rows = reset_expired now (jobs q)
      in (sort_key priority (filter (\<lambda>r. job_state r \<in> {QUEUED, LEASED}) rows), q\<lparr>jobs := rows\<rparr>))"

definition stats :: "job_queue \<Rightarrow> (job_state, nat) dict \<times> nat \<times> (string, int) dict" where
  "stats q =
     (map (\<lambda>s. (s, length (filter (\<lambda>r. job_state r = s) (jobs q))))
        (remdups (map job_state (jobs q))),
      length (dead_letters q), circuit_failures q)"

section \<open>Steps and reachable states\<close>

text \<open>One call of a method, with any clock reading and any arguments.\<close>

inductive queue_step :: "job_queue \<Rightarrow> job_queue \<Rightarrow> bool" where
  step_enqueue: "enqueue now jid jtype pl key prio maxa corr parent q = Inr (r, q') \<Longrightarrow>
     queue_step q q'"
| step_lease: "queue_step q (snd (lease_next now jt q))"
| step_renew: "queue_step q (snd (renew_lease now jid q))"
| step_checkpoint: "queue_step q (snd (save_checkpoint now jid data q))"
| step_complete: "queue_step q (snd (complete now jid q))"
| step_fail: "queue_step q (snd (fail now jid err q))"
| step_cancel: "queue_step q (snd (cancel now jid q))"
| step_resume: "queue_step q (snd (resume_in_progress now q))"
| step_reset_circuit: "queue_step q (reset_circuit jtype q)"
| step_reopen: "queue_step q (reopen ls q)"

inductive queue_reachable :: "job_queue \<Rightarrow> bool" where
  reach_new: "queue_reachable (new_queue ls)"
| reach_step: "queue_reachable q \<Longrightarrow> queue_step q q' \<Longrightarrow> queue_reachable q'"

section \<open>The invariant\<close>

definition keys_unique :: "job list \<Rightarrow> bool" where
  "keys_unique rows \<longleftrightarrow>
     distinct (map job_id rows) \<and>
     distinct (filter (\<lambda>k. k \<noteq> None) (map idempotency_key rows))"

text \<open>Exactly the leased rows carry an expiry, and no row is in the state \<open>FAILED\<close>.\<close>

definition row_ok :: "job \<Rightarrow> bool" where
  "row_ok r \<longleftrightarrow>
     (job_state r = LEASED \<longleftrightarrow> lease_expires r \<noteq> None) \<and> job_state r \<noteq> FAILED \<and> 0 \<le> attempt r"

definition archived :: "dead_letter list \<Rightarrow> job \<Rightarrow> bool" where
  "archived dls r \<longleftrightarrow> (job_state r = DEAD_LETTER \<longrightarrow> (\<exists>d \<in> set dls. dl_job_id d = job_id r))"

definition queue_inv :: "job_queue \<Rightarrow> bool" where
  "queue_inv q \<longleftrightarrow>
     keys_unique (jobs q) \<and>
     (\<forall>r \<in> set (jobs q). row_ok r \<and> archived (dead_letters q) r) \<and>
     map dl_id (dead_letters q) = [1..<Suc (length (dead_letters q))]"

lemma keys_unique_update:
  assumes "keys_unique rows"
    and "\<And>r. P r \<Longrightarrow> job_id (f r) = job_id r \<and> idempotency_key (f r) = idempotency_key r"
  shows "keys_unique (sql_update P f rows)"
proof -
  have "map job_id (sql_update P f rows) = map job_id rows"
    and "map idempotency_key (sql_update P f rows) = map idempotency_key rows"
    using assms(2) by (simp_all add: sql_update_map)
  with assms(1) show ?thesis unfolding keys_unique_def by simp
qed

text \<open>A statement that changes no key and keeps the rows right keeps the invariant.\<close>

lemma queue_inv_update:
  assumes "queue_inv q"
    and "\<And>r. P r \<Longrightarrow> job_id (f r) = job_id r \<and> idempotency_key (f r) = idempotency_key r"
    and "\<And>r. row_ok r \<Longrightarrow> P r \<Longrightarrow>
           row_ok (f r) \<and> (job_state (f r) = DEAD_LETTER \<longrightarrow> job_state r = DEAD_LETTER)"
  shows "queue_inv (q\<lparr>jobs := sql_update P f (jobs q)\<rparr>)"
proof -
  have "\<forall>r \<in> set (sql_update P f (jobs q)). row_ok r \<and> archived (dead_letters q) r"
    using assms by (intro sql_update_all) (auto simp: queue_inv_def archived_def)
  with assms show ?thesis by (simp add: queue_inv_def keys_unique_update)
qed

lemma queue_inv_circuit [simp]:
  "queue_inv (q\<lparr>circuit_failures := c\<rparr>) = queue_inv q"
  "queue_inv (q\<lparr>lease_micros := l\<rparr>) = queue_inv q"
  by (simp_all add: queue_inv_def)

lemma queue_inv_reset:
  "queue_inv q \<Longrightarrow> queue_inv (q\<lparr>jobs := reset_expired now (jobs q)\<rparr>)"
  unfolding reset_expired_def
  by (rule queue_inv_update) (auto simp: row_ok_def)

lemma queue_inv_new: "queue_inv (new_queue ls)"
  by (simp add: queue_inv_def new_queue_def keys_unique_def)

lemma queue_inv_enqueue:
  assumes inv: "queue_inv q"
    and enq: "enqueue now jid jtype pl key prio maxa corr parent q = Inr (r, q')"
  shows "queue_inv q'"
proof (cases "q' = q")
  case True
  with inv show ?thesis by simp
next
  case False
  with enq have new: "jid \<notin> set (map job_id (jobs q))"
    "key \<noteq> None \<longrightarrow> key \<notin> set (map idempotency_key (jobs q))"
    by (auto simp: enqueue_def list_ex_iff Let_def split: if_splits)
  obtain row where q': "q' = q\<lparr>jobs := jobs q @ [row]\<rparr>"
    and row: "job_id row = jid" "idempotency_key row = key" "row_ok row" "job_state row = QUEUED"
    using enq False by (auto simp: enqueue_def Let_def row_ok_def split: if_splits)
  have "keys_unique (jobs q @ [row])"
    using inv new row by (auto simp: queue_inv_def keys_unique_def)
  with inv row show ?thesis by (auto simp: q' queue_inv_def archived_def)
qed

lemma queue_inv_lease: "queue_inv q \<Longrightarrow> queue_inv (snd (lease_next now jt q))"
proof -
  assume "queue_inv q"
  then have inv: "queue_inv (q\<lparr>jobs := reset_expired now (jobs q)\<rparr>)"
    by (rule queue_inv_reset)
  show ?thesis
  proof (cases "sql_first (eligible jt) (\<lambda>r. (priority r, created_at r)) (reset_expired now (jobs q))")
    case None
    with inv show ?thesis by (simp add: lease_next_def)
  next
    case (Some row)
    have "queue_inv (q\<lparr>jobs := reset_expired now (jobs q)\<rparr>
        \<lparr>jobs := sql_update (\<lambda>r. job_id r = job_id row) (lease_row now (now + lease_micros q))
           (jobs (q\<lparr>jobs := reset_expired now (jobs q)\<rparr>))\<rparr>)"
      using inv by (rule queue_inv_update) (auto simp: lease_row_def row_ok_def)
    with Some show ?thesis by (simp add: lease_next_def Let_def)
  qed
qed

lemma queue_inv_renew: "queue_inv q \<Longrightarrow> queue_inv (snd (renew_lease now jid q))"
  by (simp add: renew_lease_def, rule queue_inv_update) (auto simp: leased_as_def row_ok_def)

lemma queue_inv_checkpoint: "queue_inv q \<Longrightarrow> queue_inv (snd (save_checkpoint now jid data q))"
  by (simp add: save_checkpoint_def, rule queue_inv_update) (auto simp: leased_as_def row_ok_def)

lemma queue_inv_cancel: "queue_inv q \<Longrightarrow> queue_inv (snd (cancel now jid q))"
  by (simp add: cancel_def, rule queue_inv_update) (auto simp: cancellable_def row_ok_def)

lemma queue_inv_complete: "queue_inv q \<Longrightarrow> queue_inv (snd (complete now jid q))"
proof -
  assume inv: "queue_inv q"
  have "queue_inv (q\<lparr>jobs := sql_update (leased_as jid)
      (\<lambda>r. r\<lparr>job_state := COMPLETED, lease_expires := None, updated_at := now\<rparr>) (jobs q)\<rparr>)"
    using inv by (rule queue_inv_update) (auto simp: leased_as_def row_ok_def)
  then show ?thesis by (simp add: complete_def Let_def split: option.split)
qed

lemma get_Some: "get q jid = Some j \<Longrightarrow> j \<in> set (jobs q) \<and> job_id j = jid"
  unfolding get_def by (drule find_Some_iff_mem) simp

lemma jobs_count_failure [simp]: "jobs (count_failure t q) = jobs q"
  "dead_letters (count_failure t q) = dead_letters q"
  by (simp_all add: count_failure_def)

lemma circuit_count_failure [simp]:
  "circuit_failures (count_failure t q) =
     dict_set t (dict_get_or (circuit_failures q) t 0 + 1) (circuit_failures q)"
  by (simp add: count_failure_def)

lemma queue_inv_count [simp]: "queue_inv (count_failure t q) = queue_inv q"
  by (simp add: count_failure_def)

text \<open>The dead letter goes in before the state is read again.\<close>

lemma queue_inv_bury:
  assumes inv: "queue_inv q"
    and d: "dl_id d = Suc (length (dead_letters q))" "dl_job_id d = jid"
    and f: "\<And>r. job_id (f r) = job_id r \<and> idempotency_key (f r) = idempotency_key r \<and>
              job_state (f r) = DEAD_LETTER \<and> lease_expires (f r) = None \<and> attempt (f r) = attempt r"
  shows "queue_inv (q\<lparr>jobs := sql_update (\<lambda>r. job_id r = jid) f (jobs q),
                     dead_letters := dead_letters q @ [d]\<rparr>)"
proof -
  have "\<forall>r \<in> set (sql_update (\<lambda>r. job_id r = jid) f (jobs q)).
      row_ok r \<and> archived (dead_letters q @ [d]) r"
    using inv d f by (intro sql_update_all) (auto simp: queue_inv_def archived_def row_ok_def)
  with inv d f show ?thesis by (simp add: queue_inv_def keys_unique_update)
qed

lemma queue_inv_fail: "queue_inv q \<Longrightarrow> queue_inv (snd (fail now jid err q))"
proof (cases "get q jid")
  case None
  then show "queue_inv q \<Longrightarrow> ?thesis" by (simp add: fail_def)
next
  case (Some j)
  assume "queue_inv q"
  then have inv: "queue_inv (count_failure (job_type j) q)" by simp
  show ?thesis
  proof (cases "max_attempts j \<le> attempt j \<or> is_circuit_open (job_type j) (count_failure (job_type j) q)")
    case True
    with Some show ?thesis
      by (simp add: fail_def Let_def del: jobs_count_failure) (rule queue_inv_bury [OF inv]; simp)
  next
    case False
    with Some show ?thesis
      by (simp add: fail_def Let_def del: jobs_count_failure)
        (rule queue_inv_update [OF inv]; simp add: row_ok_def)
  qed
qed

lemma queue_inv_resume: "queue_inv q \<Longrightarrow> queue_inv (snd (resume_in_progress now q))"
  by (simp add: resume_in_progress_def Let_def queue_inv_reset)

lemmas queue_inv_ops =
  queue_inv_enqueue queue_inv_lease queue_inv_renew queue_inv_checkpoint queue_inv_complete
  queue_inv_fail queue_inv_cancel queue_inv_resume

lemma queue_step_inv: "queue_step q q' \<Longrightarrow> queue_inv q \<Longrightarrow> queue_inv q'"
  by (induction rule: queue_step.induct)
    (auto intro: queue_inv_ops simp: reset_circuit_def reopen_def)

lemma queue_reachable_inv: "queue_reachable q \<Longrightarrow> queue_inv q"
  by (induction rule: queue_reachable.induct) (auto intro: queue_inv_new queue_step_inv)

section \<open>What a lease hands out\<close>

lemma reset_expired_ids: "map job_id (reset_expired now rows) = map job_id rows"
  unfolding reset_expired_def by (rule sql_update_map) simp

lemma lease_row_simps [simp]:
  "job_id (lease_row now e r) = job_id r" "job_state (lease_row now e r) = LEASED"
  "lease_expires (lease_row now e r) = Some e" "attempt (lease_row now e r) = attempt r + 1"
  "job_type (lease_row now e r) = job_type r" "max_attempts (lease_row now e r) = max_attempts r"
  by (simp_all add: lease_row_def)

lemma get_update_by_id:
  assumes "get q jid = Some r" and "\<And>s. job_id (f s) = job_id s"
  shows "get (q\<lparr>jobs := sql_update (\<lambda>s. job_id s = jid) f (jobs q)\<rparr>) jid = Some (f r)"
  using assms find_sql_update [where k = job_id and x = jid and P = "\<lambda>s. job_id s = jid" and f = f
      and rows = "jobs q"]
  by (auto simp: get_def dest: find_Some_iff_mem)

lemma lease_next_Some:
  assumes inv: "queue_inv q" and lease: "lease_next now jt q = (Some j, q')"
  obtains row where "row \<in> set (reset_expired now (jobs q))" "eligible jt row"
    and "\<And>s. s \<in> set (reset_expired now (jobs q)) \<Longrightarrow> eligible jt s \<Longrightarrow>
           (priority row, created_at row) \<le> (priority s, created_at s)"
    and "j = lease_row now (now + lease_micros q) row"
    and "q' = q\<lparr>jobs := sql_update (\<lambda>r. job_id r = job_id row)
                (lease_row now (now + lease_micros q)) (reset_expired now (jobs q))\<rparr>"
proof -
  let ?rows = "reset_expired now (jobs q)"
  obtain row where row: "sql_first (eligible jt) (\<lambda>r. (priority r, created_at r)) ?rows = Some row"
    using lease by (auto simp: lease_next_def Let_def split: option.splits)
  have "distinct (map job_id ?rows)"
    using inv by (simp add: reset_expired_ids queue_inv_def keys_unique_def)
  then have "get (q\<lparr>jobs := ?rows\<rparr>) (job_id row) = Some row"
    using sql_first_Some(1) [OF row] by (simp add: get_def find_unique)
  from get_update_by_id [OF this, of "lease_row now (now + lease_micros q)"]
  have "lease_next now jt q = (Some (lease_row now (now + lease_micros q) row),
      q\<lparr>jobs := sql_update (\<lambda>r. job_id r = job_id row) (lease_row now (now + lease_micros q)) ?rows\<rparr>)"
    using row by (simp add: lease_next_def Let_def)
  with lease sql_first_Some [OF row] that show ?thesis by auto
qed

lemma lease_next_None:
  assumes "queue_inv q"
  shows "fst (lease_next now jt q) = None \<longleftrightarrow>
           (\<forall>r \<in> set (reset_expired now (jobs q)). \<not> eligible jt r)"
proof (cases "sql_first (eligible jt) (\<lambda>r. (priority r, created_at r)) (reset_expired now (jobs q))")
  case None
  then have "\<forall>r \<in> set (reset_expired now (jobs q)). \<not> eligible jt r"
    by (simp only: sql_first_None)
  with None show ?thesis by (simp add: lease_next_def Let_def)
next
  case (Some row)
  have "distinct (map job_id (reset_expired now (jobs q)))"
    using assms by (simp add: reset_expired_ids queue_inv_def keys_unique_def)
  then have "get (q\<lparr>jobs := reset_expired now (jobs q)\<rparr>) (job_id row) = Some row"
    using sql_first_Some(1) [OF Some] by (simp add: get_def find_unique)
  from get_update_by_id [OF this, of "lease_row now (now + lease_micros q)"] Some sql_first_Some [OF Some]
  show ?thesis by (auto simp: lease_next_def Let_def)
qed

lemma unexpired_kept:
  "r \<in> set rows \<Longrightarrow> \<not> is_lease_expired now r \<Longrightarrow> r \<in> set (reset_expired now rows)"
  unfolding reset_expired_def by (rule sql_update_keep)

section \<open>Properties\<close>

text \<open>
  C2: In every reachable queue the job ids are distinct, no idempotency key is stored twice, a
  row has a lease expiry exactly when it is leased, every dead-lettered job has an entry in
  the archive of dead letters, and no job is ever in the state FAILED that the header of the
  file names.
\<close>

theorem queue_reachable_consistent:
  assumes "queue_reachable q"
  shows "distinct (map job_id (jobs q)) \<and>
         (\<forall>k. length (filter (\<lambda>r. idempotency_key r = Some k) (jobs q)) \<le> 1) \<and>
         (\<forall>r \<in> set (jobs q). (job_state r = LEASED \<longleftrightarrow> lease_expires r \<noteq> None) \<and>
            job_state r \<noteq> FAILED \<and>
            (job_state r = DEAD_LETTER \<longrightarrow> (\<exists>d \<in> set (dead_letters q). dl_job_id d = job_id r)))"
proof -
  from assms have inv: "queue_inv q" by (rule queue_reachable_inv)
  then have "length (filter (\<lambda>r. idempotency_key r = Some k) (jobs q)) \<le> 1" for k
    by (intro distinct_Some_once) (simp add: queue_inv_def keys_unique_def)
  with inv show ?thesis by (auto simp: queue_inv_def keys_unique_def row_ok_def archived_def)
qed

text \<open>
  C1: A lease that has not run out is exclusive: while it lasts, \<open>lease_next\<close> hands the job to
  nobody else, and its row stays as it is.
\<close>

theorem lease_exclusive:
  assumes "queue_reachable q" and held: "r \<in> set (jobs q)" "job_state r = LEASED"
    and valid: "lease_expires r = Some e" "now \<le> e"
    and lease: "lease_next now jt q = (Some j, q')"
  shows "job_id j \<noteq> job_id r \<and> r \<in> set (jobs q')"
proof -
  from assms have inv: "queue_inv q" by (simp add: queue_reachable_inv)
  have r: "r \<in> set (reset_expired now (jobs q))"
    using held valid by (intro unexpired_kept) (auto simp: is_lease_expired_def)
  obtain row where row: "row \<in> set (reset_expired now (jobs q))" "eligible jt row"
    and j: "j = lease_row now (now + lease_micros q) row"
    and q': "q' = q\<lparr>jobs := sql_update (\<lambda>r. job_id r = job_id row)
                (lease_row now (now + lease_micros q)) (reset_expired now (jobs q))\<rparr>"
    by (rule lease_next_Some [OF inv lease]) blast
  have "row \<noteq> r" using row(2) held(2) by (auto simp: eligible_def)
  moreover have "distinct (map job_id (reset_expired now (jobs q)))"
    using inv by (simp add: reset_expired_ids queue_inv_def keys_unique_def)
  ultimately have "job_id row \<noteq> job_id r"
    using row(1) r by (auto simp: distinct_map dest: inj_onD)
  then show ?thesis using r by (auto simp: j q' intro: sql_update_keep)
qed

text \<open>
  C28: \<open>lease_next\<close> returns nothing exactly when no job of the type asked for is queued once
  the expired leases are reset; otherwise it returns a queued one that no other precedes by
  priority and then by creation time, now leased until \<open>now\<close> plus the lease duration, with one
  attempt more, and every other row is the one the reset left.
\<close>

theorem lease_next_spec:
  assumes "queue_reachable q"
  shows "case lease_next now jt q of
           (None, q') \<Rightarrow> \<not> (\<exists>r \<in> set (reset_expired now (jobs q)). eligible jt r) \<and>
             jobs q' = reset_expired now (jobs q)
         | (Some j, q') \<Rightarrow>
             (\<exists>row. row \<in> set (reset_expired now (jobs q)) \<and> eligible jt row \<and>
                j = row\<lparr>job_state := LEASED, lease_expires := Some (now + lease_micros q),
                        updated_at := now, attempt := attempt row + 1\<rparr> \<and>
                \<not> (\<exists>s \<in> set (reset_expired now (jobs q)). eligible jt s \<and>
                     (priority s, created_at s) < (priority row, created_at row)) \<and>
                set (jobs q') = insert j (set (reset_expired now (jobs q)) - {row}))"
proof (cases "lease_next now jt q")
  case (Pair jo q')
  from assms have inv: "queue_inv q" by (rule queue_reachable_inv)
  show ?thesis
  proof (cases jo)
    case None
    then have no: "\<forall>r \<in> set (reset_expired now (jobs q)). \<not> eligible jt r"
      using lease_next_None [OF inv, of now jt] Pair by simp
    then have "sql_first (eligible jt) (\<lambda>r. (priority r, created_at r)) (reset_expired now (jobs q)) = None"
      by (simp only: sql_first_None)
    then have "jobs q' = reset_expired now (jobs q)"
      using Pair by (auto simp: lease_next_def Let_def)
    with no None Pair show ?thesis by auto
  next
    case (Some j)
    obtain row where row: "row \<in> set (reset_expired now (jobs q))" "eligible jt row"
      and min: "\<And>s. s \<in> set (reset_expired now (jobs q)) \<Longrightarrow> eligible jt s \<Longrightarrow>
           (priority row, created_at row) \<le> (priority s, created_at s)"
      and j: "j = lease_row now (now + lease_micros q) row"
      and q': "q' = q\<lparr>jobs := sql_update (\<lambda>r. job_id r = job_id row)
                (lease_row now (now + lease_micros q)) (reset_expired now (jobs q))\<rparr>"
      using lease_next_Some [OF inv, of now jt j q'] Pair Some by blast
    have "distinct (map job_id (reset_expired now (jobs q)))"
      using inv by (simp add: reset_expired_ids queue_inv_def keys_unique_def)
    then have others: "set (jobs q') = insert j (set (reset_expired now (jobs q)) - {row})"
      using row(1) by (simp add: q' j set_sql_update_key)
    have first: "\<not> (\<exists>s \<in> set (reset_expired now (jobs q)). eligible jt s \<and>
        (priority s, created_at s) < (priority row, created_at row))"
      using min by (meson leD)
    show ?thesis
      unfolding Pair Some prod.case option.case
      using row first others by (intro exI [of _ row] conjI) (simp_all only: j lease_row_def not_False_eq_True)
  qed
qed

text \<open>
  Enqueuing is idempotent: once a job with a (non-empty) idempotency key is in the queue, a
  second enqueue with that key returns nothing and leaves the queue as it was, whatever the
  other arguments.
\<close>

theorem enqueue_idempotent:
  assumes "enqueue now jid jtype pl (Some k) prio maxa corr parent q = Inr (Some j, q')" and "k \<noteq> []"
  shows "enqueue now2 jid2 jtype2 pl2 (Some k) prio2 maxa2 corr2 parent2 q' = Inr (None, q')"
  using assms by (auto simp: enqueue_def Let_def split: if_splits)

text \<open>
  \<open>fail\<close> on a job in any state records the error, drops the lease, leaves the number of
  attempts alone and counts one more failure for the job's type and no other; the job is
  dead-lettered, with exactly one new archive entry, if its attempts are used up or this is at
  least the fifth counted failure of its type, and queued again otherwise.
\<close>

theorem fail_spec:
  assumes "get q jid = Some j" and "fail now jid err q = (r, q')"
  shows "\<exists>j'. r = Some j' \<and> get q' jid = Some j' \<and>
     job_state j' = (if max_attempts j \<le> attempt j \<or> 4 \<le> dict_get_or (circuit_failures q) (job_type j) 0
                     then DEAD_LETTER else QUEUED) \<and>
     length (dead_letters q') = length (dead_letters q) + (if job_state j' = DEAD_LETTER then 1 else 0) \<and>
     lease_expires j' = None \<and> job_error j' = Some err \<and> attempt j' = attempt j \<and>
     (\<forall>t. dict_get_or (circuit_failures q') t 0 =
           dict_get_or (circuit_failures q) t 0 + (if t = job_type j then 1 else 0))"
proof -
  let ?f = "\<lambda>s r. r\<lparr>job_state := s, lease_expires := None, updated_at := now, job_error := Some err\<rparr>"
  let ?q1 = "count_failure (job_type j) q"
  have g: "get ?q1 jid = Some j" using assms(1) by (simp add: get_def)
  have open5: "is_circuit_open (job_type j) ?q1 \<longleftrightarrow>
      4 \<le> dict_get_or (circuit_failures q) (job_type j) 0"
    by (simp add: is_circuit_open_def count_failure_def circuit_threshold_def)
  have upd: "get (?q1\<lparr>jobs := sql_update (\<lambda>r. job_id r = jid) (?f s) (jobs q)\<rparr>) jid = Some (?f s j)" for s
    using get_update_by_id [OF g, of "?f s"] by simp
  have "get (?q1\<lparr>jobs := sql_update (\<lambda>r. job_id r = jid) (?f s) (jobs q), dead_letters := d\<rparr>) jid =
      Some (?f s j)" for s d
    using upd [of s] by (simp add: get_def)
  with upd open5 assms(1)
  have "\<exists>s q2. fail now jid err q = (Some (?f s j), q2) \<and> get q2 jid = Some (?f s j) \<and>
      s = (if max_attempts j \<le> attempt j \<or> 4 \<le> dict_get_or (circuit_failures q) (job_type j) 0
           then DEAD_LETTER else QUEUED) \<and>
      length (dead_letters q2) = length (dead_letters q) + (if s = DEAD_LETTER then 1 else 0) \<and>
      circuit_failures q2 = circuit_failures ?q1"
    by (simp add: fail_def Let_def)
  then obtain s q2 where "fail now jid err q = (Some (?f s j), q2)" "get q2 jid = Some (?f s j)"
    "s = (if max_attempts j \<le> attempt j \<or> 4 \<le> dict_get_or (circuit_failures q) (job_type j) 0
          then DEAD_LETTER else QUEUED)"
    "length (dead_letters q2) = length (dead_letters q) + (if s = DEAD_LETTER then 1 else 0)"
    "circuit_failures q2 = circuit_failures ?q1"
    by blast
  with assms(2) show ?thesis by (intro exI [of _ "?f s j"]) simp
qed

text \<open>A worker that leases the next job of any type and fails it, again and again.\<close>

definition failing_round :: "int \<Rightarrow> string \<Rightarrow> job_queue \<Rightarrow> job_queue" where
  "failing_round now err q =
     (case lease_next now None q of (None, q') \<Rightarrow> q' | (Some j, q') \<Rightarrow> snd (fail now (job_id j) err q'))"

lemma failing_round_one:
  assumes q: "jobs q = [r]" and r: "job_state r = QUEUED" "lease_expires r = None"
  shows "\<exists>r'. jobs (failing_round now err q) = [r'] \<and> attempt r' = attempt r + 1 \<and>
     max_attempts r' = max_attempts r \<and> job_type r' = job_type r \<and> lease_expires r' = None \<and>
     job_state r' = (if max_attempts r \<le> attempt r + 1 \<or>
                        4 \<le> dict_get_or (circuit_failures q) (job_type r) 0
                     then DEAD_LETTER else QUEUED) \<and>
     dict_get_or (circuit_failures (failing_round now err q)) (job_type r) 0 =
       dict_get_or (circuit_failures q) (job_type r) 0 + 1"
proof -
  have reset: "reset_expired now [r] = [r]"
    using r by (simp add: reset_expired_def sql_update_def is_lease_expired_def)
  let ?q = "q\<lparr>jobs := [lease_row now (now + lease_micros q) r]\<rparr>"
  have lease: "lease_next now None q = (Some (lease_row now (now + lease_micros q) r), ?q)"
    using q r by (simp add: lease_next_def reset sql_first_def eligible_def sql_update_def get_def)
  have "get ?q (job_id r) = Some (lease_row now (now + lease_micros q) r)" by (simp add: get_def)
  then show ?thesis
    unfolding failing_round_def lease
    by (auto simp: fail_def Let_def count_failure_def sql_update_def is_circuit_open_def
        circuit_threshold_def)
qed


section \<open>Evaluation\<close>

text \<open>A small queue for the examples, and the definitions that evaluate one.\<close>

definition two_jobs :: job_queue where
  "two_jobs = (case enqueue 0 ''a'' ''t'' JNull (Some ''k'') 1 3 None None (new_queue 300) of
       Inl e \<Rightarrow> new_queue 300
     | Inr (r, q) \<Rightarrow>
         (case enqueue 1 ''b'' ''t'' JNull None 2 3 None None q of Inl e \<Rightarrow> q | Inr (r', q') \<Rightarrow> q'))"

lemmas queue_eval =
  two_jobs_def enqueue_def new_queue_def lease_next_def reset_expired_def sql_update_def
  is_lease_expired_def sql_first_def eligible_def lease_row_def get_def fail_def count_failure_def
  is_circuit_open_def circuit_threshold_def dict_get_or_def complete_def leased_as_def
  sql_rowcount_def Let_def

section \<open>Two gaps in the bound on attempts\<close>

text \<open>One worker that leases the job and dies: the lease runs out and nothing counts it.\<close>

fun crashing_worker :: "nat \<Rightarrow> job_queue" where
  "crashing_worker 0 =
     (case enqueue 0 ''a'' ''t'' JNull None 100 3 None None (new_queue 300) of
        Inl e \<Rightarrow> new_queue 300
      | Inr (r, q) \<Rightarrow> q)"
| "crashing_worker (Suc n) = snd (lease_next (int n * 300000001) None (crashing_worker n))"

lemma crashing_worker_reachable: "queue_reachable (crashing_worker n)"
proof (induction n)
  case 0
  have "queue_step (new_queue 300) (crashing_worker 0)"
    by (rule step_enqueue [where now = 0 and jid = "''a''" and jtype = "''t''" and pl = JNull and
          key = None and prio = 100 and maxa = 3 and corr = None and parent = None])
      (simp add: queue_eval)
  with reach_new show ?case by (rule reach_step)
next
  case (Suc n)
  then show ?case by (auto intro: reach_step step_lease)
qed

lemma crashing_worker_job:
  "\<exists>r. jobs (crashing_worker (Suc n)) = [r] \<and> job_state r = LEASED \<and> max_attempts r = 3 \<and>
     attempt r = int n + 1 \<and> lease_expires r = Some (int n * 300000001 + 300000000) \<and>
     lease_micros (crashing_worker (Suc n)) = 300000000"
proof (induction n)
  case 0
  show ?case
    by (simp add: queue_eval)
next
  case (Suc n)
  then obtain r where r: "jobs (crashing_worker (Suc n)) = [r]" "job_state r = LEASED"
    "max_attempts r = 3" "attempt r = int n + 1"
    "lease_expires r = Some (int n * 300000001 + 300000000)"
    "lease_micros (crashing_worker (Suc n)) = 300000000"
    by blast
  have "is_lease_expired (int (Suc n) * 300000001) r"
    using r by (simp add: is_lease_expired_def)
  then show ?case
    unfolding crashing_worker.simps(2) [of "Suc n"]
    using r by (simp add: lease_next_def reset_expired_def sql_update_def
        sql_first_def eligible_def lease_row_def Let_def del: crashing_worker.simps)
qed

text \<open>
  Only reported failures are bounded: for every number there is a reachable queue with a job
  of at most three attempts that is leased for one more attempt than that number, because a
  lease that runs out is reset without looking at \<open>max_attempts\<close>.
\<close>

theorem expired_leases_unbounded:
  "\<exists>q r. queue_reachable q \<and> jobs q = [r] \<and> job_state r = LEASED \<and> max_attempts r = 3 \<and>
     attempt r = int n + 1"
  using crashing_worker_reachable crashing_worker_job by blast

text \<open>
  A finished job can come back: there is a reachable queue with a completed job that a late
  \<open>fail\<close> puts back into the queue, from where \<open>lease_next\<close> hands it out again.
\<close>

theorem fail_revives_completed:
  "\<exists>q j. queue_reachable q \<and> get q ''a'' = Some j \<and> job_state j = COMPLETED \<and>
     (\<exists>j'. fst (fail 7 ''a'' ''late'' q) = Some j' \<and> job_state j' = QUEUED \<and>
        (\<exists>j''. fst (lease_next 8 None (snd (fail 7 ''a'' ''late'' q))) = Some j'' \<and>
           job_id j'' = ''a''))"
proof -
  let ?q = "snd (complete 6 ''a'' (crashing_worker 1))"
  have reach: "queue_reachable ?q"
    using crashing_worker_reachable by (rule reach_step) (rule step_complete)
  have q: "?q = \<lparr>jobs = [\<lparr>job_id = ''a'', idempotency_key = None, job_type = ''t'',
        job_state = COMPLETED, priority = 100, payload = JNull, checkpoint = JObj [], attempt = 1,
        max_attempts = 3, created_at = 0, updated_at = 6, lease_expires = None,
        correlation_id = None, parent_job_id = None, job_error = None\<rparr>],
      dead_letters = [], circuit_failures = [], lease_micros = 300000000\<rparr>"
    by (simp add: queue_eval)
  show ?thesis
    by (rule exI [of _ ?q], intro exI conjI, rule reach)
      (simp_all only: q, (simp add: queue_eval)+)
qed

section \<open>Witnesses\<close>

lemma two_jobs_reachable: "queue_reachable two_jobs"
proof -
  obtain r q where q: "enqueue 0 ''a'' ''t'' JNull (Some ''k'') 1 3 None None (new_queue 300) = Inr (r, q)"
    by (simp add: enqueue_def new_queue_def Let_def)
  obtain r' q' where q': "enqueue 1 ''b'' ''t'' JNull None 2 3 None None q = Inr (r', q')"
    using q by (auto simp: enqueue_def new_queue_def Let_def)
  show ?thesis
    using reach_step [OF reach_step [OF reach_new step_enqueue [OF q]] step_enqueue [OF q']] q q'
    by (simp add: two_jobs_def)
qed

theorem queue_reachable_consistent_witness:
  "queue_reachable two_jobs \<and> distinct (map job_id (jobs two_jobs)) \<and> length (jobs two_jobs) = 2"
  using queue_reachable_consistent [OF two_jobs_reachable] two_jobs_reachable
  by (simp add: queue_eval)

definition first_leased :: job where
  "first_leased = \<lparr>job_id = ''a'', idempotency_key = Some ''k'', job_type = ''t'', job_state = LEASED,
     priority = 1, payload = JNull, checkpoint = JObj [], attempt = 1, max_attempts = 3,
     created_at = 0, updated_at = 2, lease_expires = Some 300000002, correlation_id = None,
     parent_job_id = None, job_error = None\<rparr>"

lemma first_leased_in: "first_leased \<in> set (jobs (snd (lease_next 2 None two_jobs)))"
  by (simp add: first_leased_def queue_eval)

lemma second_lease:
  "map_option job_id (fst (lease_next 3 None (snd (lease_next 2 None two_jobs)))) = Some ''b''"
  by (simp add: queue_eval)

theorem lease_exclusive_witness:
  "\<exists>j q'. lease_next 3 None (snd (lease_next 2 None two_jobs)) = (Some j, q') \<and> job_id j = ''b'' \<and>
     job_id j \<noteq> job_id first_leased \<and> first_leased \<in> set (jobs q')"
proof -
  let ?q = "snd (lease_next 2 None two_jobs)"
  have reach: "queue_reachable ?q"
    by (rule reach_step [OF two_jobs_reachable step_lease])
  obtain j q' where l: "lease_next 3 None ?q = (Some j, q')" "job_id j = ''b''"
    using second_lease by (cases "lease_next 3 None ?q") auto
  have "job_state first_leased = LEASED" "lease_expires first_leased = Some 300000002"
    by (simp_all add: first_leased_def)
  from lease_exclusive [OF reach first_leased_in this _ l(1)] l show ?thesis by auto
qed

theorem lease_next_spec_witness:
  "queue_reachable two_jobs \<and> map_option job_id (fst (lease_next 2 None two_jobs)) = Some ''a''"
  using lease_next_spec [OF two_jobs_reachable, of 2 None] two_jobs_reachable
  by (simp add: queue_eval)

theorem enqueue_idempotent_witness:
  "\<exists>j q'. enqueue 0 ''a'' ''t'' JNull (Some ''k'') 1 3 None None (new_queue 300) = Inr (Some j, q') \<and>
     enqueue 5 ''c'' ''u'' JNull (Some ''k'') 9 1 None None q' = Inr (None, q')"
proof -
  obtain j q' where e: "enqueue 0 ''a'' ''t'' JNull (Some ''k'') 1 3 None None (new_queue 300) =
      Inr (Some j, q')"
    by (simp add: queue_eval)
  with enqueue_idempotent [OF e, of 5 "''c''" "''u''" JNull 9 1 None None] show ?thesis by blast
qed

theorem fail_spec_witness:
  "\<exists>j. get two_jobs ''a'' = Some j \<and>
     (\<exists>j' q'. fail 4 ''a'' ''boom'' two_jobs = (Some j', q') \<and> job_state j' = QUEUED)"
proof -
  obtain j where j: "get two_jobs ''a'' = Some j" "attempt j = 0" "max_attempts j = 3"
    by (simp add: queue_eval)
  obtain r q' where f: "fail 4 ''a'' ''boom'' two_jobs = (r, q')" by fastforce
  have "circuit_failures two_jobs = []" by (simp add: queue_eval)
  with fail_spec [OF j(1) f] j f show ?thesis by (auto simp: dict_get_or_def)
qed


end
