(* ===== verification/Events.thy ===== *)
theory Events
  imports Json
begin

text \<open>
  \<open>events.py\<close>: the event envelope, its validation with the provenance of every numeric payload
  field, and its redacted copy. An event is the JSON object that the code passes around, a
  dictionary; the identifiers and the clock reading that a call draws are its arguments. The
  unknown fields are reported in the order of the dictionary (the code's order is that of a
  set of strings, which no property depends on).
\<close>

section \<open>Constants\<close>

definition event_schema_version :: string where
  "event_schema_version = ''p2.4-event-v1''"

definition allowed_event_types :: "string list" where
  "allowed_event_types =
     [''SYSTEM_HEALTH'', ''DATA_QUALITY_WARNING'', ''SUPER_POTENTIAL_CANDIDATE_INTERNAL'',
      ''SUPER_POTENTIAL_CONFIRMED'', ''SUPER_POTENTIAL_INVALIDATED'', ''SYSTEM_INCIDENT'']"

definition required_event_fields :: "string list" where
  "required_event_fields =
     [''schema_version'', ''event_id'', ''event_type'', ''created_at_utc'', ''correlation_id'',
      ''causation_id'', ''source_component'', ''source_agent'', ''symbol'', ''timeframe'',
      ''evidence_reference'', ''payload'', ''provenance'', ''redaction_status'', ''integrity_hash'']"

definition realtime_class_allowed :: "string list" where
  "realtime_class_allowed =
     [''REALTIME'', ''DELAYED_15MIN'', ''DAILY_MACRO'', ''COMPUTED'', ''STALE'', ''UNKNOWN'']"

definition agent_numeric_sources :: "string list" where
  "agent_numeric_sources = [''agent'', ''llm'', ''specialist'']"

section \<open>Issues\<close>

type_synonym event = "(string, json) dict"

record event_issue =
  issue_path :: string
  issue_rule :: string
  issue_message :: string

record event_report =
  report_valid :: bool
  report_issues :: "event_issue list"
  report_event :: "event option"

definition issue :: "string \<Rightarrow> string \<Rightarrow> string \<Rightarrow> event_issue" where
  "issue p r m = \<lparr>issue_path = p, issue_rule = r, issue_message = m\<rparr>"

definition issue_if :: "bool \<Rightarrow> event_issue \<Rightarrow> event_issue list" where
  "issue_if b i = (if b then [i] else [])"

lemma issue_if_Nil [simp]: "issue_if b i = [] \<longleftrightarrow> \<not> b"
  by (simp add: issue_if_def)

section \<open>Provenance of numbers\<close>

definition numeric_payload_fields :: "event \<Rightarrow> string list" where
  "numeric_payload_fields payload = map fst (filter (\<lambda>(k, v). is_number v) payload)"

text \<open>\<open>str(entry.get("source_system", "")).lower() in {"agent", "llm", "specialist"}\<close>\<close>

definition from_agent :: "py_env \<Rightarrow> event \<Rightarrow> bool" where
  "from_agent E entry =
     (str_lower (py_str E (dict_get_or entry ''source_system'' (JStr []))) \<in> set agent_numeric_sources)"

definition class_in :: "string list \<Rightarrow> json option \<Rightarrow> bool" where
  "class_in cs v = (case v of Some (JStr s) \<Rightarrow> s \<in> set cs | _ \<Rightarrow> False)"

definition entry_issues :: "py_env \<Rightarrow> string \<Rightarrow> event \<Rightarrow> event_issue list" where
  "entry_issues E fld entry =
     (let pos = ''provenance.numeric_fields.'' @ fld;
          rc = dict_get entry ''realtime_class''
      in concat (map (\<lambda>r. issue_if (\<not> opt_truthy (dict_get entry r))
                    (issue (pos @ ''.'' @ r) ''missing'' ''numeric provenance field is required''))
                  [''source'', ''source_system'', ''fetched_at_utc'', ''realtime_class'']) @
         issue_if (\<not> class_in realtime_class_allowed rc \<or> rc = Some (JStr ''UNKNOWN''))
           (issue (pos @ ''.realtime_class'') ''invalid''
              ''numeric provenance realtime_class must be explicit'') @
         issue_if (rc = Some (JStr ''COMPUTED'') \<and> \<not> opt_truthy (dict_get entry ''formula_version''))
           (issue (pos @ ''.formula_version'') ''missing''
              ''COMPUTED numeric provenance requires formula_version'') @
         issue_if (from_agent E entry)
           (issue (pos @ ''.source_system'') ''forbidden''
              ''agents may not originate numeric market evidence''))"

definition field_issues :: "py_env \<Rightarrow> event \<Rightarrow> string \<Rightarrow> event_issue list" where
  "field_issues E prov fld =
     (case dict_get prov fld of
        Some (JObj entry) \<Rightarrow> entry_issues E fld entry
      | _ \<Rightarrow> [issue (''provenance.numeric_fields.'' @ fld) ''missing''
                ''numeric field provenance is missing''])"

definition validate_numeric_provenance :: "py_env \<Rightarrow> event \<Rightarrow> event \<Rightarrow> event_issue list" where
  "validate_numeric_provenance E payload provenance =
     (let fields = numeric_payload_fields payload
      in if fields = [] then []
         else case dict_get provenance ''numeric_fields'' of
                Some (JObj prov) \<Rightarrow> concat (map (field_issues E prov) fields)
              | _ \<Rightarrow> [issue ''provenance.numeric_fields'' ''missing''
                        ''numeric payload fields require per-field provenance''])"

section \<open>Envelopes\<close>

record event_source =
  src_component :: string
  src_agent :: string
  src_evidence :: string
  src_symbol :: string
  src_timeframe :: string
  src_correlation :: "string option"
  src_causation :: "string option"
  src_provenance :: "event option"
  src_redaction :: string

definition string_or :: "string option \<Rightarrow> string \<Rightarrow> string" where
  "string_or s d = (case s of Some t \<Rightarrow> if t = [] then d else t | None \<Rightarrow> d)"

definition envelope_fields ::
  "string \<Rightarrow> string \<Rightarrow> string \<Rightarrow> string \<Rightarrow> event \<Rightarrow> event_source \<Rightarrow> event" where
  "envelope_fields event_id fresh_correlation now event_type payload src =
     [(''schema_version'', JStr event_schema_version),
      (''event_id'', JStr event_id),
      (''event_type'', JStr event_type),
      (''created_at_utc'', JStr now),
      (''correlation_id'', JStr (string_or (src_correlation src) fresh_correlation)),
      (''causation_id'', JStr (string_or (src_causation src) [])),
      (''source_component'', JStr (src_component src)),
      (''source_agent'', JStr (src_agent src)),
      (''symbol'', JStr (src_symbol src)),
      (''timeframe'', JStr (src_timeframe src)),
      (''evidence_reference'', JStr (src_evidence src)),
      (''payload'', JObj payload),
      (''provenance'', JObj (case src_provenance src of None \<Rightarrow> [] | Some p \<Rightarrow> p)),
      (''redaction_status'', JStr (src_redaction src)),
      (''integrity_hash'', JStr [])]"

definition seal :: "py_env \<Rightarrow> event \<Rightarrow> py_exn + event" where
  "seal E ev = bind_res (json_exn (json_digest E (JObj ev)))
     (\<lambda>h. Inr (dict_set ''integrity_hash'' (JStr h) ev))"

definition build_event_envelope ::
  "py_env \<Rightarrow> string \<Rightarrow> string \<Rightarrow> string \<Rightarrow> string \<Rightarrow> event \<Rightarrow> event_source \<Rightarrow> py_exn + event" where
  "build_event_envelope E event_id fresh_correlation now event_type payload src =
     seal E (envelope_fields event_id fresh_correlation now event_type payload src)"

definition integrity_issues :: "py_env \<Rightarrow> event \<Rightarrow> py_exn + event_issue list" where
  "integrity_issues E ev =
     (case dict_get ev ''integrity_hash'' of
        Some (JStr h) \<Rightarrow>
          bind_res (json_exn (json_digest E (JObj (dict_set ''integrity_hash'' (JStr []) ev))))
            (\<lambda>expected. Inr (issue_if (h \<noteq> expected)
               (issue ''integrity_hash'' ''mismatch'' ''integrity hash does not match payload'')))
      | _ \<Rightarrow> Inr [issue ''integrity_hash'' ''missing'' ''integrity hash is required''])"

definition provenance_issues :: "py_env \<Rightarrow> event \<Rightarrow> event_issue list" where
  "provenance_issues E ev =
     (case dict_get ev ''provenance'' of
        Some (JObj provenance) \<Rightarrow>
          (case dict_get ev ''payload'' of
             Some (JObj payload) \<Rightarrow> validate_numeric_provenance E payload provenance
           | _ \<Rightarrow> [])
      | _ \<Rightarrow> [issue ''provenance'' ''type'' ''provenance must be an object''])"

definition is_object :: "json option \<Rightarrow> bool" where
  "is_object v = (case v of Some w \<Rightarrow> is_obj w | None \<Rightarrow> False)"

definition is_absent :: "json option \<Rightarrow> bool" where
  "is_absent v = (v = None \<or> v = Some JNull)"

text \<open>The checks up to the hash, in the order of the code.\<close>

definition envelope_issues :: "py_env \<Rightarrow> event \<Rightarrow> event_issue list" where
  "envelope_issues E ev =
     concat (map (\<lambda>f. issue_if (dict_get ev f = None)
                    (issue f ''missing'' ''required event field is missing'')) required_event_fields) @
     issue_if (dict_get ev ''schema_version'' \<noteq> Some (JStr event_schema_version))
       (issue ''schema_version'' ''version_mismatch'' (''expected '' @ str_repr event_schema_version)) @
     issue_if (\<not> class_in allowed_event_types (dict_get ev ''event_type''))
       (issue ''event_type'' ''unsupported'' ''unsupported event type'') @
     concat (map (\<lambda>k. issue_if (k \<notin> set required_event_fields)
                    (issue k ''unknown_field'' ''unknown field not allowed'')) (dict_keys ev)) @
     issue_if (\<not> is_object (dict_get ev ''payload''))
       (issue ''payload'' ''type'' ''payload must be an object'') @
     provenance_issues E ev @
     issue_if (is_absent (dict_get ev ''symbol'') \<or> is_absent (dict_get ev ''timeframe''))
       (issue ''symbol'' ''missing'' ''symbol/timeframe required'')"

definition validate_event_envelope :: "py_env \<Rightarrow> event \<Rightarrow> py_exn + event_report" where
  "validate_event_envelope E ev =
     (if \<not> (case dict_get ev ''event_type'' of None \<Rightarrow> True | Some t \<Rightarrow> hashable t) then Inl TypeError
      else bind_res (integrity_issues E ev)
        (\<lambda>hash_issues.
           let issues = envelope_issues E ev @ hash_issues
           in Inr \<lparr>report_valid = (issues = []), report_issues = issues,
                   report_event = (if issues = [] then Some ev else None)\<rparr>))"

section \<open>Redaction\<close>

definition redacted_keys :: "string list" where
  "redacted_keys = [''price'', ''probability'', ''entry'', ''stop_loss'', ''take_profit'', ''score'']"

definition redact_payload :: "event \<Rightarrow> event" where
  "redact_payload payload =
     fold (\<lambda>k p. if dict_get p k = None then p else dict_set k (JStr ''UNKNOWN'') p)
       redacted_keys payload"

fun members_of :: "json \<Rightarrow> event" where
  "members_of (JObj kvs) = kvs"
| "members_of _ = []"

definition redact_event :: "py_env \<Rightarrow> event \<Rightarrow> py_exn + event" where
  "redact_event E ev =
     bind_res (json_exn (canonical_json E (JObj ev)))
       (\<lambda>_. let redacted = members_of (json_norm (JObj ev));
                redacted = (case dict_get redacted ''payload'' of
                              Some (JObj p) \<Rightarrow> dict_set ''payload'' (JObj (redact_payload p)) redacted
                            | _ \<Rightarrow> redacted);
                redacted = dict_set ''redaction_status'' (JStr ''REDACTED'') redacted
            in seal E (dict_set ''integrity_hash'' (JStr []) redacted))"

section \<open>Lemmas\<close>

text \<open>What the issue lists say when they are empty.\<close>

definition numeric_sourced :: "py_env \<Rightarrow> event \<Rightarrow> string \<Rightarrow> bool" where
  "numeric_sourced E provenance k \<longleftrightarrow>
     (\<exists>prov entry. dict_get provenance ''numeric_fields'' = Some (JObj prov) \<and>
        dict_get prov k = Some (JObj entry) \<and>
        (\<forall>r \<in> {''source'', ''source_system'', ''fetched_at_utc''}. opt_truthy (dict_get entry r)) \<and>
        (\<exists>rc. dict_get entry ''realtime_class'' = Some (JStr rc) \<and>
           rc \<in> set realtime_class_allowed - {''UNKNOWN''} \<and>
           (rc = ''COMPUTED'' \<longrightarrow> opt_truthy (dict_get entry ''formula_version''))) \<and>
        \<not> from_agent E entry)"

lemma class_in_iff: "class_in cs v \<longleftrightarrow> (\<exists>s \<in> set cs. v = Some (JStr s))"
  by (auto simp: class_in_def split: option.splits json.splits)

lemma allowed_class_truthy: "s \<in> set realtime_class_allowed \<Longrightarrow> opt_truthy (Some (JStr s))"
  by (auto simp: realtime_class_allowed_def opt_truthy_def)

lemma entry_issues_Nil:
  "entry_issues E k entry = [] \<longleftrightarrow>
     (\<forall>r \<in> {''source'', ''source_system'', ''fetched_at_utc''}. opt_truthy (dict_get entry r)) \<and>
     (\<exists>rc. dict_get entry ''realtime_class'' = Some (JStr rc) \<and>
        rc \<in> set realtime_class_allowed - {''UNKNOWN''} \<and>
        (rc = ''COMPUTED'' \<longrightarrow> opt_truthy (dict_get entry ''formula_version''))) \<and>
     \<not> from_agent E entry"
  unfolding entry_issues_def Let_def append_is_Nil_conv concat_eq_Nil_conv
  by (auto simp: class_in_iff dest: allowed_class_truthy)

lemma numeric_provenance_Nil:
  "validate_numeric_provenance E payload provenance = [] \<longleftrightarrow>
     (\<forall>(k, v) \<in> set payload. is_number v \<longrightarrow> numeric_sourced E provenance k)"
proof (cases "numeric_payload_fields payload = []")
  case True
  then show ?thesis
    by (auto simp: validate_numeric_provenance_def numeric_payload_fields_def filter_empty_conv)
next
  case False
  then obtain k v where kv: "(k, v) \<in> set payload" "is_number v"
    by (auto simp: numeric_payload_fields_def filter_empty_conv)
  have sourced: "numeric_sourced E provenance k \<longleftrightarrow> field_issues E prov k = []"
    if "dict_get provenance ''numeric_fields'' = Some (JObj prov)" for k prov
    using that unfolding numeric_sourced_def field_issues_def
    by (simp add: entry_issues_Nil split: option.split json.split)
  show ?thesis
  proof (cases "\<exists>prov. dict_get provenance ''numeric_fields'' = Some (JObj prov)")
    case True
    then obtain prov where "dict_get provenance ''numeric_fields'' = Some (JObj prov)" by blast
    with False show ?thesis
      by (auto simp: validate_numeric_provenance_def sourced numeric_payload_fields_def)
  next
    case no: False
    with False have "validate_numeric_provenance E payload provenance \<noteq> []"
      by (auto simp: validate_numeric_provenance_def split: option.split json.split)
    moreover have "\<not> numeric_sourced E provenance k" using no by (simp add: numeric_sourced_def)
    ultimately show ?thesis using kv by blast
  qed
qed

text \<open>The shape of an event whose checks up to the hash find nothing.\<close>

definition envelope_ok :: "py_env \<Rightarrow> event \<Rightarrow> bool" where
  "envelope_ok E ev \<longleftrightarrow>
     set (dict_keys ev) = set required_event_fields \<and>
     dict_get ev ''schema_version'' = Some (JStr event_schema_version) \<and>
     class_in allowed_event_types (dict_get ev ''event_type'') \<and>
     (\<exists>payload provenance. dict_get ev ''payload'' = Some (JObj payload) \<and>
        dict_get ev ''provenance'' = Some (JObj provenance) \<and>
        (\<forall>(k, v) \<in> set payload. is_number v \<longrightarrow> numeric_sourced E provenance k)) \<and>
     dict_get ev ''symbol'' \<noteq> Some JNull \<and> dict_get ev ''timeframe'' \<noteq> Some JNull"

lemma is_object_iff: "is_object v \<longleftrightarrow> (\<exists>kvs. v = Some (JObj kvs))"
proof (cases v)
  case (Some w)
  then show ?thesis by (cases w) (simp_all add: is_object_def)
qed (simp add: is_object_def)

lemma provenance_issues_Nil:
  "is_object (dict_get ev ''payload'') \<and> provenance_issues E ev = [] \<longleftrightarrow>
     (\<exists>payload provenance. dict_get ev ''payload'' = Some (JObj payload) \<and>
        dict_get ev ''provenance'' = Some (JObj provenance) \<and>
        (\<forall>(k, v) \<in> set payload. is_number v \<longrightarrow> numeric_sourced E provenance k))"
  by (auto simp: is_object_iff provenance_issues_def numeric_provenance_Nil
      split: option.splits json.splits)

lemma envelope_issues_Nil: "envelope_issues E ev = [] \<longleftrightarrow> envelope_ok E ev"
proof -
  have keys: "(\<forall>f \<in> set required_event_fields. dict_get ev f \<noteq> None) \<and>
      (\<forall>k \<in> set (dict_keys ev). k \<in> set required_event_fields) \<longleftrightarrow>
      set (dict_keys ev) = set required_event_fields"
    by (auto simp: map_of_eq_None_iff)
  have absent: "set (dict_keys ev) = set required_event_fields \<Longrightarrow>
      (is_absent (dict_get ev ''symbol'') \<longleftrightarrow> dict_get ev ''symbol'' = Some JNull) \<and>
      (is_absent (dict_get ev ''timeframe'') \<longleftrightarrow> dict_get ev ''timeframe'' = Some JNull)"
    by (simp add: is_absent_def map_of_eq_None_iff required_event_fields_def)
  show ?thesis
    unfolding envelope_issues_def envelope_ok_def append_is_Nil_conv concat_eq_Nil_conv
      provenance_issues_Nil [symmetric] keys [symmetric]
    using absent unfolding keys [symmetric] by auto
qed

lemma integrity_issues_Inr:
  "integrity_issues E ev = Inr [] \<longleftrightarrow>
     (\<exists>h. dict_get ev ''integrity_hash'' = Some (JStr h) \<and>
        json_digest E (JObj (dict_set ''integrity_hash'' (JStr []) ev)) = Inr h)"
  by (auto simp: integrity_issues_def bind_res_Inr split: option.splits json.splits)

text \<open>An event with an empty hash field, once sealed, has the right hash.\<close>

lemma seal_Inr:
  assumes "dict_get ev ''integrity_hash'' = Some (JStr [])" and "seal E ev = Inr ev'"
  shows "integrity_issues E ev' = Inr []"
proof -
  obtain h where h: "json_digest E (JObj ev) = Inr h" and ev': "ev' = dict_set ''integrity_hash'' (JStr h) ev"
    using assms(2) by (auto simp: seal_def bind_res_Inr)
  from assms(1) have "dict_set ''integrity_hash'' (JStr []) ev' = ev"
    by (simp add: ev' dict_set_same)
  with h show ?thesis by (simp add: integrity_issues_Inr ev')
qed

lemma envelope_ok_hash:
  assumes "''integrity_hash'' \<in> set (dict_keys ev)"
  shows "envelope_ok E (dict_set ''integrity_hash'' v ev) = envelope_ok E ev"
proof -
  have "set (dict_keys (dict_set ''integrity_hash'' v ev)) = set (dict_keys ev)"
    using assms unfolding dict_keys_set by (rule insert_absorb)
  then show ?thesis by (simp only: envelope_ok_def) simp
qed

definition valid_event :: "py_env \<Rightarrow> event \<Rightarrow> bool" where
  "valid_event E ev \<longleftrightarrow> envelope_ok E ev \<and> integrity_issues E ev = Inr []"

lemma validate_report:
  assumes "validate_event_envelope E ev = Inr r"
  shows "report_valid r = valid_event E ev \<and>
     report_event r = (if valid_event E ev then Some ev else None) \<and>
     (report_issues r = [] \<longleftrightarrow> valid_event E ev)"
  using assms
  by (auto simp: validate_event_envelope_def bind_res_Inr valid_event_def envelope_issues_Nil Let_def
      split: if_splits)

lemma allowed_hashable:
  "class_in cs (dict_get ev k) \<Longrightarrow> (case dict_get ev k of None \<Rightarrow> True | Some t \<Rightarrow> hashable t)"
  by (auto simp: class_in_iff)

lemma validate_valid:
  "validate_event_envelope E ev =
     Inr \<lparr>report_valid = True, report_issues = [], report_event = Some ev\<rparr> \<longleftrightarrow> valid_event E ev"
proof
  assume v: "valid_event E ev"
  then have "case dict_get ev ''event_type'' of None \<Rightarrow> True | Some t \<Rightarrow> hashable t"
    by (intro allowed_hashable [of allowed_event_types]) (simp add: valid_event_def envelope_ok_def)
  with v show "validate_event_envelope E ev =
     Inr \<lparr>report_valid = True, report_issues = [], report_event = Some ev\<rparr>"
    by (simp add: validate_event_envelope_def valid_event_def envelope_issues_Nil [symmetric])
next
  assume "validate_event_envelope E ev =
     Inr \<lparr>report_valid = True, report_issues = [], report_event = Some ev\<rparr>"
  from validate_report [OF this] show "valid_event E ev" by simp
qed

lemma sealed_valid:
  assumes "envelope_ok E ev" and "dict_get ev ''integrity_hash'' = Some (JStr [])"
    and "seal E ev = Inr ev'"
  shows "valid_event E ev'"
proof -
  have "''integrity_hash'' \<in> set (dict_keys ev)"
    using assms(2) by (metis map_of_eq_None_iff option.distinct(1) set_map)
  moreover have "\<exists>h. ev' = dict_set ''integrity_hash'' (JStr h) ev"
    using assms(3) by (auto simp: seal_def bind_res_Inr)
  ultimately have "envelope_ok E ev'" using assms(1) envelope_ok_hash by metis
  with seal_Inr [OF assms(2,3)] show ?thesis by (simp add: valid_event_def)
qed

lemma envelope_fields_ok:
  assumes "event_type \<in> set allowed_event_types"
    and "\<forall>(k, v) \<in> set payload. is_number v \<longrightarrow>
           numeric_sourced E (case src_provenance src of None \<Rightarrow> [] | Some p \<Rightarrow> p) k"
  shows "envelope_ok E (envelope_fields eid corr now event_type payload src)"
  using assms
  by (simp add: envelope_ok_def envelope_fields_def class_in_iff required_event_fields_def)

section \<open>Digests of redacted events\<close>

lemma canonical_obj_ok:
  "(\<exists>s. canonical_json E (JObj kvs) = Inr s) \<longleftrightarrow>
     (\<forall>kv \<in> set kvs. \<exists>s. canonical_json E (snd kv) = Inr s)"
proof -
  have "(\<exists>s. canonical_json E (JObj kvs) = Inr s) \<longleftrightarrow>
      \<not> (\<exists>e. json_dumps_members E canonical_style kvs = Inl e)"
    by (cases "json_dumps_members E canonical_style kvs") (auto simp: canonical_json_def)
  also have "\<dots> \<longleftrightarrow> (\<forall>kv \<in> set kvs. \<exists>s. canonical_json E (snd kv) = Inr s)"
    unfolding members_Inl_iff canonical_json_def by (metis Inl_Inr_False sum.exhaust)
  finally show ?thesis .
qed

lemma canonical_str_ok [simp]: "canonical_json E (JStr s) = Inr (json_quote s)"
  by (simp add: canonical_json_def)

lemma json_norm_obj: "json_norm (JObj kvs) = JObj (sort_key fst (json_norm_members kvs))"
  by simp

lemma set_norm_members:
  "set (sort_key fst (json_norm_members kvs)) = (\<lambda>(k, v). (k, json_norm v)) ` set kvs"
  by (simp add: json_norm_members_map)

lemma is_number_norm [simp]: "is_number (json_norm v) = is_number v"
  by (cases v) simp_all

lemma opt_truthy_norm [simp]: "opt_truthy (map_option json_norm v) = opt_truthy v"
  by (cases v) (simp_all add: opt_truthy_def)

text \<open>A source system that is a list or an object prints with a bracket, so it names no agent.\<close>

lemma from_agent_norm:
  assumes "distinct (dict_keys entry)"
  shows "from_agent E (sort_key fst (json_norm_members entry)) = from_agent E entry"
proof -
  have open_bracket: "str_lower (CHR ''['' # s) \<notin> set agent_numeric_sources"
    "str_lower (CHR ''{'' # s) \<notin> set agent_numeric_sources" for s
    by (simp_all add: str_lower_def char_lower_def agent_numeric_sources_def)
  have "(str_lower (py_str E (json_norm v)) \<in> set agent_numeric_sources) =
      (str_lower (py_str E v) \<in> set agent_numeric_sources)" for v
    by (cases v) (simp_all add: open_bracket)
  then show ?thesis
    using assms
    by (cases "dict_get entry ''source_system''") (simp_all add: from_agent_def dict_get_or_def map_of_norm)
qed

lemma json_ok_in: "json_ok_members kvs \<Longrightarrow> (k, v) \<in> set kvs \<Longrightarrow> json_ok v"
  by (induction kvs) auto

lemma json_ok_get: "json_ok (JObj kvs) \<Longrightarrow> dict_get kvs k = Some v \<Longrightarrow> json_ok v"
  by (auto dest: map_of_SomeD json_ok_in)

lemma numeric_sourced_norm:
  assumes ok: "json_ok (JObj provenance)" and "numeric_sourced E provenance k"
  shows "numeric_sourced E (sort_key fst (json_norm_members provenance)) k"
proof -
  obtain prov entry rc where prov: "dict_get provenance ''numeric_fields'' = Some (JObj prov)"
    and entry: "dict_get prov k = Some (JObj entry)"
    and fields: "\<forall>r \<in> {''source'', ''source_system'', ''fetched_at_utc''}. opt_truthy (dict_get entry r)"
    and rc: "dict_get entry ''realtime_class'' = Some (JStr rc)"
      "rc \<in> set realtime_class_allowed - {''UNKNOWN''}"
      "rc = ''COMPUTED'' \<longrightarrow> opt_truthy (dict_get entry ''formula_version'')"
    and agent: "\<not> from_agent E entry"
    using assms(2) unfolding numeric_sourced_def
    by (elim exE conjE) (rule that; assumption)
  have okp: "json_ok (JObj prov)" using json_ok_get [OF ok prov] .
  have oke: "json_ok (JObj entry)" using json_ok_get [OF okp entry] .
  have d: "distinct (dict_keys provenance)" "distinct (dict_keys prov)" "distinct (dict_keys entry)"
    using ok okp oke by simp_all
  let ?n = "\<lambda>d. sort_key fst (json_norm_members d)"
  have "dict_get (?n provenance) ''numeric_fields'' = Some (JObj (?n prov))"
    and "dict_get (?n prov) k = Some (JObj (?n entry))"
    using prov entry by (simp_all add: map_of_norm d)
  moreover have "dict_get (?n entry) ''realtime_class'' = Some (JStr rc)"
    using rc by (simp add: map_of_norm d)
  moreover have "opt_truthy (dict_get (?n entry) r) = opt_truthy (dict_get entry r)" for r
    by (simp add: map_of_norm d)
  ultimately show ?thesis
    using fields rc(2,3) agent unfolding numeric_sourced_def
    by (auto simp: from_agent_norm [OF d(3)])
qed

definition redact_key :: "string \<Rightarrow> event \<Rightarrow> event" where
  "redact_key k p = (if dict_get p k = None then p else dict_set k (JStr ''UNKNOWN'') p)"

lemma redact_payload_fold: "redact_payload p = fold redact_key redacted_keys p"
  unfolding redact_payload_def redact_key_def ..

lemma redact_key_get:
  "dict_get (redact_key k p) j =
     (if j = k \<and> dict_get p j \<noteq> None then Some (JStr ''UNKNOWN'') else dict_get p j)"
  by (simp add: redact_key_def)

lemma redact_key_in: "(i, v) \<in> set (redact_key k p) \<Longrightarrow> (i, v) \<in> set p \<or> v = JStr ''UNKNOWN''"
  using set_dict_set [of k "JStr ''UNKNOWN''" p] by (auto simp: redact_key_def split: if_splits)

lemma redact_fold_get:
  "dict_get (fold redact_key ks p) j =
     (if j \<in> set ks \<and> dict_get p j \<noteq> None then Some (JStr ''UNKNOWN'') else dict_get p j)"
proof (induction ks arbitrary: p)
  case (Cons k ks)
  show ?case unfolding fold.simps comp_apply Cons.IH redact_key_get by simp
qed simp

lemma redact_fold_in:
  "(i, v) \<in> set (fold redact_key ks p) \<Longrightarrow> (i, v) \<in> set p \<or> v = JStr ''UNKNOWN''"
proof (induction ks arbitrary: p)
  case (Cons k ks)
  then have "(i, v) \<in> set (redact_key k p) \<or> v = JStr ''UNKNOWN''" by simp
  then show ?case using redact_key_in by blast
qed simp

text \<open>The members of a valid event are all within JSON.\<close>

lemma valid_event_canonical:
  assumes "valid_event E ev" and "distinct (dict_keys ev)"
  shows "\<exists>s. canonical_json E (JObj ev) = Inr s"
proof -
  obtain h where h: "dict_get ev ''integrity_hash'' = Some (JStr h)"
    and digest: "json_digest E (JObj (dict_set ''integrity_hash'' (JStr []) ev)) = Inr h"
    using assms(1) by (auto simp: valid_event_def integrity_issues_Inr)
  from digest obtain s where "canonical_json E (JObj (dict_set ''integrity_hash'' (JStr []) ev)) = Inr s"
    by (auto simp: json_digest_def bind_res_Inr)
  then have ok: "\<forall>kv \<in> set (dict_set ''integrity_hash'' (JStr []) ev). \<exists>s. canonical_json E (snd kv) = Inr s"
    using canonical_obj_ok by blast
  have "\<exists>s. canonical_json E v = Inr s" if kv: "(k, v) \<in> set ev" for k v
  proof (cases "k = ''integrity_hash''")
    case True
    with kv h assms(2) have "v = JStr h" by (metis map_of_is_SomeI option.inject)
    then show ?thesis by simp
  next
    case False
    from kv assms(2) have "dict_get (dict_set ''integrity_hash'' (JStr []) ev) k = Some v"
      using False by simp
    then show ?thesis using ok map_of_SomeD by fastforce
  qed
  then show ?thesis unfolding canonical_obj_ok by auto
qed

lemma dict_set_all: "\<forall>kv \<in> set d. P kv \<Longrightarrow> P (k, v) \<Longrightarrow> \<forall>kv \<in> set (dict_set k v d). P kv"
  using set_dict_set [of k v d] by blast

lemma keys_norm: "set (dict_keys (sort_key fst (json_norm_members d))) = set (dict_keys d)"
  by (force simp: json_norm_members_map)

lemma redacted_envelope_ok:
  assumes ok: "json_ok (JObj ev)" and v: "valid_event E ev"
    and p: "dict_get ev ''payload'' = Some (JObj p)"
  shows "envelope_ok E (dict_set ''integrity_hash'' (JStr []) (dict_set ''redaction_status'' (JStr ''REDACTED'')
      (dict_set ''payload'' (JObj (redact_payload (sort_key fst (json_norm_members p))))
        (sort_key fst (json_norm_members ev)))))"
proof -
  have d: "distinct (dict_keys ev)" using ok by simp
  obtain provenance where prov: "dict_get ev ''provenance'' = Some (JObj provenance)"
    and src: "\<forall>(k, v) \<in> set p. is_number v \<longrightarrow> numeric_sourced E provenance k"
    using v p by (auto simp: valid_event_def envelope_ok_def)
  have okp: "json_ok (JObj provenance)" using json_ok_get [OF ok prov] .
  have "numeric_sourced E (sort_key fst (json_norm_members provenance)) k"
    if kv: "(k, v) \<in> set (redact_payload (sort_key fst (json_norm_members p)))" "is_number v" for k v
  proof -
    have "(k, v) \<in> set (sort_key fst (json_norm_members p))"
      using kv redact_fold_in [of k v redacted_keys "sort_key fst (json_norm_members p)"]
      unfolding redact_payload_fold by auto
    then obtain w where "(k, w) \<in> set p" "v = json_norm w"
      unfolding set_norm_members by auto
    with src kv(2) numeric_sourced_norm [OF okp] show ?thesis by auto
  qed
  moreover have "set (dict_keys ev) = set required_event_fields"
    using v by (simp add: valid_event_def envelope_ok_def)
  ultimately show ?thesis
    using v unfolding valid_event_def envelope_ok_def dict_keys_set keys_norm
    by (auto simp: map_of_norm [OF d] prov required_event_fields_def class_in_iff)
qed

lemma redacted_canonical:
  assumes s: "canonical_json E (JObj ev) = Inr s" and p: "dict_get ev ''payload'' = Some (JObj p)"
  shows "\<exists>t. canonical_json E (JObj (dict_set ''integrity_hash'' (JStr [])
      (dict_set ''redaction_status'' (JStr ''REDACTED'')
        (dict_set ''payload'' (JObj (redact_payload (sort_key fst (json_norm_members p))))
          (sort_key fst (json_norm_members ev)))))) = Inr t"
proof -
  have members: "\<exists>t. canonical_json E w = Inr t" if "(k, w) \<in> set ev" for k w
    using s that canonical_obj_ok [of E ev] by fastforce
  have "(''payload'', JObj p) \<in> set ev" using p by (rule map_of_SomeD)
  then obtain t where t: "canonical_json E (JObj p) = Inr t" using members by blast
  have pm: "\<exists>t. canonical_json E w = Inr t" if "(k, w) \<in> set p" for k w
    using t that canonical_obj_ok [of E p] by fastforce
  have "\<exists>t. canonical_json E (JObj (redact_payload (sort_key fst (json_norm_members p)))) = Inr t"
    unfolding canonical_obj_ok
  proof
    fix kv assume "kv \<in> set (redact_payload (sort_key fst (json_norm_members p)))"
    then have "kv \<in> set (sort_key fst (json_norm_members p)) \<or> snd kv = JStr ''UNKNOWN''"
      using redact_fold_in [of "fst kv" "snd kv" redacted_keys "sort_key fst (json_norm_members p)"]
      unfolding redact_payload_fold by auto
    then show "\<exists>s. canonical_json E (snd kv) = Inr s"
      unfolding set_norm_members by (auto intro: pm)
  qed
  moreover have "\<exists>t. canonical_json E (snd kv) = Inr t"
    if "kv \<in> set (sort_key fst (json_norm_members ev))" for kv
    using that unfolding set_norm_members by (auto intro: members)
  ultimately show ?thesis
    by (subst canonical_obj_ok, intro dict_set_all ballI) (simp_all only: snd_conv, simp_all)
qed

text \<open>
  Redaction keeps an archived event valid: the redacted copy of an event that validates can be
  built and validates again (its hash is recomputed), its payload has UNKNOWN in place of
  every price, probability, entry, stop, target and score that it had, and every other member
  of the payload as it was (up to the order of keys).
\<close>

theorem redact_event_valid:
  assumes "json_ok (JObj ev)" and "validate_event_envelope E ev = Inr r" and "report_valid r"
    and "dict_get ev ''payload'' = Some (JObj p)" and "redact_event E ev = res"
  shows "\<exists>ev' p' r'. res = Inr ev' \<and> validate_event_envelope E ev' = Inr r' \<and> report_valid r' \<and>
     dict_get ev' ''payload'' = Some (JObj p') \<and>
     (\<forall>k. dict_get p' k =
        (if k \<in> {''price'', ''probability'', ''entry'', ''stop_loss'', ''take_profit'', ''score''} \<and>
            dict_get p k \<noteq> None
         then Some (JStr ''UNKNOWN'') else map_option json_norm (dict_get p k)))"
proof -
  have v: "valid_event E ev" using validate_report [OF assms(2)] assms(3) by simp
  have d: "distinct (dict_keys ev)" using assms(1) by simp
  let ?n = "\<lambda>d. sort_key fst (json_norm_members d)"
  let ?p = "redact_payload (?n p)"
  let ?e = "dict_set ''integrity_hash'' (JStr []) (dict_set ''redaction_status'' (JStr ''REDACTED'')
      (dict_set ''payload'' (JObj ?p) (?n ev)))"
  obtain s where s: "canonical_json E (JObj ev) = Inr s"
    using valid_event_canonical [OF v d] by blast
  have payload: "dict_get (?n ev) ''payload'' = Some (JObj (?n p))"
    using assms(4) by (simp add: map_of_norm [OF d])
  have red: "redact_event E ev = seal E ?e"
    unfolding redact_event_def s by (simp only: json_exn_simps bind_res_simps json_norm.simps
        members_of.simps payload option.case json.case Let_def)
  have ok: "envelope_ok E ?e"
    by (rule redacted_envelope_ok [OF assms(1) v assms(4)])
  have "\<exists>t. canonical_json E (JObj ?e) = Inr t"
    by (rule redacted_canonical [OF s assms(4)])
  then obtain ev' where ev': "seal E ?e = Inr ev'"
    by (auto simp: seal_def json_digest_def)
  then obtain h where h: "ev' = dict_set ''integrity_hash'' (JStr h) ?e"
    by (auto simp: seal_def bind_res_Inr)
  have "valid_event E ev'"
    by (rule sealed_valid [OF ok _ ev']) simp
  moreover have "dict_get ev' ''payload'' = Some (JObj ?p)" by (simp add: h)
  moreover have "distinct (dict_keys p)" using json_ok_get [OF assms(1,4)] by simp
  then have "dict_get ?p k = (if k \<in> set redacted_keys \<and> dict_get p k \<noteq> None
      then Some (JStr ''UNKNOWN'') else map_option json_norm (dict_get p k))" for k
    by (simp only: redact_payload_fold redact_fold_get map_of_norm option.map_disc_iff)
  moreover have "res = Inr ev'" using red ev' assms(5) by simp
  ultimately show ?thesis
    unfolding validate_valid [symmetric] redacted_keys_def list.set
    by (intro exI [of _ ev'] exI [of _ ?p] exI conjI) (assumption | simp)+
qed

lemma build_valid:
  assumes "build_event_envelope E eid corr now event_type payload src = Inr ev"
    and "event_type \<in> set allowed_event_types"
    and "\<forall>(k, v) \<in> set payload. is_number v \<longrightarrow>
           numeric_sourced E (case src_provenance src of None \<Rightarrow> [] | Some p \<Rightarrow> p) k"
  shows "valid_event E ev"
  using envelope_fields_ok [OF assms(2,3)] assms(1) unfolding build_event_envelope_def
  by (intro sealed_valid) (simp_all add: envelope_fields_def)

section \<open>Properties\<close>

text \<open>
  C27: What validation decides: when it does not raise, the report is valid exactly when the event
  has the fifteen fields and no other, the schema version, an allowed type, objects for payload
  and provenance with an explicit, non-agent source for every numeric member of the payload
  (and a formula version for a computed one), a symbol and a time frame, and a hash that is the
  digest of the event with an empty hash; only then does it carry the event.
\<close>

theorem event_valid_iff:
  assumes "validate_event_envelope E ev = Inr r"
  shows "(report_valid r \<longleftrightarrow>
      envelope_ok E ev \<and>
      (\<exists>h. dict_get ev ''integrity_hash'' = Some (JStr h) \<and>
         json_digest E (JObj (dict_set ''integrity_hash'' (JStr []) ev)) = Inr h)) \<and>
     (report_event r = Some ev \<longleftrightarrow> report_valid r) \<and> (report_issues r = [] \<longleftrightarrow> report_valid r)"
  using validate_report [OF assms] by (simp add: valid_event_def integrity_issues_Inr)

text \<open>
  An envelope that \<open>build_event_envelope\<close> makes of an allowed type, with a source for each
  numeric member of its payload, passes validation without an issue.
\<close>

theorem built_event_valid:
  assumes "build_event_envelope E eid corr now event_type payload src = Inr ev"
    and "event_type \<in> set allowed_event_types"
    and "\<forall>(k, v) \<in> set payload. is_number v \<longrightarrow>
           numeric_sourced E (case src_provenance src of None \<Rightarrow> [] | Some p \<Rightarrow> p) k"
  shows "validate_event_envelope E ev =
     Inr \<lparr>report_valid = True, report_issues = [], report_event = Some ev\<rparr>"
  unfolding validate_valid by (rule build_valid [OF assms])

section \<open>Evaluation\<close>

text \<open>A platform for the examples: a digest that shows the length, and times as decimals.\<close>

definition sample_env :: py_env where
  "sample_env =
     \<lparr>sha256_hex = (\<lambda>s. nat_str (length s)), float_repr = (\<lambda>q. int_str \<lfloor>q\<rfloor> @ ''.0''),
      round_sum = (\<lambda>xs. Fin (sum_list (map (\<lambda>x. case x of Fin q \<Rightarrow> q | _ \<Rightarrow> 0) xs))),
      iso_text = int_str,
      iso_parse = (\<lambda>s. if s = [] then None else Some (fold (\<lambda>c n. 10 * n + (int (of_char c) - 48)) s 0))\<rparr>"

definition sample_provenance :: event where
  "sample_provenance = [(''numeric_fields'', JObj [(''score'', JObj
     [(''source'', JStr ''engine''), (''source_system'', JStr ''python''),
      (''fetched_at_utc'', JStr ''100''), (''realtime_class'', JStr ''REALTIME'')])])]"

definition sample_source :: event_source where
  "sample_source = \<lparr>src_component = ''c'', src_agent = ''super-advisor'', src_evidence = ''e'',
     src_symbol = ''XAUUSD'', src_timeframe = ''M5'', src_correlation = None, src_causation = None,
     src_provenance = Some sample_provenance, src_redaction = ''REDACTED''\<rparr>"

definition sample_payload :: event where
  "sample_payload = [(''score'', JInt 82), (''note'', JStr ''n'')]"

definition sample_event :: event where
  "sample_event =
     (case build_event_envelope sample_env ''id1'' ''corr'' ''100'' ''SUPER_POTENTIAL_CONFIRMED''
        sample_payload sample_source of Inl e \<Rightarrow> [] | Inr ev \<Rightarrow> ev)"

lemma sample_sourced:
  "\<forall>(k, v) \<in> set sample_payload. is_number v \<longrightarrow>
     numeric_sourced sample_env (case src_provenance sample_source of None \<Rightarrow> [] | Some p \<Rightarrow> p) k"
  by (simp add: sample_payload_def sample_source_def sample_provenance_def numeric_sourced_def
      realtime_class_allowed_def from_agent_def dict_get_or_def str_lower_def char_lower_def
      agent_numeric_sources_def opt_truthy_def)

lemma seal_Inr_obj:
  "(\<forall>kv \<in> set ev. \<exists>s. canonical_json E (snd kv) = Inr s) \<Longrightarrow>
     \<exists>h. seal E ev = Inr (dict_set ''integrity_hash'' (JStr h) ev)"
  unfolding canonical_obj_ok [symmetric] by (auto simp: seal_def json_digest_def)

lemma sample_built:
  "build_event_envelope sample_env ''id1'' ''corr'' ''100'' ''SUPER_POTENTIAL_CONFIRMED''
     sample_payload sample_source = Inr sample_event"
proof -
  have "\<exists>h. build_event_envelope sample_env ''id1'' ''corr'' ''100'' ''SUPER_POTENTIAL_CONFIRMED''
     sample_payload sample_source = Inr (dict_set ''integrity_hash'' (JStr h)
       (envelope_fields ''id1'' ''corr'' ''100'' ''SUPER_POTENTIAL_CONFIRMED'' sample_payload sample_source))"
    unfolding build_event_envelope_def
    by (rule seal_Inr_obj)
      (simp add: envelope_fields_def sample_payload_def sample_source_def sample_provenance_def
        canonical_json_def)
  then show ?thesis unfolding sample_event_def by fastforce
qed

theorem built_event_valid_witness:
  "validate_event_envelope sample_env sample_event =
     Inr \<lparr>report_valid = True, report_issues = [], report_event = Some sample_event\<rparr>"
  by (rule built_event_valid [OF sample_built _ sample_sourced]) (simp add: allowed_event_types_def)

lemma sample_valid: "valid_event sample_env sample_event"
  by (rule build_valid [OF sample_built _ sample_sourced]) (simp add: allowed_event_types_def)

lemma sample_event_eq:
  "\<exists>h. sample_event = dict_set ''integrity_hash'' (JStr h)
     (envelope_fields ''id1'' ''corr'' ''100'' ''SUPER_POTENTIAL_CONFIRMED'' sample_payload sample_source)"
proof -
  obtain h where "Inr sample_event = (Inr (dict_set ''integrity_hash'' (JStr h)
     (envelope_fields ''id1'' ''corr'' ''100'' ''SUPER_POTENTIAL_CONFIRMED'' sample_payload sample_source)) ::
       py_exn + event)"
    using sample_built unfolding build_event_envelope_def seal_def bind_res_Inr by metis
  then show ?thesis by blast
qed

lemma sample_get:
  "dict_get sample_event ''payload'' = Some (JObj sample_payload)"
  "dict_get sample_event ''provenance'' = Some (JObj sample_provenance)"
  "dict_get sample_event ''event_id'' = Some (JStr ''id1'')"
  "dict_get sample_event ''event_type'' = Some (JStr ''SUPER_POTENTIAL_CONFIRMED'')"
proof -
  obtain h where h: "sample_event = dict_set ''integrity_hash'' (JStr h)
     (envelope_fields ''id1'' ''corr'' ''100'' ''SUPER_POTENTIAL_CONFIRMED'' sample_payload sample_source)"
    using sample_event_eq by blast
  show "dict_get sample_event ''payload'' = Some (JObj sample_payload)"
    "dict_get sample_event ''provenance'' = Some (JObj sample_provenance)"
    "dict_get sample_event ''event_id'' = Some (JStr ''id1'')"
    "dict_get sample_event ''event_type'' = Some (JStr ''SUPER_POTENTIAL_CONFIRMED'')"
    unfolding h by (simp_all add: envelope_fields_def sample_source_def)
qed

lemma sample_json_ok: "json_ok (JObj sample_event)"
proof -
  obtain h where h: "sample_event = dict_set ''integrity_hash'' (JStr h)
     (envelope_fields ''id1'' ''corr'' ''100'' ''SUPER_POTENTIAL_CONFIRMED'' sample_payload sample_source)"
    using sample_event_eq by blast
  show ?thesis
    unfolding h by (simp add: envelope_fields_def sample_source_def sample_payload_def sample_provenance_def)
qed

theorem event_valid_iff_witness:
  "\<exists>r h. validate_event_envelope sample_env sample_event = Inr r \<and> report_valid r \<and>
     dict_get sample_event ''integrity_hash'' = Some (JStr h)"
proof -
  from sample_valid obtain r where r: "validate_event_envelope sample_env sample_event = Inr r" "report_valid r"
    using validate_valid by fastforce
  with event_valid_iff [OF r(1)] show ?thesis by blast
qed

theorem redact_event_valid_witness:
  "\<exists>ev' p'. redact_event sample_env sample_event = Inr ev' \<and>
     dict_get ev' ''payload'' = Some (JObj p') \<and> dict_get p' ''score'' = Some (JStr ''UNKNOWN'') \<and>
     dict_get p' ''note'' = Some (JStr ''n'')"
proof -
  have r: "validate_event_envelope sample_env sample_event =
      Inr \<lparr>report_valid = True, report_issues = [], report_event = Some sample_event\<rparr>"
    unfolding validate_valid by (rule sample_valid)
  have "dict_get sample_payload ''score'' = Some (JInt 82)" "dict_get sample_payload ''note'' = Some (JStr ''n'')"
    by (simp_all add: sample_payload_def)
  with redact_event_valid [OF sample_json_ok r _ sample_get(1) refl] show ?thesis by fastforce
qed

end
