(* ===== verification/EventConsumer.thy ===== *)
theory EventConsumer
  imports Events
begin

text \<open>
  \<open>event_consumer.py\<close>: the publication decision on an incoming event, with the set of event
  identifiers that the caller passes from call to call. The \<open>now_utc\<close> argument is absent, a
  naive \<open>datetime\<close> or an aware one; the wall clock is an argument of the model.
\<close>

section \<open>The decision\<close>

definition allowed_market_publish :: "string list" where
  "allowed_market_publish =
     [''SUPER_POTENTIAL_CONFIRMED'', ''SUPER_POTENTIAL_INVALIDATED'', ''DATA_QUALITY_WARNING'',
      ''SYSTEM_INCIDENT'']"

definition forbidden_market_publish :: "string list" where
  "forbidden_market_publish = [''SUPER_POTENTIAL_CANDIDATE_INTERNAL'', ''SYSTEM_HEALTH'']"

datatype clock_arg = NoClock | NaiveClock int | AwareClock int

record consumption_decision =
  decision_event_id :: string
  decision_event_type :: string
  decision_action :: string
  decision_reason :: string

definition resolve_now_utc :: "int \<Rightarrow> clock_arg \<Rightarrow> py_exn + int" where
  "resolve_now_utc wall clock =
     (case clock of
        NoClock \<Rightarrow> Inr wall
      | NaiveClock t \<Rightarrow> Inl (RuntimeError ''now_utc must be timezone-aware; received a naive datetime'')
      | AwareClock t \<Rightarrow> Inr t)"

text \<open>The object under a key, with the empty one for a missing key: \<open>event.get(k, {})\<close>.\<close>

definition object_or_empty :: "event \<Rightarrow> string \<Rightarrow> py_exn + event" where
  "object_or_empty ev k =
     (case dict_get ev k of None \<Rightarrow> Inr [] | Some (JObj d) \<Rightarrow> Inr d | _ \<Rightarrow> Inl AttributeError)"

definition is_expired :: "py_env \<Rightarrow> event \<Rightarrow> int \<Rightarrow> py_exn + bool" where
  "is_expired E ev now =
     bind_res (object_or_empty ev ''payload'')
       (\<lambda>payload. Inr (case dict_get payload ''expires_at_utc'' of
          Some (JStr s) \<Rightarrow> (case iso_parse E s of Some expires \<Rightarrow> expires \<le> now | None \<Rightarrow> True)
        | _ \<Rightarrow> False))"

definition has_agent_numeric_source :: "py_env \<Rightarrow> event \<Rightarrow> py_exn + bool" where
  "has_agent_numeric_source E ev =
     bind_res (object_or_empty ev ''provenance'')
       (\<lambda>provenance. Inr (case dict_get provenance ''numeric_fields'' of
          Some (JObj numeric) \<Rightarrow>
            list_ex (\<lambda>v. case v of JObj entry \<Rightarrow> from_agent E entry | _ \<Rightarrow> False) (map snd numeric)
        | _ \<Rightarrow> False))"

definition get_str :: "py_env \<Rightarrow> event \<Rightarrow> string \<Rightarrow> py_exn + string" where
  "get_str E ev k = (case dict_get ev k of None \<Rightarrow> Inl (KeyError k) | Some v \<Rightarrow> Inr (py_str E v))"

definition issue_text :: "event_issue \<Rightarrow> string" where
  "issue_text i = issue_path i @ '': '' @ issue_message i"

definition decide :: "string \<Rightarrow> string \<Rightarrow> string \<Rightarrow> string \<Rightarrow> consumption_decision" where
  "decide eid etype action reason =
     \<lparr>decision_event_id = eid, decision_event_type = etype, decision_action = action,
      decision_reason = reason\<rparr>"

definition consume_event ::
  "py_env \<Rightarrow> int \<Rightarrow> clock_arg \<Rightarrow> event \<Rightarrow> string set option \<Rightarrow>
   py_exn + (consumption_decision \<times> string set option)" where
  "consume_event E wall clock ev seen =
     bind_res (resolve_now_utc wall clock) (\<lambda>now.
     bind_res (validate_event_envelope E ev) (\<lambda>report.
     if \<not> report_valid report
     then Inr (decide (py_str E (dict_get_or ev ''event_id'' (JStr [])))
                 (py_str E (dict_get_or ev ''event_type'' (JStr []))) ''REJECT''
                 (''schema_invalid: '' @ str_join ''; '' (map issue_text (report_issues report))), seen)
     else
     bind_res (get_str E ev ''event_id'') (\<lambda>eid.
     bind_res (get_str E ev ''event_type'') (\<lambda>etype.
     bind_res (has_agent_numeric_source E ev) (\<lambda>agent.
     if agent then Inr (decide eid etype ''REJECT'' ''agent_numeric_source_forbidden'', seen)
     else if \<not> opt_truthy (dict_get ev ''provenance'')
     then Inr (decide eid etype ''REJECT'' ''missing_provenance'', seen)
     else if (case seen of None \<Rightarrow> False | Some s \<Rightarrow> eid \<in> s)
     then Inr (decide eid etype ''REJECT'' ''duplicate_event_id'', seen)
     else if etype \<in> set forbidden_market_publish
     then Inr (decide eid etype ''HOLD'' ''candidate_internal_not_published'', seen)
     else bind_res (is_expired E ev now) (\<lambda>expired.
     if expired then Inr (decide eid etype ''REJECT'' ''event_expired'', seen)
     else if etype \<notin> set allowed_market_publish
     then Inr (decide eid etype ''HOLD'' (''event_type_not_in_publish_allowlist: '' @ etype), seen)
     else Inr (decide eid etype ''PUBLISH'' ''all_gates_passed'', map_option (insert eid) seen)))))))"

text \<open>A session: the calls in order, on one set; a call that raises changes nothing.\<close>

fun consume_all ::
  "py_env \<Rightarrow> (int \<times> clock_arg \<times> event) list \<Rightarrow> string set \<Rightarrow> consumption_decision list" where
  "consume_all E [] seen = []"
| "consume_all E ((wall, clock, ev) # calls) seen =
     (case consume_event E wall clock ev (Some seen) of
        Inr (d, Some seen') \<Rightarrow> d # consume_all E calls seen'
      | _ \<Rightarrow> consume_all E calls seen)"

section \<open>Lemmas\<close>

lemma decide_simps [simp]:
  "decision_event_id (decide i t a r) = i" "decision_event_type (decide i t a r) = t"
  "decision_action (decide i t a r) = a" "decision_reason (decide i t a r) = r"
  by (simp_all add: decide_def)

text \<open>A valid event has what the decision reads, so no rule after the first can raise.\<close>

lemma valid_event_parts:
  assumes "valid_event E ev"
  obtains eid etype payload provenance where
    "get_str E ev ''event_id'' = Inr eid" "dict_get ev ''event_type'' = Some (JStr etype)"
    "etype \<in> set allowed_event_types"
    "dict_get ev ''payload'' = Some (JObj payload)"
    "dict_get ev ''provenance'' = Some (JObj provenance)"
proof -
  from assms have ok: "envelope_ok E ev" by (simp add: valid_event_def)
  then have "''event_id'' \<in> set (dict_keys ev)"
    by (simp add: envelope_ok_def required_event_fields_def)
  then obtain v where "dict_get ev ''event_id'' = Some v"
    by (metis map_of_eq_None_iff not_None_eq set_map)
  moreover obtain t where "dict_get ev ''event_type'' = Some (JStr t)" "t \<in> set allowed_event_types"
    using ok unfolding envelope_ok_def class_in_iff by blast
  moreover obtain p q where "dict_get ev ''payload'' = Some (JObj p)"
    "dict_get ev ''provenance'' = Some (JObj q)"
    using ok unfolding envelope_ok_def by blast
  ultimately show thesis by (intro that) (simp_all add: get_str_def)
qed

definition names_agent :: "py_env \<Rightarrow> event \<Rightarrow> bool" where
  "names_agent E provenance =
     (case dict_get provenance ''numeric_fields'' of
        Some (JObj numeric) \<Rightarrow>
          list_ex (\<lambda>v. case v of JObj entry \<Rightarrow> from_agent E entry | _ \<Rightarrow> False) (map snd numeric)
      | _ \<Rightarrow> False)"

definition expired_payload :: "py_env \<Rightarrow> event \<Rightarrow> int \<Rightarrow> bool" where
  "expired_payload E payload now =
     (case dict_get payload ''expires_at_utc'' of
        Some (JStr s) \<Rightarrow> (case iso_parse E s of Some expires \<Rightarrow> expires \<le> now | None \<Rightarrow> True)
      | _ \<Rightarrow> False)"

lemma consume_valid:
  assumes v: "valid_event E ev" and now: "resolve_now_utc wall clock = Inr now"
    and parts: "get_str E ev ''event_id'' = Inr eid" "dict_get ev ''event_type'' = Some (JStr etype)"
    "dict_get ev ''payload'' = Some (JObj payload)"
    "dict_get ev ''provenance'' = Some (JObj provenance)"
  shows "consume_event E wall clock ev seen = Inr
    (if names_agent E provenance
     then (decide eid etype ''REJECT'' ''agent_numeric_source_forbidden'', seen)
     else if provenance = [] then (decide eid etype ''REJECT'' ''missing_provenance'', seen)
     else if (case seen of None \<Rightarrow> False | Some s \<Rightarrow> eid \<in> s)
     then (decide eid etype ''REJECT'' ''duplicate_event_id'', seen)
     else if etype \<in> set forbidden_market_publish
     then (decide eid etype ''HOLD'' ''candidate_internal_not_published'', seen)
     else if expired_payload E payload now
     then (decide eid etype ''REJECT'' ''event_expired'', seen)
     else if etype \<notin> set allowed_market_publish
     then (decide eid etype ''HOLD'' (''event_type_not_in_publish_allowlist: '' @ etype), seen)
     else (decide eid etype ''PUBLISH'' ''all_gates_passed'', map_option (insert eid) seen))"
proof -
  have r: "validate_event_envelope E ev =
      Inr \<lparr>report_valid = True, report_issues = [], report_event = Some ev\<rparr>"
    using v validate_valid by blast
  have "get_str E ev ''event_type'' = Inr etype" by (simp add: get_str_def parts)
  moreover have "has_agent_numeric_source E ev = Inr (names_agent E provenance)"
    by (simp add: has_agent_numeric_source_def object_or_empty_def parts names_agent_def)
  moreover have "is_expired E ev now = Inr (expired_payload E payload now)"
    by (simp add: is_expired_def object_or_empty_def parts expired_payload_def)
  moreover have "opt_truthy (dict_get ev ''provenance'') \<longleftrightarrow> provenance \<noteq> []"
    by (simp add: parts opt_truthy_def)
  ultimately show ?thesis
    unfolding consume_event_def now r by (simp add: parts)
qed

lemma consume_invalid:
  assumes "consume_event E wall clock ev seen = Inr (d, seen')" and "\<not> valid_event E ev"
  shows "decision_action d = ''REJECT'' \<and> seen' = seen"
proof -
  obtain now r where r: "resolve_now_utc wall clock = Inr now" "validate_event_envelope E ev = Inr r"
    using assms(1) unfolding consume_event_def bind_res_Inr by blast
  with validate_report [OF r(2)] assms show ?thesis
    unfolding consume_event_def by auto
qed

text \<open>What one call does to the set.\<close>

lemma consume_seen:
  assumes "consume_event E wall clock ev (Some seen) = Inr (d, seen')"
  shows "seen' = Some (if decision_action d = ''PUBLISH'' then insert (decision_event_id d) seen else seen) \<and>
     (decision_action d = ''PUBLISH'' \<longrightarrow> decision_event_id d \<notin> seen)"
proof (cases "valid_event E ev")
  case False
  with consume_invalid [OF assms] show ?thesis by simp
next
  case True
  obtain eid etype payload provenance where parts:
    "get_str E ev ''event_id'' = Inr eid" "dict_get ev ''event_type'' = Some (JStr etype)"
    "dict_get ev ''payload'' = Some (JObj payload)" "dict_get ev ''provenance'' = Some (JObj provenance)"
    using valid_event_parts [OF True] .
  obtain now where now: "resolve_now_utc wall clock = Inr now"
    using assms unfolding consume_event_def bind_res_Inr by blast
  show ?thesis
    using assms unfolding consume_valid [OF True now parts] by (auto split: if_split_asm)
qed

section \<open>Properties\<close>

text \<open>
  An event is published exactly when it passes validation, its provenance is not empty and
  names no agent as the source of a number, its identifier is not in the set of the session,
  its type is one of the four public ones, and it has not expired at the reference clock.
\<close>

theorem consume_publish_iff:
  assumes "consume_event E wall clock ev seen = Inr (d, seen')"
    and "resolve_now_utc wall clock = Inr now"
  shows "decision_action d = ''PUBLISH'' \<longleftrightarrow>
     valid_event E ev \<and>
     (\<exists>payload provenance etype.
        dict_get ev ''payload'' = Some (JObj payload) \<and>
        dict_get ev ''provenance'' = Some (JObj provenance) \<and>
        dict_get ev ''event_type'' = Some (JStr etype) \<and>
        provenance \<noteq> [] \<and> \<not> names_agent E provenance \<and>
        (\<forall>s eid. seen = Some s \<longrightarrow> get_str E ev ''event_id'' = Inr eid \<longrightarrow> eid \<notin> s) \<and>
        etype \<in> {''SUPER_POTENTIAL_CONFIRMED'', ''SUPER_POTENTIAL_INVALIDATED'',
                 ''DATA_QUALITY_WARNING'', ''SYSTEM_INCIDENT''} \<and>
        \<not> expired_payload E payload now)"
proof (cases "valid_event E ev")
  case False
  with consume_invalid [OF assms(1)] show ?thesis by simp
next
  case True
  obtain eid etype payload provenance where parts:
    "get_str E ev ''event_id'' = Inr eid" "dict_get ev ''event_type'' = Some (JStr etype)"
    "dict_get ev ''payload'' = Some (JObj payload)" "dict_get ev ''provenance'' = Some (JObj provenance)"
    using valid_event_parts [OF True] .
  have "etype \<notin> set forbidden_market_publish" if "etype \<in> set allowed_market_publish"
    using that by (auto simp: allowed_market_publish_def forbidden_market_publish_def)
  then have "decision_action d = ''PUBLISH'' \<longleftrightarrow> \<not> names_agent E provenance \<and> provenance \<noteq> [] \<and>
      \<not> (case seen of None \<Rightarrow> False | Some s \<Rightarrow> eid \<in> s) \<and> etype \<in> set allowed_market_publish \<and>
      \<not> expired_payload E payload now"
    using assms(1) unfolding consume_valid [OF True assms(2) parts] by (auto split: if_split_asm)
  moreover have types: "{''SUPER_POTENTIAL_CONFIRMED'', ''SUPER_POTENTIAL_INVALIDATED'',
      ''DATA_QUALITY_WARNING'', ''SYSTEM_INCIDENT''} = set allowed_market_publish"
    unfolding allowed_market_publish_def list.set ..
  ultimately show ?thesis
    using True unfolding types by (cases seen) (auto simp: parts)
qed

text \<open>
  C13: In a session no identifier is published twice, whatever the events, the clocks and the
  identifiers already seen, and no identifier already seen is published at all.
\<close>

theorem published_once:
  shows "length (filter (\<lambda>d. decision_action d = ''PUBLISH'' \<and> decision_event_id d = eid)
           (consume_all E calls seen)) \<le> (if eid \<in> seen then 0 else 1)"
proof (induction calls arbitrary: seen)
  case Nil
  show ?case by simp
next
  case (Cons call calls)
  obtain wall clock ev where call: "call = (wall, clock, ev)" by (cases call)
  show ?case
  proof (cases "consume_event E wall clock ev (Some seen)")
    case (Inl e)
    with Cons.IH show ?thesis by (simp add: call)
  next
    case (Inr r)
    obtain d seen' where r: "consume_event E wall clock ev (Some seen) = Inr (d, seen')"
      using Inr by (cases r) simp
    from consume_seen [OF r] Cons.IH [of seen] Cons.IH [of "insert (decision_event_id d) seen"] r
    show ?thesis by (auto simp: call split: if_splits)
  qed
qed

theorem consume_publish_iff_witness:
  "\<exists>d seen'. consume_event sample_env 0 (AwareClock 150) sample_event (Some {''id0''}) = Inr (d, seen') \<and>
     decision_action d = ''PUBLISH''"
proof -
  have now: "resolve_now_utc 0 (AwareClock 150) = Inr 150" by (simp add: resolve_now_utc_def)
  have eid: "get_str sample_env sample_event ''event_id'' = Inr ''id1''"
    by (simp add: get_str_def sample_get)
  obtain d seen' where d: "consume_event sample_env 0 (AwareClock 150) sample_event (Some {''id0''}) = Inr (d, seen')"
    using consume_valid [OF sample_valid now eid sample_get(4,1,2)] by (metis surj_pair)
  have "\<not> names_agent sample_env sample_provenance"
    by (simp add: names_agent_def sample_provenance_def from_agent_def dict_get_or_def str_lower_def
        char_lower_def agent_numeric_sources_def)
  moreover have "\<not> expired_payload sample_env sample_payload 150"
    by (simp add: expired_payload_def sample_payload_def)
  moreover have "sample_provenance \<noteq> []" by (simp add: sample_provenance_def)
  ultimately show ?thesis
    using consume_publish_iff [OF d now] sample_valid eid d by (auto simp: sample_get)
qed

end
