(* ===== verification/SignalEngine.thy ===== *)
theory SignalEngine
  imports EventConsumer
begin

text \<open>
  \<open>signal_engine.py\<close>: the gates and thresholds that classify a signal, and the event that a
  classified signal becomes. Times are UTC microseconds; the rounded sum of the score components
  is the platform's. The theorems follow a signal through the validation of its event and the
  publication decision of \<open>event_consumer.py\<close>.
\<close>

section \<open>Signals\<close>

datatype signal_state = NO_SETUP | CANDIDATE_INTERNAL | CONFIRMED | INVALIDATED | EXPIRED

record threshold_config =
  th_version :: string
  th_candidate :: pyfloat
  th_confirmed :: pyfloat
  th_invalidation :: pyfloat
  th_min_evidence :: int
  th_min_quality :: string
  th_min_headroom :: pyfloat
  th_min_agreement :: int
  th_freshness :: int
  th_cooldown :: int
  th_dedup_window :: int
  th_invalidation_expiry :: int

definition default_thresholds :: threshold_config where
  "default_thresholds =
     \<lparr>th_version = ''signal-thresholds-p2.4-v1'', th_candidate = Fin 65, th_confirmed = Fin 80,
      th_invalidation = Fin 45, th_min_evidence = 3, th_min_quality = ''VALID'',
      th_min_headroom = Fin 1, th_min_agreement = 2, th_freshness = 180, th_cooldown = 3600,
      th_dedup_window = 3600, th_invalidation_expiry = 1800\<rparr>"

record signal_input =
  si_symbol :: string
  si_timeframe :: string
  si_setup_id :: string
  si_trigger_version :: string
  si_components :: "(string, pyfloat) dict"
  si_evidence_ids :: "string list"
  si_data_quality :: string
  si_headroom :: pyfloat
  si_agreement :: int
  si_fetched_at :: string
  si_invalidation_rule :: string
  si_provenance :: event

record signal_decision =
  sd_state :: signal_state
  sd_score :: pyfloat
  sd_threshold_version :: string
  sd_trigger_reasons :: "string list"
  sd_failed_gates :: "string list"
  sd_invalidation_rule :: string
  sd_evidence_ids :: "string list"
  sd_provenance :: event
  sd_created_at :: string
  sd_expires_at :: string
  sd_dedup_key :: string

fun state_text :: "signal_state \<Rightarrow> string" where
  "state_text NO_SETUP = ''NO_SETUP''"
| "state_text CANDIDATE_INTERNAL = ''CANDIDATE_INTERNAL''"
| "state_text CONFIRMED = ''CONFIRMED''"
| "state_text INVALIDATED = ''INVALIDATED''"
| "state_text EXPIRED = ''EXPIRED''"

definition parse_utc :: "py_env \<Rightarrow> string \<Rightarrow> py_exn + int" where
  "parse_utc E s =
     (case iso_parse E s of Some t \<Rightarrow> Inr t | None \<Rightarrow> Inl (ValueError ''Invalid isoformat string''))"

section \<open>Classification\<close>

definition failed_gates :: "threshold_config \<Rightarrow> int \<Rightarrow> int \<Rightarrow> signal_input \<Rightarrow> string list" where
  "failed_gates config now fetched signal =
     (if int (length (si_evidence_ids signal)) < th_min_evidence config
      then [''minimum_evidence_count''] else []) @
     (if si_data_quality signal \<noteq> th_min_quality config then [''minimum_data_quality''] else []) @
     (if flt (si_headroom signal) (th_min_headroom config) then [''minimum_headroom''] else []) @
     (if si_agreement signal < th_min_agreement config then [''timeframe_agreement''] else []) @
     (if th_freshness config * 1000000 < now - fetched then [''freshness''] else []) @
     (if si_provenance signal = [] then [''provenance''] else [])"

definition classify :: "threshold_config \<Rightarrow> string list \<Rightarrow> pyfloat \<Rightarrow> signal_state" where
  "classify config failed score =
     (if failed \<noteq> [] then NO_SETUP
      else if fle (th_confirmed config) score then CONFIRMED
      else if fle (th_candidate config) score then CANDIDATE_INTERNAL
      else if fle score (th_invalidation config) then INVALIDATED
      else NO_SETUP)"

definition signal_dedup_key :: "signal_state \<Rightarrow> signal_input \<Rightarrow> string" where
  "signal_dedup_key st signal =
     ''SUPER_POTENTIAL_'' @ state_text st @ '':'' @ si_symbol signal @ '':'' @ si_timeframe signal @
     '':'' @ si_setup_id signal @ '':'' @ si_trigger_version signal"

definition evaluate_signal ::
  "py_env \<Rightarrow> threshold_config \<Rightarrow> int \<Rightarrow> signal_input \<Rightarrow> py_exn + signal_decision" where
  "evaluate_signal E config now signal =
     bind_res (parse_utc E (si_fetched_at signal)) (\<lambda>fetched.
       let score = round_sum E (map snd (si_components signal));
           failed = failed_gates config now fetched signal;
           st = classify config failed score;
           expires = now + 1000000 *
             (if st = INVALIDATED then th_invalidation_expiry config else th_dedup_window config)
       in Inr \<lparr>sd_state = st, sd_score = score, sd_threshold_version = th_version config,
               sd_trigger_reasons =
                 map fst (filter (\<lambda>(k, v). flt (Fin 0) v) (sort_key fst (si_components signal))),
               sd_failed_gates = failed, sd_invalidation_rule = si_invalidation_rule signal,
               sd_evidence_ids = si_evidence_ids signal, sd_provenance = si_provenance signal,
               sd_created_at = iso_text E now, sd_expires_at = iso_text E expires,
               sd_dedup_key = signal_dedup_key st signal\<rparr>)"

section \<open>Signal events\<close>

fun signal_event_type :: "signal_state \<Rightarrow> string option" where
  "signal_event_type CANDIDATE_INTERNAL = Some ''SUPER_POTENTIAL_CANDIDATE_INTERNAL''"
| "signal_event_type CONFIRMED = Some ''SUPER_POTENTIAL_CONFIRMED''"
| "signal_event_type INVALIDATED = Some ''SUPER_POTENTIAL_INVALIDATED''"
| "signal_event_type _ = None"

definition signal_payload :: "signal_input \<Rightarrow> signal_decision \<Rightarrow> event" where
  "signal_payload signal d =
     [(''score'', JFloat (sd_score d)),
      (''score_components'', JObj (map (\<lambda>(k, v). (k, JFloat v)) (si_components signal))),
      (''threshold_version'', JStr (sd_threshold_version d)),
      (''trigger_reasons'', JList (map JStr (sd_trigger_reasons d))),
      (''failed_gates'', JList (map JStr (sd_failed_gates d))),
      (''invalidation_rule'', JStr (sd_invalidation_rule d)),
      (''evidence_ids'', JList (map JStr (sd_evidence_ids d))),
      (''created_at_utc'', JStr (sd_created_at d)),
      (''expires_at_utc'', JStr (sd_expires_at d)),
      (''dedup_key'', JStr (sd_dedup_key d))]"

definition score_provenance :: "signal_input \<Rightarrow> signal_decision \<Rightarrow> json" where
  "score_provenance signal d =
     JObj [(''score'', JObj
       [(''source'', JStr ''python_signal_engine''), (''source_system'', JStr ''python''),
        (''fetched_at_utc'', JStr (si_fetched_at signal)), (''realtime_class'', JStr ''COMPUTED''),
        (''formula_version'', JStr (sd_threshold_version d))])]"

definition signal_source :: "signal_input \<Rightarrow> signal_decision \<Rightarrow> event_source" where
  "signal_source signal d =
     \<lparr>src_component = ''python-signal-engine'', src_agent = ''super-advisor'',
      src_evidence = str_join '','' (sd_evidence_ids d), src_symbol = si_symbol signal,
      src_timeframe = si_timeframe signal, src_correlation = None, src_causation = None,
      src_provenance = Some (dict_set ''numeric_fields'' (score_provenance signal d) (sd_provenance d)),
      src_redaction = ''REDACTED''\<rparr>"

definition build_signal_event ::
  "py_env \<Rightarrow> string \<Rightarrow> string \<Rightarrow> string \<Rightarrow> signal_input \<Rightarrow> signal_decision \<Rightarrow> py_exn + event" where
  "build_signal_event E eid corr now signal d =
     (case signal_event_type (sd_state d) of
        None \<Rightarrow> Inl (ValueError (''state '' @ state_text (sd_state d) @
                       '' is not publishable as a signal event''))
      | Some etype \<Rightarrow>
          build_event_envelope E eid corr now etype (signal_payload signal d) (signal_source signal d))"

section \<open>Lemmas\<close>

lemma evaluate_signal_Inr:
  assumes "evaluate_signal E config now signal = Inr d"
  obtains fetched where "iso_parse E (si_fetched_at signal) = Some fetched"
    and "sd_failed_gates d = failed_gates config now fetched signal"
    and "sd_state d = classify config (failed_gates config now fetched signal) (sd_score d)"
    and "sd_score d = round_sum E (map snd (si_components signal))"
    and "sd_threshold_version d = th_version config"
    and "sd_expires_at d = iso_text E (now + 1000000 *
           (if sd_state d = INVALIDATED then th_invalidation_expiry config else th_dedup_window config))"
    and "sd_dedup_key d = signal_dedup_key (sd_state d) signal"
  using assms
  by (auto simp: evaluate_signal_def bind_res_Inr parse_utc_def Let_def split: option.splits)

lemma built_parts:
  assumes "build_event_envelope E eid corr now etype payload src = Inr ev"
  shows "dict_get ev ''payload'' = Some (JObj payload) \<and>
     dict_get ev ''provenance'' = Some (JObj (case src_provenance src of None \<Rightarrow> [] | Some p \<Rightarrow> p)) \<and>
     dict_get ev ''event_type'' = Some (JStr etype) \<and> get_str E ev ''event_id'' = Inr eid"
proof -
  obtain h where ev: "ev = dict_set ''integrity_hash'' (JStr h)
      (envelope_fields eid corr now etype payload src)"
    using assms unfolding build_event_envelope_def seal_def bind_res_Inr by blast
  show ?thesis unfolding ev by (simp add: envelope_fields_def get_str_def)
qed

lemma signal_event_valid:
  assumes "build_signal_event E eid corr now signal d = Inr ev"
    and "si_fetched_at signal \<noteq> []" and "sd_threshold_version d \<noteq> []"
  shows "valid_event E ev"
proof -
  obtain etype where t: "signal_event_type (sd_state d) = Some etype"
    and b: "build_event_envelope E eid corr now etype (signal_payload signal d) (signal_source signal d) = Inr ev"
    using assms(1) by (auto simp: build_signal_event_def split: option.splits)
  have "etype \<in> set allowed_event_types"
    using t by (cases "sd_state d") (auto simp: allowed_event_types_def)
  moreover have "numeric_sourced E (dict_set ''numeric_fields'' (score_provenance signal d) (sd_provenance d)) ''score''"
    using assms(2,3)
    by (simp add: numeric_sourced_def score_provenance_def realtime_class_allowed_def from_agent_def
        dict_get_or_def str_lower_def char_lower_def agent_numeric_sources_def opt_truthy_def)
  ultimately show ?thesis
    by (intro build_valid [OF b]) (simp_all add: signal_payload_def signal_source_def)
qed

section \<open>Properties\<close>

text \<open>
  A signal is CONFIRMED exactly when it has enough evidence, the required data quality, a
  headroom that is not below the minimum, enough agreeing time frames, data no older than the
  freshness limit, some provenance, and a score of at least the confirmation threshold; one that
  fails a gate is NO_SETUP whatever its score, and no signal is ever EXPIRED.
\<close>

theorem signal_state_spec:
  assumes "evaluate_signal E config now signal = Inr d"
    and "iso_parse E (si_fetched_at signal) = Some fetched"
  shows "(sd_state d = CONFIRMED \<longleftrightarrow>
      th_min_evidence config \<le> int (length (si_evidence_ids signal)) \<and>
      si_data_quality signal = th_min_quality config \<and>
      \<not> flt (si_headroom signal) (th_min_headroom config) \<and>
      th_min_agreement config \<le> si_agreement signal \<and>
      now - fetched \<le> th_freshness config * 1000000 \<and>
      si_provenance signal \<noteq> [] \<and>
      fle (th_confirmed config) (round_sum E (map snd (si_components signal)))) \<and>
     (sd_failed_gates d \<noteq> [] \<longrightarrow> sd_state d = NO_SETUP) \<and> sd_state d \<noteq> EXPIRED"
  by (rule evaluate_signal_Inr [OF assms(1)])
    (use assms(2) in \<open>auto simp: classify_def failed_gates_def\<close>)

text \<open>
  C12: From the signal to the decision: the event built from an evaluated signal is accepted by the
  consumer without a raise. The consumer holds it back when the signal is an internal candidate,
  rejects it from its expiry on (which is the window of its state after the evaluation), and
  otherwise publishes it and records its identifier, provided the identifier is new.
\<close>

theorem signal_event_decision:
  assumes eval: "evaluate_signal E config t signal = Inr d"
    and build: "build_signal_event E eid corr created signal d = Inr ev"
    and clock: "resolve_now_utc wall clock = Inr now"
    and expiry: "expires = t + 1000000 *
       (if sd_state d = INVALIDATED then th_invalidation_expiry config else th_dedup_window config)"
    and iso: "iso_parse E (iso_text E expires) = Some expires" "iso_parse E [] = None"
    and version: "th_version config \<noteq> []"
    and new: "eid \<notin> seen"
  shows "\<exists>dec seen'. consume_event E wall clock ev (Some seen) = Inr (dec, seen') \<and>
     decision_event_id dec = eid \<and>
     decision_action dec =
       (if sd_state d = CANDIDATE_INTERNAL then ''HOLD'' else if expires \<le> now then ''REJECT''
        else ''PUBLISH'') \<and>
     seen' = Some (if decision_action dec = ''PUBLISH'' then insert eid seen else seen)"
proof (rule evaluate_signal_Inr [OF eval])
  fix fetched
  assume fetched: "iso_parse E (si_fetched_at signal) = Some fetched"
    and th: "sd_threshold_version d = th_version config"
    and exp: "sd_expires_at d = iso_text E (t + 1000000 *
           (if sd_state d = INVALIDATED then th_invalidation_expiry config else th_dedup_window config))"
  let ?prov = "dict_set ''numeric_fields'' (score_provenance signal d) (sd_provenance d)"
  have f: "si_fetched_at signal \<noteq> []" using fetched iso(2) by auto
  have valid: "valid_event E ev"
    by (rule signal_event_valid [OF build f]) (simp add: th version)
  obtain etype where t: "signal_event_type (sd_state d) = Some etype"
    and b: "build_event_envelope E eid corr created etype (signal_payload signal d) (signal_source signal d) = Inr ev"
    using build by (auto simp: build_signal_event_def split: option.splits)
  have parts: "get_str E ev ''event_id'' = Inr eid" "dict_get ev ''event_type'' = Some (JStr etype)"
    "dict_get ev ''payload'' = Some (JObj (signal_payload signal d))"
    "dict_get ev ''provenance'' = Some (JObj ?prov)"
    using built_parts [OF b] by (simp_all add: signal_source_def)
  have agent: "\<not> names_agent E ?prov"
    by (simp add: names_agent_def score_provenance_def from_agent_def dict_get_or_def str_lower_def
        char_lower_def agent_numeric_sources_def)
  have nonempty: "?prov \<noteq> []" by (cases "sd_provenance d") auto
  have expired: "expired_payload E (signal_payload signal d) now \<longleftrightarrow> expires \<le> now"
    using iso(1) exp expiry by (simp add: expired_payload_def signal_payload_def)
  have forb: "etype \<in> set forbidden_market_publish \<longleftrightarrow> sd_state d = CANDIDATE_INTERNAL"
    and allow: "etype \<in> set allowed_market_publish \<longleftrightarrow> sd_state d \<noteq> CANDIDATE_INTERNAL"
    using t by (cases "sd_state d"; auto simp: forbidden_market_publish_def allowed_market_publish_def)+
  show ?thesis
    using new unfolding consume_valid [OF valid clock parts]
    by (simp add: agent nonempty forb allow expired)
qed

section \<open>Evaluation\<close>

definition sample_signal :: signal_input where
  "sample_signal =
     \<lparr>si_symbol = ''XAUUSD'', si_timeframe = ''M5'', si_setup_id = ''s1'', si_trigger_version = ''v1'',
      si_components = [(''trend'', Fin 50), (''volume'', Fin 40)],
      si_evidence_ids = [''e1'', ''e2'', ''e3''], si_data_quality = ''VALID'', si_headroom = Fin 2,
      si_agreement = 3, si_fetched_at = ''100'', si_invalidation_rule = ''r'',
      si_provenance = [(''origin'', JStr ''mt5'')]\<rparr>"

lemma nat_str_numeral [simp]:
  "nat_str (numeral n) =
     (if (numeral n :: nat) < 10 then [char_of (48 + numeral n :: nat)]
      else nat_str (numeral n div 10) @ [char_of (48 + numeral n mod 10 :: nat)])"
  by (rule nat_str.simps)

lemma sample_evaluated:
  "\<exists>d. evaluate_signal sample_env default_thresholds 200 sample_signal = Inr d \<and> sd_state d = CONFIRMED"
  by (simp add: evaluate_signal_def parse_utc_def sample_signal_def sample_env_def Let_def classify_def
      failed_gates_def default_thresholds_def fle_def)

lemma sample_signal_built:
  assumes "sd_state d = CONFIRMED" and "sd_score d = Fin q" and "sd_provenance d = [(''origin'', JStr ''mt5'')]"
  shows "\<exists>ev. build_signal_event sample_env ''id9'' ''corr'' ''100'' sample_signal d = Inr ev"
proof -
  have "\<exists>h. build_event_envelope sample_env ''id9'' ''corr'' ''100'' ''SUPER_POTENTIAL_CONFIRMED''
      (signal_payload sample_signal d) (signal_source sample_signal d) = Inr (dict_set ''integrity_hash'' (JStr h)
        (envelope_fields ''id9'' ''corr'' ''100'' ''SUPER_POTENTIAL_CONFIRMED''
           (signal_payload sample_signal d) (signal_source sample_signal d)))"
    unfolding build_event_envelope_def
  proof (rule seal_Inr_obj)
    have strs: "\<exists>ys. json_dumps_list sample_env canonical_style (map JStr xs) = Inr ys" for xs
      by (induction xs) auto
    have jl: "\<exists>s. canonical_json sample_env (JList (map JStr xs)) = Inr s" for xs
      using strs [of xs] by (auto simp: canonical_json_def)
    have fl: "\<exists>s. canonical_json sample_env (JFloat (Fin r)) = Inr s" for r
      by (simp add: canonical_json_def)
    show "\<forall>kv \<in> set (envelope_fields ''id9'' ''corr'' ''100'' ''SUPER_POTENTIAL_CONFIRMED''
        (signal_payload sample_signal d) (signal_source sample_signal d)).
        \<exists>s. canonical_json sample_env (snd kv) = Inr s"
      using assms jl fl
      by (auto simp: envelope_fields_def signal_payload_def signal_source_def score_provenance_def
          canonical_obj_ok sample_signal_def)
  qed
  then show ?thesis using assms(1) by (auto simp: build_signal_event_def)
qed

theorem signal_state_spec_witness:
  "\<exists>d. evaluate_signal sample_env default_thresholds 200 sample_signal = Inr d \<and>
     sd_state d = CONFIRMED \<and> sd_failed_gates d = []"
proof -
  obtain d where d: "evaluate_signal sample_env default_thresholds 200 sample_signal = Inr d"
    "sd_state d = CONFIRMED"
    using sample_evaluated by blast
  have "iso_parse sample_env (si_fetched_at sample_signal) = Some 100"
    by (simp add: sample_env_def sample_signal_def)
  from signal_state_spec [OF d(1) this] d show ?thesis by auto
qed

lemma sample_iso: "iso_parse sample_env (iso_text sample_env 3600000200) = Some 3600000200"
  by (simp add: sample_env_def int_str_def)

theorem signal_event_decision_witness:
  "\<exists>d ev dec seen'. evaluate_signal sample_env default_thresholds 200 sample_signal = Inr d \<and>
     build_signal_event sample_env ''id9'' ''corr'' ''100'' sample_signal d = Inr ev \<and>
     consume_event sample_env 300 NoClock ev (Some {}) = Inr (dec, seen') \<and>
     decision_action dec = ''PUBLISH'' \<and> seen' = Some {''id9''}"
proof -
  obtain d where d: "evaluate_signal sample_env default_thresholds 200 sample_signal = Inr d"
    "sd_state d = CONFIRMED"
    using sample_evaluated by blast
  from d(1) have "sd_score d = Fin 90" "sd_provenance d = [(''origin'', JStr ''mt5'')]"
    by (auto simp: evaluate_signal_def parse_utc_def sample_signal_def sample_env_def Let_def)
  with sample_signal_built d(2) obtain ev where
    ev: "build_signal_event sample_env ''id9'' ''corr'' ''100'' sample_signal d = Inr ev" by blast
  have clock: "resolve_now_utc 300 NoClock = Inr 300" by (simp add: resolve_now_utc_def)
  have "\<exists>dec seen'. consume_event sample_env 300 NoClock ev (Some {}) = Inr (dec, seen') \<and>
      decision_event_id dec = ''id9'' \<and>
      decision_action dec = (if sd_state d = CANDIDATE_INTERNAL then ''HOLD''
        else if (3600000200::int) \<le> 300 then ''REJECT'' else ''PUBLISH'') \<and>
      seen' = Some (if decision_action dec = ''PUBLISH'' then insert ''id9'' {} else {})"
    by (rule signal_event_decision [OF d(1) ev clock _ sample_iso])
      (simp_all add: d default_thresholds_def sample_env_def)
  with d ev show ?thesis by auto
qed

end
