(* ===== verification/Telegram.thy ===== *)
theory Telegram
  imports SignalEngine
begin

text \<open>
  \<open>telegram.py\<close>: the formatter and safety gate for market publications with its persistent
  cooldown store, the two bot transports, and the contract between their settings. A formatted
  message is the list of its code points, because the labels are Thai. \<open>TelegramPolicyError\<close>
  is a \<open>RuntimeError\<close>; the HTTP call is an argument of the transports.
\<close>

section \<open>Text\<close>

type_synonym utext = "nat list"

definition text_of :: "string \<Rightarrow> utext" where
  "text_of s = map of_char s"

definition label_status :: utext where
  "label_status =
      [3626, 3606, 3634, 3609, 3632, 58, 32]"

definition label_time :: utext where
  "label_time =
      [3648, 3623, 3621, 3634, 58, 32]"

definition label_direction :: utext where
  "label_direction =
      [3607, 3636, 3624, 3607, 3634, 3591, 58, 32]"

definition label_reasons :: utext where
  "label_reasons =
      [3648, 3627, 3605, 3640, 3612, 3621, 3627, 3621, 3633, 3585, 58, 32]"

definition label_levels :: utext where
  "label_levels =
      [3650, 3595, 3609, 3626, 3635, 3588, 3633, 3597, 58, 32]"

definition label_invalidation :: utext where
  "label_invalidation =
      [3648, 3591, 3639, 3656, 3629, 3609, 3652, 3586, 3618, 3585, 3648, 3621, 3636, 3585, 58, 32]"

definition label_quality :: utext where
  "label_quality =
      [3588, 3640, 3603, 3616, 3634, 3614, 3586, 3657, 3629, 3617, 3641, 3621, 58, 32]"

definition status_confirmed :: utext where
  "status_confirmed =
      [3618, 3639, 3609, 3618, 3633, 3609, 3649, 3621, 3657, 3623]"

definition status_invalidated :: utext where
  "status_invalidated =
      [3606, 3641, 3585, 3618, 3585, 3648, 3621, 3636, 3585]"

definition status_warning :: utext where
  "status_warning =
      [3648, 3605, 3639, 3629, 3609, 3588, 3640, 3603, 3616, 3634, 3614, 3586, 3657, 3629, 3617, 3641,
       3621]"

definition status_incident :: utext where
  "status_incident =
      [3648, 3627, 3605, 3640, 3586, 3633, 3604, 3586, 3657, 3629, 3591]"

definition status_recovered :: utext where
  "status_recovered =
      [3619, 3632, 3610, 3610, 3585, 3621, 3633, 3610, 3617, 3634, 3607, 3635, 3591, 3634, 3609]"

text \<open>\<open>html.escape\<close>\<close>

definition html_escape_char :: "nat \<Rightarrow> utext" where
  "html_escape_char c =
     (if c = 38 then text_of ''&amp;'' else if c = 60 then text_of ''&lt;''
      else if c = 62 then text_of ''&gt;'' else if c = 34 then text_of ''&quot;''
      else if c = 39 then text_of ''&#x27;'' else [c])"

definition html_escape :: "utext \<Rightarrow> utext" where
  "html_escape s = concat (map html_escape_char s)"

fun join_lines :: "utext list \<Rightarrow> utext" where
  "join_lines [] = []"
| "join_lines [x] = x"
| "join_lines (x # y # xs) = x @ [10] @ join_lines (y # xs)"

section \<open>Payloads and requests\<close>

definition allowed_publication_events :: "string list" where
  "allowed_publication_events =
     [''SUPER_POTENTIAL_CONFIRMED'', ''SUPER_POTENTIAL_INVALIDATED'', ''DATA_QUALITY_WARNING'',
      ''SYSTEM_INCIDENT'', ''SYSTEM_RECOVERED'']"

definition forbidden_publication_events :: "string list" where
  "forbidden_publication_events = [''SUPER_POTENTIAL_CANDIDATE_INTERNAL'', ''SYSTEM_HEALTH'']"

definition telegram_limit :: nat where
  "telegram_limit = 4096"

record publication_payload =
  pub_event_type :: string
  pub_severity :: string
  pub_symbol :: string
  pub_timeframe :: string
  pub_status :: string
  pub_headline :: string
  pub_context :: string
  pub_trigger_reasons :: "string list"
  pub_key_levels :: "string list"
  pub_invalidation :: string
  pub_data_quality :: string
  pub_event_time :: string
  pub_evidence_ids :: "string list"
  pub_correlation_id :: string
  pub_dedup_key :: string
  pub_expires_at :: string
  pub_setup_id :: string
  pub_trigger_version :: string
  pub_direction :: string
  pub_provenance :: "event option"

record delivery_request =
  req_text :: utext
  req_parse_mode :: string
  req_reply_to :: "int option"
  req_dedup_key :: string
  req_priority :: string
  req_redaction :: string
  req_target_kind :: string
  req_correlation_id :: string

section \<open>The cooldown store\<close>

text \<open>The file, when there is one: the expiry of each key, in microseconds.\<close>

type_synonym dedup_store = "(string, int) dict option"

definition store_load :: "dedup_store \<Rightarrow> (string, int) dict" where
  "store_load st = (case st of None \<Rightarrow> [] | Some d \<Rightarrow> d)"

text \<open>\<open>now or time.time()\<close>: a zero is taken for a missing clock.\<close>

definition now_or :: "int option \<Rightarrow> int \<Rightarrow> int" where
  "now_or now wall = (case now of None \<Rightarrow> wall | Some t \<Rightarrow> if t = 0 then wall else t)"

definition store_seen :: "dedup_store \<Rightarrow> string \<Rightarrow> int option \<Rightarrow> int \<Rightarrow> bool" where
  "store_seen st key now wall =
     (case dict_get (store_load st) key of None \<Rightarrow> False | Some expiry \<Rightarrow> now_or now wall < expiry)"

definition store_mark :: "dedup_store \<Rightarrow> string \<Rightarrow> int \<Rightarrow> int option \<Rightarrow> int \<Rightarrow> dedup_store" where
  "store_mark st key ttl_seconds now wall =
     Some (sort_key fst (dict_set key (now_or now wall + 1000000 * ttl_seconds) (store_load st)))"

section \<open>The publisher\<close>

definition market_dedup_key :: "string \<Rightarrow> string \<Rightarrow> string \<Rightarrow> string \<Rightarrow> string \<Rightarrow> string" where
  "market_dedup_key etype symbol timeframe setup trigger =
     etype @ '':'' @ symbol @ '':'' @ timeframe @ '':'' @ setup @ '':'' @ trigger"

definition validate_payload ::
  "py_env \<Rightarrow> int option \<Rightarrow> int \<Rightarrow> publication_payload \<Rightarrow> py_exn + unit" where
  "validate_payload E now_utc wall p =
     (if pub_event_type p \<in> set forbidden_publication_events
      then Inl (RuntimeError (''event type '' @ pub_event_type p @ '' must not be published''))
      else if pub_event_type p \<notin> set allowed_publication_events
      then Inl (RuntimeError (''unsupported publication event type '' @ pub_event_type p))
      else bind_res (parse_utc E (pub_expires_at p)) (\<lambda>expires.
        if expires \<le> (case now_utc of Some t \<Rightarrow> t | None \<Rightarrow> wall)
        then Inl (RuntimeError ''expired publication payload rejected'')
        else if pub_evidence_ids p = []
        then Inl (RuntimeError ''publication requires evidence_ids'')
        else if (case pub_provenance p of None \<Rightarrow> True | Some d \<Rightarrow> d = [])
        then Inl (RuntimeError ''publication requires provenance'')
        else if pub_dedup_key p \<noteq>
            market_dedup_key (pub_event_type p) (pub_symbol p) (pub_timeframe p) (pub_setup_id p)
              (pub_trigger_version p)
        then Inl (RuntimeError ''dedup_key does not match market publication contract'')
        else Inr ()))"

definition publication_priority :: "publication_payload \<Rightarrow> string" where
  "publication_priority p =
     (if str_upper (pub_severity p) \<in> {''CRITICAL'', ''HIGH''} then ''HIGH''
      else if pub_event_type p \<in> {''SUPER_POTENTIAL_CONFIRMED'', ''SUPER_POTENTIAL_INVALIDATED''}
      then ''NORMAL'' else ''LOW'')"

definition status_text :: "string \<Rightarrow> utext" where
  "status_text s =
     (if s = ''CONFIRMED'' then status_confirmed else if s = ''INVALIDATED'' then status_invalidated
      else if s = ''WARNING'' then status_warning else if s = ''INCIDENT'' then status_incident
      else if s = ''RECOVERED'' then status_recovered else text_of s)"

definition market_message :: "publication_payload \<Rightarrow> utext" where
  "market_message p =
     join_lines
       [text_of ''XAUUSD | '' @ html_escape (text_of (pub_headline p)),
        label_status @ html_escape (status_text (pub_status p)),
        label_time @ html_escape (text_of (pub_event_time p)),
        text_of ''TF: '' @ html_escape (text_of (pub_timeframe p)),
        label_direction @ html_escape (text_of (pub_direction p)),
        label_reasons @ html_escape (text_of (str_join ''; '' (pub_trigger_reasons p))),
        label_levels @ html_escape (text_of (str_join ''; '' (pub_key_levels p))),
        label_invalidation @ html_escape (text_of (pub_invalidation p)),
        label_quality @ html_escape (text_of (pub_data_quality p)),
        text_of ''ID: '' @ html_escape (text_of (take 12 (pub_correlation_id p)))]"

text \<open>The clock is read for the expiry, for the look-up and for the mark.\<close>

definition format_market ::
  "py_env \<Rightarrow> int \<Rightarrow> int option \<Rightarrow> int \<Rightarrow> int \<Rightarrow> int \<Rightarrow> publication_payload \<Rightarrow> dedup_store \<Rightarrow>
   py_exn + (delivery_request \<times> dedup_store)" where
  "format_market E cooldown now_utc wall0 wall1 wall2 p st =
     bind_res (validate_payload E now_utc wall0 p) (\<lambda>_.
       if store_seen st (pub_dedup_key p) None wall1
       then Inl (RuntimeError ''duplicate market publication rejected'')
       else let message = market_message p in
         if telegram_limit < length message
         then Inl (RuntimeError ''formatted message exceeds Telegram limit'')
         else Inr (\<lparr>req_text = message, req_parse_mode = ''HTML'', req_reply_to = None,
                    req_dedup_key = pub_dedup_key p, req_priority = publication_priority p,
                    req_redaction = ''REDACTED'', req_target_kind = ''market'',
                    req_correlation_id = pub_correlation_id p\<rparr>,
                   store_mark st (pub_dedup_key p) cooldown None wall2))"

section \<open>Numbers in updates\<close>

text \<open>\<open>int(s)\<close> on text: blanks around, a sign, digits with single underscores between them.\<close>

definition is_digit :: "char \<Rightarrow> bool" where
  "is_digit c = (48 \<le> (of_char c :: nat) \<and> (of_char c :: nat) \<le> 57)"

fun digits_value :: "int \<Rightarrow> string \<Rightarrow> int option" where
  "digits_value n [] = None"
| "digits_value n [c] = (if is_digit c then Some (10 * n + (int (of_char c) - 48)) else None)"
| "digits_value n (c # d # cs) =
     (if is_digit c
      then let m = 10 * n + (int (of_char c) - 48)
           in if d = CHR ''_'' then digits_value m cs else digits_value m (d # cs)
      else None)"

definition parse_int :: "string \<Rightarrow> int option" where
  "parse_int s =
     (case str_strip s of
        [] \<Rightarrow> None
      | c # cs \<Rightarrow>
          if c = CHR ''-'' then map_option uminus (digits_value 0 cs)
          else if c = CHR ''+'' then digits_value 0 cs
          else digits_value 0 (c # cs))"

definition trunc :: "rat \<Rightarrow> int" where
  "trunc q = (if 0 \<le> q then \<lfloor>q\<rfloor> else \<lceil>q\<rceil>)"

fun py_int :: "json \<Rightarrow> py_exn + int" where
  "py_int (JInt i) = Inr i"
| "py_int (JBool b) = Inr (if b then 1 else 0)"
| "py_int (JFloat (Fin q)) = Inr (trunc q)"
| "py_int (JFloat NegZero) = Inr 0"
| "py_int (JFloat NaN) = Inl (ValueError ''cannot convert float NaN to integer'')"
| "py_int (JFloat _) = Inl (OtherError ''OverflowError'')"
| "py_int (JStr s) = (case parse_int s of Some i \<Rightarrow> Inr i | None \<Rightarrow> Inl (ValueError ''invalid literal for int()''))"
| "py_int _ = Inl TypeError"

section \<open>Transports\<close>

record operator_transport =
  op_token :: string
  op_owner :: string
  op_chats :: "string list"

record inbound_message =
  in_update_id :: int
  in_user_id :: string
  in_chat_id :: string
  in_message_id :: int
  in_text :: string
  in_correlation_id :: string

record operator_reply =
  reply_chat_id :: string
  reply_to_message_id :: int
  reply_text :: string
  reply_correlation_id :: string

definition new_operator :: "string \<Rightarrow> string \<Rightarrow> string list \<Rightarrow> py_exn + operator_transport" where
  "new_operator token owner chats =
     (if token = [] then Inl (RuntimeError ''operator bot token is required'')
      else if owner = [] \<or> chats = []
      then Inl (RuntimeError ''operator owner and allowed chats are required'')
      else Inr \<lparr>op_token = token, op_owner = owner, op_chats = chats\<rparr>)"

definition operator_receive ::
  "py_env \<Rightarrow> operator_transport \<Rightarrow> event \<Rightarrow> py_exn + inbound_message" where
  "operator_receive E op update =
     (case dict_get update ''message'' of
        Some (JObj message) \<Rightarrow>
          (case (dict_get message ''from'', dict_get message ''chat'') of
             (Some (JObj sender), Some (JObj chat)) \<Rightarrow>
               (let user_id = py_str E (dict_get_or sender ''id'' (JStr []));
                    chat_id = py_str E (dict_get_or chat ''id'' (JStr []))
                in if user_id \<noteq> op_owner op \<or> chat_id \<notin> set (op_chats op)
                   then Inl (RuntimeError ''unauthorized operator Telegram update'')
                   else bind_res (py_int (dict_get_or message ''message_id'' (JInt 0))) (\<lambda>mid.
                     bind_res (py_int (dict_get_or update ''update_id'' (JInt 0))) (\<lambda>uid.
                       Inr \<lparr>in_update_id = uid, in_user_id = user_id, in_chat_id = chat_id,
                            in_message_id = mid,
                            in_text = py_str E (dict_get_or message ''text'' (JStr [])),
                            in_correlation_id =
                              take 24 (sha256_hex E (chat_id @ '':'' @ int_str mid))\<rparr>)))
           | _ \<Rightarrow> Inl (RuntimeError ''operator update missing sender/chat''))
      | _ \<Rightarrow> Inl (RuntimeError ''operator update has no message''))"

text \<open>The call with the members of its form, each as \<open>urlencode\<close> prints it.\<close>

type_synonym http_post = "string \<Rightarrow> (string \<times> utext) list \<Rightarrow> py_exn + event"

definition operator_reply_send ::
  "http_post \<Rightarrow> operator_transport \<Rightarrow> operator_reply \<Rightarrow> py_exn + event" where
  "operator_reply_send post op r =
     (if reply_chat_id r \<notin> set (op_chats op)
      then Inl (RuntimeError ''operator reply target is not trusted inbound chat'')
      else post (op_token op)
        [(''chat_id'', text_of (reply_chat_id r)), (''text'', text_of (reply_text r)),
         (''reply_to_message_id'', text_of (int_str (reply_to_message_id r)))])"

definition operator_send_alert :: "delivery_request \<Rightarrow> py_exn + event" where
  "operator_send_alert _ = Inl (RuntimeError ''operator bot cannot send proactive market alerts'')"

record market_transport =
  mk_token :: string
  mk_chat :: string
  mk_thread :: string

definition new_market :: "string \<Rightarrow> string \<Rightarrow> string \<Rightarrow> py_exn + market_transport" where
  "new_market token chat thread =
     (if token = [] \<or> chat = [] then Inl (RuntimeError ''market bot token and target chat are required'')
      else Inr \<lparr>mk_token = token, mk_chat = chat, mk_thread = thread\<rparr>)"

definition market_send_alert ::
  "http_post \<Rightarrow> market_transport \<Rightarrow> delivery_request \<Rightarrow> py_exn + event" where
  "market_send_alert post mk r =
     (if req_target_kind r \<noteq> ''market''
      then Inl (RuntimeError ''market transport accepts only market delivery requests'')
      else post (mk_token mk)
        ([(''chat_id'', text_of (mk_chat mk)), (''text'', req_text r),
          (''parse_mode'', text_of (req_parse_mode r)),
          (''disable_web_page_preview'', text_of ''True'')] @
         (if mk_thread mk \<noteq> [] then [(''message_thread_id'', text_of (mk_thread mk))] else [])))"

definition market_receive :: "event \<Rightarrow> py_exn + unit" where
  "market_receive _ = Inl (RuntimeError ''market bot inbound is disabled'')"

definition market_reply :: "operator_reply \<Rightarrow> py_exn + unit" where
  "market_reply _ = Inl (RuntimeError ''market bot cannot answer operator messages'')"

section \<open>The contract between the two bots\<close>

definition flag :: "(string, string) dict \<Rightarrow> string \<Rightarrow> bool" where
  "flag values name = (str_lower (dict_get_or values name ''false'') = ''true'')"

definition missing_names :: "(string, string) dict \<Rightarrow> string list \<Rightarrow> string \<Rightarrow> string list" where
  "missing_names values names suffix_text =
     map (\<lambda>n. n @ suffix_text) (filter (\<lambda>n. dict_get_or values n [] = []) names)"

definition validate_dual_bot_contract :: "(string, string) dict \<Rightarrow> string list" where
  "validate_dual_bot_contract values =
     (let operator_enabled = flag values ''OPENCLAW_TELEGRAM_OPERATOR_ENABLED'';
          market_enabled = flag values ''OPENCLAW_TELEGRAM_MARKET_ENABLED'';
          operator_token = dict_get_or values ''OPENCLAW_TELEGRAM_OPERATOR_BOT_TOKEN'' [];
          market_token = dict_get_or values ''OPENCLAW_TELEGRAM_MARKET_BOT_TOKEN'' []
      in (if operator_enabled
          then missing_names values
            [''OPENCLAW_TELEGRAM_OPERATOR_BOT_TOKEN'', ''OPENCLAW_TELEGRAM_OPERATOR_OWNER_USER_ID'',
             ''OPENCLAW_TELEGRAM_OPERATOR_ALLOWED_CHAT_IDS'']
            '': required when operator bot is enabled''
          else []) @
         (if market_enabled
          then missing_names values
            [''OPENCLAW_TELEGRAM_MARKET_BOT_TOKEN'', ''OPENCLAW_TELEGRAM_MARKET_TARGET_CHAT_ID'']
            '': required when market bot is enabled''
          else []) @
         (if operator_token \<noteq> [] \<and> market_token \<noteq> [] \<and> operator_token = market_token
          then [''OPENCLAW_TELEGRAM_BOT_TOKENS: operator and market tokens must be distinct'']
          else []) @
         (if flag values ''OPENCLAW_TELEGRAM_MARKET_INBOUND_ENABLED'' \<and> market_enabled
          then [''OPENCLAW_TELEGRAM_MARKET_INBOUND_ENABLED: market inbound must stay disabled'']
          else []) @
         (if dict_get_or values ''OPENCLAW_TELEGRAM_OPERATOR_MODE'' ''polling'' = ''polling'' \<and>
             flag values ''OPENCLAW_TELEGRAM_OPERATOR_WEBHOOK_ENABLED''
          then [''OPENCLAW_TELEGRAM_OPERATOR_MODE: polling and webhook cannot both be enabled'']
          else []))"

section \<open>A run of the publisher\<close>

text \<open>
  The calls in order on one store, each with its clock readings; the result is the list of the
  accepted ones: when the key was looked up, when it was marked, and the key.
\<close>

fun publish_all ::
  "py_env \<Rightarrow> int \<Rightarrow> (int option \<times> int \<times> int \<times> int \<times> publication_payload) list \<Rightarrow> dedup_store \<Rightarrow>
   (int \<times> int \<times> string) list" where
  "publish_all E cooldown [] st = []"
| "publish_all E cooldown ((now, w0, w1, w2, p) # calls) st =
     (case format_market E cooldown now w0 w1 w2 p st of
        Inl e \<Rightarrow> publish_all E cooldown calls st
      | Inr (r, st') \<Rightarrow> (w1, w2, pub_dedup_key p) # publish_all E cooldown calls st')"

section \<open>Lemmas\<close>

definition store_ok :: "dedup_store \<Rightarrow> bool" where
  "store_ok st = distinct (dict_keys (store_load st))"

lemma distinct_sort_keys: "distinct (map fst d) \<Longrightarrow> distinct (map fst (sort_key fst d))"
  by (simp add: distinct_map)

lemma store_mark_ok: "store_ok st \<Longrightarrow> store_ok (store_mark st key ttl now wall)"
  by (simp add: store_ok_def store_mark_def store_load_def distinct_sort_keys distinct_dict_set)

lemma store_mark_get:
  assumes "store_ok st"
  shows "dict_get (store_load (store_mark st key ttl None wall)) k =
     (if k = key then Some (wall + 1000000 * ttl) else dict_get (store_load st) k)"
proof -
  have "distinct (dict_keys (dict_set key (wall + 1000000 * ttl) (store_load st)))"
    using assms by (simp add: store_ok_def distinct_dict_set)
  then show ?thesis
    by (simp add: store_mark_def store_load_def now_or_def map_of_sort_key)
qed

lemma format_market_Inr:
  assumes "format_market E cooldown now w0 w1 w2 p st = Inr (r, st')"
  shows "validate_payload E now w0 p = Inr () \<and>
     \<not> store_seen st (pub_dedup_key p) None w1 \<and>
     length (req_text r) \<le> telegram_limit \<and> req_target_kind r = ''market'' \<and>
     st' = store_mark st (pub_dedup_key p) cooldown None w2"
  using assms by (auto simp: format_market_def bind_res_Inr Let_def split: if_splits)

lemma publish_spaced:
  assumes "store_ok st"
  shows "(\<forall>x xs. filter (\<lambda>(w1, w2, k). k = key) (publish_all E cooldown calls st) = x # xs \<longrightarrow>
            (\<forall>e. dict_get (store_load st) key = Some e \<longrightarrow> e \<le> fst x)) \<and>
     (\<forall>(a, b) \<in> set (adjacent (filter (\<lambda>(w1, w2, k). k = key) (publish_all E cooldown calls st))).
        fst (snd a) + 1000000 * cooldown \<le> fst b)"
  using assms
proof (induction calls arbitrary: st)
  case Nil
  show ?case by simp
next
  case (Cons call calls)
  obtain now w0 w1 w2 p where call: "call = (now, w0, w1, w2, p)" by (cases call)
  show ?case
  proof (cases "format_market E cooldown now w0 w1 w2 p st")
    case (Inl e)
    then show ?thesis using Cons by (simp add: call)
  next
    case (Inr res)
    obtain r st' where res: "format_market E cooldown now w0 w1 w2 p st = Inr (r, st')"
      using Inr by (cases res) simp
    note f = format_market_Inr [OF res]
    have ok: "store_ok st'" using f Cons.prems by (simp add: store_mark_ok)
    note IH = Cons.IH [OF ok]
    show ?thesis
    proof (cases "pub_dedup_key p = key")
      case False
      then have "dict_get (store_load st') key = dict_get (store_load st) key"
        using f Cons.prems by (simp add: store_mark_get)
      with IH False show ?thesis by (simp add: call res)
    next
      case True
      have first: "e \<le> w1" if "dict_get (store_load st) key = Some e" for e
        using f that True by (simp add: store_seen_def now_or_def)
      have mark: "dict_get (store_load st') key = Some (w2 + 1000000 * cooldown)"
        using f Cons.prems True by (simp add: store_mark_get)
      let ?rest = "filter (\<lambda>(w1, w2, k). k = key) (publish_all E cooldown calls st')"
      show ?thesis
      proof (cases ?rest)
        case Nil
        then show ?thesis using first True by (simp add: call res)
      next
        case (Cons y ys)
        with IH mark first True show ?thesis by (auto simp: call res)
      qed
    qed
  qed
qed

section \<open>Properties\<close>

text \<open>
  C30: Alerts do not repeat: however the publisher is called, two successive accepted publications
  with the same key are at least the cooldown apart, from the mark of the first to the look-up
  of the second.
\<close>

theorem market_alerts_spaced:
  "\<forall>(a, b) \<in> set (adjacent (filter (\<lambda>(w1, w2, k). k = key) (publish_all E cooldown calls None))).
     fst (snd a) + 1000000 * cooldown \<le> fst b"
  using publish_spaced [of None key E cooldown calls] by (simp add: store_ok_def store_load_def)

text \<open>
  A signal that the engine confirms or invalidates passes the publication contract until it
  expires: with the event type of its state, its own key, expiry, evidence and provenance, the
  payload is validated without a raise (the key the engine computes is the one the publisher
  expects), provided at least one piece of evidence is required of a signal.
\<close>

theorem signal_publishable:
  assumes eval: "evaluate_signal E config t signal = Inr d"
    and st: "signal_event_type (sd_state d) = Some etype" "sd_state d \<noteq> CANDIDATE_INTERNAL"
    and min: "0 < th_min_evidence config"
    and iso: "iso_parse E (sd_expires_at d) = Some expires" and now: "now < expires"
    and p: "pub_event_type p = etype" "pub_symbol p = si_symbol signal"
      "pub_timeframe p = si_timeframe signal" "pub_setup_id p = si_setup_id signal"
      "pub_trigger_version p = si_trigger_version signal" "pub_dedup_key p = sd_dedup_key d"
      "pub_expires_at p = sd_expires_at d" "pub_evidence_ids p = si_evidence_ids signal"
      "pub_provenance p = Some (si_provenance signal)"
  shows "validate_payload E (Some now) wall p = Inr ()"
proof (rule evaluate_signal_Inr [OF eval])
  fix fetched
  assume cl: "sd_state d = classify config (failed_gates config t fetched signal) (sd_score d)"
    and key: "sd_dedup_key d = signal_dedup_key (sd_state d) signal"
  have "failed_gates config t fetched signal = []"
    using cl st(1) by (cases "failed_gates config t fetched signal") (auto simp: classify_def)
  then have "si_evidence_ids signal \<noteq> []" "si_provenance signal \<noteq> []"
    using min by (auto simp: failed_gates_def split: if_splits)
  moreover have "sd_dedup_key d = market_dedup_key etype (si_symbol signal) (si_timeframe signal)
      (si_setup_id signal) (si_trigger_version signal)"
    using key st(1) by (cases "sd_state d") (auto simp: signal_dedup_key_def market_dedup_key_def)
  moreover have "etype \<in> set allowed_publication_events" "etype \<notin> set forbidden_publication_events"
    using st by (cases "sd_state d";
        auto simp: allowed_publication_events_def forbidden_publication_events_def)+
  ultimately show ?thesis
    using iso now by (simp add: validate_payload_def p parse_utc_def)
qed

text \<open>
  The operator bot answers only its owner in the allowed chats: an update is accepted only
  when its sender is the owner and its chat is allowed, a reply to an accepted message is
  handed to the HTTP call, and a reply to any other chat raises without a call.
\<close>

theorem operator_authorised:
  assumes "operator_receive E op update = Inr m"
  shows "in_user_id m = op_owner op \<and> in_chat_id m \<in> set (op_chats op) \<and>
     (\<forall>r. reply_chat_id r = in_chat_id m \<longrightarrow>
        operator_reply_send post op r = post (op_token op)
          [(''chat_id'', text_of (in_chat_id m)), (''text'', text_of (reply_text r)),
           (''reply_to_message_id'', text_of (int_str (reply_to_message_id r)))]) \<and>
     (\<forall>r. reply_chat_id r \<notin> set (op_chats op) \<longrightarrow>
        (\<exists>why. operator_reply_send post op r = Inl (RuntimeError why)))"
  using assms
  by (auto simp: operator_receive_def operator_reply_send_def Let_def bind_res_Inr
      split: option.splits json.splits if_splits)

section \<open>Evaluation\<close>

definition sample_publication :: publication_payload where
  "sample_publication =
     \<lparr>pub_event_type = ''SYSTEM_INCIDENT'', pub_severity = ''high'', pub_symbol = ''X'',
      pub_timeframe = ''M5'', pub_status = ''INCIDENT'', pub_headline = ''h'', pub_context = ''c'',
      pub_trigger_reasons = [], pub_key_levels = [], pub_invalidation = ''i'',
      pub_data_quality = ''VALID'', pub_event_time = ''1'', pub_evidence_ids = [''e''],
      pub_correlation_id = ''c1'', pub_dedup_key = ''SYSTEM_INCIDENT:X:M5:s:v'',
      pub_expires_at = ''900'', pub_setup_id = ''s'', pub_trigger_version = ''v'',
      pub_direction = ''WATCH'', pub_provenance = Some [(''o'', JNull)]\<rparr>"

lemma sample_publication_valid: "validate_payload sample_env (Some 5) w sample_publication = Inr ()"
  by (simp add: validate_payload_def sample_publication_def forbidden_publication_events_def
      allowed_publication_events_def parse_utc_def sample_env_def market_dedup_key_def)

lemma sample_message_short: "length (market_message sample_publication) \<le> telegram_limit"
  by (simp add: market_message_def sample_publication_def html_escape_def html_escape_char_def
      text_of_def status_text_def label_status_def label_time_def label_direction_def label_reasons_def
      label_levels_def label_invalidation_def label_quality_def status_incident_def telegram_limit_def)

lemma sample_priority: "publication_priority sample_publication = ''HIGH''"
  by code_simp

lemma sample_publication_sent:
  "format_market sample_env cooldown (Some 5) w0 w1 w2 sample_publication st =
     (if store_seen st ''SYSTEM_INCIDENT:X:M5:s:v'' None w1
      then Inl (RuntimeError ''duplicate market publication rejected'')
      else Inr (\<lparr>req_text = market_message sample_publication, req_parse_mode = ''HTML'',
             req_reply_to = None, req_dedup_key = ''SYSTEM_INCIDENT:X:M5:s:v'', req_priority = ''HIGH'',
             req_redaction = ''REDACTED'', req_target_kind = ''market'', req_correlation_id = ''c1''\<rparr>,
           store_mark st ''SYSTEM_INCIDENT:X:M5:s:v'' cooldown None w2))"
  using sample_message_short
  by (simp add: format_market_def sample_publication_valid sample_priority)
    (simp add: sample_publication_def)

lemma sample_run:
  "publish_all sample_env 3 [(Some 5, 1, 10, 11, sample_publication), (Some 5, 1, 12, 13, sample_publication),
     (Some 5, 1, 3000020, 3000021, sample_publication)] None =
   [(10, 11, ''SYSTEM_INCIDENT:X:M5:s:v''), (3000020, 3000021, ''SYSTEM_INCIDENT:X:M5:s:v'')]"
  by (simp add: sample_publication_sent store_seen_def store_load_def store_mark_def now_or_def)
    (simp add: sample_publication_def)

theorem market_alerts_spaced_witness:
  "\<exists>a b. publish_all sample_env 3 [(Some 5, 1, 10, 11, sample_publication),
       (Some 5, 1, 12, 13, sample_publication), (Some 5, 1, 3000020, 3000021, sample_publication)] None = [a, b] \<and>
     fst (snd a) + 1000000 * 3 \<le> fst b"
  using market_alerts_spaced [of "''SYSTEM_INCIDENT:X:M5:s:v''" sample_env 3
      "[(Some 5, 1, 10, 11, sample_publication), (Some 5, 1, 12, 13, sample_publication),
        (Some 5, 1, 3000020, 3000021, sample_publication)]"]
  unfolding sample_run by simp

definition sample_signal_publication :: publication_payload where
  "sample_signal_publication =
     sample_publication\<lparr>pub_event_type := ''SUPER_POTENTIAL_CONFIRMED'', pub_symbol := ''XAUUSD'',
       pub_timeframe := ''M5'', pub_setup_id := ''s1'', pub_trigger_version := ''v1'',
       pub_dedup_key := ''SUPER_POTENTIAL_CONFIRMED:XAUUSD:M5:s1:v1'',
       pub_expires_at := int_str 3600000200, pub_evidence_ids := [''e1'', ''e2'', ''e3''],
       pub_provenance := Some [(''origin'', JStr ''mt5'')]\<rparr>"

theorem signal_publishable_witness:
  "validate_payload sample_env (Some 300) 0 sample_signal_publication = Inr ()"
proof -
  obtain d where d: "evaluate_signal sample_env default_thresholds 200 sample_signal = Inr d"
    "sd_state d = CONFIRMED"
    using sample_evaluated by blast
  have f: "sd_dedup_key d = ''SUPER_POTENTIAL_CONFIRMED:XAUUSD:M5:s1:v1''"
    "sd_expires_at d = int_str 3600000200"
    using d by (auto simp: evaluate_signal_def parse_utc_def sample_signal_def sample_env_def Let_def
        signal_dedup_key_def default_thresholds_def)
  have iso: "iso_parse sample_env (sd_expires_at d) = Some 3600000200"
    using sample_iso unfolding f by (simp add: sample_env_def)
  show ?thesis
    by (rule signal_publishable [OF d(1) _ _ _ iso])
      (simp_all add: d f sample_signal_publication_def sample_signal_def default_thresholds_def)
qed

definition sample_operator :: operator_transport where
  "sample_operator = \<lparr>op_token = ''t'', op_owner = ''7'', op_chats = [''9'']\<rparr>"

definition sample_update :: event where
  "sample_update = [(''update_id'', JInt 1), (''message'', JObj
     [(''from'', JObj [(''id'', JInt 7)]), (''chat'', JObj [(''id'', JInt 9)]),
      (''message_id'', JStr '' 4 ''), (''text'', JStr ''hi'')])]"

lemma sample_received:
  "operator_receive sample_env sample_operator sample_update =
     Inr \<lparr>in_update_id = 1, in_user_id = ''7'', in_chat_id = ''9'', in_message_id = 4, in_text = ''hi'',
          in_correlation_id = ''3''\<rparr>"
  by code_simp

theorem operator_authorised_witness:
  "\<exists>m. operator_receive sample_env sample_operator sample_update = Inr m \<and> in_message_id m = 4 \<and>
     in_chat_id m = ''9'' \<and>
     (\<exists>why. operator_reply_send (\<lambda>t fields. Inr []) sample_operator
        \<lparr>reply_chat_id = ''8'', reply_to_message_id = 4, reply_text = ''x'', reply_correlation_id = ''c''\<rparr> =
        Inl (RuntimeError why))"
proof -
  obtain m where m: "operator_receive sample_env sample_operator sample_update = Inr m"
    "in_message_id m = 4" "in_chat_id m = ''9''"
    using sample_received by fastforce
  have "''8'' \<notin> set (op_chats sample_operator)" by (simp add: sample_operator_def)
  with operator_authorised [OF m(1), of "\<lambda>t fields. Inr []"] m show ?thesis by fastforce
qed

end
