(* ===== verification/HashChain.thy ===== *)
theory HashChain
  imports Json
begin

text \<open>
  Newline-delimited JSON logs whose records carry the hash of the record before, as the
  evidence archive and the outcome ledger of \<open>persistence/__init__.py\<close> keep them: the lines of
  such a file, and the interface that the readers of those files satisfy.
\<close>

section \<open>Files\<close>

text \<open>A line is blank, not JSON, or the text of a value, held as what \<open>json.loads\<close> makes of it.\<close>

datatype log_line = Blank | Garbage | Line json

type_synonym log_file = "log_line list option"

definition file_lines :: "log_file \<Rightarrow> log_line list" where
  "file_lines f = (case f of None \<Rightarrow> [] | Some ls \<Rightarrow> ls)"

text \<open>\<open>existing + line + newline\<close>: the value read back has its keys sorted.\<close>

definition append_line :: "json \<Rightarrow> log_file \<Rightarrow> log_file" where
  "append_line v f = Some (file_lines f @ [Line (json_norm v)])"

lemma file_lines_append [simp]: "file_lines (append_line v f) = file_lines f @ [Line (json_norm v)]"
  by (simp add: append_line_def file_lines_def)

text \<open>\<open>payload[k]\<close> on a value that may not be an object.\<close>

definition json_item :: "json \<Rightarrow> string \<Rightarrow> py_exn + json" where
  "json_item v k =
     (case v of
        JObj d \<Rightarrow> (case dict_get d k of None \<Rightarrow> Inl (KeyError k) | Some w \<Rightarrow> Inr w)
      | _ \<Rightarrow> Inl TypeError)"

lemma json_item_Inr: "json_item v k = Inr w \<longleftrightarrow> (\<exists>d. v = JObj d \<and> dict_get d k = Some w)"
  by (auto simp: json_item_def split: json.splits option.splits)

section \<open>The interface of a reader\<close>

text \<open>
  What the reader of a log promises: blank lines are skipped, a line that is no record stops it,
  and a record is accepted when it names the hash of the one before and carries the digest of
  its own content. What a verified file looks like, and what an append keeps, follows for every
  such reader; so does what the chain does not protect.
\<close>

locale hash_chain =
  fixes scan :: "string \<Rightarrow> log_line list \<Rightarrow> 'e + 'r list"
    and entry :: "json \<Rightarrow> 'e + 'r"
    and prev :: "'r \<Rightarrow> string"
    and hash :: "'r \<Rightarrow> string"
    and digest :: "'r \<Rightarrow> 'e + string"
  assumes scan_Nil: "scan p [] = Inr []"
    and scan_Blank: "scan p (Blank # ls) = scan p ls"
    and scan_Garbage: "scan p (Garbage # ls) \<noteq> Inr rs"
    and scan_Line: "scan p (Line v # ls) = Inr rs \<longleftrightarrow>
      (\<exists>r rs'. entry v = Inr r \<and> prev r = p \<and> digest r = Inr (hash r) \<and>
         scan (hash r) ls = Inr rs' \<and> rs = r # rs')"
begin

text \<open>The hash that the next record has to name.\<close>

definition head :: "string \<Rightarrow> 'r list \<Rightarrow> string" where
  "head p rs = (if rs = [] then p else hash (last rs))"

lemma head_Cons [simp]: "head p (r # rs) = head (hash r) rs"
  by (simp add: head_def)

lemma head_Nil [simp]: "head p [] = p"
  by (simp add: head_def)

lemma scan_append:
  "scan p (ls @ ms) = Inr rs \<longleftrightarrow>
     (\<exists>rs1 rs2. scan p ls = Inr rs1 \<and> scan (head p rs1) ms = Inr rs2 \<and> rs = rs1 @ rs2)"
proof (induction ls arbitrary: p rs)
  case Nil
  show ?case by (auto simp: scan_Nil)
next
  case (Cons l ls)
  show ?case
  proof (cases l)
    case Blank
    then show ?thesis by (simp add: scan_Blank Cons.IH)
  next
    case Garbage
    then show ?thesis by (simp add: scan_Garbage)
  next
    case (Line v)
    then show ?thesis by (auto simp: scan_Line Cons.IH)
  qed
qed

text \<open>Appending a record that names the head keeps the file verified.\<close>

lemma scan_snoc:
  assumes "scan p ls = Inr rs" and "entry v = Inr r" and "prev r = head p rs"
    and "digest r = Inr (hash r)"
  shows "scan p (ls @ [Line v]) = Inr (rs @ [r])"
  using assms by (auto simp: scan_append scan_Line scan_Nil)

text \<open>In a verified file each record names the one before, and carries the digest of its content.\<close>

lemma scan_linked:
  "scan p ls = Inr rs \<Longrightarrow> map prev rs = butlast (p # map hash rs)"
proof (induction ls arbitrary: p rs)
  case Nil
  then show ?case by (simp add: scan_Nil)
next
  case (Cons l ls)
  then show ?case
    by (cases l) (auto simp: scan_Blank scan_Garbage scan_Line)
qed

lemma scan_digests:
  "scan p ls = Inr rs \<Longrightarrow> r \<in> set rs \<Longrightarrow> digest r = Inr (hash r)"
proof (induction ls arbitrary: p rs)
  case Nil
  then show ?case by (simp add: scan_Nil)
next
  case (Cons l ls)
  then show ?case
    by (cases l) (auto simp: scan_Blank scan_Garbage scan_Line)
qed

text \<open>A line whose record has not the digest of its content is found, wherever it is.\<close>

lemma scan_detects:
  assumes "entry v = Inr r" and "digest r \<noteq> Inr (hash r)"
  shows "scan p (ls @ Line v # ms) \<noteq> Inr rs"
  using assms by (auto simp: scan_append scan_Line)

text \<open>
  What is not found: the digest leaves out the hash that a record names, so when one record is
  replaced by another with a digest of its own, it is enough to rewrite that name in the next.
\<close>

lemma scan_forged:
  assumes "scan p (ls @ Line v # Line w # ms) = Inr rs"
    and "entry v = Inr r" "entry w = Inr s"
    and "entry v' = Inr r'" "prev r' = prev r" "digest r' = Inr (hash r')"
    and "entry w' = Inr s'" "prev s' = hash r'" "hash s' = hash s" "digest s' = digest s"
  shows "\<exists>rs1 rs2. rs = rs1 @ r # s # rs2 \<and>
     scan p (ls @ Line v' # Line w' # ms) = Inr (rs1 @ r' # s' # rs2)"
proof -
  obtain rs1 rs2 where "scan p ls = Inr rs1" "prev r = head p rs1" "prev s = hash r"
    "digest s = Inr (hash s)" "scan (hash s) ms = Inr rs2" "rs = rs1 @ r # s # rs2"
    using assms(1-3) by (auto simp: scan_append scan_Line)
  with assms show ?thesis by (auto simp: scan_append scan_Line)
qed

end

end
