(* ===== verification/Archive.thy ===== *)
theory Archive
  imports HashChain Events
begin

text \<open>
  \<open>persistence/__init__.py\<close>: the evidence archive and the outcome ledger, two hash-chained logs,
  with the per-agent memory log. The state of each is its files; clock readings are arguments.
  An operation returns its result or exception together with the files it leaves.
\<close>

section \<open>The evidence archive\<close>

record archive_record =
  ar_id :: string
  ar_created :: string
  ar_event :: json
  ar_hash :: string
  ar_prev :: string

record archive =
  ar_dir :: string
  ar_file :: log_file
  ar_manifest :: "json option"

definition archive_entry :: "py_env \<Rightarrow> json \<Rightarrow> py_exn + archive_record" where
  "archive_entry E v =
     bind_res (json_item v ''record_id'') (\<lambda>i.
     bind_res (json_item v ''created_at_utc'') (\<lambda>c.
     bind_res (json_item v ''event'') (\<lambda>e.
     bind_res (json_item v ''record_hash'') (\<lambda>h.
     bind_res (json_item v ''previous_hash'') (\<lambda>p.
       Inr \<lparr>ar_id = py_str E i, ar_created = py_str E c, ar_event = e, ar_hash = py_str E h,
            ar_prev = py_str E p\<rparr>)))))"

definition event_digest :: "py_env \<Rightarrow> archive_record \<Rightarrow> py_exn + string" where
  "event_digest E r = json_exn (fingerprint E (ar_event r))"

fun archive_scan :: "py_env \<Rightarrow> string \<Rightarrow> log_line list \<Rightarrow> py_exn + archive_record list" where
  "archive_scan E previous [] = Inr []"
| "archive_scan E previous (Blank # ls) = archive_scan E previous ls"
| "archive_scan E previous (Garbage # ls) = Inl (ValueError ''Expecting value'')"
| "archive_scan E previous (Line v # ls) =
     bind_res (archive_entry E v) (\<lambda>r.
       if ar_prev r \<noteq> previous then Inl (ValueError ''evidence archive hash chain mismatch'')
       else bind_res (event_digest E r) (\<lambda>h.
         if ar_hash r \<noteq> h then Inl (ValueError ''evidence archive record hash mismatch'')
         else bind_res (archive_scan E (ar_hash r) ls) (\<lambda>rs. Inr (r # rs))))"

definition archive_records :: "py_env \<Rightarrow> archive \<Rightarrow> py_exn + archive_record list" where
  "archive_records E a = archive_scan E [] (file_lines (ar_file a))"

definition archive_head :: "archive_record list \<Rightarrow> string" where
  "archive_head rs = (if rs = [] then [] else ar_hash (last rs))"

definition archive_write_manifest :: "py_env \<Rightarrow> string \<Rightarrow> archive \<Rightarrow> (py_exn + unit) \<times> archive" where
  "archive_write_manifest E now a =
     (case archive_records E a of
        Inl e \<Rightarrow> (Inl e, a)
      | Inr rs \<Rightarrow>
          (Inr (), a\<lparr>ar_manifest := Some (json_norm (JObj
             [(''archive_dir'', JStr (ar_dir a)), (''record_count'', JInt (int (length rs))),
              (''hash_chain_head'', JStr (archive_head rs)), (''updated_at_utc'', JStr now)]))\<rparr>))"

definition issues_text :: "event_issue list \<Rightarrow> string" where
  "issues_text is = str_join ''; '' (map (\<lambda>i. issue_path i @ '': '' @ issue_message i) is)"

definition archive_row :: "json \<Rightarrow> string \<Rightarrow> event \<Rightarrow> string \<Rightarrow> string \<Rightarrow> json" where
  "archive_row i now ev previous h =
     JObj [(''record_id'', i), (''created_at_utc'', JStr now), (''event'', JObj ev),
           (''previous_hash'', JStr previous), (''record_hash'', JStr h)]"

definition blank_file :: "log_file \<Rightarrow> bool" where
  "blank_file f = list_all (\<lambda>l. l = Blank) (file_lines f)"

text \<open>Everything of \<open>append\<close> before the write: the record, or what is raised.\<close>

definition archive_next :: "py_env \<Rightarrow> string \<Rightarrow> event \<Rightarrow> archive \<Rightarrow> py_exn + json" where
  "archive_next E now ev a =
     bind_res (validate_event_envelope E ev) (\<lambda>report.
       if \<not> report_valid report then Inl (ValueError (issues_text (report_issues report)))
       else bind_res (if blank_file (ar_file a) then Inr [] else archive_records E a) (\<lambda>rs.
         bind_res (json_item (JObj ev) ''event_id'') (\<lambda>i.
         bind_res (json_exn (fingerprint E (JObj ev))) (\<lambda>h.
           let row = archive_row i now ev (archive_head rs) h
           in bind_res (json_exn (canonical_json E row)) (\<lambda>_. Inr row)))))"

definition archive_append ::
  "py_env \<Rightarrow> string \<Rightarrow> string \<Rightarrow> event \<Rightarrow> archive \<Rightarrow> (py_exn + json) \<times> archive" where
  "archive_append E now1 now2 ev a =
     (case archive_next E now1 ev a of
        Inl e \<Rightarrow> (Inl e, a)
      | Inr row \<Rightarrow>
          (case archive_write_manifest E now2 (a\<lparr>ar_file := append_line row (ar_file a)\<rparr>) of
             (Inl e, a') \<Rightarrow> (Inl e, a')
           | (Inr _, a') \<Rightarrow> (Inr row, a')))"

text \<open>\<open>verify\<close>: the count, the last hash, and whether the file verifies.\<close>

definition archive_verify :: "py_env \<Rightarrow> archive \<Rightarrow> int \<times> string option \<times> bool" where
  "archive_verify E a =
     (case archive_records E a of
        Inl e \<Rightarrow> (0, None, False)
      | Inr rs \<Rightarrow> (int (length rs), if rs = [] then None else Some (ar_hash (last rs)), True))"

definition redacted_row :: "py_env \<Rightarrow> archive_record \<Rightarrow> py_exn + json" where
  "redacted_row E r =
     bind_res (case ar_event r of JObj ev \<Rightarrow> redact_event E ev | _ \<Rightarrow> Inl AttributeError) (\<lambda>ev.
       let row = JObj [(''record_id'', JStr (ar_id r)), (''created_at_utc'', JStr (ar_created r)),
                       (''event'', JObj ev), (''record_hash'', JStr (ar_hash r)),
                       (''previous_hash'', JStr (ar_prev r))]
       in bind_res (json_exn (canonical_json E row)) (\<lambda>_. Inr (json_norm row)))"

definition export_redacted :: "py_env \<Rightarrow> archive \<Rightarrow> py_exn + json list" where
  "export_redacted E a = bind_res (archive_records E a) (map_res (redacted_row E))"

section \<open>The outcome ledger\<close>

record ledger_entry =
  le_id :: string
  le_created :: string
  le_kind :: string
  le_payload :: json
  le_prev :: string
  le_hash :: string

definition parse_ledger_entry :: "py_env \<Rightarrow> json \<Rightarrow> py_exn + ledger_entry" where
  "parse_ledger_entry E v =
     bind_res (json_item v ''entry_id'') (\<lambda>i.
     bind_res (json_item v ''created_at_utc'') (\<lambda>c.
     bind_res (json_item v ''kind'') (\<lambda>k.
     bind_res (json_item v ''payload'') (\<lambda>d.
     bind_res (json_item v ''previous_hash'') (\<lambda>p.
     bind_res (json_item v ''record_hash'') (\<lambda>h.
       Inr \<lparr>le_id = py_str E i, le_created = py_str E c, le_kind = py_str E k, le_payload = d,
            le_prev = py_str E p, le_hash = py_str E h\<rparr>))))))"

text \<open>\<open>payload | {"kind": kind}\<close>: the kind of the entry takes the place of one in the payload.\<close>

definition ledger_digest :: "py_env \<Rightarrow> ledger_entry \<Rightarrow> py_exn + string" where
  "ledger_digest E r =
     (case le_payload r of
        JObj d \<Rightarrow> json_exn (fingerprint E (JObj (dict_set ''kind'' (JStr (le_kind r)) d)))
      | _ \<Rightarrow> Inl TypeError)"

fun ledger_scan :: "py_env \<Rightarrow> string \<Rightarrow> log_line list \<Rightarrow> py_exn + ledger_entry list" where
  "ledger_scan E previous [] = Inr []"
| "ledger_scan E previous (Blank # ls) = ledger_scan E previous ls"
| "ledger_scan E previous (Garbage # ls) = Inl (ValueError ''Expecting value'')"
| "ledger_scan E previous (Line v # ls) =
     bind_res (parse_ledger_entry E v) (\<lambda>r.
       if le_prev r \<noteq> previous then Inl (ValueError ''ledger hash chain mismatch'')
       else bind_res (ledger_digest E r) (\<lambda>h.
         if le_hash r \<noteq> h then Inl (ValueError ''ledger record hash mismatch'')
         else bind_res (ledger_scan E (le_hash r) ls) (\<lambda>rs. Inr (r # rs))))"

definition ledger_entries :: "py_env \<Rightarrow> log_file \<Rightarrow> py_exn + ledger_entry list" where
  "ledger_entries E f = ledger_scan E [] (file_lines f)"

definition ledger_head :: "ledger_entry list \<Rightarrow> string" where
  "ledger_head rs = (if rs = [] then [] else le_hash (last rs))"

text \<open>\<open>payload.get("event_id") or payload.get("entry_id") or f"ledger-{n}"\<close>\<close>

definition ledger_id :: "event \<Rightarrow> nat \<Rightarrow> json" where
  "ledger_id payload n =
     (case dict_get payload ''event_id'' of
        Some v \<Rightarrow> if json_truthy v then v
                   else (case dict_get payload ''entry_id'' of
                           Some w \<Rightarrow> if json_truthy w then w else JStr (''ledger-'' @ nat_str (n + 1))
                         | None \<Rightarrow> JStr (''ledger-'' @ nat_str (n + 1)))
      | None \<Rightarrow> (case dict_get payload ''entry_id'' of
                    Some w \<Rightarrow> if json_truthy w then w else JStr (''ledger-'' @ nat_str (n + 1))
                  | None \<Rightarrow> JStr (''ledger-'' @ nat_str (n + 1))))"

definition ledger_append ::
  "py_env \<Rightarrow> string \<Rightarrow> string \<Rightarrow> event \<Rightarrow> log_file \<Rightarrow> (py_exn + json) \<times> log_file" where
  "ledger_append E now kind payload f =
     (case bind_res (if blank_file f then Inr [] else ledger_entries E f) (\<lambda>rs.
             bind_res (json_exn (fingerprint E (JObj (dict_set ''kind'' (JStr kind) payload)))) (\<lambda>h.
               let row = JObj [(''entry_id'', ledger_id payload (length rs)),
                               (''created_at_utc'', JStr now), (''kind'', JStr kind),
                               (''payload'', JObj payload), (''previous_hash'', JStr (ledger_head rs)),
                               (''record_hash'', JStr h)]
               in bind_res (json_exn (canonical_json E row)) (\<lambda>_. Inr row))) of
        Inl e \<Rightarrow> (Inl e, f)
      | Inr row \<Rightarrow> (Inr row, append_line row f))"

definition ledger_verify :: "py_env \<Rightarrow> log_file \<Rightarrow> int \<times> string option \<times> bool" where
  "ledger_verify E f =
     (case ledger_entries E f of
        Inl e \<Rightarrow> (0, None, False)
      | Inr rs \<Rightarrow> (int (length rs), if rs = [] then None else Some (le_hash (last rs)), True))"

section \<open>Both are hash chains\<close>

lemma bind_if_Inr:
  "(if b then Inl e else r) = Inr x \<longleftrightarrow> \<not> b \<and> r = Inr x"
  by simp

interpretation ar: hash_chain "archive_scan E" "archive_entry E" ar_prev ar_hash "event_digest E" for E
  by unfold_locales (auto simp: bind_res_Inr bind_if_Inr)

interpretation le: hash_chain "ledger_scan E" "parse_ledger_entry E" le_prev le_hash "ledger_digest E" for E
  by unfold_locales (auto simp: bind_res_Inr bind_if_Inr)

lemma archive_head_ar: "archive_head rs = ar.head [] rs"
  by (simp add: archive_head_def ar.head_def)

lemma ledger_head_le: "ledger_head rs = le.head [] rs"
  by (simp add: ledger_head_def le.head_def)

lemma blank_records: "blank_file f \<Longrightarrow> archive_scan E [] (file_lines f) = Inr []"
proof -
  have "list_all (\<lambda>l. l = Blank) ls \<Longrightarrow> archive_scan E [] ls = Inr []" for ls
    by (induction ls) auto
  then show "blank_file f \<Longrightarrow> archive_scan E [] (file_lines f) = Inr []"
    by (simp add: blank_file_def)
qed

lemma blank_entries: "blank_file f \<Longrightarrow> ledger_scan E [] (file_lines f) = Inr []"
proof -
  have "list_all (\<lambda>l. l = Blank) ls \<Longrightarrow> ledger_scan E [] ls = Inr []" for ls
    by (induction ls) auto
  then show "blank_file f \<Longrightarrow> ledger_scan E [] (file_lines f) = Inr []"
    by (simp add: blank_file_def)
qed

text \<open>What a row reads back as.\<close>

lemma item_norm:
  "distinct (dict_keys d) \<Longrightarrow> json_item (JObj (sort_key fst (json_norm_members d))) k =
     (case dict_get d k of None \<Rightarrow> Inl (KeyError k) | Some w \<Rightarrow> Inr (json_norm w))"
  by (simp add: json_item_def map_of_norm split: option.split)

lemma archive_row_entry:
  "archive_entry E (json_norm (archive_row i now ev previous h)) =
     Inr \<lparr>ar_id = py_str E (json_norm i), ar_created = now, ar_event = json_norm (JObj ev),
          ar_hash = h, ar_prev = previous\<rparr>"
  by (simp add: archive_entry_def archive_row_def json_item_def)

text \<open>A key set before or after reading back gives the same text.\<close>

lemma norm_dict_set:
  assumes "distinct (dict_keys d)"
  shows "mset (dict_set k v (sort_key fst (json_norm_members d))) =
     mset (dict_set k (v :: json) (json_norm_members d))"
proof -
  have d: "distinct (dict_keys (json_norm_members d))"
    using assms by (simp add: json_norm_members_map comp_def case_prod_beta)
  then have d': "distinct (dict_keys (sort_key fst (json_norm_members d)))"
    by (simp add: distinct_map)
  have "map_of (dict_set k v (sort_key fst (json_norm_members d))) =
      map_of (dict_set k v (json_norm_members d))"
    using map_of_sort_key [OF d] by auto
  then have "set (dict_set k v (sort_key fst (json_norm_members d))) =
      set (dict_set k v (json_norm_members d))"
    by (intro map_of_inject_set [THEN iffD1] distinct_dict_set d d')
  moreover have "distinct (dict_set k v (sort_key fst (json_norm_members d)))"
    "distinct (dict_set k v (json_norm_members d))"
    using distinct_dict_set [OF d, of k v] distinct_dict_set [OF d', of k v]
    by (simp_all add: distinct_map)
  ultimately show ?thesis by (simp add: set_eq_iff_mset_eq_distinct)
qed

lemma members_set:
  "json_norm_members (dict_set k v d) = dict_set k (json_norm v) (json_norm_members d)"
  by (induction d) auto

lemma fingerprint_set_norm:
  assumes "distinct (dict_keys d)"
  shows "fingerprint E (JObj (dict_set k (JStr s) (sort_key fst (json_norm_members d)))) =
     fingerprint E (JObj (dict_set k (JStr s) d))"
proof -
  have d: "distinct (dict_keys (json_norm_members d))"
    using assms by (simp add: json_norm_members_map comp_def case_prod_beta)
  then have d': "distinct (dict_keys (sort_key fst (json_norm_members d)))"
    by (simp add: distinct_map)
  have "json_dumps E st (JObj (dict_set k (JStr s) (sort_key fst (json_norm_members d)))) =
      json_dumps E st (JObj (dict_set k (JStr s) (json_norm_members d)))" for st
    by (rule json_dumps_key_order [OF norm_dict_set [OF assms]]) (rule distinct_dict_set [OF d'])
  also have "json_dumps E st (JObj (dict_set k (JStr s) (json_norm_members d))) =
      json_dumps E st (json_norm (JObj (dict_set k (JStr s) d)))" for st
    unfolding json_norm.simps json_dumps_sort members_set by simp
  finally have "json_dumps E st (JObj (dict_set k (JStr s) (sort_key fst (json_norm_members d)))) =
      json_dumps E st (JObj (dict_set k (JStr s) d))" for st
    unfolding json_dumps_norm .
  then show ?thesis
    unfolding fingerprint_def json_digest_def canonical_json_def by simp
qed

lemma archive_next_valid:
  assumes "archive_records E a = Inr rs" and "valid_event E ev" and "distinct (dict_keys ev)"
  shows "\<exists>i h. archive_next E now ev a = Inr (archive_row i now ev (archive_head rs) h) \<and>
     fingerprint E (JObj ev) = Inr h"
proof -
  obtain s where s: "canonical_json E (JObj ev) = Inr s"
    using valid_event_canonical [OF assms(2,3)] by blast
  then obtain h where h: "fingerprint E (JObj ev) = Inr h"
    by (simp add: fingerprint_def json_digest_def)
  have "''event_id'' \<in> set (dict_keys ev)"
    using assms(2) by (simp add: valid_event_def envelope_ok_def required_event_fields_def)
  then obtain i where i: "dict_get ev ''event_id'' = Some i"
    by (metis map_of_eq_None_iff not_None_eq set_map)
  have "\<exists>t. canonical_json E i = Inr t"
    using s i canonical_obj_ok [of E ev] by (fastforce dest: map_of_SomeD)
  then have "\<exists>t. canonical_json E (archive_row i now ev (archive_head rs) h) = Inr t"
    using s by (simp add: archive_row_def canonical_obj_ok)
  moreover have "(if blank_file (ar_file a) then Inr [] else archive_records E a) = Inr rs"
    using assms(1) blank_records [of "ar_file a" E] by (auto simp: archive_records_def)
  moreover have "validate_event_envelope E ev =
      Inr \<lparr>report_valid = True, report_issues = [], report_event = Some ev\<rparr>"
    using assms(2) validate_valid by blast
  ultimately show ?thesis
    using h i by (intro exI [of _ i] exI [of _ h]) (auto simp: archive_next_def json_item_def Let_def)
qed

lemma archive_append_valid:
  assumes "archive_records E a = Inr rs" and "valid_event E ev" and "distinct (dict_keys ev)"
  obtains row r a' where "archive_append E now1 now2 ev a = (Inr row, a')"
    and "archive_records E a' = Inr (rs @ [r])" and "ar_event r = json_norm (JObj ev)"
    and "ar_created r = now1"
proof -
  obtain i h where n: "archive_next E now1 ev a = Inr (archive_row i now1 ev (archive_head rs) h)"
    and h: "fingerprint E (JObj ev) = Inr h"
    using archive_next_valid [OF assms] by blast
  let ?row = "archive_row i now1 ev (archive_head rs) h"
  let ?a = "a\<lparr>ar_file := append_line ?row (ar_file a)\<rparr>"
  let ?r = "\<lparr>ar_id = py_str E (json_norm i), ar_created = now1, ar_event = json_norm (JObj ev),
      ar_hash = h, ar_prev = archive_head rs\<rparr>"
  have scanned: "archive_scan E [] (file_lines (ar_file a)) = Inr rs"
    using assms(1) by (simp add: archive_records_def)
  have "archive_scan E [] (file_lines (ar_file a) @ [Line (json_norm ?row)]) = Inr (rs @ [?r])"
    by (rule ar.scan_snoc [OF scanned archive_row_entry])
      (simp_all add: archive_head_ar event_digest_def h del: json_norm.simps)
  then have "archive_records E ?a = Inr (rs @ [?r])" by (simp add: archive_records_def)
  moreover from this obtain a' where w: "archive_write_manifest E now2 ?a = (Inr (), a')"
    and "ar_file a' = ar_file ?a"
    by (simp add: archive_write_manifest_def)
  ultimately have "archive_records E a' = Inr (rs @ [?r])" by (simp add: archive_records_def)
  moreover have "archive_append E now1 now2 ev a = (Inr ?row, a')"
    using n w by (simp add: archive_append_def)
  ultimately show thesis using that [of ?row a' ?r] by simp
qed

lemma archive_append_invalid:
  assumes "\<not> valid_event E ev"
  shows "\<exists>e. archive_append E now1 now2 ev a = (Inl e, a)"
proof -
  have "\<exists>e. archive_next E now1 ev a = Inl e"
    using assms
    by (cases "validate_event_envelope E ev") (auto simp: archive_next_def dest: validate_report)
  then show ?thesis by (auto simp: archive_append_def)
qed

section \<open>Histories\<close>

definition new_archive :: "string \<Rightarrow> archive" where
  "new_archive d = \<lparr>ar_dir = d, ar_file = None, ar_manifest = None\<rparr>"

text \<open>Any sequence of calls of \<open>append\<close>, the ones that raise included.\<close>

fun archive_run :: "py_env \<Rightarrow> (string \<times> string \<times> event) list \<Rightarrow> archive \<Rightarrow> archive" where
  "archive_run E [] a = a"
| "archive_run E ((now1, now2, ev) # calls) a =
     archive_run E calls (snd (archive_append E now1 now2 ev a))"

lemma archive_run_records:
  assumes "archive_records E a = Inr rs" and "\<forall>(n1, n2, ev) \<in> set calls. distinct (dict_keys ev)"
  shows "\<exists>rs'. archive_records E (archive_run E calls a) = Inr (rs @ rs') \<and>
     map ar_event rs' = map (\<lambda>(n1, n2, ev). json_norm (JObj ev)) (filter (\<lambda>(n1, n2, ev). valid_event E ev) calls)"
  using assms
proof (induction calls arbitrary: a rs)
  case Nil
  then show ?case by simp
next
  case (Cons call calls)
  obtain n1 n2 ev where call: "call = (n1, n2, ev)" by (cases call)
  have rest: "\<forall>(n1, n2, ev) \<in> set calls. distinct (dict_keys ev)" and d: "distinct (dict_keys ev)"
    using Cons.prems(2) by (auto simp: call)
  show ?case
  proof (cases "valid_event E ev")
    case False
    obtain e where "archive_append E n1 n2 ev a = (Inl e, a)"
      using archive_append_invalid [OF False] by blast
    with Cons.IH [OF Cons.prems(1) rest] False show ?thesis by (simp add: call)
  next
    case True
    obtain row r a' where a': "archive_append E n1 n2 ev a = (Inr row, a')"
      "archive_records E a' = Inr (rs @ [r])" "ar_event r = json_norm (JObj ev)"
      using archive_append_valid [OF Cons.prems(1) True d] by metis
    obtain rs' where "archive_records E (archive_run E calls a') = Inr ((rs @ [r]) @ rs')"
      "map ar_event rs' = map (\<lambda>(n1, n2, ev). json_norm (JObj ev)) (filter (\<lambda>(n1, n2, ev). valid_event E ev) calls)"
      using Cons.IH [OF a'(2) rest] by blast
    then show ?thesis
      using a' True by (intro exI [of _ "r # rs'"]) (simp add: call del: json_norm.simps)
  qed
qed

fun ledger_run :: "py_env \<Rightarrow> (string \<times> string \<times> event) list \<Rightarrow> log_file \<Rightarrow> log_file" where
  "ledger_run E [] f = f"
| "ledger_run E ((now, kind, payload) # calls) f =
     ledger_run E calls (snd (ledger_append E now kind payload f))"

text \<open>An append writes a row or leaves the file; a row that is written verifies.\<close>

lemma ledger_append_cases:
  assumes "ledger_entries E f = Inr rs" and "distinct (dict_keys payload)"
  shows "\<exists>res f'. ledger_append E now kind payload f = (res, f') \<and>
     (case res of
        Inl e \<Rightarrow> f' = f
      | Inr row \<Rightarrow> \<exists>r. ledger_entries E f' = Inr (rs @ [r]) \<and> le_kind r = kind \<and>
          le_payload r = json_norm (JObj payload))"
proof -
  have entries: "(if blank_file f then Inr [] else ledger_entries E f) = Inr rs"
    using assms(1) blank_entries [of f E] by (auto simp: ledger_entries_def)
  show ?thesis
  proof (cases "ledger_append E now kind payload f")
    case (Pair res f')
    show ?thesis
    proof (cases res)
      case (Inl e)
      then show ?thesis
        using Pair by (auto simp: ledger_append_def split: sum.splits)
    next
      case (Inr row)
      obtain h where h: "fingerprint E (JObj (dict_set ''kind'' (JStr kind) payload)) = Inr h"
        and row: "row = JObj [(''entry_id'', ledger_id payload (length rs)),
           (''created_at_utc'', JStr now), (''kind'', JStr kind), (''payload'', JObj payload),
           (''previous_hash'', JStr (ledger_head rs)), (''record_hash'', JStr h)]"
        and f': "f' = append_line row f"
        using Pair Inr entries
        by (auto simp: ledger_append_def bind_res_Inr Let_def split: sum.splits)
      let ?r = "\<lparr>le_id = py_str E (json_norm (ledger_id payload (length rs))), le_created = now,
          le_kind = kind, le_payload = json_norm (JObj payload), le_prev = ledger_head rs, le_hash = h\<rparr>"
      have e: "parse_ledger_entry E (json_norm row) = Inr ?r"
        by (simp add: parse_ledger_entry_def row json_item_def)
      have d: "fingerprint E (JObj (dict_set ''kind'' (JStr kind) (sort_key fst (json_norm_members payload)))) = Inr h"
        using h fingerprint_set_norm [OF assms(2)] by simp
      have scanned: "ledger_scan E [] (file_lines f) = Inr rs"
        using assms(1) by (simp add: ledger_entries_def)
      have "ledger_scan E [] (file_lines f @ [Line (json_norm row)]) = Inr (rs @ [?r])"
        by (rule le.scan_snoc [OF scanned e]) (simp_all add: ledger_head_le ledger_digest_def d)
      then have "ledger_entries E f' = Inr (rs @ [?r])" by (simp add: ledger_entries_def f')
      then show ?thesis using Pair Inr by auto
    qed
  qed
qed

text \<open>Which payloads are written: the ones that are JSON.\<close>

lemma ledger_append_iff:
  assumes "ledger_entries E f = Inr rs"
  shows "(\<exists>row. fst (ledger_append E now kind payload f) = Inr row) \<longleftrightarrow>
     (\<exists>s. canonical_json E (JObj payload) = Inr s)"
proof
  have entries: "(if blank_file f then Inr [] else ledger_entries E f) = Inr rs"
    using assms blank_entries [of f E] by (auto simp: ledger_entries_def)
  { assume "\<exists>row. fst (ledger_append E now kind payload f) = Inr row"
    then obtain h t where "canonical_json E (JObj [(''entry_id'', ledger_id payload (length rs)),
      (''created_at_utc'', JStr now), (''kind'', JStr kind), (''payload'', JObj payload),
      (''previous_hash'', JStr (ledger_head rs)), (''record_hash'', JStr h)]) = Inr t"
      using entries by (auto simp: ledger_append_def bind_res_Inr Let_def split: sum.splits)
    then have "\<exists>t. canonical_json E (JObj [(''entry_id'', ledger_id payload (length rs)),
      (''created_at_utc'', JStr now), (''kind'', JStr kind), (''payload'', JObj payload),
      (''previous_hash'', JStr (ledger_head rs)), (''record_hash'', JStr h)]) = Inr t" by blast
    then show "\<exists>s. canonical_json E (JObj payload) = Inr s"
      unfolding canonical_obj_ok [of E "(''entry_id'', ledger_id payload (length rs)) # _"] by simp }
  assume s: "\<exists>s. canonical_json E (JObj payload) = Inr s"
  then have members: "\<exists>t. canonical_json E (snd kv) = Inr t" if "kv \<in> set payload" for kv
    using that canonical_obj_ok [of E payload] by blast
  have "\<exists>t. canonical_json E (JObj (dict_set ''kind'' (JStr kind) payload)) = Inr t"
    unfolding canonical_obj_ok by (rule dict_set_all) (simp_all add: members)
  then obtain h where h: "fingerprint E (JObj (dict_set ''kind'' (JStr kind) payload)) = Inr h"
    by (auto simp: fingerprint_def json_digest_def)
  have "\<exists>t. canonical_json E (ledger_id payload n) = Inr t" for n
    using members
    by (auto simp: ledger_id_def dest!: map_of_SomeD split: option.split)
  then have "\<exists>t. canonical_json E (JObj [(''entry_id'', ledger_id payload (length rs)),
      (''created_at_utc'', JStr now), (''kind'', JStr kind), (''payload'', JObj payload),
      (''previous_hash'', JStr (ledger_head rs)), (''record_hash'', JStr h)]) = Inr t"
    using s by (simp add: canonical_obj_ok)
  then show "\<exists>row. fst (ledger_append E now kind payload f) = Inr row"
    using entries h by (auto simp: ledger_append_def Let_def)
qed

lemma ledger_run_entries:
  assumes "ledger_entries E f = Inr rs" and "\<forall>(now, kind, payload) \<in> set calls. distinct (dict_keys payload)"
  shows "\<exists>rs'. ledger_entries E (ledger_run E calls f) = Inr (rs @ rs') \<and>
     map (\<lambda>r. (le_kind r, le_payload r)) rs' =
       map (\<lambda>(now, kind, payload). (kind, json_norm (JObj payload)))
         (filter (\<lambda>(now, kind, payload). \<exists>s. canonical_json E (JObj payload) = Inr s) calls)"
  using assms
proof (induction calls arbitrary: f rs)
  case Nil
  then show ?case by simp
next
  case (Cons call calls)
  obtain now kind payload where call: "call = (now, kind, payload)" by (cases call)
  have rest: "\<forall>(now, kind, payload) \<in> set calls. distinct (dict_keys payload)"
    and d: "distinct (dict_keys payload)"
    using Cons.prems(2) by (auto simp: call)
  obtain res f' where app: "ledger_append E now kind payload f = (res, f')"
    and c: "case res of Inl e \<Rightarrow> f' = f
      | Inr row \<Rightarrow> \<exists>r. ledger_entries E f' = Inr (rs @ [r]) \<and> le_kind r = kind \<and>
          le_payload r = json_norm (JObj payload)"
    using ledger_append_cases [OF Cons.prems(1) d] by blast
  have ok: "(\<exists>s. canonical_json E (JObj payload) = Inr s) \<longleftrightarrow> (\<exists>row. res = Inr row)"
    using ledger_append_iff [OF Cons.prems(1), of now kind payload] app by simp
  show ?case
  proof (cases res)
    case (Inl e)
    with c have "f' = f" by simp
    with Cons.IH [OF Cons.prems(1) rest] app ok Inl show ?thesis by (simp add: call)
  next
    case (Inr row)
    with c obtain r where r: "ledger_entries E f' = Inr (rs @ [r])" "le_kind r = kind"
      "le_payload r = json_norm (JObj payload)" by auto
    obtain rs' where "ledger_entries E (ledger_run E calls f') = Inr ((rs @ [r]) @ rs')"
      "map (\<lambda>r. (le_kind r, le_payload r)) rs' =
         map (\<lambda>(now, kind, payload). (kind, json_norm (JObj payload)))
           (filter (\<lambda>(now, kind, payload). \<exists>s. canonical_json E (JObj payload) = Inr s) calls)"
      using Cons.IH [OF r(1) rest] by blast
    then show ?thesis
      using app ok Inr r by (intro exI [of _ "r # rs'"]) (simp add: call del: json_norm.simps)
  qed
qed

section \<open>Properties\<close>

text \<open>
  C22: The archive keeps every accepted event: after any sequence of appends to a new archive, the
  ones that raise included, the file verifies, and its records hold exactly the events that
  validated, in the order of the calls (each as its text reads back).
\<close>

theorem archive_history:
  assumes "\<forall>(now1, now2, ev) \<in> set calls. distinct (dict_keys ev)"
  shows "\<exists>rs. archive_records E (archive_run E calls (new_archive d)) = Inr rs \<and>
     map ar_event rs =
       map (\<lambda>(n1, n2, ev). json_norm (JObj ev)) (filter (\<lambda>(n1, n2, ev). valid_event E ev) calls) \<and>
     archive_verify E (archive_run E calls (new_archive d)) =
       (int (length rs), if rs = [] then None else Some (ar_hash (last rs)), True)"
proof -
  have "archive_records E (new_archive d) = Inr []"
    by (simp add: archive_records_def new_archive_def file_lines_def)
  from archive_run_records [OF this assms]
  obtain rs where "archive_records E (archive_run E calls (new_archive d)) = Inr rs"
    "map ar_event rs = map (\<lambda>(n1, n2, ev). json_norm (JObj ev)) (filter (\<lambda>(n1, n2, ev). valid_event E ev) calls)"
    by auto
  then show ?thesis by (simp add: archive_verify_def)
qed

text \<open>
  C35: A verified archive is linked: each record names the hash of the record before it (the first
  names the empty one) and carries the fingerprint of its event, and a file with a record whose
  event has another fingerprint, anywhere, is not verified.
\<close>

theorem archive_tamper_evident:
  assumes "archive_records E a = Inr rs"
  shows "map ar_prev rs = butlast ([] # map ar_hash rs) \<and>
     (\<forall>r \<in> set rs. fingerprint E (ar_event r) = Inr (ar_hash r)) \<and>
     (\<forall>b ls v ms r. file_lines (ar_file b) = ls @ Line v # ms \<longrightarrow> archive_entry E v = Inr r \<longrightarrow>
        fingerprint E (ar_event r) \<noteq> Inr (ar_hash r) \<longrightarrow> archive_verify E b = (0, None, False))"
proof (intro conjI ballI allI impI)
  have s: "archive_scan E [] (file_lines (ar_file a)) = Inr rs"
    using assms by (simp add: archive_records_def)
  show "map ar_prev rs = butlast ([] # map ar_hash rs)" using ar.scan_linked [OF s] .
  show "fingerprint E (ar_event r) = Inr (ar_hash r)" if "r \<in> set rs" for r
    using ar.scan_digests [OF s that] by (simp add: event_digest_def)
  show "archive_verify E b = (0, None, False)"
    if b: "file_lines (ar_file b) = ls @ Line v # ms" and r: "archive_entry E v = Inr r"
      and f: "fingerprint E (ar_event r) \<noteq> Inr (ar_hash r)" for b ls v ms r
  proof -
    have "archive_scan E [] (ls @ Line v # ms) \<noteq> Inr rs'" for rs'
      by (rule ar.scan_detects [OF r]) (simp add: event_digest_def f)
    then obtain e where "archive_scan E [] (ls @ Line v # ms) = Inl e"
      by (cases "archive_scan E [] (ls @ Line v # ms)") blast+
    then show ?thesis
      unfolding archive_verify_def archive_records_def b by simp
  qed
qed

text \<open>
  The chain does not pin its history: whoever replaces the event of one record by any other
  JSON object, writes its fingerprint into the record and into the one place where the next
  record names it, has a file that verifies, with the same count and the same last hash, because
  a record's hash covers its event and not the hash that it names.
\<close>

theorem archive_rewrite_undetected:
  assumes "archive_records E a = Inr (rs1 @ r # s # rs2)"
    and "file_lines (ar_file a) = ls @ Line v # Line w # ms"
    and "archive_entry E v = Inr r" "archive_entry E w = Inr s"
    and "fingerprint E (JObj ev) = Inr h"
  shows "archive_verify E (a\<lparr>ar_file := Some (ls @
       Line (archive_row (JStr (ar_id r)) (ar_created r) ev (ar_prev r) h) #
       Line (JObj [(''record_id'', JStr (ar_id s)), (''created_at_utc'', JStr (ar_created s)),
         (''event'', ar_event s), (''previous_hash'', JStr h), (''record_hash'', JStr (ar_hash s))]) #
       ms)\<rparr>) = archive_verify E a"
proof -
  let ?v = "archive_row (JStr (ar_id r)) (ar_created r) ev (ar_prev r) h"
  let ?w = "JObj [(''record_id'', JStr (ar_id s)), (''created_at_utc'', JStr (ar_created s)),
      (''event'', ar_event s), (''previous_hash'', JStr h), (''record_hash'', JStr (ar_hash s))]"
  let ?r = "r\<lparr>ar_event := JObj ev, ar_hash := h\<rparr>" and ?s = "s\<lparr>ar_prev := h\<rparr>"
  have "archive_entry E ?v = Inr ?r" "archive_entry E ?w = Inr ?s"
    by (simp_all add: archive_entry_def archive_row_def json_item_def)
  moreover have "archive_scan E [] (ls @ Line v # Line w # ms) = Inr (rs1 @ r # s # rs2)"
    using assms(1,2) by (simp add: archive_records_def)
  ultimately obtain qs1 qs2 where q: "rs1 @ r # s # rs2 = qs1 @ r # s # qs2"
    and scan: "archive_scan E [] (ls @ Line ?v # Line ?w # ms) = Inr (qs1 @ ?r # ?s # qs2)"
    using ar.scan_forged [of E "[]" ls v w ms "rs1 @ r # s # rs2" r s ?v ?r ?w ?s] assms
    by (auto simp: event_digest_def)
  have "length (rs1 @ r # s # rs2) = length (qs1 @ ?r # ?s # qs2)" using q by (metis length_append length_Cons)
  moreover have "ar_hash (last (rs1 @ r # s # rs2)) = ar_hash (last (qs1 @ ?r # ?s # qs2))"
    unfolding q by (cases qs2 rule: rev_cases) simp_all
  ultimately show ?thesis
    using assms(1) scan by (simp add: archive_verify_def archive_records_def file_lines_def)
qed

text \<open>
  The ledger keeps every outcome: after any sequence of appends to a new ledger the file
  verifies, and holds the kind and the payload of exactly the calls whose payload is JSON (no
  NaN or infinity at any depth), in order.
\<close>

theorem ledger_history:
  assumes "\<forall>(now, kind, payload) \<in> set calls. distinct (dict_keys payload)"
  shows "\<exists>rs. ledger_entries E (ledger_run E calls None) = Inr rs \<and>
     map (\<lambda>r. (le_kind r, le_payload r)) rs =
       map (\<lambda>(now, kind, payload). (kind, json_norm (JObj payload)))
         (filter (\<lambda>(now, kind, payload). \<exists>s. canonical_json E (JObj payload) = Inr s) calls) \<and>
     ledger_verify E (ledger_run E calls None) =
       (int (length rs), if rs = [] then None else Some (le_hash (last rs)), True)"
proof -
  have "ledger_entries E None = Inr []" by (simp add: ledger_entries_def file_lines_def)
  from ledger_run_entries [OF this assms]
  obtain rs where "ledger_entries E (ledger_run E calls None) = Inr rs"
    "map (\<lambda>r. (le_kind r, le_payload r)) rs =
       map (\<lambda>(now, kind, payload). (kind, json_norm (JObj payload)))
         (filter (\<lambda>(now, kind, payload). \<exists>s. canonical_json E (JObj payload) = Inr s) calls)"
    by auto
  then show ?thesis by (simp add: ledger_verify_def)
qed

section \<open>Witnesses\<close>

lemma sample_event_distinct: "distinct (dict_keys sample_event)"
  using sample_json_ok by simp

theorem archive_history_witness:
  "\<exists>rs. archive_records sample_env
       (archive_run sample_env [(''1'', ''2'', sample_event), (''3'', ''4'', [])] (new_archive ''d'')) = Inr rs \<and>
     map ar_event rs = [json_norm (JObj sample_event)]"
proof -
  have "\<not> valid_event sample_env []" by (simp add: valid_event_def envelope_ok_def)
  moreover have "\<forall>(now1, now2, ev) \<in> set [(''1'', ''2'', sample_event), (''3'', ''4'', [])]. distinct (dict_keys ev)"
    using sample_event_distinct by simp
  from archive_history [OF this, of sample_env "''d''"] show ?thesis
    using sample_valid calculation by (auto simp del: json_norm.simps)
qed

definition two_records :: archive where
  "two_records = archive_run sample_env [(''1'', ''2'', sample_event), (''3'', ''4'', sample_event)] (new_archive ''d'')"

lemma two_records_scan:
  "\<exists>r s. archive_records sample_env two_records = Inr [r, s]"
proof -
  have "archive_records sample_env (new_archive ''d'') = Inr []"
    by (simp add: archive_records_def new_archive_def file_lines_def)
  from archive_run_records [OF this, of "[(''1'', ''2'', sample_event), (''3'', ''4'', sample_event)]"]
  obtain rs where "archive_records sample_env two_records = Inr rs"
    "map ar_event rs = map (\<lambda>(n1, n2, ev). json_norm (JObj ev))
      (filter (\<lambda>(n1, n2, ev). valid_event sample_env ev) [(''1'', ''2'', sample_event), (''3'', ''4'', sample_event)])"
    using sample_event_distinct by (auto simp: two_records_def simp del: json_norm.simps)
  then have rs: "archive_records sample_env two_records = Inr rs"
    and eq: "map ar_event rs = [json_norm (JObj sample_event), json_norm (JObj sample_event)]"
    using sample_valid by (simp_all del: json_norm.simps)
  from arg_cong [OF eq, of length] have "length rs = 2" by simp
  with rs have "archive_records sample_env two_records = Inr rs" "length rs = 2" by simp_all
  then show ?thesis by (cases rs; cases "tl rs") auto
qed

theorem archive_tamper_evident_witness:
  "\<exists>r s. archive_records sample_env two_records = Inr [r, s] \<and> ar_prev s = ar_hash r \<and> ar_prev r = []"
proof -
  obtain r s where rs: "archive_records sample_env two_records = Inr [r, s]"
    using two_records_scan by blast
  from archive_tamper_evident [OF rs] rs show ?thesis by simp
qed

definition tiny_line :: "string \<Rightarrow> json \<Rightarrow> string \<Rightarrow> json" where
  "tiny_line i ev previous =
     JObj [(''record_id'', JStr i), (''created_at_utc'', JStr ''t''), (''event'', ev),
           (''previous_hash'', JStr previous), (''record_hash'', JStr ''4'')]"

definition tiny_archive :: archive where
  "tiny_archive = \<lparr>ar_dir = ''d'',
     ar_file = Some [Line (tiny_line ''a'' JNull []), Line (tiny_line ''b'' (JBool True) ''4'')],
     ar_manifest = None\<rparr>"

definition tiny_record :: "string \<Rightarrow> json \<Rightarrow> string \<Rightarrow> archive_record" where
  "tiny_record i ev previous =
     \<lparr>ar_id = i, ar_created = ''t'', ar_event = ev, ar_hash = ''4'', ar_prev = previous\<rparr>"

lemma tiny_entry: "archive_entry E (tiny_line i ev previous) = Inr (tiny_record i ev previous)"
  by (simp add: archive_entry_def tiny_line_def tiny_record_def json_item_def)

lemma tiny_records:
  "archive_records sample_env tiny_archive =
     Inr ([] @ tiny_record ''a'' JNull [] # tiny_record ''b'' (JBool True) ''4'' # [])"
  by code_simp

lemma tiny_fingerprint: "fingerprint sample_env (JObj []) = Inr ''2''"
  by code_simp

theorem archive_rewrite_undetected_witness:
  "archive_verify sample_env (tiny_archive\<lparr>ar_file := Some
     [Line (archive_row (JStr ''a'') ''t'' [] [] ''2''), Line (JObj
       [(''record_id'', JStr ''b''), (''created_at_utc'', JStr ''t''), (''event'', JBool True),
        (''previous_hash'', JStr ''2''), (''record_hash'', JStr ''4'')])]\<rparr>) = (2, Some ''4'', True)"
proof -
  have lines: "file_lines (ar_file tiny_archive) =
      [] @ Line (tiny_line ''a'' JNull []) # Line (tiny_line ''b'' (JBool True) ''4'') # []"
    by (simp add: tiny_archive_def file_lines_def)
  have "archive_verify sample_env tiny_archive = (2, Some ''4'', True)"
    unfolding archive_verify_def tiny_records by (simp add: tiny_record_def)
  with archive_rewrite_undetected [OF tiny_records lines tiny_entry tiny_entry tiny_fingerprint]
  show ?thesis by (simp add: tiny_record_def)
qed

theorem ledger_history_witness:
  "\<exists>r. ledger_entries sample_env (ledger_run sample_env
       [(''1'', ''win'', [(''a'', JInt 1)]), (''2'', ''loss'', [(''b'', JFloat NaN)])] None) = Inr [r] \<and>
     le_kind r = ''win''"
proof -
  have no: "\<not> (\<exists>s. canonical_json sample_env (JObj [(''b'', JFloat NaN)]) = Inr s)"
    and yes: "\<exists>s. canonical_json sample_env (JObj [(''a'', JInt 1)]) = Inr s"
    by (simp_all add: canonical_json_def canonical_style_def)
  have "\<forall>(now, kind, payload) \<in> set [(''1'', ''win'', [(''a'', JInt 1)]), (''2'', ''loss'', [(''b'', JFloat NaN)])].
      distinct (dict_keys payload)" by simp
  from ledger_history [OF this, of sample_env] no yes show ?thesis by auto
qed

end

