(* ===== verification/Lifecycle.thy ===== *)
theory Lifecycle
  imports Prelude
begin

text \<open>
  State machines given by a table of allowed moves, as the experiment store and the skill
  candidate store have them: the path of states an object has taken, the states where it stops,
  and the single door to a state that needs approval.
\<close>

section \<open>Tables\<close>

text \<open>\<open>to in TABLE.get(from, frozenset())\<close>\<close>

definition table_allows :: "(string, string list) dict \<Rightarrow> string \<Rightarrow> string \<Rightarrow> bool" where
  "table_allows table s t = (t \<in> set (dict_get_or table s []))"

lemma table_allows_in:
  "table_allows table s t \<Longrightarrow> \<exists>ts. (s, ts) \<in> set table \<and> t \<in> set ts"
  by (cases "dict_get table s") (auto simp: table_allows_def dict_get_or_def dest: map_of_SomeD)

section \<open>The interface\<close>

locale lifecycle =
  fixes accepts :: "'s \<Rightarrow> 's \<Rightarrow> bool" and start :: 's and terminal :: "'s \<Rightarrow> bool"
  assumes terminal_stuck: "terminal s \<Longrightarrow> \<not> accepts s t"
begin

text \<open>The states taken, the first one being the start, each move accepted.\<close>

definition path :: "'s list \<Rightarrow> bool" where
  "path ss \<longleftrightarrow> ss \<noteq> [] \<and> hd ss = start \<and> (\<forall>(s, t) \<in> set (adjacent ss). accepts s t)"

lemma path_start: "path [start]"
  by (simp add: path_def)

lemma path_snoc: "path ss \<Longrightarrow> accepts (last ss) t \<Longrightarrow> path (ss @ [t])"
  by (auto simp: path_def adjacent_append_last)

lemma path_butlast:
  assumes "path (ss @ [t])" and "ss \<noteq> []"
  shows "path ss \<and> accepts (last ss) t"
  using assms by (auto simp: path_def adjacent_append_last)

text \<open>Nothing follows a terminal state.\<close>

lemma path_terminal_last:
  assumes "path (ss @ t # us)" and "terminal t"
  shows "us = []"
proof (rule ccontr)
  assume "us \<noteq> []"
  then obtain u vs where us: "us = u # vs" by (cases us) auto
  have "(t, u) \<in> set (adjacent (ss @ t # u # vs))"
    by (induction ss rule: adjacent.induct) auto
  with assms us show False by (auto simp: path_def dest: terminal_stuck)
qed

text \<open>Where each of a list of states can be entered from one state only, a path that ends in the
  last of them has taken them all, in order, at its end.\<close>

lemma forced_suffix:
  assumes "path ss" and "ws \<noteq> []" and "last ss = last ws"
    and "\<forall>(a, b) \<in> set (adjacent ws). b \<noteq> start \<and> (\<forall>s. accepts s b \<longrightarrow> s = a)"
  shows "suffix ws ss"
  using assms
proof (induction ws arbitrary: ss rule: rev_induct)
  case Nil
  then show ?case by simp
next
  case (snoc b ws)
  have ss: "ss \<noteq> []" "hd ss = start" using snoc.prems(1) by (auto simp: path_def)
  then obtain vs where vs: "ss = vs @ [b]" using snoc.prems(3) by (metis append_butlast_last_id last_snoc)
  show ?case
  proof (cases "ws = []")
    case True
    then show ?thesis by (simp add: vs suffix_def)
  next
    case False
    then have adj: "adjacent (ws @ [b]) = adjacent ws @ [(last ws, b)]"
      by (rule adjacent_append_last)
    with snoc.prems(4) have b: "b \<noteq> start" "\<And>s. accepts s b \<Longrightarrow> s = last ws" by auto
    then have "vs \<noteq> []" using ss vs by auto
    with path_butlast [of vs b] snoc.prems(1) vs have p: "path vs" and l: "accepts (last vs) b" by simp_all
    have forced: "\<forall>(a, b) \<in> set (adjacent ws). b \<noteq> start \<and> (\<forall>s. accepts s b \<longrightarrow> s = a)"
      using snoc.prems(4) unfolding adj by simp
    have "suffix ws vs" by (rule snoc.IH [OF p False b(2) [OF l] forced])
    then show ?thesis by (auto simp: vs suffix_def)
  qed
qed

end

text \<open>A state that only one other state leads to.\<close>

locale gated_lifecycle = lifecycle accepts start terminal
  for accepts :: "'s \<Rightarrow> 's \<Rightarrow> bool" and start :: 's and terminal :: "'s \<Rightarrow> bool" +
  fixes gate :: 's and goal :: 's
  assumes only_gate: "accepts s goal \<Longrightarrow> s = gate" and goal_start: "goal \<noteq> start"
begin

lemma goal_through_gate:
  assumes "path ss" and "last ss = goal"
  shows "\<exists>us. ss = us @ [gate, goal] \<and> path (us @ [gate])"
proof -
  have "ss \<noteq> []" "hd ss = start" using assms(1) by (auto simp: path_def)
  then obtain vs where vs: "ss = vs @ [goal]" using assms(2) by (metis append_butlast_last_id)
  have "vs \<noteq> []" using vs \<open>hd ss = start\<close> goal_start by auto
  with path_butlast [of vs goal] assms(1) vs have "path vs" "last vs = gate"
    by (auto dest: only_gate)
  with \<open>vs \<noteq> []\<close> vs show ?thesis
    by (intro exI [of _ "butlast vs"]) (metis append.assoc append_Cons append_Nil append_butlast_last_id)
qed

end

end
