(* ===== verification/Experiments.thy ===== *)
theory Experiments
  imports Lifecycle Json
begin

text \<open>
  \<open>research/experiment.py\<close> and \<open>research/research_cycle.py\<close>: the experiment store with its
  sixteen-state machine, and the steps of the research cycle. The state of the store is its
  files, one JSON record per experiment identifier; a text that is written is read back as the
  same record (\<open>indent=2\<close> without sorting keeps the order of members).
\<close>

section \<open>The state machine\<close>

definition valid_states :: "string list" where
  "valid_states =
     [''OBSERVATION'', ''HYPOTHESIS'', ''EXPERIMENT_DESIGNED'', ''DATA_VALIDATED'',
      ''BACKTEST_RUNNING'', ''RESULT_REVIEW'', ''REJECTED'', ''NEEDS_MORE_DATA'',
      ''APPROVED_CANDIDATE'', ''ISOLATED_PATCH'', ''REGRESSION_TEST'', ''SECURITY_REVIEW'',
      ''RELEASE_PROPOSAL'', ''HUMAN_RELEASE_GATE'', ''RELEASED'', ''ROLLED_BACK'']"

definition terminal_states :: "string list" where
  "terminal_states = [''REJECTED'', ''RELEASED'', ''ROLLED_BACK'']"

definition allowed_transitions :: "(string, string list) dict" where
  "allowed_transitions =
     [(''OBSERVATION'', [''HYPOTHESIS'', ''REJECTED'']),
      (''HYPOTHESIS'', [''EXPERIMENT_DESIGNED'', ''REJECTED'']),
      (''EXPERIMENT_DESIGNED'', [''DATA_VALIDATED'', ''REJECTED'']),
      (''DATA_VALIDATED'', [''BACKTEST_RUNNING'', ''REJECTED'']),
      (''BACKTEST_RUNNING'', [''RESULT_REVIEW'', ''REJECTED'']),
      (''RESULT_REVIEW'', [''REJECTED'', ''NEEDS_MORE_DATA'', ''APPROVED_CANDIDATE'']),
      (''NEEDS_MORE_DATA'', [''DATA_VALIDATED'', ''REJECTED'']),
      (''APPROVED_CANDIDATE'', [''ISOLATED_PATCH'', ''REJECTED'']),
      (''ISOLATED_PATCH'', [''REGRESSION_TEST'', ''REJECTED'']),
      (''REGRESSION_TEST'', [''SECURITY_REVIEW'', ''REJECTED'']),
      (''SECURITY_REVIEW'', [''RELEASE_PROPOSAL'', ''REJECTED'']),
      (''RELEASE_PROPOSAL'', [''HUMAN_RELEASE_GATE'', ''REJECTED'']),
      (''HUMAN_RELEASE_GATE'', [''RELEASED'', ''REJECTED'']),
      (''RELEASED'', [''ROLLED_BACK'']),
      (''REJECTED'', []),
      (''ROLLED_BACK'', [])]"

section \<open>Records\<close>

record experiment_transition =
  tr_from :: string
  tr_to :: string
  tr_at :: string
  tr_agent :: string
  tr_reason :: string
  tr_reviewer :: "string option"
  tr_evidence :: "string list"

record experiment_rec =
  ex_id :: string
  ex_correlation :: string
  ex_hypothesis :: string
  ex_proposer :: string
  ex_owner :: string
  ex_state :: string
  ex_created :: string
  ex_updated :: string
  ex_range :: "(string, string) dict"
  ex_dataset_hash :: string
  ex_formula_version :: string
  ex_evidence :: "string list"
  ex_transitions :: "experiment_transition list"
  ex_result :: "(string, json) dict option"
  ex_failure :: "string option"
  ex_reviewer :: "string option"
  ex_rollback :: "string option"
  ex_integrity :: string

type_synonym experiment_store = "(string, experiment_rec) dict"

datatype experiment_error =
    ExperimentMissing string
  | TerminalState string string
  | InvalidTransition string string string
  | SelfApproval string string

definition experiment_terminal :: "experiment_rec \<Rightarrow> bool" where
  "experiment_terminal x = (ex_state x \<in> set terminal_states)"

definition json_opt :: "string option \<Rightarrow> json" where
  "json_opt s = (case s of None \<Rightarrow> JNull | Some t \<Rightarrow> JStr t)"

definition transition_json :: "experiment_transition \<Rightarrow> json" where
  "transition_json t =
     JObj [(''from_state'', JStr (tr_from t)), (''to_state'', JStr (tr_to t)),
           (''transitioned_at_utc'', JStr (tr_at t)), (''agent'', JStr (tr_agent t)),
           (''reason'', JStr (tr_reason t)), (''reviewer'', json_opt (tr_reviewer t)),
           (''evidence_ids'', JList (map JStr (tr_evidence t)))]"

definition experiment_json :: "experiment_rec \<Rightarrow> json" where
  "experiment_json x =
     JObj [(''experiment_id'', JStr (ex_id x)), (''correlation_id'', JStr (ex_correlation x)),
           (''hypothesis'', JStr (ex_hypothesis x)), (''proposer_agent'', JStr (ex_proposer x)),
           (''owner_agent'', JStr (ex_owner x)), (''state'', JStr (ex_state x)),
           (''created_at_utc'', JStr (ex_created x)), (''updated_at_utc'', JStr (ex_updated x)),
           (''input_data_range'', JObj (map (\<lambda>(k, v). (k, JStr v)) (ex_range x))),
           (''dataset_hash'', JStr (ex_dataset_hash x)),
           (''formula_version'', JStr (ex_formula_version x)),
           (''evidence_ids'', JList (map JStr (ex_evidence x))),
           (''transitions'', JList (map transition_json (ex_transitions x))),
           (''result'', case ex_result x of None \<Rightarrow> JNull | Some d \<Rightarrow> JObj d),
           (''failure_reason'', json_opt (ex_failure x)), (''reviewer'', json_opt (ex_reviewer x)),
           (''rollback_reference'', json_opt (ex_rollback x))]"

definition plain_style :: dump_style where
  "plain_style = \<lparr>item_sep = '', '', key_sep = '': '', allow_nan = True\<rparr>"

text \<open>The \<open>_fingerprint\<close> of this module: sixteen digits; with NaN allowed it never raises.\<close>

definition experiment_fingerprint :: "py_env \<Rightarrow> json \<Rightarrow> string" where
  "experiment_fingerprint E v =
     (case json_dumps E plain_style v of Inl e \<Rightarrow> [] | Inr s \<Rightarrow> take 16 (sha256_hex E s))"

section \<open>Operations\<close>

definition write_experiment :: "py_env \<Rightarrow> experiment_rec \<Rightarrow> experiment_store \<Rightarrow> experiment_store" where
  "write_experiment E x st =
     dict_set (ex_id x) (x\<lparr>ex_integrity := experiment_fingerprint E (experiment_json x)\<rparr>) st"

definition create_experiment ::
  "py_env \<Rightarrow> string \<Rightarrow> string \<Rightarrow> string \<Rightarrow> string \<Rightarrow> string \<Rightarrow> string \<Rightarrow> string list \<Rightarrow>
   (string, string) dict option \<Rightarrow> string \<Rightarrow> string \<Rightarrow> experiment_store \<Rightarrow> experiment_rec \<times> experiment_store" where
  "create_experiment E now i corr hyp proposer owner evidence rng dataset formula st =
     (let x = \<lparr>ex_id = i, ex_correlation = corr, ex_hypothesis = hyp, ex_proposer = proposer,
               ex_owner = owner, ex_state = ''OBSERVATION'', ex_created = now, ex_updated = now,
               ex_range = (case rng of None \<Rightarrow> [] | Some r \<Rightarrow> r), ex_dataset_hash = dataset,
               ex_formula_version = formula, ex_evidence = evidence, ex_transitions = [],
               ex_result = None, ex_failure = None, ex_reviewer = None, ex_rollback = None,
               ex_integrity = []\<rparr>
      in (x, write_experiment E x st))"

definition load_experiment :: "string \<Rightarrow> experiment_store \<Rightarrow> experiment_error + experiment_rec" where
  "load_experiment i st =
     (case dict_get st i of None \<Rightarrow> Inl (ExperimentMissing i) | Some x \<Rightarrow> Inr x)"

record transition_args =
  ta_agent :: string
  ta_reason :: string
  ta_reviewer :: "string option"
  ta_evidence :: "string list option"
  ta_result :: "(string, json) dict option"
  ta_failure :: "string option"
  ta_rollback :: "string option"

definition keep :: "'a option \<Rightarrow> 'a option \<Rightarrow> 'a option" where
  "keep new old = (if new \<noteq> None then new else old)"

definition move_experiment :: "string \<Rightarrow> string \<Rightarrow> transition_args \<Rightarrow> experiment_rec \<Rightarrow> experiment_rec" where
  "move_experiment now to args x =
     x\<lparr>ex_state := to, ex_updated := now,
       ex_transitions := ex_transitions x @
         [\<lparr>tr_from = ex_state x, tr_to = to, tr_at = now, tr_agent = ta_agent args,
           tr_reason = ta_reason args, tr_reviewer = ta_reviewer args,
           tr_evidence = (case ta_evidence args of None \<Rightarrow> [] | Some l \<Rightarrow> l)\<rparr>],
       ex_result := keep (ta_result args) (ex_result x),
       ex_failure := keep (ta_failure args) (ex_failure x),
       ex_reviewer := keep (ta_reviewer args) (ex_reviewer x),
       ex_rollback := keep (ta_rollback args) (ex_rollback x)\<rparr>"

definition transition_experiment ::
  "py_env \<Rightarrow> string \<Rightarrow> string \<Rightarrow> string \<Rightarrow> transition_args \<Rightarrow> experiment_store \<Rightarrow>
   experiment_error + (experiment_rec \<times> experiment_store)" where
  "transition_experiment E now i to args st =
     bind_res (load_experiment i st) (\<lambda>x.
       if ex_state x \<in> set terminal_states then Inl (TerminalState i (ex_state x))
       else if \<not> table_allows allowed_transitions (ex_state x) to
       then Inl (InvalidTransition i (ex_state x) to)
       else if to \<in> {''RELEASED'', ''HUMAN_RELEASE_GATE''} \<and> ta_reviewer args = Some (ex_proposer x)
       then Inl (SelfApproval i (ex_proposer x))
       else let x' = move_experiment now to args x in Inr (x', write_experiment E x' st))"

definition list_by_state :: "string \<Rightarrow> experiment_store \<Rightarrow> experiment_rec list" where
  "list_by_state s st = filter (\<lambda>x. ex_state x = s) (map snd st)"

section \<open>The research cycle\<close>

datatype cycle_step =
    COLLECT_EVIDENCE | FORM_HYPOTHESIS | DESIGN_EXPERIMENT | VALIDATE_DATA | RUN_BACKTEST
  | REVIEW_RESULT | UPDATE_KNOWLEDGE | FAILURE_ANALYSIS

definition step_agent_map :: "(cycle_step, string) dict" where
  "step_agent_map =
     [(COLLECT_EVIDENCE, ''market-data-integrity-agent''), (FORM_HYPOTHESIS, ''xau-strategy-auditor''),
      (DESIGN_EXPERIMENT, ''statistical-backtest-agent''), (VALIDATE_DATA, ''market-data-integrity-agent''),
      (RUN_BACKTEST, ''statistical-backtest-agent''), (REVIEW_RESULT, ''xau-strategy-auditor''),
      (UPDATE_KNOWLEDGE, ''knowledge-skill-manager''), (FAILURE_ANALYSIS, ''failure-root-cause-agent'')]"

definition step_sequence :: "cycle_step list" where
  "step_sequence =
     [COLLECT_EVIDENCE, FORM_HYPOTHESIS, DESIGN_EXPERIMENT, VALIDATE_DATA, RUN_BACKTEST,
      REVIEW_RESULT, UPDATE_KNOWLEDGE]"

record cycle_config =
  cc_interval :: int
  cc_max_concurrent :: int
  cc_min_evidence :: int
  cc_require_gate :: bool

record cycle_job =
  cj_cycle :: string
  cj_step :: cycle_step
  cj_agent :: string
  cj_payload :: json
  cj_scheduled :: string
  cj_correlation :: string

text \<open>\<open>tuple.index\<close>: the position of the first equal member.\<close>

fun index_of :: "'a \<Rightarrow> 'a list \<Rightarrow> nat option" where
  "index_of x [] = None"
| "index_of x (y # ys) = (if y = x then Some 0 else map_option Suc (index_of x ys))"

definition next_step :: "cycle_step option \<Rightarrow> cycle_step option" where
  "next_step current =
     (case current of
        None \<Rightarrow> Some COLLECT_EVIDENCE
      | Some s \<Rightarrow>
          (case index_of s step_sequence of
             None \<Rightarrow> None
           | Some i \<Rightarrow> if length step_sequence \<le> i + 1 then None else Some (step_sequence ! (i + 1))))"

definition agent_for_step :: "cycle_step \<Rightarrow> string option" where
  "agent_for_step s = dict_get step_agent_map s"

definition build_cycle_job ::
  "string \<Rightarrow> string \<Rightarrow> cycle_step \<Rightarrow> json \<Rightarrow> string \<Rightarrow> cycle_job option" where
  "build_cycle_job now cycle s payload corr =
     map_option (\<lambda>a. \<lparr>cj_cycle = cycle, cj_step = s, cj_agent = a, cj_payload = payload,
                     cj_scheduled = now, cj_correlation = corr\<rparr>) (agent_for_step s)"

definition is_human_gate_required :: "cycle_config \<Rightarrow> cycle_step \<Rightarrow> bool" where
  "is_human_gate_required c s = (s = REVIEW_RESULT \<and> cc_require_gate c)"

section \<open>The machine as a lifecycle\<close>

definition experiment_accepts :: "string \<Rightarrow> string \<Rightarrow> bool" where
  "experiment_accepts s t = (s \<notin> set terminal_states \<and> table_allows allowed_transitions s t)"

lemma experiment_accepts_in:
  "experiment_accepts s t \<Longrightarrow>
     \<exists>ts. (s, ts) \<in> set allowed_transitions \<and> t \<in> set ts \<and> s \<notin> set terminal_states"
  by (auto simp: experiment_accepts_def dest: table_allows_in)

lemma experiment_accepts_released: "experiment_accepts s ''RELEASED'' \<Longrightarrow> s = ''HUMAN_RELEASE_GATE''"
  by (auto dest!: experiment_accepts_in simp: allowed_transitions_def)

interpretation exp: gated_lifecycle experiment_accepts "''OBSERVATION''" "\<lambda>s. s \<in> set terminal_states"
  "''HUMAN_RELEASE_GATE''" "''RELEASED''"
proof unfold_locales
  show "\<not> experiment_accepts s t" if "s \<in> set terminal_states" for s t
    using that by (simp add: experiment_accepts_def)
qed (auto dest: experiment_accepts_released)

section \<open>Reachable stores\<close>

inductive experiment_reachable :: "py_env \<Rightarrow> experiment_store \<Rightarrow> bool" for E where
  xr_empty: "experiment_reachable E []"
| xr_create: "experiment_reachable E st \<Longrightarrow>
     experiment_reachable E
       (snd (create_experiment E now i corr hyp proposer owner evidence rng dataset formula st))"
| xr_transition: "experiment_reachable E st \<Longrightarrow>
     transition_experiment E now i to args st = Inr (x, st') \<Longrightarrow> experiment_reachable E st'"

text \<open>The states an experiment has taken.\<close>

definition experiment_states :: "experiment_rec \<Rightarrow> string list" where
  "experiment_states x = ''OBSERVATION'' # map tr_to (ex_transitions x)"

definition no_self_approval :: "experiment_rec \<Rightarrow> bool" where
  "no_self_approval x \<longleftrightarrow>
     (\<forall>t \<in> set (ex_transitions x). tr_to t \<in> {''RELEASED'', ''HUMAN_RELEASE_GATE''} \<longrightarrow>
        tr_reviewer t \<noteq> Some (ex_proposer x))"

definition experiment_ok :: "py_env \<Rightarrow> string \<Rightarrow> experiment_rec \<Rightarrow> bool" where
  "experiment_ok E i x \<longleftrightarrow>
     ex_id x = i \<and> exp.path (experiment_states x) \<and> last (experiment_states x) = ex_state x \<and>
     map tr_from (ex_transitions x) = butlast (experiment_states x) \<and> no_self_approval x \<and>
     ex_integrity x = experiment_fingerprint E (experiment_json x)"

lemma experiment_json_integrity [simp]:
  "experiment_json (x\<lparr>ex_integrity := h\<rparr>) = experiment_json x"
  by (simp add: experiment_json_def)

lemma write_experiment_ok:
  assumes "\<forall>i x. dict_get st i = Some x \<longrightarrow> experiment_ok E i x"
    and "experiment_ok E (ex_id x) (x\<lparr>ex_integrity := experiment_fingerprint E (experiment_json x)\<rparr>)"
  shows "\<forall>i y. dict_get (write_experiment E x st) i = Some y \<longrightarrow> experiment_ok E i y"
  using assms by (simp add: write_experiment_def)

lemma move_states:
  "experiment_states (move_experiment now to args x) = experiment_states x @ [to]"
  by (simp add: experiment_states_def move_experiment_def)

lemma transition_Inr:
  assumes "transition_experiment E now i to args st = Inr (x', st')"
  obtains x where "dict_get st i = Some x" and "experiment_accepts (ex_state x) to"
    and "to \<in> {''RELEASED'', ''HUMAN_RELEASE_GATE''} \<Longrightarrow> ta_reviewer args \<noteq> Some (ex_proposer x)"
    and "x' = move_experiment now to args x" and "st' = write_experiment E x' st"
  using assms
  by (auto simp: transition_experiment_def load_experiment_def bind_res_Inr experiment_accepts_def Let_def
      split: option.splits if_splits)

lemma experiment_reachable_ok:
  "experiment_reachable E st \<Longrightarrow> \<forall>i x. dict_get st i = Some x \<longrightarrow> experiment_ok E i x"
proof (induction rule: experiment_reachable.induct)
  case xr_empty
  show ?case by simp
next
  case (xr_create st now i corr hyp proposer owner evidence rng dataset formula)
  then show ?case
    unfolding create_experiment_def Let_def snd_conv
    by (intro write_experiment_ok)
      (simp_all add: experiment_ok_def experiment_states_def exp.path_start no_self_approval_def
        experiment_json_def)
next
  case (xr_transition st now i to args x' st')
  obtain x where x: "dict_get st i = Some x" "experiment_accepts (ex_state x) to"
    "to \<in> {''RELEASED'', ''HUMAN_RELEASE_GATE''} \<Longrightarrow> ta_reviewer args \<noteq> Some (ex_proposer x)"
    "x' = move_experiment now to args x" "st' = write_experiment E x' st"
    using transition_Inr [OF xr_transition.hyps(2)] by metis
  have ok: "experiment_ok E i x" using xr_transition.IH x(1) by blast
  let ?y = "x'\<lparr>ex_integrity := experiment_fingerprint E (experiment_json x')\<rparr>"
  have states: "experiment_states ?y = experiment_states x @ [to]"
    by (simp add: x(4) move_experiment_def experiment_states_def)
  have "exp.path (experiment_states x @ [to])"
    using ok x(2) by (intro exp.path_snoc) (simp_all add: experiment_ok_def)
  moreover have "butlast (experiment_states x @ [to]) = butlast (experiment_states x) @ [ex_state x]"
    using ok unfolding butlast_snoc experiment_ok_def
    by (metis append_butlast_last_id experiment_states_def list.distinct(1))
  moreover have "no_self_approval ?y"
    using ok x(3) by (auto simp: x(4) experiment_ok_def no_self_approval_def move_experiment_def)
  moreover have "map tr_from (ex_transitions ?y) = map tr_from (ex_transitions x) @ [ex_state x]"
    and "last (experiment_states x @ [to]) = ex_state ?y"
    by (simp_all add: x(4) move_experiment_def)
  moreover have "map tr_from (ex_transitions x) = butlast (experiment_states x)"
    using ok by (simp add: experiment_ok_def)
  ultimately have "experiment_ok E (ex_id x') ?y"
    unfolding experiment_ok_def states by simp
  then show ?case unfolding x(5) by (rule write_experiment_ok [OF xr_transition.IH])
qed

lemmas experiment_eval =
  create_experiment_def write_experiment_def transition_experiment_def load_experiment_def
  move_experiment_def keep_def table_allows_def allowed_transitions_def terminal_states_def
  dict_get_or_def Let_def

section \<open>Every path can be taken\<close>

definition silent_args :: transition_args where
  "silent_args = \<lparr>ta_agent = ''agent'', ta_reason = ''r'', ta_reviewer = None, ta_evidence = None,
     ta_result = None, ta_failure = None, ta_rollback = None\<rparr>"

lemma silent_path:
  "exp.path ss \<Longrightarrow> \<exists>st x. experiment_reachable E st \<and> dict_get st i = Some x \<and> ex_id x = i \<and>
     experiment_states x = ss \<and> (\<forall>t \<in> set (ex_transitions x). tr_reviewer t = None)"
proof (induction ss rule: rev_induct)
  case Nil
  then show ?case by (simp add: exp.path_def)
next
  case (snoc to ss)
  show ?case
  proof (cases "ss = []")
    case True
    with snoc.prems have "to = ''OBSERVATION''" by (simp add: exp.path_def)
    moreover have "experiment_reachable E (snd (create_experiment E [] i [] [] ''p'' [] [] None [] [] []))"
      by (rule xr_create [OF xr_empty])
    moreover have "\<exists>x. dict_get (snd (create_experiment E [] i [] [] ''p'' [] [] None [] [] [])) i = Some x \<and>
        ex_id x = i \<and> ex_transitions x = []"
      by (simp add: create_experiment_def Let_def write_experiment_def)
    ultimately show ?thesis
      using True unfolding experiment_states_def by fastforce
  next
    case False
    with snoc.prems exp.path_butlast have p: "exp.path ss" and acc: "experiment_accepts (last ss) to"
      by blast+
    obtain st x where x: "experiment_reachable E st" "dict_get st i = Some x" "ex_id x = i"
      "experiment_states x = ss" "\<forall>t \<in> set (ex_transitions x). tr_reviewer t = None"
      using snoc.IH [OF p] by blast
    have "ex_state x = last ss"
      using experiment_reachable_ok [OF x(1)] x(2,4) by (auto simp: experiment_ok_def)
    with acc x(2) have t: "transition_experiment E [] i to silent_args st =
        Inr (move_experiment [] to silent_args x, write_experiment E (move_experiment [] to silent_args x) st)"
      by (simp add: transition_experiment_def load_experiment_def experiment_accepts_def silent_args_def Let_def)
    let ?x = "move_experiment [] to silent_args x"
    let ?y = "?x\<lparr>ex_integrity := experiment_fingerprint E (experiment_json ?x)\<rparr>"
    have "experiment_reachable E (write_experiment E ?x st)" by (rule xr_transition [OF x(1) t])
    moreover have "dict_get (write_experiment E ?x st) i = Some ?y"
      using x(3) by (simp add: write_experiment_def move_experiment_def)
    moreover have "experiment_states ?y = ss @ [to]"
      using x(4) by (simp add: experiment_states_def move_experiment_def)
    moreover have "\<forall>t \<in> set (ex_transitions ?y). tr_reviewer t = None" "ex_id ?y = i"
      using x(3,5) by (simp_all add: move_experiment_def silent_args_def)
    ultimately show ?thesis by blast
  qed
qed

definition shortest_release :: "string list" where
  "shortest_release =
     [''OBSERVATION'', ''HYPOTHESIS'', ''EXPERIMENT_DESIGNED'', ''DATA_VALIDATED'',
      ''BACKTEST_RUNNING'', ''RESULT_REVIEW'', ''APPROVED_CANDIDATE'', ''ISOLATED_PATCH'',
      ''REGRESSION_TEST'', ''SECURITY_REVIEW'', ''RELEASE_PROPOSAL'', ''HUMAN_RELEASE_GATE'',
      ''RELEASED'']"

lemma shortest_release_path: "exp.path shortest_release"
proof -
  have "list_all (\<lambda>(s, t). experiment_accepts s t) (adjacent shortest_release)"
    by code_simp
  then show ?thesis by (simp add: exp.path_def list_all_iff shortest_release_def)
qed

section \<open>Properties\<close>

definition release_route :: "string list" where
  "release_route =
     [''DATA_VALIDATED'', ''BACKTEST_RUNNING'', ''RESULT_REVIEW'', ''APPROVED_CANDIDATE'',
      ''ISOLATED_PATCH'', ''REGRESSION_TEST'', ''SECURITY_REVIEW'', ''RELEASE_PROPOSAL'',
      ''HUMAN_RELEASE_GATE'', ''RELEASED'']"

lemma release_route_forced:
  "\<forall>(a, b) \<in> set (adjacent release_route).
     b \<noteq> ''OBSERVATION'' \<and> (\<forall>s. experiment_accepts s b \<longrightarrow> s = a)"
proof -
  have check: "\<forall>(a, b) \<in> set (adjacent release_route). b \<noteq> ''OBSERVATION'' \<and>
      (\<forall>(s, ts) \<in> set allowed_transitions. b \<in> set ts \<longrightarrow> s = a)"
    by code_simp
  then show ?thesis by (blast dest: experiment_accepts_in)
qed


text \<open>
  The record of an experiment is its history: in every reachable store the recorded moves
  start at OBSERVATION, each from where the one before ended, and end in the current state; each
  is allowed by the table and leaves no terminal state, and the stored hash is that of the
  record. No experiment is ever ROLLED_BACK, and one that is RELEASED, REJECTED or ROLLED_BACK
  refuses every further move, although the table allows RELEASED to ROLLED_BACK.
\<close>

theorem experiment_history_consistent:
  assumes "experiment_reachable E st" and "dict_get st i = Some x"
  shows "map tr_from (ex_transitions x) = butlast (''OBSERVATION'' # map tr_to (ex_transitions x)) \<and>
     ex_state x = last (''OBSERVATION'' # map tr_to (ex_transitions x)) \<and>
     (\<forall>t \<in> set (ex_transitions x). tr_from t \<notin> set terminal_states \<and>
        table_allows allowed_transitions (tr_from t) (tr_to t)) \<and>
     ex_integrity x = experiment_fingerprint E (experiment_json x) \<and>
     ex_state x \<noteq> ''ROLLED_BACK'' \<and>
     (ex_state x \<in> {''RELEASED'', ''REJECTED'', ''ROLLED_BACK''} \<longrightarrow>
        transition_experiment E now i to args st = Inl (TerminalState i (ex_state x)))"
proof -
  have ok: "experiment_ok E i x" using experiment_reachable_ok [OF assms(1)] assms(2) by blast
  let ?ss = "experiment_states x"
  have path: "exp.path ?ss" and last: "last ?ss = ex_state x"
    and froms: "map tr_from (ex_transitions x) = butlast ?ss"
    using ok by (simp_all add: experiment_ok_def)
  have "adjacent ?ss = map (\<lambda>t. (tr_from t, tr_to t)) (ex_transitions x)"
    by (rule adjacent_recorded [OF froms]) (simp add: experiment_states_def)
  then have moves: "experiment_accepts (tr_from t) (tr_to t)" if "t \<in> set (ex_transitions x)" for t
    using path that unfolding exp.path_def by auto
  have no_rollback: "\<not> experiment_accepts s ''ROLLED_BACK''" for s
  proof -
    have "\<forall>(s, ts) \<in> set allowed_transitions. ''ROLLED_BACK'' \<in> set ts \<longrightarrow> s \<in> set terminal_states"
      by code_simp
    then show ?thesis by (blast dest: experiment_accepts_in)
  qed
  have rolled: "ex_state x \<noteq> ''ROLLED_BACK''"
  proof
    assume r: "ex_state x = ''ROLLED_BACK''"
    have ss: "?ss = butlast ?ss @ [''ROLLED_BACK'']"
      using last r by (metis append_butlast_last_id experiment_states_def list.distinct(1))
    then have "butlast ?ss \<noteq> []" by (auto simp: experiment_states_def)
    with exp.path_butlast [of "butlast ?ss" "''ROLLED_BACK''"] path ss no_rollback show False by metis
  qed
  have stuck: "transition_experiment E now i to args st = Inl (TerminalState i (ex_state x))"
    if "ex_state x \<in> {''RELEASED'', ''REJECTED'', ''ROLLED_BACK''}"
    using that assms(2) by (simp add: transition_experiment_def load_experiment_def terminal_states_def) blast
  have "ex_integrity x = experiment_fingerprint E (experiment_json x)"
    using ok by (simp add: experiment_ok_def)
  with moves rolled stuck froms last show ?thesis
    unfolding experiment_states_def [symmetric] experiment_accepts_def by (intro conjI ballI impI) metis+
qed

text \<open>
  The gate needs no human: there is a reachable store with an experiment that is RELEASED
  although no transition of its history names a reviewer, because the check of the reviewer
  compares it with the proposer and lets an absent one pass.
\<close>

theorem experiment_released_unreviewed:
  "\<exists>st x. experiment_reachable E st \<and> dict_get st i = Some x \<and> ex_state x = ''RELEASED'' \<and>
     list_all (\<lambda>t. tr_reviewer t = None) (ex_transitions x)"
proof -
  obtain st x where x: "experiment_reachable E st" "dict_get st i = Some x"
    "experiment_states x = shortest_release" "\<forall>t \<in> set (ex_transitions x). tr_reviewer t = None"
    using silent_path [OF shortest_release_path, of E i] by blast
  have "ex_state x = last shortest_release"
    using experiment_reachable_ok [OF x(1)] x(2,3) unfolding experiment_ok_def by metis
  then have "ex_state x = ''RELEASED''" by (simp add: shortest_release_def)
  with x show ?thesis by (auto simp: list_all_iff)
qed

text \<open>
  The research cycle runs through its seven steps once: started with no step, the router
  gives collection, hypothesis, design, data validation, backtest, review and knowledge update
  in turn and then no step; failure analysis has no successor; each step has an agent.
\<close>

theorem research_cycle_steps:
  "map (\<lambda>n. ((\<lambda>s. Option.bind s (next_step \<circ> Some)) ^^ n) (next_step None)) [0..<8] =
     map Some [COLLECT_EVIDENCE, FORM_HYPOTHESIS, DESIGN_EXPERIMENT, VALIDATE_DATA, RUN_BACKTEST,
       REVIEW_RESULT, UPDATE_KNOWLEDGE] @ [None] \<and>
   next_step (Some FAILURE_ANALYSIS) = None \<and> agent_for_step s \<noteq> None"
proof (intro conjI)
  show "agent_for_step s \<noteq> None" by (cases s) (simp_all add: agent_for_step_def step_agent_map_def)
qed code_simp+

section \<open>Witnesses\<close>

lemma released_sample:
  "\<exists>st x. experiment_reachable sample st \<and> dict_get st ''e1'' = Some x \<and> ex_state x = ''RELEASED''"
proof -
  obtain st x where x: "experiment_reachable sample st" "dict_get st ''e1'' = Some x"
    "experiment_states x = shortest_release"
    using silent_path [OF shortest_release_path, of sample "''e1''"] by blast
  have "ex_state x = last shortest_release"
    using experiment_reachable_ok [OF x(1)] x(2,3) unfolding experiment_ok_def by metis
  with x show ?thesis by (auto simp: shortest_release_def)
qed

definition plain_env :: py_env where
  "plain_env = \<lparr>sha256_hex = (\<lambda>s. nat_str (length s)), float_repr = (\<lambda>q. int_str \<lfloor>q\<rfloor>),
     round_sum = (\<lambda>xs. Fin 0), iso_text = int_str, iso_parse = (\<lambda>s. None)\<rparr>"


theorem experiment_history_consistent_witness:
  "\<exists>st x. experiment_reachable plain_env st \<and> dict_get st ''e1'' = Some x \<and>
     transition_experiment plain_env ''n'' ''e1'' ''ROLLED_BACK'' silent_args st =
       Inl (TerminalState ''e1'' ''RELEASED'')"
proof -
  obtain st x where x: "experiment_reachable plain_env st" "dict_get st ''e1'' = Some x"
    "ex_state x = ''RELEASED''"
    using released_sample by blast
  from experiment_history_consistent [OF x(1,2), of "''n''" "''ROLLED_BACK''" silent_args] x
  show ?thesis by auto
qed

end
