(* ===== verification/Skills.thy ===== *)
theory Skills
  imports Lifecycle Events
begin

text \<open>
  \<open>SkillCandidateStore\<close> of \<open>persistence/__init__.py\<close>: one JSON file per candidate, numbered by
  the count of files, with a lifecycle table and a fingerprint over the other fields. The files
  are held as the records that a load gives: members of nested objects come back sorted.
\<close>

section \<open>Candidates\<close>

record skill_candidate =
  sk_id :: string
  sk_skill :: string
  sk_state :: string
  sk_created :: string
  sk_updated :: string
  sk_proposer :: string
  sk_evidence :: event
  sk_test :: "event option"
  sk_reviewer :: "string option"
  sk_release :: "string option"
  sk_rollback :: "string option"
  sk_integrity :: string

type_synonym skill_store = "(string, skill_candidate) dict"

datatype skill_error =
    SkillMissing string
  | SkillTransition string string
  | SkillJson py_exn

definition skill_transitions :: "(string, string list) dict" where
  "skill_transitions =
     [(''CANDIDATE'', [''TESTED'', ''REJECTED'']), (''TESTED'', [''APPROVED'', ''REJECTED'']),
      (''APPROVED'', [''RELEASED'', ''REJECTED'']), (''RELEASED'', [''ROLLED_BACK''])]"

definition opt_json :: "string option \<Rightarrow> json" where
  "opt_json s = (case s of None \<Rightarrow> JNull | Some t \<Rightarrow> JStr t)"

definition opt_obj :: "event option \<Rightarrow> json" where
  "opt_obj d = (case d of None \<Rightarrow> JNull | Some kvs \<Rightarrow> JObj kvs)"

text \<open>The record without its hash, in the order of the fields.\<close>

definition skill_members :: "skill_candidate \<Rightarrow> event" where
  "skill_members c =
     [(''candidate_id'', JStr (sk_id c)), (''skill_id'', JStr (sk_skill c)),
      (''state'', JStr (sk_state c)), (''created_at_utc'', JStr (sk_created c)),
      (''updated_at_utc'', JStr (sk_updated c)), (''proposer_agent'', JStr (sk_proposer c)),
      (''evidence'', JObj (sk_evidence c)), (''test_result'', opt_obj (sk_test c)),
      (''reviewer'', opt_json (sk_reviewer c)), (''release_version'', opt_json (sk_release c)),
      (''rollback_reference'', opt_json (sk_rollback c))]"

definition read_back :: "skill_candidate \<Rightarrow> skill_candidate" where
  "read_back c =
     c\<lparr>sk_evidence := members_of (json_norm (JObj (sk_evidence c))),
       sk_test := map_option (\<lambda>d. members_of (json_norm (JObj d))) (sk_test c)\<rparr>"

definition skill_fingerprint :: "py_env \<Rightarrow> skill_candidate \<Rightarrow> json_error + string" where
  "skill_fingerprint E c = fingerprint E (JObj (skill_members c))"

section \<open>Operations\<close>

definition write_skill ::
  "py_env \<Rightarrow> skill_candidate \<Rightarrow> skill_store \<Rightarrow> skill_error + (skill_candidate \<times> skill_store)" where
  "write_skill E c st =
     (case json_exn (skill_fingerprint E c) of
        Inl e \<Rightarrow> Inl (SkillJson e)
      | Inr h \<Rightarrow>
          (let c' = c\<lparr>sk_integrity := h\<rparr>
           in case json_exn (canonical_json E (JObj (skill_members c' @ [(''integrity_hash'', JStr h)]))) of
                Inl e \<Rightarrow> Inl (SkillJson e)
              | Inr _ \<Rightarrow> Inr (c', dict_set (sk_id c) (read_back c') st)))"

definition create_skill ::
  "py_env \<Rightarrow> string \<Rightarrow> string \<Rightarrow> string \<Rightarrow> string \<Rightarrow> event \<Rightarrow> skill_store \<Rightarrow>
   skill_error + (skill_candidate \<times> skill_store)" where
  "create_skill E now1 now2 skill proposer evidence st =
     write_skill E
       \<lparr>sk_id = ''skill-'' @ nat_str (length st + 1), sk_skill = skill, sk_state = ''CANDIDATE'',
        sk_created = now1, sk_updated = now2, sk_proposer = proposer, sk_evidence = evidence,
        sk_test = None, sk_reviewer = None, sk_release = None, sk_rollback = None,
        sk_integrity = []\<rparr> st"

definition load_skill :: "string \<Rightarrow> skill_store \<Rightarrow> skill_error + skill_candidate" where
  "load_skill i st = (case dict_get st i of None \<Rightarrow> Inl (SkillMissing i) | Some c \<Rightarrow> Inr c)"

text \<open>\<open>new or old\<close> for texts and for objects: an empty one does not count.\<close>

definition text_or :: "string option \<Rightarrow> string option \<Rightarrow> string option" where
  "text_or new old = (if truthy new then new else old)"

definition obj_or :: "event option \<Rightarrow> event option \<Rightarrow> event option" where
  "obj_or new old = (case new of Some d \<Rightarrow> if d = [] then old else new | None \<Rightarrow> old)"

definition transition_skill ::
  "py_env \<Rightarrow> string \<Rightarrow> string \<Rightarrow> string \<Rightarrow> string option \<Rightarrow> event option \<Rightarrow> string option \<Rightarrow>
   string option \<Rightarrow> skill_store \<Rightarrow> skill_error + (skill_candidate \<times> skill_store)" where
  "transition_skill E now i to reviewer test release rollback st =
     bind_res (load_skill i st) (\<lambda>c.
       if \<not> table_allows skill_transitions (sk_state c) to
       then Inl (SkillTransition (sk_state c) to)
       else write_skill E
         (c\<lparr>sk_state := to, sk_updated := now, sk_test := obj_or test (sk_test c),
            sk_reviewer := text_or reviewer (sk_reviewer c),
            sk_release := text_or release (sk_release c),
            sk_rollback := text_or rollback (sk_rollback c), sk_integrity := []\<rparr>) st)"

definition validate_skill :: "py_env \<Rightarrow> string \<Rightarrow> skill_store \<Rightarrow> skill_error + bool" where
  "validate_skill E i st =
     bind_res (load_skill i st) (\<lambda>c.
       case json_exn (skill_fingerprint E c) of
         Inl e \<Rightarrow> Inl (SkillJson e)
       | Inr h \<Rightarrow> Inr (sk_integrity c = h))"

section \<open>Reading back\<close>

lemma dumps_obj_norm:
  "json_dumps E st (JObj (members_of (json_norm (JObj d)))) = json_dumps E st (JObj d)"
  using json_dumps_norm(1) [of E st "JObj d"] by simp

lemma members_read_back:
  "json_dumps_members E st (skill_members (read_back c)) = json_dumps_members E st (skill_members c)"
  by (cases "sk_test c")
    (simp_all add: skill_members_def read_back_def opt_obj_def dumps_obj_norm
      del: json_dumps.simps(7) json_norm.simps members_of.simps)

lemma fingerprint_read_back [simp]: "skill_fingerprint E (read_back c) = skill_fingerprint E c"
  by (simp add: skill_fingerprint_def fingerprint_def json_digest_def canonical_json_def
      members_read_back)

lemma fingerprint_integrity [simp]:
  "skill_fingerprint E (c\<lparr>sk_integrity := h\<rparr>) = skill_fingerprint E c"
  by (simp add: skill_fingerprint_def skill_members_def)

lemma read_back_simps [simp]:
  "sk_id (read_back c) = sk_id c" "sk_state (read_back c) = sk_state c"
  "sk_integrity (read_back c) = sk_integrity c" "sk_proposer (read_back c) = sk_proposer c"
  by (simp_all add: read_back_def)

lemma write_skill_Inr:
  assumes "write_skill E c st = Inr (c', st')"
  shows "skill_fingerprint E c' = Inr (sk_integrity c') \<and> sk_id c' = sk_id c \<and> sk_state c' = sk_state c \<and>
     st' = dict_set (sk_id c) (read_back c') st"
proof -
  obtain h where "skill_fingerprint E c = Inr h" "c' = c\<lparr>sk_integrity := h\<rparr>"
    "st' = dict_set (sk_id c) (read_back c') st"
    using assms by (auto simp: write_skill_def Let_def split: sum.splits)
  then show ?thesis by simp
qed

section \<open>The lifecycle\<close>

definition skill_accepts :: "string \<Rightarrow> string \<Rightarrow> bool" where
  "skill_accepts = table_allows skill_transitions"

lemma skill_accepts_released: "skill_accepts s ''RELEASED'' \<Longrightarrow> s = ''APPROVED''"
  by (auto simp: skill_accepts_def skill_transitions_def dest!: table_allows_in)

interpretation sk: gated_lifecycle skill_accepts "''CANDIDATE''"
  "\<lambda>s. s \<notin> fst ` set skill_transitions" "''APPROVED''" "''RELEASED''"
proof unfold_locales
  show "\<not> skill_accepts s t" if "s \<notin> fst ` set skill_transitions" for s t
    using that unfolding skill_accepts_def by (force dest: table_allows_in)
qed (auto dest: skill_accepts_released)

text \<open>Reachable stores with the log of the states that were written, candidate by candidate.\<close>

inductive skill_reachable :: "py_env \<Rightarrow> skill_store \<Rightarrow> (string \<times> string) list \<Rightarrow> bool" for E where
  sr_empty: "skill_reachable E [] []"
| sr_create: "skill_reachable E st hist \<Longrightarrow>
     create_skill E now1 now2 skill proposer evidence st = Inr (c, st') \<Longrightarrow>
     skill_reachable E st' (hist @ [(sk_id c, ''CANDIDATE'')])"
| sr_transition: "skill_reachable E st hist \<Longrightarrow>
     transition_skill E now i to reviewer test release rollback st = Inr (c, st') \<Longrightarrow>
     skill_reachable E st' (hist @ [(i, to)])"

definition skill_states :: "(string \<times> string) list \<Rightarrow> string \<Rightarrow> string list" where
  "skill_states hist i = map snd (filter (\<lambda>e. fst e = i) hist)"

lemma skill_states_snoc:
  "skill_states (hist @ [(j, s)]) i = (if i = j then skill_states hist i @ [s] else skill_states hist i)"
  by (simp add: skill_states_def)

definition skill_ok :: "py_env \<Rightarrow> (string \<times> string) list \<Rightarrow> string \<Rightarrow> skill_candidate \<Rightarrow> bool" where
  "skill_ok E hist i c \<longleftrightarrow>
     sk_id c = i \<and> sk.path (skill_states hist i) \<and> last (skill_states hist i) = sk_state c \<and>
     skill_fingerprint E c = Inr (sk_integrity c)"

definition skill_ids :: "nat \<Rightarrow> string list" where
  "skill_ids n = map (\<lambda>k. ''skill-'' @ nat_str (k + 1)) [0..<n]"

lemma distinct_skill_ids: "distinct (skill_ids n)"
  by (auto simp: skill_ids_def distinct_map inj_on_def dest: nat_str_inj)

lemma skill_ids_Suc: "skill_ids (Suc n) = skill_ids n @ [''skill-'' @ nat_str (n + 1)]"
  by (simp add: skill_ids_def)

definition skill_inv :: "py_env \<Rightarrow> skill_store \<Rightarrow> (string \<times> string) list \<Rightarrow> bool" where
  "skill_inv E st hist \<longleftrightarrow>
     dict_keys st = skill_ids (length st) \<and>
     (\<forall>i. dict_get st i = None \<longrightarrow> skill_states hist i = []) \<and>
     (\<forall>i c. dict_get st i = Some c \<longrightarrow> skill_ok E hist i c)"

lemma dict_set_keys_old: "k \<in> set (dict_keys d) \<Longrightarrow> dict_keys (dict_set k v d) = dict_keys d"
  by (induction d) auto

lemma dict_set_length_old: "k \<in> set (dict_keys d) \<Longrightarrow> length (dict_set k v d) = length d"
  using dict_set_keys_old [of k d v] by (metis length_map)

lemma skill_inv_reachable: "skill_reachable E st hist \<Longrightarrow> skill_inv E st hist"
proof (induction rule: skill_reachable.induct)
  case sr_empty
  show ?case by (simp add: skill_inv_def skill_ids_def skill_states_def)
next
  case (sr_create st hist now1 now2 skill proposer evidence c st')
  let ?i = "''skill-'' @ nat_str (length st + 1)"
  note w = write_skill_Inr [OF sr_create.hyps(2) [unfolded create_skill_def]]
  have fp: "skill_fingerprint E c = Inr (sk_integrity c)" using w by blast
  have st'_set: "st' = dict_set ?i (read_back c) st" using w by simp
  have h: "skill_fingerprint E c = Inr (sk_integrity c)" "sk_integrity c = sk_integrity c"
    "sk_id c = ?i" "sk_state c = ''CANDIDATE''" "st' = dict_set ?i (read_back c) st"
    using fp st'_set w by simp_all
  have new: "?i \<notin> set (dict_keys st)"
    using sr_create.IH distinct_skill_ids [of "Suc (length st)"]
    by (auto simp: skill_inv_def skill_ids_Suc)
  then have none: "skill_states hist ?i = []" and st': "st' = st @ [(?i, read_back c)]"
    using sr_create.IH h(5) dict_set_new [OF new] by (auto simp: skill_inv_def map_of_eq_None_iff)
  have "dict_keys st' = skill_ids (length st')"
    using sr_create.IH st' by (simp add: skill_inv_def skill_ids_Suc)
  moreover have "skill_ok E (hist @ [(?i, ''CANDIDATE'')]) j c'"
    if "dict_get st' j = Some c'" for j c'
  proof (cases "j = ?i")
    case True
    then have "c' = read_back c" using that h(5) by simp
    then show ?thesis
      using h none True sk.path_start by (simp add: skill_ok_def skill_states_snoc)
  next
    case False
    then have "dict_get st j = Some c'" using that h(5) by simp
    then show ?thesis using sr_create.IH False by (simp add: skill_inv_def skill_ok_def skill_states_snoc)
  qed
  ultimately show ?case
    using sr_create.IH h(3,5) by (simp add: skill_inv_def skill_states_snoc)
next
  case (sr_transition st hist now i to reviewer test release rollback c st')
  obtain b where b: "dict_get st i = Some b" "skill_accepts (sk_state b) to"
    and w: "write_skill E
      (b\<lparr>sk_state := to, sk_updated := now, sk_test := obj_or test (sk_test b),
         sk_reviewer := text_or reviewer (sk_reviewer b), sk_release := text_or release (sk_release b),
         sk_rollback := text_or rollback (sk_rollback b), sk_integrity := []\<rparr>) st = Inr (c, st')"
    using sr_transition.hyps(2)
    by (auto simp: transition_skill_def bind_res_Inr load_skill_def skill_accepts_def
        split: option.splits if_splits)
  have ok: "skill_ok E hist i b" using sr_transition.IH b(1) by (simp add: skill_inv_def)
  have h: "skill_fingerprint E c = Inr (sk_integrity c)" "sk_id c = i" "sk_state c = to"
    "st' = dict_set i (read_back c) st"
    using write_skill_Inr [OF w] ok by (simp_all add: skill_ok_def)
  have old: "i \<in> set (dict_keys st)" using b(1) by (metis map_of_eq_None_iff option.distinct(1) set_map)
  have "dict_keys st' = skill_ids (length st')"
    using sr_transition.IH dict_set_keys_old [OF old] dict_set_length_old [OF old]
    by (simp add: skill_inv_def h(4))
  moreover have "skill_ok E (hist @ [(i, to)]) j c'" if "dict_get st' j = Some c'" for j c'
  proof (cases "j = i")
    case True
    then have "c' = read_back c" using that h(4) by simp
    moreover have "sk.path (skill_states hist i @ [to])"
      using ok b(2) by (intro sk.path_snoc) (simp_all add: skill_ok_def)
    ultimately show ?thesis using h True by (simp add: skill_ok_def skill_states_snoc)
  next
    case False
    then have "dict_get st j = Some c'" using that h(4) by simp
    then show ?thesis
      using sr_transition.IH False by (simp add: skill_inv_def skill_ok_def skill_states_snoc)
  qed
  ultimately show ?case
    using sr_transition.IH b(1) h(4) by (auto simp: skill_inv_def skill_states_snoc)
qed

section \<open>Properties\<close>

text \<open>
  The skill store keeps its candidates apart and whole: in every reachable store the
  candidates are numbered from one without a gap or a repetition, every one of them validates
  against its stored hash, and one that is RELEASED was written as CANDIDATE, TESTED, APPROVED
  and RELEASED, in this order and nothing else.
\<close>

theorem skill_store_consistent:
  assumes "skill_reachable E st hist"
  shows "dict_keys st = map (\<lambda>k. ''skill-'' @ nat_str (k + 1)) [0..<length st] \<and> distinct (dict_keys st) \<and>
     (\<forall>i c. dict_get st i = Some c \<longrightarrow> validate_skill E i st = Inr True \<and>
        (sk_state c = ''RELEASED'' \<longrightarrow>
           map snd (filter (\<lambda>e. fst e = i) hist) = [''CANDIDATE'', ''TESTED'', ''APPROVED'', ''RELEASED'']))"
proof -
  from assms have inv: "skill_inv E st hist" by (rule skill_inv_reachable)
  then have "distinct (dict_keys st)" by (simp add: skill_inv_def distinct_skill_ids)
  moreover have "validate_skill E i st = Inr True \<and>
      (sk_state c = ''RELEASED'' \<longrightarrow> skill_states hist i = [''CANDIDATE'', ''TESTED'', ''APPROVED'', ''RELEASED''])"
    if c: "dict_get st i = Some c" for i c
  proof
    have ok: "skill_ok E hist i c" using inv c by (simp add: skill_inv_def)
    then show "validate_skill E i st = Inr True"
      using c by (simp add: validate_skill_def load_skill_def skill_ok_def)
    show "sk_state c = ''RELEASED'' \<longrightarrow> skill_states hist i = [''CANDIDATE'', ''TESTED'', ''APPROVED'', ''RELEASED'']"
    proof
      assume "sk_state c = ''RELEASED''"
      with ok have path: "sk.path (skill_states hist i)" and l: "last (skill_states hist i) = ''RELEASED''"
        by (simp_all add: skill_ok_def)
      have "suffix [''CANDIDATE'', ''TESTED'', ''APPROVED'', ''RELEASED''] (skill_states hist i)"
      proof (rule sk.forced_suffix [OF path])
        have check: "\<forall>(a, b) \<in> set (adjacent [''CANDIDATE'', ''TESTED'', ''APPROVED'', ''RELEASED'']).
            b \<noteq> ''CANDIDATE'' \<and> (\<forall>(s, ts) \<in> set skill_transitions. b \<in> set ts \<longrightarrow> s = a)"
          by code_simp
        then show "\<forall>(a, b) \<in> set (adjacent [''CANDIDATE'', ''TESTED'', ''APPROVED'', ''RELEASED'']).
            b \<noteq> ''CANDIDATE'' \<and> (\<forall>s. skill_accepts s b \<longrightarrow> s = a)"
          unfolding skill_accepts_def by (blast dest: table_allows_in)
      qed (simp_all add: l)
      then obtain us where us: "skill_states hist i = us @ [''CANDIDATE'', ''TESTED'', ''APPROVED'', ''RELEASED'']"
        by (auto simp: suffix_def)
      have "us = []"
      proof (rule ccontr)
        assume "us \<noteq> []"
        then obtain vs s where "us = vs @ [s]" by (metis append_butlast_last_id)
        then have "(s, ''CANDIDATE'') \<in> set (adjacent (skill_states hist i))"
          unfolding us by (simp add: adjacent_infix)
        with path have "skill_accepts s ''CANDIDATE''" by (auto simp: sk.path_def)
        then show False
          by (auto simp: skill_accepts_def skill_transitions_def dest!: table_allows_in)
      qed
      with us show "skill_states hist i = [''CANDIDATE'', ''TESTED'', ''APPROVED'', ''RELEASED'']" by simp
    qed
  qed
  ultimately show ?thesis
    using inv unfolding skill_inv_def skill_ids_def skill_states_def by blast
qed

section \<open>Witnesses\<close>

definition plain_skill :: "string \<Rightarrow> string \<Rightarrow> skill_candidate" where
  "plain_skill s h =
     \<lparr>sk_id = ''skill-1'', sk_skill = ''s'', sk_state = s, sk_created = ''t'', sk_updated = ''t'',
      sk_proposer = ''p'', sk_evidence = [], sk_test = None, sk_reviewer = None, sk_release = None,
      sk_rollback = None, sk_integrity = h\<rparr>"

lemma plain_skill_digest: "\<exists>h. skill_fingerprint E (plain_skill s h') = Inr h"
  by (simp add: skill_fingerprint_def fingerprint_def json_digest_def canonical_json_def
      skill_members_def plain_skill_def opt_obj_def opt_json_def)

lemma plain_skill_written:
  "\<exists>h. write_skill E (plain_skill s []) st =
     Inr (plain_skill s h, dict_set ''skill-1'' (plain_skill s h) st)"
proof -
  obtain h where h: "skill_fingerprint E (plain_skill s []) = Inr h" using plain_skill_digest by blast
  have "plain_skill s []\<lparr>sk_integrity := h\<rparr> = plain_skill s h" "read_back (plain_skill s h) = plain_skill s h"
    "sk_id (plain_skill s []) = ''skill-1''"
    by (simp_all add: plain_skill_def read_back_def)
  moreover have "\<exists>t. canonical_json E (JObj (skill_members (plain_skill s h) @ [(''integrity_hash'', JStr h)])) = Inr t"
    by (simp add: canonical_json_def skill_members_def plain_skill_def opt_obj_def opt_json_def)
  ultimately show ?thesis using h by (auto simp: write_skill_def Let_def)
qed

lemma plain_skill_path:
  "\<exists>h hist. skill_reachable E [(''skill-1'', plain_skill ''RELEASED'' h)] hist"
proof -
  have move: "\<exists>h'. skill_reachable E [(''skill-1'', plain_skill to h')] (hist @ [(''skill-1'', to)])"
    if r: "skill_reachable E [(''skill-1'', plain_skill s h)] hist" and a: "skill_accepts s to" for s to h hist
  proof -
    obtain h' where w: "write_skill E (plain_skill to []) [(''skill-1'', plain_skill s h)] =
        Inr (plain_skill to h', [(''skill-1'', plain_skill to h')])"
      using plain_skill_written [of E to "[(''skill-1'', plain_skill s h)]"] by auto
    have "transition_skill E ''t'' ''skill-1'' to None None None None [(''skill-1'', plain_skill s h)] =
        write_skill E (plain_skill to []) [(''skill-1'', plain_skill s h)]"
      using a by (simp add: transition_skill_def load_skill_def skill_accepts_def plain_skill_def
          obj_or_def text_or_def)
    with w have "transition_skill E ''t'' ''skill-1'' to None None None None [(''skill-1'', plain_skill s h)] =
        Inr (plain_skill to h', [(''skill-1'', plain_skill to h')])" by simp
    then show ?thesis using sr_transition [OF r] by blast
  qed
  obtain h where w: "write_skill E (plain_skill ''CANDIDATE'' []) [] =
      Inr (plain_skill ''CANDIDATE'' h, [(''skill-1'', plain_skill ''CANDIDATE'' h)])"
    using plain_skill_written [of E "''CANDIDATE''" "[]"] by auto
  have "create_skill E ''t'' ''t'' ''s'' ''p'' [] [] = write_skill E (plain_skill ''CANDIDATE'' []) []"
  proof -
    have "nat_str (length ([] :: skill_store) + 1) = ''1''" by code_simp
    then show ?thesis by (simp only: create_skill_def plain_skill_def) simp
  qed
  with w have "create_skill E ''t'' ''t'' ''s'' ''p'' [] [] =
      Inr (plain_skill ''CANDIDATE'' h, [(''skill-1'', plain_skill ''CANDIDATE'' h)])" by simp
  from sr_create [OF sr_empty this]
  have start: "\<exists>hist. skill_reachable E [(''skill-1'', plain_skill ''CANDIDATE'' h)] hist" by blast
  have accepts: "skill_accepts ''CANDIDATE'' ''TESTED''" "skill_accepts ''TESTED'' ''APPROVED''"
    "skill_accepts ''APPROVED'' ''RELEASED''"
    by code_simp+
  show ?thesis using start accepts move by meson
qed

theorem skill_store_consistent_witness:
  "\<exists>st hist. skill_reachable sample_env st hist \<and> validate_skill sample_env ''skill-1'' st = Inr True \<and>
     map snd (filter (\<lambda>e. fst e = ''skill-1'') hist) = [''CANDIDATE'', ''TESTED'', ''APPROVED'', ''RELEASED'']"
proof -
  obtain h hist where r: "skill_reachable sample_env [(''skill-1'', plain_skill ''RELEASED'' h)] hist"
    using plain_skill_path by blast
  from skill_store_consistent [OF r] r show ?thesis by (fastforce simp: plain_skill_def)
qed

end


