(* ===== verification/Constants.thy ===== *)
theory Constants
  imports Prelude
begin

text \<open>
  \<open>constants.py\<close> and \<open>_version.py\<close>: the runtime agents, the skills each of them owns, the tools it
  is allowed and denied, as the registry and the topology check them against the agent files.
\<close>

definition package_version :: string where
  "package_version = ''1.2.15''"

definition phase :: string where
  "phase = ''P2.4''"

definition runtime_agent_ids :: "string list" where
  "runtime_agent_ids =
      [''super-advisor'', ''xau-strategy-auditor'', ''system-coder-auditor'',
       ''telegram-publisher'', ''market-data-integrity-agent'',
       ''price-action-microstructure-agent'', ''intermarket-macro-agent'',
       ''statistical-backtest-agent'', ''failure-root-cause-agent'',
       ''security-compliance-agent'', ''reliability-watchdog-agent'',
       ''knowledge-skill-manager'', ''blueprint-coder'']"

definition super_advisor_skills :: "string list" where
  "super_advisor_skills =
      [''advisor-safety-contract'', ''environment-health'', ''evidence-audit'',
       ''agent-orchestration-contract'', ''super-potential-review'', ''incident-reporting'',
       ''publication-policy'']"

definition xau_strategy_auditor_skills :: "string list" where
  "xau_strategy_auditor_skills =
      [''xauusd-market-analysis'', ''multi-timeframe-structure-review'',
       ''price-action-order-block'', ''chart-pattern-filter-review'',
       ''candlestick-microstructure'', ''strategy-logic-audit'', ''realtime-evidence-review'',
       ''super-potential-audit'', ''alert-quality-improvement'']"

definition system_coder_auditor_skills :: "string list" where
  "system_coder_auditor_skills =
      [''python-pipeline-micro-audit'', ''code-architecture-review'',
       ''logic-conflict-detection'', ''dead-code-and-duplicate-review'',
       ''test-and-regression-design'', ''blueprint-compliance-audit'', ''safe-patch-workflow'',
       ''release-and-rollback'', ''skill-improvement-proposal'']"

definition telegram_publisher_skills :: "string list" where
  "telegram_publisher_skills =
      [''thai-telegram-publisher'', ''telegram-message-contract'',
       ''telegram-delivery-safety'', ''telegram-deduplication-throttle'',
       ''telegram-retry-and-dead-letter'', ''telegram-security-redaction'']"

definition market_data_integrity_skills :: "string list" where
  "market_data_integrity_skills =
      [''market-data-coverage-audit'', ''data-provenance-contract'', ''stale-data-detection'']"

definition price_action_microstructure_skills :: "string list" where
  "price_action_microstructure_skills =
      [''candlestick-structure-analysis'', ''microstructure-trigger-audit'',
       ''m1-m5-pattern-review'']"

definition intermarket_macro_skills :: "string list" where
  "intermarket_macro_skills =
      [''fx-basket-analysis'', ''us10y-context-review'', ''intermarket-correlation-audit'',
       ''regime-classification'']"

definition statistical_backtest_skills :: "string list" where
  "statistical_backtest_skills =
      [''sample-adequacy-review'', ''walk-forward-analysis'', ''overfitting-detection'']"

definition failure_root_cause_skills :: "string list" where
  "failure_root_cause_skills =
      [''alert-failure-analysis'', ''root-cause-tree-builder'',
       ''corrective-hypothesis-design'']"

definition security_compliance_skills :: "string list" where
  "security_compliance_skills =
      [''advisor-only-enforcement'', ''privilege-boundary-audit'', ''secret-exposure-scan'']"

definition reliability_watchdog_skills :: "string list" where
  "reliability_watchdog_skills =
      [''process-health-monitor'', ''component-restart-protocol'',
       ''incident-escalation-contract'']"

definition knowledge_skill_manager_skills :: "string list" where
  "knowledge_skill_manager_skills =
      [''research-knowledge-lifecycle'', ''skill-candidate-lifecycle'',
       ''experiment-outcome-recording'']"

definition blueprint_coder_skills :: "string list" where
  "blueprint_coder_skills =
      [''advanced-python-engineering'', ''software-architecture-design'',
       ''algorithm-and-logic-design'', ''blueprint-compliance-engineering'',
       ''runtime-pipeline-wiring'', ''event-driven-system-design'',
       ''state-machine-engineering'', ''data-pipeline-engineering'', ''secure-refactoring'',
       ''root-cause-debugging'', ''logic-conflict-remediation'', ''dead-code-elimination'',
       ''test-and-regression-engineering'', ''property-based-testing'',
       ''performance-and-reliability-engineering'', ''migration-and-backward-compatibility'',
       ''isolated-worktree-patching'', ''release-and-rollback-planning'']"

definition blueprint_coder_exec_allowlist :: "string list" where
  "blueprint_coder_exec_allowlist =
      [''git diff'', ''git status'', ''git log'', ''git add'', ''git commit'',
       ''git checkout'', ''git worktree'', ''python -m pytest'', ''python -m ruff'',
       ''python -m mypy'', ''python -m pip_audit'']"

definition agent_skill_names :: "(string, string list) dict" where
  "agent_skill_names =
     [(''super-advisor'', super_advisor_skills),
      (''xau-strategy-auditor'', xau_strategy_auditor_skills),
      (''system-coder-auditor'', system_coder_auditor_skills),
      (''telegram-publisher'', telegram_publisher_skills),
      (''market-data-integrity-agent'', market_data_integrity_skills),
      (''price-action-microstructure-agent'', price_action_microstructure_skills),
      (''intermarket-macro-agent'', intermarket_macro_skills),
      (''statistical-backtest-agent'', statistical_backtest_skills),
      (''failure-root-cause-agent'', failure_root_cause_skills),
      (''security-compliance-agent'', security_compliance_skills),
      (''reliability-watchdog-agent'', reliability_watchdog_skills),
      (''knowledge-skill-manager'', knowledge_skill_manager_skills),
      (''blueprint-coder'', blueprint_coder_skills)]"

text \<open>A tuple built by comprehension over the agents, and the owner of each skill (the last one).\<close>

definition skill_names :: "string list" where
  "skill_names = concat (map (\<lambda>a. dict_get_or agent_skill_names a []) runtime_agent_ids)"

definition skill_owners :: "(string, string) dict" where
  "skill_owners =
     fold (\<lambda>(a, sks) d. fold (\<lambda>sk d. dict_set sk a d) sks d) agent_skill_names []"

definition standard_deny :: "string list" where
  "standard_deny =
      [''group:runtime'', ''group:web'', ''group:ui'', ''group:automation'',
       ''group:messaging'', ''group:plugins'', ''group:memory'', ''group:sessions'', ''write'',
       ''edit'', ''apply_patch'', ''exec'', ''process'', ''code_execution'', ''browser'',
       ''canvas'', ''gateway'', ''message'', ''subagents'', ''memory_search'', ''memory_get'',
       ''sessions_list'', ''sessions_history'', ''sessions_send'', ''sessions_spawn'',
       ''sessions_yield'']"

definition super_advisor_deny :: "string list" where
  "super_advisor_deny = filter (\<lambda>t. t \<notin> {''group:messaging'', ''message''}) standard_deny"

definition blueprint_coder_deny :: "string list" where
  "blueprint_coder_deny =
     filter (\<lambda>t. t \<notin> {''write'', ''edit'', ''apply_patch'', ''exec''}) standard_deny"

definition agent_allowed_tools :: "(string, string list) dict" where
  "agent_allowed_tools =
     [(''super-advisor'', [''read'', ''session_status'']),
      (''xau-strategy-auditor'', [''read'', ''session_status'']),
      (''system-coder-auditor'', [''read'', ''session_status'']),
      (''telegram-publisher'', [''read'', ''session_status'']),
      (''market-data-integrity-agent'', [''read'', ''session_status'']),
      (''price-action-microstructure-agent'', [''read'', ''session_status'']),
      (''intermarket-macro-agent'', [''read'', ''session_status'']),
      (''statistical-backtest-agent'', [''read'', ''session_status'']),
      (''failure-root-cause-agent'', [''read'', ''session_status'']),
      (''security-compliance-agent'', [''read'', ''session_status'']),
      (''reliability-watchdog-agent'', [''read'', ''session_status'']),
      (''knowledge-skill-manager'', [''read'', ''session_status'']),
      (''blueprint-coder'', [''read'', ''session_status'', ''write'', ''edit'', ''apply_patch''])]"

definition agent_denied_tools :: "(string, string list) dict" where
  "agent_denied_tools =
     map (\<lambda>a. (a, if a = ''super-advisor'' then super_advisor_deny
                  else if a = ''blueprint-coder'' then blueprint_coder_deny
                  else standard_deny)) runtime_agent_ids"

definition fx_basket_pairs :: "string list" where
  "fx_basket_pairs =
      [''EURUSD'', ''GBPUSD'', ''AUDUSD'', ''NZDUSD'', ''USDJPY'', ''USDCHF'', ''USDCAD'']"

definition fx_basket_reverse_pairs :: "string list" where
  "fx_basket_reverse_pairs =
      [''EURUSD'', ''GBPUSD'', ''AUDUSD'', ''NZDUSD'']"

definition telegram_system_events :: "string list" where
  "telegram_system_events =
      [''SYSTEM_STARTED'', ''SYSTEM_RECOVERED'', ''SYSTEM_SHUTTING_DOWN'',
       ''SYSTEM_OFFLINE_DETECTED'', ''GATEWAY_FAILED'', ''PYTHON_ENGINE_FAILED'',
       ''QUEUE_STALLED'', ''DATA_STALE'', ''MT5_DISCONNECTED'', ''FRED_UNAVAILABLE'',
       ''DISK_LOW'', ''DATABASE_LOCKED'', ''EXPERIMENT_FAILED'', ''SECURITY_INCIDENT'']"

end
