(* ===== verification/Registry.thy ===== *)
theory Registry
  imports Constants Json
begin

text \<open>
  \<open>agent_registry.py\<close> and \<open>main_agent/registry_runtime.py\<close>: agent capability records read from
  the front matter of the agent files, the registry with its hash, its lookups and its routing,
  and the snapshot that the planner and the router use. The YAML loader and the path of a file
  are outside: \<open>parse_agent\<close> starts from the loaded value and the definition source.
\<close>

section \<open>Records\<close>

record agent_record =
  ag_id :: string
  ag_display_name :: string
  ag_role :: string
  ag_responsibilities :: "string list"
  ag_task_types :: "string list"
  ag_input_schema :: "(string, json) dict"
  ag_output_contract :: "(string, json) dict"
  ag_allowed_actions :: "string list"
  ag_forbidden_actions :: "string list"
  ag_allowed_tools :: "string list"
  ag_forbidden_tools :: "string list"
  ag_upstream :: "string list"
  ag_downstream :: "string list"
  ag_reviewers :: "string list"
  ag_escalation :: string
  ag_human_gate :: bool
  ag_may_modify :: bool
  ag_may_commit :: bool
  ag_may_push :: bool
  ag_may_deploy :: bool
  ag_may_publish :: bool
  ag_may_browser :: bool
  ag_may_secrets :: bool
  ag_self_approval :: bool
  ag_source :: string
  ag_version :: string
  ag_hash :: string
  ag_skills :: "json list"
  ag_availability :: string

record agent_registry =
  rg_schema :: string
  rg_version :: string
  rg_hash :: string
  rg_from :: string
  rg_path :: string
  rg_by :: string
  rg_agent_count :: nat
  rg_skill_count :: nat
  rg_agents :: "agent_record list"

definition required_agent_fields :: "string list" where
  "required_agent_fields =
     [''agent_id'', ''display_name'', ''role_summary'', ''primary_responsibilities'',
      ''accepted_task_types'', ''required_input_schema'', ''output_contract'', ''allowed_actions'',
      ''forbidden_actions'', ''allowed_tools'', ''forbidden_tools'', ''upstream_routes'',
      ''downstream_routes'', ''required_reviewers'', ''escalation_target'',
      ''human_release_gate_required'', ''may_modify_code'', ''may_commit'', ''may_push'',
      ''may_deploy'', ''may_publish_telegram'', ''may_access_browser'', ''may_access_secrets'',
      ''self_approval_allowed'', ''definition_source'', ''definition_version'', ''definition_hash'']"

definition required_registry_fields :: "string list" where
  "required_registry_fields =
     [''schema_version'', ''registry_version'', ''registry_hash'', ''generated_from'',
      ''generated_path'', ''generated_by'', ''agent_count'', ''skill_count'', ''agents'']"

definition registry_schema_version :: string where
  "registry_schema_version = ''1.0.0''"

definition registry_generator :: string where
  "registry_generator = ''openclaw-advisor validate-agent-registry --write''"

definition strs :: "string list \<Rightarrow> json" where
  "strs xs = JList (map JStr xs)"

definition agent_json :: "agent_record \<Rightarrow> json" where
  "agent_json a =
     JObj [(''agent_id'', JStr (ag_id a)), (''display_name'', JStr (ag_display_name a)),
           (''role_summary'', JStr (ag_role a)),
           (''primary_responsibilities'', strs (ag_responsibilities a)),
           (''accepted_task_types'', strs (ag_task_types a)),
           (''required_input_schema'', JObj (ag_input_schema a)),
           (''output_contract'', JObj (ag_output_contract a)),
           (''allowed_actions'', strs (ag_allowed_actions a)),
           (''forbidden_actions'', strs (ag_forbidden_actions a)),
           (''allowed_tools'', strs (ag_allowed_tools a)),
           (''forbidden_tools'', strs (ag_forbidden_tools a)),
           (''upstream_routes'', strs (ag_upstream a)), (''downstream_routes'', strs (ag_downstream a)),
           (''required_reviewers'', strs (ag_reviewers a)),
           (''escalation_target'', JStr (ag_escalation a)),
           (''human_release_gate_required'', JBool (ag_human_gate a)),
           (''may_modify_code'', JBool (ag_may_modify a)), (''may_commit'', JBool (ag_may_commit a)),
           (''may_push'', JBool (ag_may_push a)), (''may_deploy'', JBool (ag_may_deploy a)),
           (''may_publish_telegram'', JBool (ag_may_publish a)),
           (''may_access_browser'', JBool (ag_may_browser a)),
           (''may_access_secrets'', JBool (ag_may_secrets a)),
           (''self_approval_allowed'', JBool (ag_self_approval a)),
           (''definition_source'', JStr (ag_source a)), (''definition_version'', JStr (ag_version a)),
           (''definition_hash'', JStr (ag_hash a)), (''owned_skills'', JList (ag_skills a)),
           (''current_availability'', JStr (ag_availability a))]"

text \<open>The members that the registry hash covers; the whole object has the hash after the version.\<close>

definition registry_members :: "agent_registry \<Rightarrow> (string, json) dict" where
  "registry_members r =
     [(''schema_version'', JStr (rg_schema r)), (''registry_version'', JStr (rg_version r)),
      (''generated_from'', JStr (rg_from r)), (''generated_path'', JStr (rg_path r)),
      (''generated_by'', JStr (rg_by r)), (''agent_count'', JInt (int (rg_agent_count r))),
      (''skill_count'', JInt (int (rg_skill_count r))),
      (''agents'', JList (map agent_json (rg_agents r)))]"

definition registry_json :: "agent_registry \<Rightarrow> json" where
  "registry_json r =
     JObj (take 2 (registry_members r) @ [(''registry_hash'', JStr (rg_hash r))] @
           drop 2 (registry_members r))"

section \<open>Parsing an agent definition\<close>

definition as_string :: "string \<Rightarrow> json option \<Rightarrow> string \<Rightarrow> py_exn + string" where
  "as_string path v field =
     (case v of
        Some (JStr s) \<Rightarrow>
          if str_strip s = [] then Inl (ValueError (path @ '' field '' @ field @ '' must be a non-empty string''))
          else Inr (str_strip s)
      | _ \<Rightarrow> Inl (ValueError (path @ '' field '' @ field @ '' must be a non-empty string'')))"

definition as_bool :: "string \<Rightarrow> json option \<Rightarrow> string \<Rightarrow> py_exn + bool" where
  "as_bool path v field =
     (case v of
        Some (JBool b) \<Rightarrow> Inr b
      | _ \<Rightarrow> Inl (ValueError (path @ '' field '' @ field @ '' must be a boolean'')))"

fun the_str :: "json \<Rightarrow> string" where
  "the_str (JStr s) = s"
| "the_str _ = []"

definition as_string_tuple :: "string \<Rightarrow> json option \<Rightarrow> string \<Rightarrow> py_exn + string list" where
  "as_string_tuple path v field =
     (case v of
        Some (JList xs) \<Rightarrow>
          if xs = [] \<or> \<not> list_all is_jstr xs
          then Inl (ValueError (path @ '' field '' @ field @ '' must be a non-empty string list''))
          else Inr (filter (\<lambda>s. s \<noteq> []) (map (\<lambda>x. str_strip (the_str x)) xs))
      | _ \<Rightarrow> Inl (ValueError (path @ '' field '' @ field @ '' must be a non-empty string list'')))"

definition as_object :: "string \<Rightarrow> json option \<Rightarrow> string \<Rightarrow> py_exn + (string, json) dict" where
  "as_object path v field =
     (case v of
        Some (JObj d) \<Rightarrow> Inr d
      | _ \<Rightarrow> Inl (ValueError (path @ '' field '' @ field @ '' must be an object'')))"

definition agent_definition_hash :: "py_env \<Rightarrow> (string, json) dict \<Rightarrow> py_exn + string" where
  "agent_definition_hash E metadata =
     json_exn (json_digest E (JObj (dict_pop ''definition_source'' (dict_pop ''definition_hash'' metadata))))"

definition metadata_fields :: "string list" where
  "metadata_fields =
     filter (\<lambda>f. f \<notin> {''definition_source'', ''definition_hash''}) required_agent_fields @ [''owned_skills'']"

definition parse_agent :: "py_env \<Rightarrow> string \<Rightarrow> string \<Rightarrow> json \<Rightarrow> py_exn + agent_record" where
  "parse_agent E path source loaded =
     (case loaded of
        JObj metadata \<Rightarrow>
          (let unknown = filter (\<lambda>k. k \<notin> set metadata_fields) (sort (dict_keys metadata));
               missing = filter (\<lambda>f. f \<notin> {''definition_source'', ''definition_hash''} \<and>
                           dict_get metadata f = None) required_agent_fields;
               at_key = dict_get metadata
           in if unknown \<noteq> []
              then Inl (ValueError (path @ '' frontmatter has unknown fields: '' @ str_join '', '' unknown))
              else if missing \<noteq> []
              then Inl (ValueError (path @ '' frontmatter missing fields: '' @ str_join '', '' missing))
              else
                bind_res (agent_definition_hash E (dict_set ''definition_source'' (JStr source) metadata)) (\<lambda>h.
                bind_res (py_tuple (dict_get_or metadata ''owned_skills'' (JList []))) (\<lambda>skills.
                bind_res (as_string path (at_key ''agent_id'') ''agent_id'') (\<lambda>aid.
                bind_res (as_string path (at_key ''display_name'') ''display_name'') (\<lambda>name.
                bind_res (as_string path (at_key ''role_summary'') ''role_summary'') (\<lambda>role.
                bind_res (as_string_tuple path (at_key ''primary_responsibilities'') ''primary_responsibilities'') (\<lambda>resp.
                bind_res (as_string_tuple path (at_key ''accepted_task_types'') ''accepted_task_types'') (\<lambda>types.
                bind_res (as_object path (at_key ''required_input_schema'') ''required_input_schema'') (\<lambda>inp.
                bind_res (as_object path (at_key ''output_contract'') ''output_contract'') (\<lambda>outp.
                bind_res (as_string_tuple path (at_key ''allowed_actions'') ''allowed_actions'') (\<lambda>allowed.
                bind_res (as_string_tuple path (at_key ''forbidden_actions'') ''forbidden_actions'') (\<lambda>forbidden.
                bind_res (as_string_tuple path (at_key ''allowed_tools'') ''allowed_tools'') (\<lambda>tools.
                bind_res (as_string_tuple path (at_key ''forbidden_tools'') ''forbidden_tools'') (\<lambda>no_tools.
                bind_res (as_string_tuple path (at_key ''upstream_routes'') ''upstream_routes'') (\<lambda>up.
                bind_res (as_string_tuple path (at_key ''downstream_routes'') ''downstream_routes'') (\<lambda>down.
                bind_res (as_string_tuple path (at_key ''required_reviewers'') ''required_reviewers'') (\<lambda>reviewers.
                bind_res (as_string path (at_key ''escalation_target'') ''escalation_target'') (\<lambda>escalation.
                bind_res (as_bool path (at_key ''human_release_gate_required'') ''human_release_gate_required'') (\<lambda>gate.
                bind_res (as_bool path (at_key ''may_modify_code'') ''may_modify_code'') (\<lambda>modify.
                bind_res (as_bool path (at_key ''may_commit'') ''may_commit'') (\<lambda>commit.
                bind_res (as_bool path (at_key ''may_push'') ''may_push'') (\<lambda>push.
                bind_res (as_bool path (at_key ''may_deploy'') ''may_deploy'') (\<lambda>deploy.
                bind_res (as_bool path (at_key ''may_publish_telegram'') ''may_publish_telegram'') (\<lambda>publish.
                bind_res (as_bool path (at_key ''may_access_browser'') ''may_access_browser'') (\<lambda>browser.
                bind_res (as_bool path (at_key ''may_access_secrets'') ''may_access_secrets'') (\<lambda>secrets.
                bind_res (as_bool path (at_key ''self_approval_allowed'') ''self_approval_allowed'') (\<lambda>self.
                bind_res (as_string path (at_key ''definition_version'') ''definition_version'') (\<lambda>version.
                  Inr \<lparr>ag_id = aid, ag_display_name = name, ag_role = role, ag_responsibilities = resp,
                       ag_task_types = types, ag_input_schema = inp, ag_output_contract = outp,
                       ag_allowed_actions = allowed, ag_forbidden_actions = forbidden,
                       ag_allowed_tools = tools, ag_forbidden_tools = no_tools, ag_upstream = up,
                       ag_downstream = down, ag_reviewers = reviewers, ag_escalation = escalation,
                       ag_human_gate = gate, ag_may_modify = modify, ag_may_commit = commit,
                       ag_may_push = push, ag_may_deploy = deploy, ag_may_publish = publish,
                       ag_may_browser = browser, ag_may_secrets = secrets, ag_self_approval = self,
                       ag_source = source, ag_version = version, ag_hash = h, ag_skills = skills,
                       ag_availability = ''AVAILABLE''\<rparr>))))))))))))))))))))))))))))
      | _ \<Rightarrow> Inl (ValueError (path @ '' frontmatter must be a mapping'')))"

text \<open>
  The files: for each agent its path, its definition source and its loaded front matter, or what
  reading it raises. A registry is made of the thirteen runtime agents, in order.
\<close>

type_synonym agent_files = "string \<Rightarrow> string \<times> string \<times> (py_exn + json)"

definition build_registry :: "py_env \<Rightarrow> string \<Rightarrow> string \<Rightarrow> agent_files \<Rightarrow> py_exn + agent_registry" where
  "build_registry E generated_from generated_path files =
     bind_res (map_res (\<lambda>i. case files i of (path, source, loaded) \<Rightarrow>
                          bind_res loaded (parse_agent E path source)) runtime_agent_ids) (\<lambda>agents.
       let r = \<lparr>rg_schema = registry_schema_version, rg_version = package_version, rg_hash = [],
                rg_from = generated_from, rg_path = generated_path, rg_by = registry_generator,
                rg_agent_count = length agents,
                rg_skill_count = sum_list (map (\<lambda>a. length (ag_skills a)) agents), rg_agents = agents\<rparr>
       in bind_res (json_exn (json_digest E (JObj (registry_members r)))) (\<lambda>h. Inr (r\<lparr>rg_hash := h\<rparr>)))"

text \<open>\<open>_registry_payload_hash\<close>: the same members of a loaded registry; a missing one is \<open>None\<close>.\<close>

definition registry_payload_hash :: "py_env \<Rightarrow> (string, json) dict \<Rightarrow> py_exn + string" where
  "registry_payload_hash E payload =
     json_exn (json_digest E (JObj (map (\<lambda>k. (k, dict_get_or payload k JNull))
       [''schema_version'', ''registry_version'', ''generated_from'', ''generated_path'',
        ''generated_by'', ''agent_count'', ''skill_count'', ''agents''])))"

section \<open>Lookups and routing\<close>

definition get_agent_capability :: "agent_registry \<Rightarrow> string \<Rightarrow> py_exn + agent_record" where
  "get_agent_capability r aid =
     (case find (\<lambda>a. ag_id a = aid) (rg_agents r) of None \<Rightarrow> Inl (KeyError aid) | Some a \<Rightarrow> Inr a)"

definition available :: "agent_record \<Rightarrow> bool" where
  "available a = (ag_availability a = ''AVAILABLE'')"

definition list_available_agents :: "agent_registry \<Rightarrow> agent_record list" where
  "list_available_agents r = filter available (rg_agents r)"

definition find_agents_for_task :: "agent_registry \<Rightarrow> string \<Rightarrow> agent_record list" where
  "find_agents_for_task r t = filter (\<lambda>a. t \<in> set (ag_task_types a)) (rg_agents r)"

definition validate_agent_route :: "agent_registry \<Rightarrow> string \<Rightarrow> string \<Rightarrow> string \<Rightarrow> bool \<times> string" where
  "validate_agent_route r source target t =
     (case find (\<lambda>a. ag_id a = source) (rg_agents r) of
        None \<Rightarrow> (False, ''unknown agent id '' @ str_repr source)
      | Some s \<Rightarrow>
          (case find (\<lambda>a. ag_id a = target) (rg_agents r) of
             None \<Rightarrow> (False, ''unknown agent id '' @ str_repr target)
           | Some a \<Rightarrow>
               if target \<notin> set (ag_downstream s)
               then (False, str_repr source @ '' is not allowed to route to '' @ str_repr target)
               else if t \<notin> set (ag_task_types a)
               then (False, str_repr target @ '' does not accept task_type '' @ str_repr t)
               else (True, ''route_allowed'')))"

record routing_decision =
  rd_selected :: "string option"
  rd_reason :: string
  rd_rejected :: "(string \<times> string) list"
  rd_review_chain :: "string list"
  rd_safety :: "string list"

text \<open>The loop of \<open>route_task\<close> over the available agents, with the rejections so far.\<close>

fun route_candidates ::
  "agent_registry \<Rightarrow> string \<Rightarrow> string \<Rightarrow> (string \<times> string) list \<Rightarrow> agent_record list \<Rightarrow> routing_decision" where
  "route_candidates r t source rejected [] =
     \<lparr>rd_selected = None, rd_reason = ''no validated agent accepted task_type '' @ str_repr t,
      rd_rejected = rejected, rd_review_chain = [], rd_safety = [''fail_closed'']\<rparr>"
| "route_candidates r t source rejected (c # cs) =
     (if t \<notin> set (ag_task_types c)
      then route_candidates r t source (rejected @ [(ag_id c, ''task_type_not_accepted'')]) cs
      else case validate_agent_route r source (ag_id c) t of
             (False, reason) \<Rightarrow> route_candidates r t source (rejected @ [(ag_id c, reason)]) cs
           | (True, _) \<Rightarrow>
               \<lparr>rd_selected = Some (ag_id c),
                rd_reason = ag_id c @ '' accepts task_type '' @ str_repr t @ '' and is reachable from '' @
                  str_repr source @ '' under the validated registry'',
                rd_rejected = rejected, rd_review_chain = ag_reviewers c,
                rd_safety = take 3 (ag_forbidden_actions c) @
                  [''allowed_tools='' @ str_join '','' (ag_allowed_tools c)]\<rparr>)"

definition route_task :: "agent_registry \<Rightarrow> string \<Rightarrow> string \<Rightarrow> routing_decision" where
  "route_task r t source = route_candidates r t source [] (list_available_agents r)"

section \<open>Snapshots\<close>

record registry_snapshot =
  sn_state :: string
  sn_schema :: string
  sn_hash :: string
  sn_version :: string
  sn_source :: string
  sn_loaded :: bool
  sn_last_result :: string
  sn_missing :: nat
  sn_duplicates :: nat
  sn_mismatches :: nat
  sn_route_issues :: nat
  sn_errors :: "string list"
  sn_agents :: "agent_record list"

definition require_ready :: "registry_snapshot \<Rightarrow> py_exn + unit" where
  "require_ready s =
     (if sn_state s \<noteq> ''AGENT_REGISTRY_READY''
      then Inl (RuntimeError (''agent registry is not ready for MAIN runtime: '' @
             (let d = str_join ''; '' (sn_errors s) in if d = [] then sn_state s else d)))
      else Inr ())"

definition snapshot_agent :: "registry_snapshot \<Rightarrow> string \<Rightarrow> py_exn + agent_record" where
  "snapshot_agent s aid =
     (case find (\<lambda>a. ag_id a = aid) (sn_agents s) of None \<Rightarrow> Inl (KeyError aid) | Some a \<Rightarrow> Inr a)"

definition snapshot_available :: "registry_snapshot \<Rightarrow> agent_record list" where
  "snapshot_available s = filter available (sn_agents s)"

definition snapshot_for_task :: "registry_snapshot \<Rightarrow> string \<Rightarrow> agent_record list" where
  "snapshot_for_task s t = filter (\<lambda>a. t \<in> set (ag_task_types a)) (sn_agents s)"

definition required_fields_from_schema :: "(string, json) dict \<Rightarrow> string list" where
  "required_fields_from_schema schema =
     (case dict_get_or schema ''required_fields'' (JList []) of
        JList xs \<Rightarrow> filter (\<lambda>s. s \<noteq> []) (map the_str (filter is_jstr xs))
      | _ \<Rightarrow> [])"

end
