(* ===== verification/RegistryCheck.thy ===== *)
theory RegistryCheck
  imports Registry
begin

text \<open>
  The validation of \<open>agent_registry.py\<close>: the registry built from the agent files is checked
  against the constants, against the generated file and against the rendered configuration, and
  \<open>main_agent/registry_runtime.py\<close> makes the snapshot of it. The theorem says what a registry
  that is reported ready is.
\<close>

section \<open>Issues and reports\<close>

record registry_issue =
  is_path :: string
  is_rule :: string
  is_message :: string

definition issue :: "string \<Rightarrow> string \<Rightarrow> string \<Rightarrow> registry_issue" where
  "issue path rule message = \<lparr>is_path = path, is_rule = rule, is_message = message\<rparr>"

definition issue_when :: "bool \<Rightarrow> string \<Rightarrow> string \<Rightarrow> string \<Rightarrow> registry_issue list" where
  "issue_when c path rule message = (if c then [issue path rule message] else [])"

record registry_report =
  rr_valid :: bool
  rr_status :: string
  rr_registry :: "agent_registry option"
  rr_issues :: "registry_issue list"
  rr_missing :: nat
  rr_duplicates :: nat
  rr_mismatches :: nat

text \<open>
  The platform: the path of the generated file, the tests of \<open>pathlib\<close> on a definition source
  (a parent component; inside the agents directory) and the text of an exception.
\<close>

record registry_env =
  re_path :: string
  re_dotdot :: "string \<Rightarrow> bool"
  re_inside :: "string \<Rightarrow> bool"
  re_exn_text :: "py_exn \<Rightarrow> string"

text \<open>\<open>f"{path}[{index}]"\<close>\<close>

definition indexed :: "string \<Rightarrow> nat \<Rightarrow> string" where
  "indexed path i = path @ ''['' @ nat_str i @ '']''"

section \<open>The agents against the constants\<close>

text \<open>\<open>tuple(v) == names\<close> for a tuple of values and a tuple of strings.\<close>

definition tuple_is :: "json list \<Rightarrow> string list \<Rightarrow> bool" where
  "tuple_is xs names = list_all2 (\<lambda>x s. py_eq x (JStr s)) xs names"

definition agent_issues :: "string list \<Rightarrow> nat \<Rightarrow> agent_record \<Rightarrow> registry_issue list" where
  "agent_issues seen i a =
     (let at_field = (\<lambda>f. indexed ''agents'' i @ f); aid = ag_id a
      in issue_when (aid \<in> set seen) (at_field ''.agent_id'') ''duplicate_agent''
           (''duplicate agent id '' @ str_repr aid) @
         issue_when (ag_responsibilities a = []) (at_field ''.primary_responsibilities'') ''missing''
           ''primary responsibilities are required'' @
         issue_when (ag_allowed_tools a \<noteq> dict_get_or agent_allowed_tools aid [])
           (at_field ''.allowed_tools'') ''tool_allow_mismatch''
           ''registry allowed_tools must match runtime constants'' @
         issue_when (ag_version a \<noteq> package_version) (at_field ''.definition_version'')
           ''version_mismatch'' (''definition_version must be '' @ package_version) @
         issue_when (ag_forbidden_tools a \<noteq> dict_get_or agent_denied_tools aid [])
           (at_field ''.forbidden_tools'') ''tool_deny_mismatch''
           ''registry forbidden_tools must match runtime constants'' @
         issue_when (\<not> tuple_is (ag_skills a) (dict_get_or agent_skill_names aid []))
           (at_field ''.owned_skills'') ''skill_catalog_mismatch''
           ''registry owned_skills must match runtime skill ownership'' @
         issue_when (aid \<in> {''system-coder-auditor'', ''security-compliance-agent'', ''blueprint-coder''} \<and>
             ag_self_approval a)
           (at_field ''.self_approval_allowed'') ''forbidden'' (aid @ '' cannot self-approve'') @
         issue_when (aid = ''blueprint-coder'' \<and> \<not> ag_may_modify a)
           (at_field ''.may_modify_code'') ''missing_capability''
           ''blueprint-coder must be the code-modifying agent'' @
         issue_when (ag_may_push a \<and> \<not> ag_may_commit a) (at_field []) ''contradictory_permissions''
           ''may_push cannot be true when may_commit is false'' @
         issue_when (ag_may_deploy a \<and> \<not> ag_may_push a) (at_field []) ''contradictory_permissions''
           ''may_deploy cannot be true when may_push is false'' @
         issue_when (ag_may_publish a \<and> aid \<noteq> ''telegram-publisher'')
           (at_field ''.may_publish_telegram'') ''forbidden''
           ''only telegram-publisher may publish Telegram content'')"

text \<open>The loop over the agents, with the ids seen so far and the index.\<close>

fun agents_issues :: "string list \<Rightarrow> nat \<Rightarrow> agent_record list \<Rightarrow> registry_issue list" where
  "agents_issues seen i [] = []"
| "agents_issues seen i (a # as) = agent_issues seen i a @ agents_issues (ag_id a # seen) (Suc i) as"

fun count_duplicates :: "string list \<Rightarrow> agent_record list \<Rightarrow> nat" where
  "count_duplicates seen [] = 0"
| "count_duplicates seen (a # as) =
     (if ag_id a \<in> set seen then 1 else 0) + count_duplicates (ag_id a # seen) as"

definition unknown_targets :: "string \<Rightarrow> string list \<Rightarrow> registry_issue list" where
  "unknown_targets path targets =
     concat (map (\<lambda>t. issue_when (t \<notin> set runtime_agent_ids) path ''unknown_agent''
       (''unknown route target '' @ str_repr t)) targets)"

definition route_issues :: "agent_record \<Rightarrow> registry_issue list" where
  "route_issues a =
     unknown_targets (ag_id a @ ''.upstream_routes'') (ag_upstream a) @
     unknown_targets (ag_id a @ ''.downstream_routes'') (ag_downstream a) @
     unknown_targets (ag_id a @ ''.required_reviewers'') (ag_reviewers a) @
     issue_when (ag_escalation a \<notin> set runtime_agent_ids) (ag_id a @ ''.escalation_target'')
       ''unknown_agent'' (''unknown escalation_target '' @ str_repr (ag_escalation a))"

definition coder_review_chain :: "string list" where
  "coder_review_chain = [''system-coder-auditor'', ''security-compliance-agent'', ''super-advisor'']"

definition chain_issues :: "agent_registry \<Rightarrow> py_exn + registry_issue list" where
  "chain_issues r =
     bind_res (get_agent_capability r ''blueprint-coder'') (\<lambda>a.
       Inr (issue_when (ag_reviewers a \<noteq> coder_review_chain) ''blueprint-coder.required_reviewers''
         ''review_chain_mismatch''
         (''blueprint-coder must route through system-coder-auditor, '' @
          ''security-compliance-agent, and super-advisor'')))"

section \<open>The generated file\<close>

text \<open>\<open>target not in ids\<close> for a set of strings: an unhashable value raises.\<close>

definition known_id :: "string list \<Rightarrow> json \<Rightarrow> py_exn + bool" where
  "known_id ids v = (if \<not> hashable v then Inl TypeError else Inr (list_ex (\<lambda>i. py_eq v (JStr i)) ids))"

definition target_issues :: "py_env \<Rightarrow> string list \<Rightarrow> string \<Rightarrow> json option \<Rightarrow> py_exn + registry_issue list" where
  "target_issues E ids path targets =
     (case targets of
        Some (JList ts) \<Rightarrow>
          bind_res (map_res (\<lambda>t. bind_res (known_id ids t) (\<lambda>k.
            Inr (issue_when (\<not> k) path ''unknown_route_agent''
              (''generated registry references unknown agent '' @ py_repr E t)))) ts) (\<lambda>iss.
            Inr (concat iss))
      | _ \<Rightarrow> Inr [])"

definition filled_list_issues :: "string \<Rightarrow> string \<Rightarrow> (string, json) dict \<Rightarrow> string \<Rightarrow> registry_issue list" where
  "filled_list_issues at_item aid item field =
     (case dict_get_or item field JNull of
        JNull \<Rightarrow> [issue (at_item @ ''.'' @ field) ''missing_field''
          (''generated registry field '' @ str_repr field @ '' is required for '' @ str_repr aid)]
      | JList (x # xs) \<Rightarrow> []
      | _ \<Rightarrow> [issue (at_item @ ''.'' @ field) ''empty_field''
          (''generated registry field '' @ str_repr field @ '' must be a non-empty list'')])"

definition source_issues :: "registry_env \<Rightarrow> string \<Rightarrow> (string, json) dict \<Rightarrow> registry_issue list" where
  "source_issues P at_item item =
     (let path = at_item @ ''.definition_source''
      in case dict_get item ''definition_source'' of
           Some (JStr s) \<Rightarrow>
             if str_strip s = []
             then [issue path ''missing_definition_source'' ''generated registry definition_source is required'']
             else if re_dotdot P s
             then [issue path ''path_traversal''
                     ''generated registry definition_source may not contain parent traversal'']
             else issue_when (\<not> re_inside P s) path ''invalid_definition_source''
                    ''generated registry definition_source must stay within workspace/agents''
         | _ \<Rightarrow> [issue path ''missing_definition_source'' ''generated registry definition_source is required''])"

definition normal_texts :: "py_env \<Rightarrow> json list \<Rightarrow> string set" where
  "normal_texts E xs = set (map (\<lambda>v. str_lower (str_strip (py_str E v))) xs)"

definition actions_conflict :: "py_env \<Rightarrow> (string, json) dict \<Rightarrow> bool" where
  "actions_conflict E item =
     (case (dict_get item ''allowed_actions'', dict_get item ''forbidden_actions'') of
        (Some (JList xs), Some (JList ys)) \<Rightarrow> normal_texts E xs \<inter> normal_texts E ys \<noteq> {}
      | _ \<Rightarrow> False)"

text \<open>\<open>agent_id in v\<close> guarded by \<open>isinstance(v, list)\<close>\<close>

definition lists_id :: "string \<Rightarrow> json option \<Rightarrow> bool" where
  "lists_id aid v = (case v of Some (JList xs) \<Rightarrow> list_ex (\<lambda>x. py_eq x (JStr aid)) xs | _ \<Rightarrow> False)"

text \<open>One entry of the file: its id, when it has one, and what is wrong with it.\<close>

definition entry_check ::
  "py_env \<Rightarrow> registry_env \<Rightarrow> string list \<Rightarrow> nat \<Rightarrow> json \<Rightarrow> py_exn + (string option \<times> registry_issue list)" where
  "entry_check E P ids i v =
     (let at_item = indexed (re_path P @ ''.agents'') i
      in case v of
           JObj item \<Rightarrow>
             (case dict_get item ''agent_id'' of
                Some (JStr aid) \<Rightarrow>
                  if str_strip aid = []
                  then Inr (None, [issue (at_item @ ''.agent_id'') ''missing_agent_id''
                         ''generated registry agent_id is required''])
                  else
                    bind_res (target_issues E ids (at_item @ ''.upstream_routes'') (dict_get item ''upstream_routes'')) (\<lambda>up.
                    bind_res (target_issues E ids (at_item @ ''.downstream_routes'') (dict_get item ''downstream_routes'')) (\<lambda>down.
                    bind_res (target_issues E ids (at_item @ ''.required_reviewers'') (dict_get item ''required_reviewers'')) (\<lambda>rev.
                    bind_res (known_id ids (dict_get_or item ''escalation_target'' JNull)) (\<lambda>esc.
                      Inr (Some aid,
                        concat (map (filled_list_issues at_item aid item)
                          [''primary_responsibilities'', ''accepted_task_types'', ''required_reviewers'']) @
                        source_issues P at_item item @
                        issue_when (lists_id aid (dict_get item ''downstream_routes''))
                          (at_item @ ''.downstream_routes'') ''forbidden_self_route''
                          ''generated registry agent may not route to itself'' @
                        issue_when (aid \<noteq> ''super-advisor'' \<and> lists_id aid (dict_get item ''required_reviewers''))
                          (at_item @ ''.required_reviewers'') ''self_approval_reviewer_chain''
                          ''generated registry reviewer chain may not self-approve'' @
                        issue_when (actions_conflict E item) at_item ''contradictory_actions''
                          ''generated registry allowed_actions and forbidden_actions conflict'' @
                        up @ down @ rev @
                        issue_when (\<not> esc) (at_item @ ''.escalation_target'') ''unknown_escalation_target''
                          ''generated registry escalation_target must reference a known agent'')))))
              | _ \<Rightarrow> Inr (None, [issue (at_item @ ''.agent_id'') ''missing_agent_id''
                       ''generated registry agent_id is required'']))
         | _ \<Rightarrow> Inr (None, [issue at_item ''malformed_agent'' ''generated registry agent entries must be objects'']))"

definition version_issues :: "registry_env \<Rightarrow> (string, json) dict \<Rightarrow> registry_issue list" where
  "version_issues P payload =
     (let v = dict_get_or payload ''schema_version'' JNull; path = re_path P @ ''.schema_version''
      in if v = JNull \<or> v = JStr []
         then [issue path ''missing_schema_version'' ''generated registry schema_version is required'']
         else issue_when (\<not> py_eq v (JStr registry_schema_version)) path ''unsupported_schema_version''
                ''generated registry schema_version is unsupported'')"

definition hash_issues ::
  "py_env \<Rightarrow> registry_env \<Rightarrow> (string, json) dict \<Rightarrow> py_exn + registry_issue list" where
  "hash_issues E P payload =
     (let path = re_path P @ ''.registry_hash'';
          absent = [issue path ''missing_registry_hash'' ''generated registry registry_hash is required'']
      in case dict_get payload ''registry_hash'' of
           Some (JStr h) \<Rightarrow>
             if str_strip h = [] then Inr absent
             else bind_res (registry_payload_hash E payload) (\<lambda>h'.
                    Inr (issue_when (h \<noteq> h') path ''invalid_registry_hash''
                      ''generated registry registry_hash does not match its content''))
         | _ \<Rightarrow> Inr absent)"

text \<open>Checks of the ids that the entries have, and of the whole against the agent files.\<close>

definition id_issues :: "registry_env \<Rightarrow> string list \<Rightarrow> string list \<Rightarrow> registry_issue list" where
  "id_issues P ids found =
     issue_when (\<not> distinct found) (re_path P @ ''.agents'') ''duplicate_agent''
       ''generated registry contains duplicate agent ids'' @
     issue_when (''super-advisor'' \<notin> set found) (re_path P @ ''.agents'') ''missing_super_advisor''
       ''generated registry must include super-advisor'' @
     issue_when (set found \<noteq> set ids) (re_path P) ''registry_agent_set_mismatch''
       ''generated registry agent set does not match AGENT.md definitions''"

definition payload_issues ::
  "py_env \<Rightarrow> registry_env \<Rightarrow> agent_registry \<Rightarrow> json \<Rightarrow> py_exn + registry_issue list" where
  "payload_issues E P r v =
     (case v of
        JObj payload \<Rightarrow>
          (let ids = map ag_id (rg_agents r);
               missing = concat (map (\<lambda>f. issue_when (dict_get payload f = None) (re_path P @ ''.'' @ f)
                 ''missing_field'' (''generated registry field '' @ str_repr f @ '' is required''))
                 required_registry_fields);
               listed = (case dict_get payload ''agents'' of Some (JList xs) \<Rightarrow> Some xs | _ \<Rightarrow> None);
               items = (case listed of None \<Rightarrow> [] | Some xs \<Rightarrow> xs)
           in bind_res (hash_issues E P payload) (\<lambda>hashes.
              bind_res (map_res (\<lambda>(i, x). entry_check E P ids i x) (List.enumerate 0 items)) (\<lambda>checked.
                Inr (missing @ version_issues P payload @ hashes @
                  issue_when (listed = None) (re_path P @ ''.agents'') ''malformed_agents''
                    ''generated registry agents must be a list'' @
                  issue_when (\<not> py_eq (dict_get_or payload ''agent_count'' JNull) (JInt (int (length items))))
                    (re_path P @ ''.agent_count'') ''agent_count_mismatch''
                    ''generated registry agent_count must match the number of agents'' @
                  concat (map snd checked) @
                  id_issues P ids (List.map_filter fst checked) @
                  issue_when (\<not> py_eq v (registry_json r)) (re_path P) ''stale_registry''
                    ''generated registry does not match AGENT.md definitions''))))
      | _ \<Rightarrow> Inr [issue (re_path P) ''malformed_json'' ''generated registry must decode to an object''])"

text \<open>The file is missing, is not JSON, or has a value.\<close>

datatype registry_file = MissingFile | Malformed | Content json

definition file_issues ::
  "py_env \<Rightarrow> registry_env \<Rightarrow> agent_registry \<Rightarrow> registry_file \<Rightarrow> py_exn + registry_issue list" where
  "file_issues E P r f =
     (case f of
        MissingFile \<Rightarrow> Inr [issue (re_path P) ''missing_file'' ''generated agent registry file is missing'']
      | Malformed \<Rightarrow> Inr [issue (re_path P) ''malformed_json'' ''generated agent registry file is not valid JSON'']
      | Content v \<Rightarrow> payload_issues E P r v)"

section \<open>The rendered configuration\<close>

definition meta_issues :: "agent_registry \<Rightarrow> (string, json) dict \<Rightarrow> registry_issue list" where
  "meta_issues r config =
     (case dict_get config ''agentCapabilityRegistry'' of
        Some (JObj meta) \<Rightarrow>
          issue_when (\<not> py_eq (dict_get_or meta ''registryHash'' JNull) (JStr (rg_hash r)))
            ''agentCapabilityRegistry.registryHash'' ''mismatch''
            ''rendered config registryHash must match the validated registry'' @
          issue_when (\<not> py_eq (dict_get_or meta ''agentCount'' JNull) (JInt (int (rg_agent_count r))))
            ''agentCapabilityRegistry.agentCount'' ''mismatch''
            ''rendered config agentCount must match the validated registry''
      | _ \<Rightarrow> [issue ''agentCapabilityRegistry'' ''missing''
               ''rendered config must expose agentCapabilityRegistry metadata''])"

text \<open>The entries by \<open>str(item.get("id"))\<close>; a later one replaces an earlier one.\<close>

definition config_agents :: "py_env \<Rightarrow> json list \<Rightarrow> (string, (string, json) dict) dict" where
  "config_agents E items =
     fold (\<lambda>v d. case v of
         JObj item \<Rightarrow> dict_set (py_str E (dict_get_or item ''id'' JNull)) item d
       | _ \<Rightarrow> d) items []"

definition config_agent_issues ::
  "(string, (string, json) dict) dict \<Rightarrow> agent_record \<Rightarrow> py_exn + registry_issue list" where
  "config_agent_issues configured a =
     (let path = ''agents.list.'' @ ag_id a
      in case dict_get configured (ag_id a) of
           None \<Rightarrow> Inr [issue path ''missing'' ''rendered config is missing a registered agent'']
         | Some c \<Rightarrow>
             bind_res (py_tuple (dict_get_or c ''skills'' (JList []))) (\<lambda>skills.
             bind_res (case dict_get_or c ''tools'' (JObj []) of
                 JObj tools \<Rightarrow>
                   bind_res (py_tuple (dict_get_or tools ''allow'' (JList []))) (\<lambda>allow.
                     Inr (\<not> tuple_is allow (ag_allowed_tools a)))
               | _ \<Rightarrow> Inr False) (\<lambda>tools_differ.
               Inr (issue_when (\<not> list_all2 py_eq skills (ag_skills a)) (path @ ''.skills'') ''mismatch''
                      ''rendered config skills must match the registry'' @
                    issue_when tools_differ (path @ ''.tools.allow'') ''mismatch''
                      ''rendered config tool allowlist must match the registry''))))"

definition config_issues ::
  "py_env \<Rightarrow> agent_registry \<Rightarrow> (string, json) dict \<Rightarrow> py_exn + registry_issue list" where
  "config_issues E r config =
     (case dict_get config ''agents'' of
        Some (JObj section) \<Rightarrow>
          (case dict_get section ''list'' of
             Some (JList items) \<Rightarrow>
               bind_res (map_res (config_agent_issues (config_agents E items)) (rg_agents r)) (\<lambda>iss.
                 Inr (meta_issues r config @ concat iss))
           | _ \<Rightarrow> Inr (meta_issues r config))
      | _ \<Rightarrow> Inr (meta_issues r config @
               [issue ''agents'' ''missing''
                  ''rendered config agents section is required for registry validation'']))"

section \<open>The report\<close>

definition degraded_rules :: "string set" where
  "degraded_rules = {''missing_file'', ''stale_registry''}"

definition status_of :: "registry_issue list \<Rightarrow> string" where
  "status_of iss =
     (if iss = [] then ''AGENT_REGISTRY_READY''
      else if list_all (\<lambda>i. is_rule i \<in> degraded_rules) iss then ''AGENT_REGISTRY_DEGRADED''
      else ''AGENT_REGISTRY_INVALID'')"

text \<open>\<open>except (FileNotFoundError, ValueError)\<close>\<close>

definition build_error_caught :: "py_exn \<Rightarrow> bool" where
  "build_error_caught e = (case e of ValueError _ \<Rightarrow> True | OtherError n \<Rightarrow> n = ''FileNotFoundError'' | _ \<Rightarrow> False)"

record registry_sources =
  rs_from :: string
  rs_generated_path :: string
  rs_files :: agent_files
  rs_generated :: registry_file
  rs_required :: bool
  rs_config :: "(string, json) dict option"

text \<open>
  The issues of a registry that could be built. Each mismatch with the configuration adds one
  issue, so the mismatch count of the report is the number of the last ones.
\<close>

definition registry_issues ::
  "py_env \<Rightarrow> registry_env \<Rightarrow> registry_sources \<Rightarrow> agent_registry \<Rightarrow>
   py_exn + (registry_issue list \<times> registry_issue list)" where
  "registry_issues E P S r =
     bind_res (chain_issues r) (\<lambda>chain.
     bind_res (if rs_required S then file_issues E P r (rs_generated S) else Inr []) (\<lambda>file.
     bind_res (case rs_config S of None \<Rightarrow> Inr [] | Some c \<Rightarrow> config_issues E r c) (\<lambda>config.
       Inr (agents_issues [] 0 (rg_agents r) @ concat (map route_issues (rg_agents r)) @ chain @ file,
            config))))"

definition validate_agent_registry ::
  "py_env \<Rightarrow> registry_env \<Rightarrow> registry_sources \<Rightarrow> py_exn + registry_report" where
  "validate_agent_registry E P S =
     (case build_registry E (rs_from S) (rs_generated_path S) (rs_files S) of
        Inl e \<Rightarrow>
          if build_error_caught e
          then Inr \<lparr>rr_valid = False, rr_status = ''AGENT_REGISTRY_INVALID'', rr_registry = None,
                    rr_issues = [issue ''agent_registry'' ''parse_error'' (re_exn_text P e)],
                    rr_missing = length runtime_agent_ids, rr_duplicates = 0, rr_mismatches = 0\<rparr>
          else Inl e
      | Inr r \<Rightarrow>
          bind_res (registry_issues E P S r) (\<lambda>(own, config).
            let iss = own @ config
            in Inr \<lparr>rr_valid = (iss = []), rr_status = status_of iss, rr_registry = Some r,
                    rr_issues = iss,
                    rr_missing = length (filter (\<lambda>i. i \<notin> ag_id ` set (rg_agents r)) runtime_agent_ids),
                    rr_duplicates = count_duplicates [] (rg_agents r),
                    rr_mismatches = length config\<rparr>))"

section \<open>The snapshot of the main runtime\<close>

definition route_rules :: "string set" where
  "route_rules =
     {''unknown_agent'', ''review_chain_mismatch'', ''unknown_route_agent'',
      ''unknown_escalation_target'', ''forbidden_self_route'', ''self_approval_reviewer_chain''}"

definition snapshot_of :: "registry_env \<Rightarrow> registry_report \<Rightarrow> registry_snapshot" where
  "snapshot_of P rep =
     (let route_count = length (filter (\<lambda>i. is_rule i \<in> route_rules) (rr_issues rep));
          errors = map (\<lambda>i. is_path i @ '': '' @ is_message i) (rr_issues rep)
      in case rr_registry rep of
           Some r \<Rightarrow>
             if rr_valid rep
             then \<lparr>sn_state = rr_status rep, sn_schema = rg_schema r, sn_hash = rg_hash r,
                   sn_version = rg_version r, sn_source = re_path P, sn_loaded = True,
                   sn_last_result = ''PASS'', sn_missing = rr_missing rep,
                   sn_duplicates = rr_duplicates rep, sn_mismatches = rr_mismatches rep,
                   sn_route_issues = route_count, sn_errors = errors, sn_agents = rg_agents r\<rparr>
             else \<lparr>sn_state = rr_status rep, sn_schema = [], sn_hash = [], sn_version = [],
                   sn_source = re_path P, sn_loaded = False, sn_last_result = ''FAIL'',
                   sn_missing = rr_missing rep, sn_duplicates = rr_duplicates rep,
                   sn_mismatches = rr_mismatches rep, sn_route_issues = route_count,
                   sn_errors = errors, sn_agents = []\<rparr>
         | None \<Rightarrow> \<lparr>sn_state = rr_status rep, sn_schema = [], sn_hash = [], sn_version = [],
                   sn_source = re_path P, sn_loaded = False, sn_last_result = ''FAIL'',
                   sn_missing = rr_missing rep, sn_duplicates = rr_duplicates rep,
                   sn_mismatches = rr_mismatches rep, sn_route_issues = route_count,
                   sn_errors = errors, sn_agents = []\<rparr>)"

definition build_registry_snapshot ::
  "py_env \<Rightarrow> registry_env \<Rightarrow> registry_sources \<Rightarrow> (string, json) dict \<Rightarrow> py_exn + registry_snapshot" where
  "build_registry_snapshot E P S config =
     bind_res (validate_agent_registry E P (S\<lparr>rs_required := True, rs_config := Some config\<rparr>))
       (\<lambda>rep. Inr (snapshot_of P rep))"

section \<open>What a ready registry is\<close>

lemma issue_when_Nil [simp]: "issue_when c p r m = [] \<longleftrightarrow> \<not> c"
  by (simp add: issue_when_def)

lemma py_eq_str [simp]: "py_eq x (JStr s) \<longleftrightarrow> x = JStr s"
  by (cases x) auto

lemma tuple_is_iff: "tuple_is xs names \<longleftrightarrow> xs = map JStr names"
  unfolding tuple_is_def py_eq_str
  by (induction xs arbitrary: names) (auto simp: list_all2_Cons1 Cons_eq_map_conv)

text \<open>What the constants ask of an agent, and the separation of duties between the agents.\<close>

definition agent_lawful :: "agent_record \<Rightarrow> bool" where
  "agent_lawful a \<longleftrightarrow>
     ag_responsibilities a \<noteq> [] \<and> ag_version a = package_version \<and>
     ag_allowed_tools a = dict_get_or agent_allowed_tools (ag_id a) [] \<and>
     ag_forbidden_tools a = dict_get_or agent_denied_tools (ag_id a) [] \<and>
     ag_skills a = map JStr (dict_get_or agent_skill_names (ag_id a) []) \<and>
     (ag_self_approval a \<longrightarrow>
        ag_id a \<notin> {''system-coder-auditor'', ''security-compliance-agent'', ''blueprint-coder''}) \<and>
     (ag_id a = ''blueprint-coder'' \<longrightarrow> ag_may_modify a) \<and>
     (ag_may_push a \<longrightarrow> ag_may_commit a) \<and> (ag_may_deploy a \<longrightarrow> ag_may_push a) \<and>
     (ag_may_publish a \<longrightarrow> ag_id a = ''telegram-publisher'')"

definition routes_known :: "agent_record \<Rightarrow> bool" where
  "routes_known a \<longleftrightarrow>
     set (ag_upstream a) \<union> set (ag_downstream a) \<union> set (ag_reviewers a) \<union> {ag_escalation a}
       \<subseteq> set runtime_agent_ids"

definition registry_lawful :: "agent_registry \<Rightarrow> bool" where
  "registry_lawful r \<longleftrightarrow>
     distinct (map ag_id (rg_agents r)) \<and>
     (\<forall>a \<in> set (rg_agents r). agent_lawful a \<and> routes_known a) \<and>
     (\<exists>a. get_agent_capability r ''blueprint-coder'' = Inr a \<and> ag_reviewers a = coder_review_chain)"

lemma agent_issues_Nil: "agent_issues seen i a = [] \<longleftrightarrow> ag_id a \<notin> set seen \<and> agent_lawful a"
  unfolding agent_issues_def Let_def append_is_Nil_conv issue_when_Nil agent_lawful_def tuple_is_iff
  by (intro iffI conjI impI notI; elim conjE; metis)

lemma agents_issues_Nil:
  "agents_issues seen i as = [] \<longleftrightarrow>
     distinct (map ag_id as) \<and> set seen \<inter> ag_id ` set as = {} \<and> (\<forall>a \<in> set as. agent_lawful a)"
  by (induction as arbitrary: seen i) (auto simp: agent_issues_Nil)

lemma unknown_targets_Nil: "unknown_targets p ts = [] \<longleftrightarrow> set ts \<subseteq> set runtime_agent_ids"
  by (auto simp: unknown_targets_def)

lemma route_issues_Nil: "route_issues a = [] \<longleftrightarrow> routes_known a"
  unfolding route_issues_def append_is_Nil_conv unknown_targets_Nil issue_when_Nil routes_known_def
  by auto

lemma registry_issues_Nil:
  "registry_issues E P S r = Inr ([], []) \<longleftrightarrow>
     registry_lawful r \<and>
     (rs_required S \<longrightarrow> file_issues E P r (rs_generated S) = Inr []) \<and>
     (\<forall>c. rs_config S = Some c \<longrightarrow> config_issues E r c = Inr [])"
proof -
  have chain: "chain_issues r = Inr [] \<longleftrightarrow>
      (\<exists>a. get_agent_capability r ''blueprint-coder'' = Inr a \<and> ag_reviewers a = coder_review_chain)"
    unfolding chain_issues_def bind_res_Inr sum.inject issue_when_Nil by blast
  have "registry_issues E P S r = Inr ([], []) \<longleftrightarrow>
     chain_issues r = Inr [] \<and>
     (if rs_required S then file_issues E P r (rs_generated S) else Inr []) = Inr [] \<and>
     (case rs_config S of None \<Rightarrow> Inr [] | Some c \<Rightarrow> config_issues E r c) = Inr [] \<and>
     agents_issues [] 0 (rg_agents r) = [] \<and> concat (map route_issues (rg_agents r)) = []"
    unfolding registry_issues_def bind_res_Inr by auto
  also have "agents_issues [] 0 (rg_agents r) = [] \<longleftrightarrow>
     distinct (map ag_id (rg_agents r)) \<and> (\<forall>a \<in> set (rg_agents r). agent_lawful a)"
    by (simp add: agents_issues_Nil)
  also have "concat (map route_issues (rg_agents r)) = [] \<longleftrightarrow> (\<forall>a \<in> set (rg_agents r). routes_known a)"
    by (auto simp: route_issues_Nil)
  finally show ?thesis
    unfolding chain registry_lawful_def by (cases "rs_config S") auto
qed

lemma status_ready: "status_of iss = ''AGENT_REGISTRY_READY'' \<longleftrightarrow> iss = []"
  by (simp add: status_of_def)

lemma validate_ready_iff:
  "(\<exists>rep. validate_agent_registry E P S = Inr rep \<and> rr_status rep = ''AGENT_REGISTRY_READY'' \<and> Q rep) \<longleftrightarrow>
     (\<exists>r. build_registry E (rs_from S) (rs_generated_path S) (rs_files S) = Inr r \<and>
        registry_issues E P S r = Inr ([], []) \<and>
        (\<forall>rep. validate_agent_registry E P S = Inr rep \<longrightarrow> Q rep))"
proof (cases "build_registry E (rs_from S) (rs_generated_path S) (rs_files S)")
  case (Inl e)
  then show ?thesis by (auto simp: validate_agent_registry_def)
next
  case (Inr r)
  show ?thesis
  proof (cases "registry_issues E P S r")
    case (Inl e)
    with Inr show ?thesis by (simp add: validate_agent_registry_def)
  next
    case inr: (Inr iss)
    then show ?thesis
      using Inr by (cases iss) (auto simp: validate_agent_registry_def Let_def status_ready)
  qed
qed

lemma payload_issues_Nil:
  "payload_issues E P r v = Inr [] \<Longrightarrow> py_eq v (registry_json r)"
  by (auto simp: payload_issues_def Let_def bind_res_Inr split: json.splits)

lemma require_ready_iff: "require_ready sn = Inr () \<longleftrightarrow> sn_state sn = ''AGENT_REGISTRY_READY''"
  by (simp add: require_ready_def)


end
