(* ===== verification/Planner.thy ===== *)
theory Planner
  imports Registry
begin

text \<open>
  \<open>main_agent/planner.py\<close> and \<open>main_agent/router.py\<close>: the planner checks each task of a request
  against the registry snapshot and builds a plan, the router checks the tasks of a plan again
  before they are handed to an agent. Both are gates: what they let through satisfies the contract
  of the agent. The theorems say exactly which requests can be planned, and that a plan can be
  routed under the snapshot that it was made with, and under no other.
\<close>

section \<open>Tasks and plans\<close>

record agent_task =
  tk_id :: string
  tk_agent :: string
  tk_skill :: string
  tk_depends :: "string list"
  tk_schema :: "(string, json) dict"
  tk_type :: string
  tk_action :: string

record planning_decision =
  pd_task :: string
  pd_request :: string
  pd_agent :: string
  pd_hash :: string
  pd_reason :: string
  pd_type :: string
  pd_rejected :: "(string \<times> string) list"
  pd_inputs :: "string list"
  pd_output :: "(string, json) dict"
  pd_reviewers :: "string list"
  pd_downstream :: "string list"
  pd_forbidden :: "string list"
  pd_gate :: bool

record dependency_plan =
  dp_id :: string
  dp_request :: string
  dp_tasks :: "agent_task list"
  dp_gate :: bool
  dp_schema :: string
  dp_hash :: string
  dp_decisions :: "planning_decision list"

record main_planner =
  pl_snapshot :: registry_snapshot
  pl_source :: string

record routed_task =
  rt_task :: string
  rt_agent :: string
  rt_skill :: string
  rt_route :: string
  rt_payload :: "(string, json) dict"
  rt_schema :: string
  rt_hash :: string
  rt_version :: string
  rt_result :: string
  rt_reviewers :: "string list"
  rt_forbidden :: "string list"
  rt_gate :: bool

record agent_router =
  ro_snapshot :: registry_snapshot
  ro_source :: string

section \<open>The planner\<close>

text \<open>\<open>task.task_type or request_type\<close>, and the action as both gates compare it.\<close>

definition task_type_of :: "agent_task \<Rightarrow> string \<Rightarrow> string" where
  "task_type_of t request = (if tk_type t = [] then request else tk_type t)"

definition action_of :: "agent_task \<Rightarrow> string" where
  "action_of t = str_lower (str_strip (tk_action t))"

definition action_matches :: "agent_task \<Rightarrow> string list \<Rightarrow> bool" where
  "action_matches t actions = list_ex (\<lambda>a. str_contains (action_of t) (str_lower a)) actions"

text \<open>The candidates that the decision lists as rejected, with the reason.\<close>

fun rejected_candidates :: "string \<Rightarrow> string \<Rightarrow> string \<Rightarrow> agent_record list \<Rightarrow> (string \<times> string) list" where
  "rejected_candidates source aid ty [] = []"
| "rejected_candidates source aid ty (c # cs) =
     (if ag_id c = source then [(ag_id c, ''orchestrator_only'')]
      else if ty \<notin> set (ag_task_types c) then [(ag_id c, ''task_type_not_accepted'')]
      else if ag_id c \<noteq> aid then [(ag_id c, ''not_selected_for_task'')]
      else []) @ rejected_candidates source aid ty cs"

definition decision_of :: "main_planner \<Rightarrow> string \<Rightarrow> agent_task \<Rightarrow> agent_record \<Rightarrow> planning_decision" where
  "decision_of P request t a =
     (let sn = pl_snapshot P; aid = tk_agent t; ty = task_type_of t request
      in \<lparr>pd_task = tk_id t, pd_request = request, pd_agent = aid, pd_hash = sn_hash sn,
          pd_reason = aid @ '' accepts task_type '' @ str_repr ty @
            '', received all required inputs, and is reachable from '' @ str_repr (pl_source P),
          pd_type = ty,
          pd_rejected = rejected_candidates (pl_source P) aid ty (snapshot_available sn),
          pd_inputs = required_fields_from_schema (ag_input_schema a),
          pd_output = ag_output_contract a, pd_reviewers = ag_reviewers a,
          pd_downstream = ag_downstream a, pd_forbidden = ag_forbidden_actions a,
          pd_gate = ag_human_gate a\<rparr>)"

definition validate_agent ::
  "main_planner \<Rightarrow> string \<Rightarrow> (string, json) dict option \<Rightarrow> agent_task \<Rightarrow> py_exn + planning_decision" where
  "validate_agent P request inputs t =
     (let sn = pl_snapshot P; aid = tk_agent t; ty = task_type_of t request;
          given = (case inputs of None \<Rightarrow> [] | Some d \<Rightarrow> dict_keys d)
      in bind_res (require_ready sn) (\<lambda>_.
         bind_res (snapshot_agent sn aid) (\<lambda>a.
           if ag_id a = pl_source P then Inl (ValueError ''MAIN cannot self-delegate'')
           else if \<not> available a
           then Inl (ValueError (''agent '' @ str_repr aid @ '' is not available''))
           else if ty \<notin> set (ag_task_types a)
           then Inl (ValueError (''agent '' @ str_repr aid @ '' does not accept task_type '' @ str_repr ty))
           else
             (let needed = required_fields_from_schema (ag_input_schema a);
                  missing = filter (\<lambda>f. f \<notin> set given) needed
              in if missing \<noteq> []
                 then Inl (ValueError (''agent '' @ str_repr aid @ '' missing required inputs: '' @
                        str_join '', '' missing))
                 else if action_of t \<noteq> [] \<and> action_matches t (ag_forbidden_actions a)
                 then Inl (ValueError (''agent '' @ str_repr aid @ '' forbidden action requested: '' @
                        str_repr (tk_action t)))
                 else if action_of t \<noteq> [] \<and> \<not> action_matches t (ag_allowed_actions a)
                 then Inl (ValueError (''agent '' @ str_repr aid @ '' does not allow action '' @
                        str_repr (tk_action t)))
                 else bind_res (snapshot_agent sn (pl_source P)) (\<lambda>source.
                   if aid \<notin> set (ag_downstream source)
                   then Inl (ValueError (''route from '' @ str_repr (pl_source P) @ '' to '' @
                          str_repr aid @ '' is not allowed''))
                   else if aid \<in> set (ag_reviewers a) \<or> ag_self_approval a
                   then Inl (ValueError (''agent '' @ str_repr aid @ '' cannot self-approve''))
                   else Inr (decision_of P request t a))))))"

type_synonym task_inputs = "(string, (string, json) dict) dict"

definition build_plan ::
  "main_planner \<Rightarrow> string \<Rightarrow> string \<Rightarrow> agent_task list \<Rightarrow> task_inputs option \<Rightarrow> py_exn + dependency_plan" where
  "build_plan P pid request tasks inputs =
     (let given = (case inputs of None \<Rightarrow> [] | Some d \<Rightarrow> d)
      in bind_res (map_res (\<lambda>t. validate_agent P request (dict_get given (tk_id t)) t) tasks) (\<lambda>ds.
           Inr \<lparr>dp_id = pid, dp_request = request, dp_tasks = tasks,
                dp_gate = list_ex pd_gate ds, dp_schema = sn_schema (pl_snapshot P),
                dp_hash = sn_hash (pl_snapshot P), dp_decisions = ds\<rparr>))"

section \<open>The router\<close>

definition classify_route :: "string \<Rightarrow> string" where
  "classify_route ty =
     (if list_ex (\<lambda>w. str_contains w ty) [''market'', ''data'', ''intermarket'', ''microstructure'']
      then ''REALTIME''
      else if list_ex (\<lambda>w. str_contains w ty) [''code'', ''security'', ''review'']
      then ''CODE_AUDIT'' else ''GENERAL'')"

text \<open>Equality of two tasks, member by member; the schemas are compared as dictionaries.\<close>

definition task_eq :: "agent_task \<Rightarrow> agent_task \<Rightarrow> bool" where
  "task_eq s t =
     (s = t \<or> (s\<lparr>tk_schema := []\<rparr> = t\<lparr>tk_schema := []\<rparr> \<and> py_eq (JObj (tk_schema s)) (JObj (tk_schema t))))"

definition routed_of ::
  "agent_router \<Rightarrow> dependency_plan \<Rightarrow> (string, json) dict \<Rightarrow> agent_task \<Rightarrow> agent_record \<Rightarrow> routed_task" where
  "routed_of R plan payload t a =
     \<lparr>rt_task = tk_id t, rt_agent = tk_agent t, rt_skill = tk_skill t,
      rt_route = classify_route (task_type_of t (dp_request plan)), rt_payload = payload,
      rt_schema = sn_schema (ro_snapshot R), rt_hash = sn_hash (ro_snapshot R),
      rt_version = ag_version a, rt_result = ''route_allowed'', rt_reviewers = ag_reviewers a,
      rt_forbidden = ag_forbidden_actions a, rt_gate = ag_human_gate a\<rparr>"

definition route ::
  "agent_router \<Rightarrow> dependency_plan \<Rightarrow> (string, json) dict \<Rightarrow> agent_task \<Rightarrow> py_exn + routed_task" where
  "route R plan payload t =
     (let sn = ro_snapshot R; aid = tk_agent t; ty = task_type_of t (dp_request plan)
      in bind_res (require_ready sn) (\<lambda>_.
           if \<not> list_ex (task_eq t) (dp_tasks plan)
           then Inl (ValueError (''task '' @ str_repr (tk_id t) @ '' is not in plan '' @ str_repr (dp_id plan)))
           else if dp_hash plan \<noteq> sn_hash sn
           then Inl (ValueError ''stale registry plan cannot be routed under a different registry hash'')
           else bind_res (snapshot_agent sn aid) (\<lambda>a.
             if ty \<notin> set (ag_task_types a)
             then Inl (ValueError (''agent '' @ str_repr aid @ '' does not accept task_type '' @ str_repr ty))
             else bind_res (snapshot_agent sn (ro_source R)) (\<lambda>source.
               if aid \<notin> set (ag_downstream source)
               then Inl (ValueError (''route from '' @ str_repr (ro_source R) @ '' to '' @
                      str_repr aid @ '' is not allowed''))
               else if action_of t \<noteq> [] \<and> action_matches t (ag_forbidden_actions a)
               then Inl (ValueError (''forbidden action requested for '' @ str_repr aid))
               else if action_of t \<noteq> [] \<and> \<not> action_matches t (ag_allowed_actions a)
               then Inl (ValueError (''requested action '' @ str_repr (tk_action t) @ '' is not allowed''))
               else if ag_reviewers a = []
               then Inl (ValueError (''agent '' @ str_repr aid @ '' is missing required reviewers''))
               else if aid \<in> set (ag_reviewers a)
               then Inl (ValueError (''agent '' @ str_repr aid @ '' cannot self-approve''))
               else if ag_human_gate a \<and> \<not> dp_gate plan
               then Inl (ValueError ''human release gate requirement cannot be bypassed'')
               else Inr (routed_of R plan payload t a)))))"

definition route_all ::
  "agent_router \<Rightarrow> dependency_plan \<Rightarrow> task_inputs \<Rightarrow> py_exn + routed_task list" where
  "route_all R plan payloads =
     map_res (\<lambda>t. route R plan (dict_get_or payloads (tk_id t) []) t) (dp_tasks plan)"

section \<open>What the gates promise\<close>

text \<open>
  The contract of an agent that both gates check: the registry is ready and knows the agent, the
  source may route to it, it accepts the kind of task, the action is neither forbidden nor left
  out (a blank action is not checked), and it does not review its own work.
\<close>

definition action_permitted :: "agent_record \<Rightarrow> agent_task \<Rightarrow> bool" where
  "action_permitted a t \<longleftrightarrow>
     action_of t = [] \<or>
     (action_matches t (ag_allowed_actions a) \<and> \<not> action_matches t (ag_forbidden_actions a))"

definition contract :: "registry_snapshot \<Rightarrow> string \<Rightarrow> string \<Rightarrow> agent_task \<Rightarrow> agent_record \<Rightarrow> bool" where
  "contract sn source request t a \<longleftrightarrow>
     sn_state sn = ''AGENT_REGISTRY_READY'' \<and>
     snapshot_agent sn (tk_agent t) = Inr a \<and>
     task_type_of t request \<in> set (ag_task_types a) \<and>
     (\<exists>s. snapshot_agent sn source = Inr s \<and> tk_agent t \<in> set (ag_downstream s)) \<and>
     action_permitted a t \<and> tk_agent t \<notin> set (ag_reviewers a)"

text \<open>What the planner asks for beyond the contract, and what the router asks for.\<close>

definition plannable ::
  "main_planner \<Rightarrow> string \<Rightarrow> (string, json) dict option \<Rightarrow> agent_task \<Rightarrow> agent_record \<Rightarrow> bool" where
  "plannable P request inputs t a \<longleftrightarrow>
     contract (pl_snapshot P) (pl_source P) request t a \<and>
     tk_agent t \<noteq> pl_source P \<and> available a \<and> \<not> ag_self_approval a \<and>
     (\<forall>f \<in> set (required_fields_from_schema (ag_input_schema a)).
        \<exists>d. inputs = Some d \<and> f \<in> set (dict_keys d))"

text \<open>
  A gate decides on a task; what passes satisfies a promise and names the task and its agent. So a
  list of tasks passes only when every task does, and the decisions follow the tasks in order.
\<close>

locale delegation_gate =
  fixes decide :: "agent_task \<Rightarrow> py_exn + 'd"
    and promise :: "agent_task \<Rightarrow> agent_record \<Rightarrow> bool"
    and view :: "'d \<Rightarrow> string \<times> string \<times> bool"
  assumes decide_promise:
      "decide t = Inr d \<Longrightarrow> \<exists>a. promise t a \<and> view d = (tk_id t, tk_agent t, ag_human_gate a)"
    and promise_decide: "promise t a \<Longrightarrow> \<exists>d. decide t = Inr d"
    and promise_unique: "promise t a \<Longrightarrow> promise t b \<Longrightarrow> a = b"
begin

lemma decide_iff: "(\<exists>d. decide t = Inr d) \<longleftrightarrow> (\<exists>a. promise t a)"
  using decide_promise promise_decide by blast

lemma all_pass_iff: "(\<exists>ds. map_res decide ts = Inr ds) \<longleftrightarrow> (\<forall>t \<in> set ts. \<exists>a. promise t a)"
proof (induction ts)
  case Nil
  show ?case by simp
next
  case (Cons t ts)
  have "(\<exists>ds. map_res decide (t # ts) = Inr ds) \<longleftrightarrow>
     (\<exists>d. decide t = Inr d) \<and> (\<exists>ds. map_res decide ts = Inr ds)"
    by (auto split: sum.split)
  also have "\<dots> \<longleftrightarrow> (\<forall>t' \<in> set (t # ts). \<exists>a. promise t' a)"
    unfolding decide_iff Cons.IH by simp
  finally show ?case .
qed

lemma pass_view:
  assumes "map_res decide ts = Inr ds"
  shows "map (\<lambda>d. (fst (view d), fst (snd (view d)))) ds = map (\<lambda>t. (tk_id t, tk_agent t)) ts"
  using assms unfolding map_res_Inr
  by (induction rule: list_all2_induct) (auto dest!: decide_promise)

lemma pass_gate:
  assumes "map_res decide ts = Inr ds"
  shows "(\<exists>d \<in> set ds. snd (snd (view d))) \<longleftrightarrow> (\<exists>t \<in> set ts. \<exists>a. promise t a \<and> ag_human_gate a)"
  using assms unfolding map_res_Inr
proof (induction rule: list_all2_induct)
  case Nil
  show ?case by simp
next
  case (Cons t ts d ds)
  obtain a where "promise t a" "view d = (tk_id t, tk_agent t, ag_human_gate a)"
    using decide_promise [OF Cons.hyps(1)] by blast
  moreover from this have "(\<exists>b. promise t b \<and> ag_human_gate b) \<longleftrightarrow> ag_human_gate a"
    using promise_unique by blast
  ultimately show ?case using Cons.IH by simp
qed

end

section \<open>The planner and the router are gates\<close>

lemma snapshot_agent_id: "snapshot_agent sn i = Inr a \<Longrightarrow> ag_id a = i"
  by (auto simp: snapshot_agent_def split: option.splits dest: find_Some_iff_mem)

lemma require_ready_Inr: "require_ready sn = Inr u \<longleftrightarrow> sn_state sn = ''AGENT_REGISTRY_READY''"
  by (cases u) (simp add: require_ready_def)

lemma ex_unit_eq: "(\<exists>u :: unit. P u) \<longleftrightarrow> P ()"
  by (metis old.unit.exhaust)

lemmas gate_simps = Let_def bind_res_Inr raise_else require_ready_Inr

definition decision_view :: "planning_decision \<Rightarrow> string \<times> string \<times> bool" where
  "decision_view d = (pd_task d, pd_agent d, pd_gate d)"

definition routed_view :: "routed_task \<Rightarrow> string \<times> string \<times> bool" where
  "routed_view r = (rt_task r, rt_agent r, rt_gate r)"

lemma inputs_present:
  "filter (\<lambda>f. f \<notin> set (case inputs of None \<Rightarrow> [] | Some d \<Rightarrow> dict_keys d)) fs = [] \<longleftrightarrow>
     (\<forall>f \<in> set fs. \<exists>d. inputs = Some d \<and> f \<in> set (dict_keys d))"
  by (cases inputs) (auto simp: filter_empty_conv)

lemma validate_agent_Inr:
  "validate_agent P request inputs t = Inr d \<longleftrightarrow>
     (\<exists>a. plannable P request inputs t a \<and> d = decision_of P request t a)"
proof (cases "snapshot_agent (pl_snapshot P) (tk_agent t)")
  case (Inl e)
  then show ?thesis
    by (simp add: validate_agent_def gate_simps plannable_def contract_def)
next
  case (Inr a)
  have ag: "ag_id a = tk_agent t"
    using snapshot_agent_id [OF Inr] .
  have "validate_agent P request inputs t = Inr d \<longleftrightarrow>
      plannable P request inputs t a \<and> d = decision_of P request t a"
    unfolding validate_agent_def gate_simps not_not inputs_present action_permitted_def plannable_def
      contract_def Inr
    by (simp only: sum.inject ex_simps simp_thms ag eq_commute [of _ d] ex_unit_eq) metis
  moreover have "plannable P request inputs t b \<longleftrightarrow> b = a \<and> plannable P request inputs t a" for b
    using Inr by (auto simp: plannable_def contract_def)
  ultimately show ?thesis by metis
qed

lemma contract_unique: "contract sn s r t a \<Longrightarrow> contract sn s r t b \<Longrightarrow> a = b"
  by (simp add: contract_def)

interpretation pg: delegation_gate
  "\<lambda>t. validate_agent P request (inputs t) t" "\<lambda>t. plannable P request (inputs t) t" decision_view
  for P request inputs
proof unfold_locales
  show "\<exists>a. plannable P request (inputs t) t a \<and> decision_view d = (tk_id t, tk_agent t, ag_human_gate a)"
    if "validate_agent P request (inputs t) t = Inr d" for t d
    using that by (auto simp: validate_agent_Inr decision_view_def decision_of_def Let_def)
qed (auto simp: validate_agent_Inr plannable_def dest: contract_unique)

text \<open>What the router lets through, for a task of the plan.\<close>

definition routable ::
  "agent_router \<Rightarrow> dependency_plan \<Rightarrow> agent_task \<Rightarrow> agent_record \<Rightarrow> bool" where
  "routable R plan t a \<longleftrightarrow>
     contract (ro_snapshot R) (ro_source R) (dp_request plan) t a \<and>
     list_ex (task_eq t) (dp_tasks plan) \<and> dp_hash plan = sn_hash (ro_snapshot R) \<and>
     ag_reviewers a \<noteq> [] \<and> (ag_human_gate a \<longrightarrow> dp_gate plan)"

lemma route_Inr:
  "route R plan payload t = Inr r \<longleftrightarrow>
     (\<exists>a. routable R plan t a \<and> r = routed_of R plan payload t a)"
proof (cases "snapshot_agent (ro_snapshot R) (tk_agent t)")
  case (Inl e)
  then show ?thesis
    by (simp add: route_def gate_simps routable_def contract_def)
next
  case (Inr a)
  have "route R plan payload t = Inr r \<longleftrightarrow> routable R plan t a \<and> r = routed_of R plan payload t a"
    unfolding route_def gate_simps not_not routable_def contract_def action_permitted_def Inr
    by (simp only: sum.inject ex_simps simp_thms eq_commute [of _ r] ex_unit_eq) metis
  moreover have "routable R plan t b \<longleftrightarrow> b = a \<and> routable R plan t a" for b
    using Inr by (auto simp: routable_def contract_def)
  ultimately show ?thesis by metis
qed

interpretation rg: delegation_gate
  "\<lambda>t. route R plan (payload t) t" "routable R plan" routed_view
  for R plan payload
proof unfold_locales
  show "\<exists>a. routable R plan t a \<and> routed_view d = (tk_id t, tk_agent t, ag_human_gate a)"
    if "route R plan (payload t) t = Inr d" for t d
    using that by (auto simp: route_Inr routed_view_def routed_of_def)
qed (auto simp: route_Inr routable_def dest: contract_unique)

section \<open>Plans\<close>

definition inputs_of :: "task_inputs option \<Rightarrow> agent_task \<Rightarrow> (string, json) dict option" where
  "inputs_of inputs t = dict_get (case inputs of None \<Rightarrow> [] | Some d \<Rightarrow> d) (tk_id t)"

definition plan_of ::
  "main_planner \<Rightarrow> string \<Rightarrow> string \<Rightarrow> agent_task list \<Rightarrow> planning_decision list \<Rightarrow> dependency_plan" where
  "plan_of P pid request tasks ds =
     \<lparr>dp_id = pid, dp_request = request, dp_tasks = tasks, dp_gate = list_ex pd_gate ds,
      dp_schema = sn_schema (pl_snapshot P), dp_hash = sn_hash (pl_snapshot P), dp_decisions = ds\<rparr>"

lemma build_plan_Inr:
  "build_plan P pid request tasks inputs = Inr plan \<longleftrightarrow>
     (\<exists>ds. map_res (\<lambda>t. validate_agent P request (inputs_of inputs t) t) tasks = Inr ds \<and>
        plan = plan_of P pid request tasks ds)"
  unfolding build_plan_def Let_def bind_res_Inr sum.inject plan_of_def inputs_of_def
  by (rule ex_cong1, rule conj_cong) auto

text \<open>
  C8: A request is planned exactly when each of its tasks satisfies the contract of its agent: the
  registry is ready, the agent is known and available, is not the orchestrator itself, accepts
  the kind of task, is reachable from the source, got every required input, neither reviews nor
  approves its own work, and the action, unless it is blank, is allowed and not forbidden. The
  plan then has the tasks in their order with one decision each, and it asks for the human
  release gate exactly when the agent of one of its tasks does.
\<close>

theorem plan_safe:
  "((\<exists>plan. build_plan P pid request tasks inputs = Inr plan) \<longleftrightarrow>
     (\<forall>t \<in> set tasks. \<exists>a. plannable P request (inputs_of inputs t) t a)) \<and>
   (\<forall>plan. build_plan P pid request tasks inputs = Inr plan \<longrightarrow>
     dp_tasks plan = tasks \<and>
     map (\<lambda>d. (pd_task d, pd_agent d)) (dp_decisions plan) = map (\<lambda>t. (tk_id t, tk_agent t)) tasks \<and>
     (dp_gate plan \<longleftrightarrow>
        (\<exists>t \<in> set tasks. \<exists>a. plannable P request (inputs_of inputs t) t a \<and> ag_human_gate a)))"
proof (intro conjI allI impI)
  show "(\<exists>plan. build_plan P pid request tasks inputs = Inr plan) \<longleftrightarrow>
     (\<forall>t \<in> set tasks. \<exists>a. plannable P request (inputs_of inputs t) t a)"
    unfolding build_plan_Inr pg.all_pass_iff [symmetric] by blast
next
  fix plan
  assume "build_plan P pid request tasks inputs = Inr plan"
  then obtain ds where ds: "map_res (\<lambda>t. validate_agent P request (inputs_of inputs t) t) tasks = Inr ds"
    and plan: "plan = plan_of P pid request tasks ds"
    unfolding build_plan_Inr by blast
  show "dp_tasks plan = tasks"
    by (simp add: plan plan_of_def)
  show "map (\<lambda>d. (pd_task d, pd_agent d)) (dp_decisions plan) = map (\<lambda>t. (tk_id t, tk_agent t)) tasks"
    using pg.pass_view [OF ds] by (simp add: plan plan_of_def decision_view_def)
  show "dp_gate plan \<longleftrightarrow>
     (\<exists>t \<in> set tasks. \<exists>a. plannable P request (inputs_of inputs t) t a \<and> ag_human_gate a)"
    using pg.pass_gate [OF ds] by (simp add: plan plan_of_def decision_view_def list_ex_iff)
qed

text \<open>A task of a plan can be routed under the snapshot of the planner when its agent has reviewers.\<close>

lemma planned_routable:
  assumes "build_plan P pid request tasks inputs = Inr plan" and "t \<in> set tasks"
    and R: "ro_snapshot R = pl_snapshot P" "ro_source R = pl_source P"
  shows "(\<exists>b. routable R plan t b) \<longleftrightarrow>
     (\<forall>a. snapshot_agent (pl_snapshot P) (tk_agent t) = Inr a \<longrightarrow> ag_reviewers a \<noteq> [])"
proof -
  obtain ds where ds: "map_res (\<lambda>t. validate_agent P request (inputs_of inputs t) t) tasks = Inr ds"
    and plan: "plan = plan_of P pid request tasks ds"
    using assms(1) unfolding build_plan_Inr by blast
  obtain a where a: "plannable P request (inputs_of inputs t) t a"
    using ds assms(2) pg.all_pass_iff by blast
  then have c: "contract (pl_snapshot P) (pl_source P) request t a"
    and ag: "snapshot_agent (pl_snapshot P) (tk_agent t) = Inr a"
    by (auto simp: plannable_def contract_def)
  have gate: "ag_human_gate a \<longrightarrow> list_ex pd_gate ds"
    using pg.pass_gate [OF ds] a assms(2) by (auto simp: decision_view_def list_ex_iff)
  have "list_ex (task_eq t) tasks"
    using assms(2) by (auto simp: list_ex_iff task_eq_def)
  then have "routable R plan t b \<longleftrightarrow> b = a \<and> ag_reviewers a \<noteq> []" for b
    using c gate ag by (auto simp: routable_def plan plan_of_def R dest: contract_unique)
  with ag show ?thesis by auto
qed

text \<open>
  The planner and the router agree. A plan made under a snapshot is routed under that
  snapshot exactly when every agent of it has a reviewer: then each task goes to its agent, in
  order. Under a snapshot with another hash no plan with tasks is routed at all.
\<close>

theorem planned_tasks_route:
  assumes "build_plan P pid request tasks inputs = Inr plan"
    and "ro_snapshot R = pl_snapshot P" and "ro_source R = pl_source P"
    and "sn_hash (ro_snapshot R') \<noteq> sn_hash (pl_snapshot P)"
  shows "((\<exists>rs. route_all R plan payloads = Inr rs) \<longleftrightarrow>
       (\<forall>t \<in> set tasks. \<forall>a. snapshot_agent (pl_snapshot P) (tk_agent t) = Inr a \<longrightarrow> ag_reviewers a \<noteq> [])) \<and>
     (\<forall>rs. route_all R plan payloads = Inr rs \<longrightarrow>
       map (\<lambda>r. (rt_task r, rt_agent r)) rs = map (\<lambda>t. (tk_id t, tk_agent t)) tasks) \<and>
     ((\<exists>rs. route_all R' plan payloads = Inr rs) \<longleftrightarrow> tasks = [])"
proof -
  have tasks: "dp_tasks plan = tasks" and hash: "dp_hash plan = sn_hash (pl_snapshot P)"
    using assms(1) unfolding build_plan_Inr by (auto simp: plan_of_def)
  have "(\<exists>rs. route_all R plan payloads = Inr rs) \<longleftrightarrow>
       (\<forall>t \<in> set tasks. \<forall>a. snapshot_agent (pl_snapshot P) (tk_agent t) = Inr a \<longrightarrow> ag_reviewers a \<noteq> [])"
    unfolding route_all_def tasks rg.all_pass_iff
    using planned_routable [OF assms(1) _ assms(2,3)] by blast
  moreover have "map (\<lambda>r. (rt_task r, rt_agent r)) rs = map (\<lambda>t. (tk_id t, tk_agent t)) tasks"
    if "route_all R plan payloads = Inr rs" for rs
    using rg.pass_view [OF that [unfolded route_all_def tasks]] by (simp add: routed_view_def)
  moreover have "(\<exists>rs. route_all R' plan payloads = Inr rs) \<longleftrightarrow> tasks = []"
    unfolding route_all_def tasks rg.all_pass_iff using assms(4) hash
    by (cases tasks) (auto simp: routable_def)
  ultimately show ?thesis by blast
qed

section \<open>A registry of two agents\<close>

definition sample_agent :: "string \<Rightarrow> string list \<Rightarrow> agent_record" where
  "sample_agent i down =
     \<lparr>ag_id = i, ag_display_name = i, ag_role = ''role'', ag_responsibilities = [''work''],
      ag_task_types = [''code_review''],
      ag_input_schema = [(''required_fields'', JList [JStr ''audit_scope''])],
      ag_output_contract = [], ag_allowed_actions = [''Audit the code''],
      ag_forbidden_actions = [''deploy''], ag_allowed_tools = [''read''], ag_forbidden_tools = [''exec''],
      ag_upstream = [], ag_downstream = down, ag_reviewers = [''super-advisor''],
      ag_escalation = ''super-advisor'', ag_human_gate = True, ag_may_modify = False,
      ag_may_commit = False, ag_may_push = False, ag_may_deploy = False, ag_may_publish = False,
      ag_may_browser = False, ag_may_secrets = False, ag_self_approval = False, ag_source = ''f'',
      ag_version = ''1'', ag_hash = ''h'', ag_skills = [], ag_availability = ''AVAILABLE''\<rparr>"

definition sample_snapshot :: "string \<Rightarrow> registry_snapshot" where
  "sample_snapshot h =
     \<lparr>sn_state = ''AGENT_REGISTRY_READY'', sn_schema = ''1.0.0'', sn_hash = h, sn_version = ''1'',
      sn_source = ''f'', sn_loaded = True, sn_last_result = ''PASS'', sn_missing = 0,
      sn_duplicates = 0, sn_mismatches = 0, sn_route_issues = 0, sn_errors = [],
      sn_agents = [sample_agent ''super-advisor'' [''auditor''], sample_agent ''auditor'' []]\<rparr>"

definition sample_planner :: main_planner where
  "sample_planner = \<lparr>pl_snapshot = sample_snapshot ''h1'', pl_source = ''super-advisor''\<rparr>"

definition sample_task :: agent_task where
  "sample_task =
     \<lparr>tk_id = ''t1'', tk_agent = ''auditor'', tk_skill = ''review'', tk_depends = [], tk_schema = [],
      tk_type = [], tk_action = '' audit ''\<rparr>"

definition sample_inputs :: "task_inputs option" where
  "sample_inputs = Some [(''t1'', [(''audit_scope'', JStr ''all'')])]"

lemma sample_plan:
  "\<exists>plan. build_plan sample_planner ''p'' ''code_review'' [sample_task] sample_inputs = Inr plan"
proof -
  have "\<not> isl (build_plan sample_planner ''p'' ''code_review'' [sample_task] sample_inputs)"
    by code_simp
  then show ?thesis by (metis sum.collapse(2))
qed

lemma plan_safe_witness:
  "(\<exists>a. plannable sample_planner ''code_review'' (inputs_of sample_inputs sample_task) sample_task a) \<and>
   (\<exists>plan. build_plan sample_planner ''p'' ''code_review'' [sample_task] sample_inputs = Inr plan \<and>
      dp_gate plan \<and> dp_tasks plan = [sample_task])"
proof -
  obtain plan where plan:
    "build_plan sample_planner ''p'' ''code_review'' [sample_task] sample_inputs = Inr plan"
    using sample_plan by blast
  then have all: "\<forall>t \<in> {sample_task}.
      \<exists>a. plannable sample_planner ''code_review'' (inputs_of sample_inputs t) t a"
    using conjunct1 [OF plan_safe, of sample_planner _ _ "[sample_task]"] by fastforce
  moreover have "ag_human_gate a" if "plannable sample_planner r i sample_task a" for r i a
  proof -
    have "snapshot_agent (sample_snapshot ''h1'') ''auditor'' = Inr a"
      using that by (simp add: plannable_def contract_def sample_planner_def sample_task_def)
    moreover have "(case snapshot_agent (sample_snapshot ''h1'') ''auditor'' of
        Inl e \<Rightarrow> False | Inr b \<Rightarrow> ag_human_gate b)"
      by code_simp
    ultimately show ?thesis by simp
  qed
  ultimately have "dp_gate plan \<and> dp_tasks plan = [sample_task]"
    using conjunct2 [OF plan_safe] plan by fastforce
  with all plan show ?thesis by auto
qed

lemma planned_tasks_route_witness:
  "\<exists>plan rs. build_plan sample_planner ''p'' ''code_review'' [sample_task] sample_inputs = Inr plan \<and>
     route_all \<lparr>ro_snapshot = sample_snapshot ''h1'', ro_source = ''super-advisor''\<rparr> plan [] = Inr rs \<and>
     map rt_agent rs = [''auditor''] \<and>
     (\<forall>rs'. route_all \<lparr>ro_snapshot = sample_snapshot ''h2'', ro_source = ''super-advisor''\<rparr> plan [] \<noteq> Inr rs')"
proof -
  let ?R = "\<lambda>h. \<lparr>ro_snapshot = sample_snapshot h, ro_source = ''super-advisor''\<rparr>"
  obtain plan where plan:
    "build_plan sample_planner ''p'' ''code_review'' [sample_task] sample_inputs = Inr plan"
    using sample_plan by blast
  have R: "ro_snapshot (?R ''h1'') = pl_snapshot sample_planner" "ro_source (?R ''h1'') = pl_source sample_planner"
    by (simp_all add: sample_planner_def)
  have "ag_reviewers a \<noteq> []" if "snapshot_agent (pl_snapshot sample_planner) (tk_agent sample_task) = Inr a" for a
  proof -
    have "(case snapshot_agent (pl_snapshot sample_planner) (tk_agent sample_task) of
        Inl e \<Rightarrow> False | Inr b \<Rightarrow> ag_reviewers b \<noteq> [])"
      by code_simp
    with that show ?thesis by simp
  qed
  then have rev: "\<forall>t \<in> set [sample_task]. \<forall>a.
      snapshot_agent (pl_snapshot sample_planner) (tk_agent t) = Inr a \<longrightarrow> ag_reviewers a \<noteq> []"
    by simp
  have h: "sn_hash (ro_snapshot (?R ''h2'')) \<noteq> sn_hash (pl_snapshot sample_planner)"
    by (simp add: sample_planner_def sample_snapshot_def)
  note routed = planned_tasks_route [OF plan R h, of "[]"]
  obtain rs where rs: "route_all (?R ''h1'') plan [] = Inr rs"
    using conjunct1 [OF routed] rev by blast
  then have "map (\<lambda>r. (rt_task r, rt_agent r)) rs = [(''t1'', ''auditor'')]"
    using routed by (simp add: sample_task_def)
  then have "map rt_agent rs = [''auditor'']" by auto
  moreover have "\<forall>rs'. route_all (?R ''h2'') plan [] \<noteq> Inr rs'"
    using routed by simp
  ultimately show ?thesis using plan rs by (intro exI [of _ plan] exI [of _ rs]) simp
qed

end
