(* ===== verification/MainRuntime.thy ===== *)
theory MainRuntime
  imports Planner HashChain
begin

text \<open>
  \<open>main_agent/runtime.py\<close>: the runtime that executes a plan. It orders the tasks by their
  dependencies, dispatches each of them with bounded retries, validates the results, detects
  conflicting evidence, and keeps a checkpoint file and an audit log from which a request is
  paused, resumed, stopped and recovered. The dispatcher, the clocks and the texts of exceptions
  are parameters. A payload or provenance with keys that are no strings is outside the model.
\<close>

section \<open>Data\<close>

record agent_capability =
  cap_agent :: string
  cap_skills :: "json list"
  cap_available :: bool

record runtime_request =
  rq_id :: string
  rq_plan :: dependency_plan
  rq_key :: string
  rq_action :: string
  rq_timeout :: rat
  rq_max_hops :: int
  rq_gate_open :: bool

record task_result =
  tr_task :: string
  tr_agent :: string
  tr_status :: string
  tr_evidence :: string
  tr_payload :: "(string, json) dict"
  tr_provenance :: "(string, json) dict"
  tr_retryable :: bool

record runtime_report =
  rp_request :: string
  rp_status :: string
  rp_completed :: "string list"
  rp_failed :: "string list"
  rp_conflicts :: "string list"
  rp_dispatches :: nat
  rp_checkpoint :: string

text \<open>The set of dispatched keys is a list without repetition.\<close>

record runtime_checkpoint =
  ck_request :: string
  ck_key :: string
  ck_status :: string
  ck_completed :: "(string, task_result) dict"
  ck_failed :: "(string, string) dict"
  ck_dispatched :: "string list"
  ck_paused :: bool
  ck_stopped :: bool

datatype runtime_error = Invalid string | GateClosed | Raised py_exn

text \<open>
  What is outside: the dispatcher (what it answers, or raises, at its n-th call), the n-th reading
  of the monotonic clock, the wall clock at the n-th entry of the audit log, and the text of an
  exception.
\<close>

record runtime_env =
  rx_platform :: py_env
  rx_dispatch :: "nat \<Rightarrow> agent_task \<Rightarrow> py_exn + (string, json) dict"
  rx_clock :: "nat \<Rightarrow> rat"
  rx_now :: "nat \<Rightarrow> string"
  rx_exn_text :: "py_exn \<Rightarrow> string"

text \<open>
  The manager with its files: the checkpoints by path, as \<open>json.loads\<close> reads them, and the audit
  log. The calls of the dispatcher and the number of clock readings are recorded.
\<close>

record main_runtime =
  mr_capabilities :: "(string, agent_capability) dict"
  mr_max_retries :: int
  mr_snapshot :: "registry_snapshot option"
  mr_planner :: "main_planner option"
  mr_router :: "agent_router option"
  mr_files :: "(string, json) dict"
  mr_audit :: log_file
  mr_calls :: "agent_task list"
  mr_readings :: nat

section \<open>Checkpoints\<close>

definition result_json :: "task_result \<Rightarrow> json" where
  "result_json r =
     JObj [(''task_id'', JStr (tr_task r)), (''agent_id'', JStr (tr_agent r)),
           (''status'', JStr (tr_status r)), (''evidence_reference'', JStr (tr_evidence r)),
           (''payload'', JObj (tr_payload r)), (''provenance'', JObj (tr_provenance r)),
           (''retryable'', JBool (tr_retryable r))]"

definition checkpoint_json :: "runtime_checkpoint \<Rightarrow> json" where
  "checkpoint_json c =
     JObj [(''request_id'', JStr (ck_request c)), (''idempotency_key'', JStr (ck_key c)),
           (''status'', JStr (ck_status c)),
           (''completed'', JObj (map (\<lambda>(k, r). (k, result_json r)) (ck_completed c))),
           (''failed'', JObj (map (\<lambda>(k, s). (k, JStr s)) (ck_failed c))),
           (''dispatched_idempotency_keys'', JList (map JStr (sort (ck_dispatched c)))),
           (''paused'', JBool (ck_paused c)), (''stopped'', JBool (ck_stopped c))]"

text \<open>\<open>dict(v)\<close>: of a mapping, or of a sequence of pairs.\<close>

definition py_pair :: "json \<Rightarrow> py_exn + string \<times> json" where
  "py_pair v =
     bind_res (py_tuple v) (\<lambda>xs.
       case xs of
         [JStr k, w] \<Rightarrow> Inr (k, w)
       | [k, w] \<Rightarrow> Inl TypeError
       | _ \<Rightarrow> Inl (ValueError ''dictionary update sequence element has the wrong length''))"

definition py_dict :: "json \<Rightarrow> py_exn + (string, json) dict" where
  "py_dict v =
     (case v of
        JObj d \<Rightarrow> Inr d
      | _ \<Rightarrow> bind_res (py_tuple v) (\<lambda>xs. bind_res (map_res py_pair xs) (\<lambda>ps.
               Inr (fold (\<lambda>(k, w). dict_set k w) ps []))))"

definition result_of_json :: "py_env \<Rightarrow> (string, json) dict \<Rightarrow> py_exn + task_result" where
  "result_of_json E d =
     bind_res (json_item (JObj d) ''task_id'') (\<lambda>t.
     bind_res (json_item (JObj d) ''agent_id'') (\<lambda>a.
     bind_res (json_item (JObj d) ''status'') (\<lambda>s.
     bind_res (json_item (JObj d) ''evidence_reference'') (\<lambda>e.
     bind_res (bind_res (json_item (JObj d) ''payload'') py_dict) (\<lambda>p.
     bind_res (bind_res (json_item (JObj d) ''provenance'') py_dict) (\<lambda>q.
       Inr \<lparr>tr_task = py_str E t, tr_agent = py_str E a, tr_status = py_str E s,
            tr_evidence = py_str E e, tr_payload = p, tr_provenance = q,
            tr_retryable = json_truthy (dict_get_or d ''retryable'' (JBool False))\<rparr>))))))"

fun completed_of_json :: "py_env \<Rightarrow> (string, json) dict \<Rightarrow> py_exn + (string, task_result) dict" where
  "completed_of_json E [] = Inr []"
| "completed_of_json E ((k, v) # kvs) =
     (case v of
        JObj d \<Rightarrow> bind_res (result_of_json E d) (\<lambda>r.
                   bind_res (completed_of_json E kvs) (\<lambda>rs. Inr ((k, r) # rs)))
      | _ \<Rightarrow> completed_of_json E kvs)"

definition checkpoint_of_json :: "py_env \<Rightarrow> json \<Rightarrow> py_exn + runtime_checkpoint" where
  "checkpoint_of_json E v =
     (case v of
        JObj d \<Rightarrow>
          bind_res (case dict_get_or d ''completed'' (JObj []) of
              JObj items \<Rightarrow> completed_of_json E items
            | _ \<Rightarrow> Inr []) (\<lambda>completed.
          bind_res (json_item v ''request_id'') (\<lambda>request.
          bind_res (json_item v ''idempotency_key'') (\<lambda>key.
          bind_res (json_item v ''status'') (\<lambda>status.
          bind_res (py_dict (dict_get_or d ''failed'' (JObj []))) (\<lambda>failed.
          bind_res (py_tuple (dict_get_or d ''dispatched_idempotency_keys'' (JList []))) (\<lambda>keys.
            Inr \<lparr>ck_request = py_str E request, ck_key = py_str E key, ck_status = py_str E status,
                 ck_completed = completed, ck_failed = map (\<lambda>(k, w). (k, py_str E w)) failed,
                 ck_dispatched = remdups (map (py_str E) keys),
                 ck_paused = json_truthy (dict_get_or d ''paused'' (JBool False)),
                 ck_stopped = json_truthy (dict_get_or d ''stopped'' (JBool False))\<rparr>))))))
      | _ \<Rightarrow> Inl AttributeError)"

definition checkpoint_path :: "runtime_env \<Rightarrow> runtime_request \<Rightarrow> string" where
  "checkpoint_path X rq =
     rq_id rq @ ''-'' @ take 24 (sha256_hex (rx_platform X) (rq_key rq)) @ ''.json''"

definition fresh_checkpoint :: "runtime_request \<Rightarrow> runtime_checkpoint" where
  "fresh_checkpoint rq =
     \<lparr>ck_request = rq_id rq, ck_key = rq_key rq, ck_status = ''RUNNING'', ck_completed = [],
      ck_failed = [], ck_dispatched = [], ck_paused = False, ck_stopped = False\<rparr>"

definition load_checkpoint ::
  "runtime_env \<Rightarrow> runtime_request \<Rightarrow> main_runtime \<Rightarrow> py_exn + runtime_checkpoint" where
  "load_checkpoint X rq M =
     (case dict_get (mr_files M) (checkpoint_path X rq) of
        None \<Rightarrow> Inr (fresh_checkpoint rq)
      | Some v \<Rightarrow> checkpoint_of_json (rx_platform X) v)"

text \<open>The text goes to a temporary file that replaces the checkpoint; a text that cannot be made
  leaves the checkpoint as it was.\<close>

definition save_checkpoint ::
  "runtime_env \<Rightarrow> runtime_request \<Rightarrow> runtime_checkpoint \<Rightarrow> main_runtime \<Rightarrow> py_exn + main_runtime" where
  "save_checkpoint X rq c M =
     bind_res (json_exn (canonical_json (rx_platform X) (checkpoint_json c))) (\<lambda>_.
       Inr (M\<lparr>mr_files := dict_set (checkpoint_path X rq) (json_norm (checkpoint_json c)) (mr_files M)\<rparr>))"

definition report ::
  "runtime_env \<Rightarrow> runtime_request \<Rightarrow> runtime_checkpoint \<Rightarrow> string \<Rightarrow> runtime_report" where
  "report X rq c status =
     \<lparr>rp_request = rq_id rq, rp_status = status, rp_completed = sort (dict_keys (ck_completed c)),
      rp_failed = sort (dict_keys (ck_failed c)),
      rp_conflicts = map fst (filter (\<lambda>(k, s). s = ''conflict_detected'') (sort_key fst (ck_failed c))),
      rp_dispatches = length (ck_dispatched c), rp_checkpoint = checkpoint_path X rq\<rparr>"

section \<open>The audit log\<close>

fun last_line :: "log_line list \<Rightarrow> log_line option" where
  "last_line [] = None"
| "last_line (l # ls) =
     (case last_line ls of Some m \<Rightarrow> Some m | None \<Rightarrow> if l = Blank then None else Some l)"

definition previous_record :: "py_env \<Rightarrow> log_file \<Rightarrow> py_exn + string" where
  "previous_record E f =
     (case last_line (file_lines f) of
        None \<Rightarrow> Inr []
      | Some (Line v) \<Rightarrow> bind_res (json_item v ''record_hash'') (\<lambda>h. Inr (py_str E h))
      | Some _ \<Rightarrow> Inl (ValueError ''Expecting value''))"

definition audit_event :: "string \<Rightarrow> string \<Rightarrow> string \<Rightarrow> string \<Rightarrow> string \<Rightarrow> string \<Rightarrow> json" where
  "audit_event now kind task detail previous h =
     JObj [(''created_at_utc'', JStr now), (''event_type'', JStr kind), (''task_id'', JStr task),
           (''detail'', JStr detail), (''previous_hash'', JStr previous), (''record_hash'', JStr h)]"

definition append_audit ::
  "runtime_env \<Rightarrow> string \<Rightarrow> string \<Rightarrow> string \<Rightarrow> main_runtime \<Rightarrow> py_exn + main_runtime" where
  "append_audit X kind task detail M =
     bind_res (previous_record (rx_platform X) (mr_audit M)) (\<lambda>previous.
       let now = rx_now X (length (file_lines (mr_audit M)))
       in bind_res (json_exn (json_digest (rx_platform X) (audit_event now kind task detail previous []))) (\<lambda>h.
            Inr (M\<lparr>mr_audit := append_line (audit_event now kind task detail previous h) (mr_audit M)\<rparr>)))"

section \<open>Ordering a plan\<close>

text \<open>
  The depth-first visit. The tasks done so far are those of \<open>ordered\<close>, the tasks being visited
  are the path.
\<close>

type_synonym tasks_by_id = "(string, agent_task) dict"

definition ids :: "agent_task list \<Rightarrow> string list" where
  "ids ts = map tk_id ts"

function (sequential) visit :: "tasks_by_id \<Rightarrow> string list \<Rightarrow> string \<Rightarrow> agent_task list \<Rightarrow> runtime_error + agent_task list"
  and visit_all :: "tasks_by_id \<Rightarrow> string list \<Rightarrow> string list \<Rightarrow> agent_task list \<Rightarrow> runtime_error + agent_task list"
where
  "visit tb path i ordered =
     (if i \<in> set (ids ordered) then Inr ordered
      else if i \<in> set path then Inl (Invalid ''dependency cycle detected'')
      else case dict_get tb i of
             None \<Rightarrow> Inl (Raised (KeyError i))
           | Some t \<Rightarrow> bind_res (visit_all tb (i # path) (tk_depends t) ordered) (\<lambda>done. Inr (done @ [t])))"
| "visit_all tb path [] ordered = Inr ordered"
| "visit_all tb path (d # ds) ordered =
     bind_res (visit tb path d ordered) (\<lambda>done. visit_all tb path ds done)"
  by pat_completeness auto

termination
proof (relation "inv_image (less_than <*lex*> less_than)
    (case_sum (\<lambda>(tb, path, i, ordered). (card (set (map fst tb) - set path), 0))
              (\<lambda>(tb, path, ds, ordered). (card (set (map fst tb) - set path), Suc (length ds))))",
    goal_cases)
  case 1
  show ?case by auto
next
  case (2 tb path i ordered t)
  then have i: "i \<in> fst ` set tb" by (metis image_eqI map_of_SomeD fst_conv)
  have "fst ` set tb - insert i (set path) \<subset> fst ` set tb - set path"
    using i 2 by auto
  then have "card (fst ` set tb - insert i (set path)) < card (fst ` set tb - set path)"
    by (intro psubset_card_mono) simp_all
  then show ?case by simp
next
  case (3 tb path d ds ordered)
  show ?case by simp
next
  case (4 tb path d ds ordered x)
  show ?case by simp
qed

text \<open>The tests of a task against the capabilities, and of its dependencies, in the order made.\<close>

fun check_tasks ::
  "(string, agent_capability) dict \<Rightarrow> tasks_by_id \<Rightarrow> agent_task list \<Rightarrow> runtime_error + tasks_by_id" where
  "check_tasks caps tb [] = Inr tb"
| "check_tasks caps tb (t # ts) =
     (if dict_get tb (tk_id t) \<noteq> None then Inl (Invalid (''duplicate task_id: '' @ tk_id t))
      else case dict_get caps (tk_agent t) of
             None \<Rightarrow> Inl (Invalid (''unavailable capability: '' @ tk_agent t))
           | Some c \<Rightarrow>
               if \<not> cap_available c then Inl (Invalid (''unavailable capability: '' @ tk_agent t))
               else if \<not> list_ex (\<lambda>v. py_eq v (JStr (tk_skill t))) (cap_skills c)
               then Inl (Invalid (''agent '' @ tk_agent t @ '' does not provide skill '' @ tk_skill t))
               else check_tasks caps (dict_set (tk_id t) t tb) ts)"

definition order_plan :: "main_runtime \<Rightarrow> dependency_plan \<Rightarrow> int \<Rightarrow> runtime_error + agent_task list" where
  "order_plan M plan max_hops =
     (let ts = dp_tasks plan
      in if int (length ts) > max_hops then Inl (Invalid ''plan exceeds max_hops'')
         else bind_res (check_tasks (mr_capabilities M) [] ts) (\<lambda>tb.
           case find (\<lambda>d. dict_get tb d = None) (concat (map tk_depends ts)) of
             Some d \<Rightarrow> Inl (Invalid (''unknown dependency: '' @ d))
           | None \<Rightarrow> visit_all tb [] (ids ts) []))"

section \<open>Dispatching\<close>

definition reply_result :: "py_env \<Rightarrow> (string, json) dict \<Rightarrow> py_exn + task_result" where
  "reply_result E d =
     bind_res (json_item (JObj d) ''task_id'') (\<lambda>t.
     bind_res (json_item (JObj d) ''agent_id'') (\<lambda>a.
     bind_res (json_item (JObj d) ''status'') (\<lambda>s.
     bind_res (json_item (JObj d) ''evidence_reference'') (\<lambda>e.
     bind_res (py_dict (dict_get_or d ''payload'' (JObj []))) (\<lambda>p.
     bind_res (py_dict (dict_get_or d ''provenance'' (JObj []))) (\<lambda>q.
       Inr \<lparr>tr_task = py_str E t, tr_agent = py_str E a, tr_status = py_str E s,
            tr_evidence = py_str E e, tr_payload = p, tr_provenance = q,
            tr_retryable = json_truthy (dict_get_or d ''retryable'' (JBool False))\<rparr>))))))"

definition failed_result :: "agent_task \<Rightarrow> string \<Rightarrow> task_result" where
  "failed_result t err =
     \<lparr>tr_task = tk_id t, tr_agent = tk_agent t, tr_status = ''FAILED'', tr_evidence = [],
      tr_payload = [(''error'', JStr err)], tr_provenance = [], tr_retryable = False\<rparr>"

text \<open>
  The loop with the attempts that are left: a retryable failure and a \<open>RuntimeError\<close> use one up,
  a malformed reply ends it, any other exception leaves it.
\<close>

fun dispatch_loop ::
  "runtime_env \<Rightarrow> agent_task \<Rightarrow> nat \<Rightarrow> string \<Rightarrow> main_runtime \<Rightarrow> (py_exn + task_result) \<times> main_runtime" where
  "dispatch_loop X t 0 err M = (Inr (failed_result t err), M)"
| "dispatch_loop X t (Suc n) err M =
     (let M' = M\<lparr>mr_calls := mr_calls M @ [t]\<rparr>
      in case bind_res (rx_dispatch X (length (mr_calls M)) t) (reply_result (rx_platform X)) of
           Inr r \<Rightarrow>
             if tr_status r = ''RETRYABLE_FAILURE'' \<and> tr_retryable r
             then dispatch_loop X t n ''retryable failure result'' M'
             else (Inr r, M')
         | Inl e \<Rightarrow>
             (case e of
                KeyError _ \<Rightarrow> (Inr (failed_result t (rx_exn_text X e)), M')
              | TypeError \<Rightarrow> (Inr (failed_result t (rx_exn_text X e)), M')
              | ValueError _ \<Rightarrow> (Inr (failed_result t (rx_exn_text X e)), M')
              | RuntimeError _ \<Rightarrow> dispatch_loop X t n (rx_exn_text X e) M'
              | _ \<Rightarrow> (Inl e, M')))"

definition dispatch_with_retry ::
  "runtime_env \<Rightarrow> agent_task \<Rightarrow> main_runtime \<Rightarrow> (py_exn + task_result) \<times> main_runtime" where
  "dispatch_with_retry X t M =
     dispatch_loop X t (nat (mr_max_retries M + 1)) ''unknown dispatch failure'' M"

definition accepted_statuses :: "string list" where
  "accepted_statuses = [''COMPLETED'', ''WATCH'', ''LOW_SCORE'', ''NOT_READY'', ''CONFLICT'']"

definition validate_result :: "agent_task \<Rightarrow> task_result \<Rightarrow> string" where
  "validate_result t r =
     (if tr_task r \<noteq> tk_id t then ''result task_id mismatch''
      else if tr_agent r \<noteq> tk_agent t then ''result agent_id mismatch''
      else if tr_status r \<notin> set accepted_statuses then ''unsupported result status''
      else if tr_evidence r = [] then ''missing evidence_reference''
      else if tr_provenance r = [] then ''missing provenance''
      else if dict_get (tr_payload r) ''fabricated_numeric_evidence'' = Some (JBool True)
      then ''fabricated numeric evidence rejected''
      else [])"

text \<open>The values seen so far, and the tasks whose evidence differs from the one seen before.\<close>

fun scan_evidence ::
  "string \<Rightarrow> (string, json) dict \<Rightarrow> (string, json) dict \<times> string list \<Rightarrow> (string, json) dict \<times> string list" where
  "scan_evidence i [] st = st"
| "scan_evidence i ((k, v) # kvs) (seen, found) =
     scan_evidence i kvs
       (dict_set k v seen,
        if starts_with ''evidence.'' k \<and>
           (case dict_get seen k of None \<Rightarrow> False | Some w \<Rightarrow> \<not> py_eq w v)
        then found @ [i] else found)"

definition detect_conflicts :: "(string, task_result) dict \<Rightarrow> string list" where
  "detect_conflicts completed =
     snd (fold (\<lambda>(i, r) st. scan_evidence i (tr_payload r) st) completed ([], []))"

section \<open>Executing a request\<close>

type_synonym 'a runtime_step = "(runtime_error + 'a) \<times> main_runtime"

definition save_and_report ::
  "runtime_env \<Rightarrow> runtime_request \<Rightarrow> runtime_checkpoint \<Rightarrow> string \<Rightarrow> main_runtime \<Rightarrow> runtime_report runtime_step" where
  "save_and_report X rq c status M =
     (case save_checkpoint X rq (c\<lparr>ck_status := status\<rparr>) M of
        Inl e \<Rightarrow> (Inl (Raised e), M)
      | Inr M' \<Rightarrow> (Inr (report X rq (c\<lparr>ck_status := status\<rparr>) status), M'))"

definition dispatch_key :: "runtime_request \<Rightarrow> agent_task \<Rightarrow> string" where
  "dispatch_key rq t = rq_key rq @ '':'' @ tk_id t"

text \<open>What happens with a result: the request ends, or goes on with the next task.\<close>

definition settle_task ::
  "runtime_env \<Rightarrow> runtime_request \<Rightarrow> agent_task \<Rightarrow> task_result \<Rightarrow> runtime_checkpoint \<Rightarrow> main_runtime \<Rightarrow>
   (runtime_report runtime_step) + (runtime_checkpoint \<times> main_runtime)" where
  "settle_task X rq t r c0 M =
     (let c = c0\<lparr>ck_dispatched := List.insert (dispatch_key rq t) (ck_dispatched c0)\<rparr>;
          err = validate_result t r
      in if err \<noteq> []
         then
           (let c' = c\<lparr>ck_failed := dict_set (tk_id t) err (ck_failed c)\<rparr>
            in case append_audit X ''task_failed'' (tk_id t) err M of
                 Inl e \<Rightarrow> Inl (Inl (Raised e), M)
               | Inr M' \<Rightarrow> Inl (save_and_report X rq c' ''FAILED'' M'))
         else
           (let c' = c\<lparr>ck_completed := dict_set (tk_id t) r (ck_completed c)\<rparr>
            in case append_audit X ''task_completed'' (tk_id t) (tr_evidence r) M of
                 Inl e \<Rightarrow> Inl (Inl (Raised e), M)
               | Inr M' \<Rightarrow>
                   (let conflicts = detect_conflicts (ck_completed c')
                    in if conflicts \<noteq> []
                       then Inl (save_and_report X rq
                         (c'\<lparr>ck_failed := fold (\<lambda>i. dict_set i ''conflict_detected'') conflicts (ck_failed c')\<rparr>)
                         ''CONFLICT'' M')
                       else case save_checkpoint X rq c' M' of
                              Inl e \<Rightarrow> Inl (Inl (Raised e), M')
                            | Inr M'' \<Rightarrow> Inr (c', M''))))"

fun run_tasks ::
  "runtime_env \<Rightarrow> runtime_request \<Rightarrow> rat \<Rightarrow> agent_task list \<Rightarrow> runtime_checkpoint \<Rightarrow> main_runtime \<Rightarrow>
   runtime_report runtime_step" where
  "run_tasks X rq deadline [] c M = save_and_report X rq c ''COMPLETED'' M"
| "run_tasks X rq deadline (t # ts) c M =
     (if tk_id t \<in> set (dict_keys (ck_completed c)) then run_tasks X rq deadline ts c M
      else
        (let M' = M\<lparr>mr_readings := Suc (mr_readings M)\<rparr>
         in if rx_clock X (mr_readings M) > deadline then save_and_report X rq c ''TIMEOUT'' M'
            else if dispatch_key rq t \<in> set (ck_dispatched c) then run_tasks X rq deadline ts c M'
            else
              (case dispatch_with_retry X t M' of
                 (Inl e, M'') \<Rightarrow> (Inl (Raised e), M'')
               | (Inr r, M'') \<Rightarrow>
                   (case settle_task X rq t r c M'' of
                      Inl step \<Rightarrow> step
                    | Inr (c', M3) \<Rightarrow> run_tasks X rq deadline ts c' M3))))"

definition registry_state :: "main_runtime \<Rightarrow> string" where
  "registry_state M =
     (case mr_snapshot M of None \<Rightarrow> ''AGENT_REGISTRY_INVALID'' | Some sn \<Rightarrow> sn_state sn)"

definition execute :: "runtime_env \<Rightarrow> runtime_request \<Rightarrow> main_runtime \<Rightarrow> runtime_report runtime_step" where
  "execute X rq M =
     (if registry_state M \<noteq> ''AGENT_REGISTRY_READY''
      then (Inl (Invalid ''MAIN runtime registry is not ready''), M)
      else if rq_action rq \<in> {''release'', ''deploy''} \<and> \<not> rq_gate_open rq then (Inl GateClosed, M)
      else case order_plan M (rq_plan rq) (rq_max_hops rq) of
             Inl e \<Rightarrow> (Inl e, M)
           | Inr ordered \<Rightarrow>
               (case load_checkpoint X rq M of
                  Inl e \<Rightarrow> (Inl (Raised e), M)
                | Inr c \<Rightarrow>
                    if ck_paused c then (Inr (report X rq c ''PAUSED''), M)
                    else if ck_stopped c then (Inr (report X rq c ''STOPPED''), M)
                    else run_tasks X rq (rx_clock X (mr_readings M) + rq_timeout rq) ordered c
                           (M\<lparr>mr_readings := Suc (mr_readings M)\<rparr>)))"

text \<open>\<open>recover\<close> is \<open>execute\<close>. Pausing, resuming and stopping rewrite the checkpoint.\<close>

definition mark ::
  "runtime_env \<Rightarrow> runtime_request \<Rightarrow> (runtime_checkpoint \<Rightarrow> runtime_checkpoint) \<Rightarrow> main_runtime \<Rightarrow> unit runtime_step" where
  "mark X rq f M =
     (case load_checkpoint X rq M of
        Inl e \<Rightarrow> (Inl (Raised e), M)
      | Inr c \<Rightarrow>
          (case save_checkpoint X rq (f c) M of
             Inl e \<Rightarrow> (Inl (Raised e), M)
           | Inr M' \<Rightarrow> (Inr (), M')))"

definition pause :: "runtime_env \<Rightarrow> runtime_request \<Rightarrow> main_runtime \<Rightarrow> unit runtime_step" where
  "pause X rq = mark X rq (\<lambda>c. c\<lparr>ck_paused := True, ck_status := ''PAUSED''\<rparr>)"

definition stop :: "runtime_env \<Rightarrow> runtime_request \<Rightarrow> main_runtime \<Rightarrow> unit runtime_step" where
  "stop X rq = mark X rq (\<lambda>c. c\<lparr>ck_stopped := True, ck_status := ''STOPPED''\<rparr>)"

definition resume :: "runtime_env \<Rightarrow> runtime_request \<Rightarrow> main_runtime \<Rightarrow> runtime_report runtime_step" where
  "resume X rq M =
     (case mark X rq (\<lambda>c. c\<lparr>ck_paused := False, ck_status := ''RUNNING''\<rparr>) M of
        (Inl e, M') \<Rightarrow> (Inl e, M')
      | (Inr _, M') \<Rightarrow> execute X rq M')"

definition recover :: "runtime_env \<Rightarrow> runtime_request \<Rightarrow> main_runtime \<Rightarrow> runtime_report runtime_step" where
  "recover X rq M = execute X rq M"

section \<open>Construction and the planner's door\<close>

text \<open>The files are those that the checkpoint directory has already.\<close>

definition from_registry_snapshot ::
  "registry_snapshot \<Rightarrow> int \<Rightarrow> (string, json) dict \<Rightarrow> log_file \<Rightarrow> main_runtime" where
  "from_registry_snapshot sn retries files audit =
     \<lparr>mr_capabilities =
        fold (\<lambda>a. dict_set (ag_id a) \<lparr>cap_agent = ag_id a, cap_skills = ag_skills a, cap_available = available a\<rparr>)
          (filter (\<lambda>a. ag_id a \<noteq> ''super-advisor'') (snapshot_available sn)) [],
      mr_max_retries = retries, mr_snapshot = Some sn,
      mr_planner = Some \<lparr>pl_snapshot = sn, pl_source = ''super-advisor''\<rparr>,
      mr_router = Some \<lparr>ro_snapshot = sn, ro_source = ''super-advisor''\<rparr>,
      mr_files = files, mr_audit = audit, mr_calls = [], mr_readings = 0\<rparr>"

definition registry_loaded :: "main_runtime \<Rightarrow> bool" where
  "registry_loaded M =
     ((case mr_snapshot M of None \<Rightarrow> False | Some sn \<Rightarrow> sn_loaded sn) \<and>
      mr_planner M \<noteq> None \<and> mr_router M \<noteq> None)"

definition lift_exn :: "py_exn + 'a \<Rightarrow> runtime_error + 'a" where
  "lift_exn r = (case r of Inl e \<Rightarrow> Inl (Raised e) | Inr x \<Rightarrow> Inr x)"

definition plan_request ::
  "main_runtime \<Rightarrow> string \<Rightarrow> string \<Rightarrow> agent_task list \<Rightarrow> task_inputs option \<Rightarrow> runtime_error + dependency_plan" where
  "plan_request M pid request tasks inputs =
     (if registry_state M \<noteq> ''AGENT_REGISTRY_READY''
      then Inl (Invalid ''MAIN planner is unavailable because the registry is not ready'')
      else case mr_planner M of
             None \<Rightarrow> Inl (Invalid ''MAIN planner is unavailable because the registry is not loaded'')
           | Some P \<Rightarrow> lift_exn (build_plan P pid request tasks inputs))"

definition route_plan ::
  "main_runtime \<Rightarrow> dependency_plan \<Rightarrow> task_inputs \<Rightarrow> runtime_error + routed_task list" where
  "route_plan M plan payloads =
     (if registry_state M \<noteq> ''AGENT_REGISTRY_READY''
      then Inl (Invalid ''MAIN router is unavailable because the registry is not ready'')
      else case mr_router M of
             None \<Rightarrow> Inl (Invalid ''MAIN router is unavailable because the registry is not loaded'')
           | Some R \<Rightarrow> lift_exn (route_all R plan payloads))"

end
