(* ===== verification/PlanOrder.thy ===== *)
theory PlanOrder
  imports MainRuntime
begin

text \<open>
  The order in which the main runtime executes a plan: the depth-first visit succeeds exactly on
  the plans whose dependencies have no cycle, and gives a permutation of the tasks in which each
  task comes after those it depends on.
\<close>

section \<open>Ordered lists of tasks\<close>

inductive topo :: "tasks_by_id \<Rightarrow> agent_task list \<Rightarrow> bool" for tb where
  topo_Nil: "topo tb []"
| topo_snoc: "topo tb ts \<Longrightarrow> dict_get tb (tk_id t) = Some t \<Longrightarrow> tk_id t \<notin> set (ids ts) \<Longrightarrow>
    set (tk_depends t) \<subseteq> set (ids ts) \<Longrightarrow> topo tb (ts @ [t])"

lemma ids_simps [simp]:
  "ids [] = []" "ids (t # ts) = tk_id t # ids ts" "ids (ts @ us) = ids ts @ ids us"
  "set (ids ts) = tk_id ` set ts"
  by (simp_all add: ids_def)

lemma topo_distinct: "topo tb ts \<Longrightarrow> distinct (ids ts)"
  by (induction rule: topo.induct) auto

lemma topo_lookup: "topo tb ts \<Longrightarrow> t \<in> set ts \<Longrightarrow> dict_get tb (tk_id t) = Some t"
  by (induction rule: topo.induct) auto

lemma topo_split:
  "topo tb ts \<Longrightarrow> ts = as @ t # bs \<Longrightarrow> set (tk_depends t) \<subseteq> set (ids as)"
proof (induction arbitrary: bs rule: topo.induct)
  case topo_Nil
  then show ?case by simp
next
  case (topo_snoc ts u)
  then show ?case by (cases bs rule: rev_cases) auto
qed

text \<open>The dependencies between the tasks of a table.\<close>

definition dependency :: "tasks_by_id \<Rightarrow> (string \<times> string) set" where
  "dependency tb = {(i, d). \<exists>t. dict_get tb i = Some t \<and> d \<in> set (tk_depends t)}"

lemma topo_acyclic:
  assumes "topo tb ts" and "set (dict_keys tb) \<subseteq> set (ids ts)"
  shows "acyclic (dependency tb)"
proof -
  let ?pos = "\<lambda>i. length (takeWhile (\<lambda>j. j \<noteq> i) (ids ts))"
  have "?pos d < ?pos i" if "(i, d) \<in> dependency tb" for i d
  proof -
    obtain t where t: "dict_get tb i = Some t" "d \<in> set (tk_depends t)"
      using \<open>(i, d) \<in> dependency tb\<close> by (auto simp: dependency_def)
    then have "i \<in> set (ids ts)"
      using assms(2) by (force dest: map_of_SomeD)
    then obtain u where u: "u \<in> set ts" "tk_id u = i" by auto
    with topo_lookup [OF assms(1)] t have "u = t" by auto
    with u obtain as bs where ts: "ts = as @ t # bs" by (metis split_list)
    have d: "d \<in> set (ids as)"
      using topo_split [OF assms(1) ts] t by auto
    have "i \<notin> set (ids as)"
      using topo_distinct [OF assms(1)] u \<open>u = t\<close> by (auto simp: ts)
    then have "takeWhile (\<lambda>j. j \<noteq> i) (ids as @ i # ids bs) = ids as"
      by (subst takeWhile_append2) auto
    then have "?pos i = length (ids as)"
      using u \<open>u = t\<close> by (simp add: ts)
    moreover have "?pos d < length (ids as)"
    proof -
      obtain p q where as: "ids as = p @ d # q" "d \<notin> set p"
        using split_list_first [OF d] by blast
      then have "takeWhile (\<lambda>j. j \<noteq> d) (p @ d # q @ ids (t # bs)) = p"
        by (subst takeWhile_append2) auto
      then show ?thesis by (simp add: ts as(1))
    qed
    ultimately show ?thesis by simp
  qed
  then have "(dependency tb)\<inverse> \<subseteq> measure ?pos" by auto
  then show ?thesis by (metis acyclic_converse acyclic_subset wf_acyclic wf_measure)
qed

section \<open>The visit\<close>

declare visit.simps [simp del]

definition keyed :: "tasks_by_id \<Rightarrow> bool" where
  "keyed tb \<longleftrightarrow> (\<forall>i t. dict_get tb i = Some t \<longrightarrow> tk_id t = i)"

lemma visit_topo:
  "visit tb path i ts = Inr us \<Longrightarrow> keyed tb \<Longrightarrow> topo tb ts \<Longrightarrow> set path \<inter> set (ids ts) = {} \<Longrightarrow>
     topo tb us \<and> set ts \<subseteq> set us \<and> i \<in> set (ids us) \<and> set path \<inter> set (ids us) = {}"
  "visit_all tb path ds ts = Inr us \<Longrightarrow> keyed tb \<Longrightarrow> topo tb ts \<Longrightarrow> set path \<inter> set (ids ts) = {} \<Longrightarrow>
     topo tb us \<and> set ts \<subseteq> set us \<and> set ds \<subseteq> set (ids us) \<and> set path \<inter> set (ids us) = {}"
proof (induction tb path i ts and tb path ds ts arbitrary: us and us rule: visit_visit_all.induct)
  case (1 tb path i ts)
  show ?case
  proof (cases "i \<in> set (ids ts)")
    case True
    with 1 show ?thesis by (simp add: visit.simps)
  next
    case False
    with "1.prems" obtain t vs where t: "i \<notin> set path" "dict_get tb i = Some t"
      "visit_all tb (i # path) (tk_depends t) ts = Inr vs" "us = vs @ [t]"
      by (auto simp: visit.simps bind_res_Inr split: if_splits option.splits)
    have "topo tb vs \<and> set ts \<subseteq> set vs \<and> set (tk_depends t) \<subseteq> set (ids vs) \<and>
        set (i # path) \<inter> set (ids vs) = {}"
      using "1.IH" [OF False t(1,2,3)] "1.prems" False by auto
    moreover from this have "topo tb (vs @ [t])"
      using t(2) "1.prems"(2) by (intro topo_snoc) (auto simp: keyed_def)
    moreover have "tk_id t = i"
      using t(2) "1.prems"(2) by (auto simp: keyed_def)
    ultimately show ?thesis
      using t(1) unfolding t(4) by auto
  qed
next
  case (2 tb path ts)
  then show ?case by simp
next
  case (3 tb path d ds ts)
  then obtain vs where vs: "visit tb path d ts = Inr vs" "visit_all tb path ds vs = Inr us"
    by (auto simp: bind_res_Inr)
  note one = "3.IH"(1) [OF vs(1) "3.prems"(2,3,4)]
  have "topo tb us \<and> set vs \<subseteq> set us \<and> set ds \<subseteq> set (ids us) \<and> set path \<inter> set (ids us) = {}"
    using "3.IH"(2) [OF vs "3.prems"(2)] one by blast
  with one show ?case by auto
qed

text \<open>A visit that fails has met a task of its own path again: the dependencies have a cycle.\<close>

lemma visit_cycle:
  "visit tb path i ts = Inl e \<Longrightarrow> i \<in> set (dict_keys tb) \<Longrightarrow> Range (dependency tb) \<subseteq> set (dict_keys tb) \<Longrightarrow>
     \<forall>p \<in> set path. (p, i) \<in> (dependency tb)\<^sup>+ \<Longrightarrow>
     e = Invalid ''dependency cycle detected'' \<and> \<not> acyclic (dependency tb)"
  "visit_all tb path ds ts = Inl e \<Longrightarrow> set ds \<subseteq> set (dict_keys tb) \<Longrightarrow>
     Range (dependency tb) \<subseteq> set (dict_keys tb) \<Longrightarrow>
     \<forall>d \<in> set ds. \<forall>p \<in> set path. (p, d) \<in> (dependency tb)\<^sup>+ \<Longrightarrow>
     e = Invalid ''dependency cycle detected'' \<and> \<not> acyclic (dependency tb)"
proof (induction tb path i ts and tb path ds ts rule: visit_visit_all.induct)
  case (1 tb path i ts)
  then have False: "i \<notin> set (ids ts)" by (auto simp: visit.simps)
  show ?case
  proof (cases "i \<in> set path")
    case True
    with "1.prems" False show ?thesis by (auto simp: visit.simps acyclic_def)
  next
    case out: False
    obtain t where t: "dict_get tb i = Some t"
      using "1.prems"(2) by (metis map_of_eq_None_iff not_None_eq set_map)
    have step: "(i, d) \<in> dependency tb" if "d \<in> set (tk_depends t)" for d
      using t that by (auto simp: dependency_def)
    have "visit_all tb (i # path) (tk_depends t) ts = Inl e"
      using "1.prems"(1) False out t
      by (cases "visit_all tb (i # path) (tk_depends t) ts") (auto simp: visit.simps)
    moreover have "set (tk_depends t) \<subseteq> set (dict_keys tb)"
      using step "1.prems"(3) by blast
    moreover have "\<forall>d \<in> set (tk_depends t). \<forall>p \<in> set (i # path). (p, d) \<in> (dependency tb)\<^sup>+"
      using step "1.prems"(4) by (auto intro: trancl_into_trancl)
    ultimately show ?thesis using "1.IH" [OF False out t] "1.prems"(3) by blast
  qed
next
  case (2 tb path ts)
  then show ?case by simp
next
  case (3 tb path d ds ts)
  show ?case
  proof (cases "visit tb path d ts")
    case (Inl e')
    with 3 show ?thesis by auto
  next
    case (Inr vs)
    with "3.prems" "3.IH"(2) [OF Inr] show ?thesis by auto
  qed
qed

section \<open>The plan\<close>

text \<open>The agent of a task is there, available, and has the skill.\<close>

definition capable :: "(string, agent_capability) dict \<Rightarrow> agent_task \<Rightarrow> bool" where
  "capable caps t \<longleftrightarrow>
     (\<exists>c. dict_get caps (tk_agent t) = Some c \<and> cap_available c \<and>
        list_ex (\<lambda>v. py_eq v (JStr (tk_skill t))) (cap_skills c))"

lemma update_new: "k \<notin> set (dict_keys d) \<Longrightarrow> dict_set k v d = d @ [(k, v)]"
  by (induction d) auto

lemma check_tasks_iff:
  "check_tasks caps tb ts = Inr tb' \<longleftrightarrow>
     distinct (ids ts) \<and> set (dict_keys tb) \<inter> set (ids ts) = {} \<and> (\<forall>t \<in> set ts. capable caps t) \<and>
     tb' = tb @ map (\<lambda>t. (tk_id t, t)) ts"
proof (induction ts arbitrary: tb)
  case Nil
  show ?case by auto
next
  case (Cons t ts)
  have new: "dict_get tb (tk_id t) = None \<longleftrightarrow> tk_id t \<notin> set (dict_keys tb)"
    by (simp add: map_of_eq_None_iff)
  have "check_tasks caps tb (t # ts) = Inr tb' \<longleftrightarrow>
     tk_id t \<notin> set (dict_keys tb) \<and> capable caps t \<and>
     check_tasks caps (tb @ [(tk_id t, t)]) ts = Inr tb'"
    using update_new [of "tk_id t" tb t]
    by (auto simp: capable_def new split: option.splits if_splits)
  then show ?case by (auto simp: Cons.IH)
qed

definition depends_on :: "agent_task list \<Rightarrow> (string \<times> string) set" where
  "depends_on ts = {(tk_id t, d) |t d. t \<in> set ts \<and> d \<in> set (tk_depends t)}"

lemma table_lookup:
  "distinct (ids ts) \<Longrightarrow> dict_get (map (\<lambda>t. (tk_id t, t)) ts) i = Some t \<longleftrightarrow> t \<in> set ts \<and> tk_id t = i"
proof (induction ts)
  case Nil
  show ?case by simp
next
  case (Cons a ts)
  have "\<forall>u \<in> set ts. tk_id u \<noteq> tk_id a"
    using Cons.prems by (auto simp: ids_def image_iff)
  with Cons show ?case by auto
qed

lemma table_dependency:
  "distinct (ids ts) \<Longrightarrow> dependency (map (\<lambda>t. (tk_id t, t)) ts) = depends_on ts"
  by (auto simp: dependency_def depends_on_def table_lookup)

text \<open>What a plan needs to be executed.\<close>

definition executable_plan :: "(string, agent_capability) dict \<Rightarrow> int \<Rightarrow> agent_task list \<Rightarrow> bool" where
  "executable_plan caps max_hops ts \<longleftrightarrow>
     int (length ts) \<le> max_hops \<and> distinct (ids ts) \<and>
     (\<forall>t \<in> set ts. capable caps t \<and> set (tk_depends t) \<subseteq> set (ids ts)) \<and> acyclic (depends_on ts)"

lemma order_plan_Inr:
  "order_plan M plan max_hops = Inr ordered \<longleftrightarrow>
     (let ts = dp_tasks plan in
      int (length ts) \<le> max_hops \<and> distinct (ids ts) \<and>
      (\<forall>t \<in> set ts. capable (mr_capabilities M) t \<and> set (tk_depends t) \<subseteq> set (ids ts)) \<and>
      visit_all (map (\<lambda>t. (tk_id t, t)) ts) [] (ids ts) [] = Inr ordered)"
proof -
  have known: "find (\<lambda>d. dict_get (map (\<lambda>t. (tk_id t, t)) ts) d = None) (concat (map tk_depends ts)) = None \<longleftrightarrow>
      (\<forall>t \<in> set ts. set (tk_depends t) \<subseteq> set (ids ts))" for ts
    by (force simp: find_None_iff map_of_eq_None_iff image_iff)
  show ?thesis
    unfolding order_plan_def Let_def bind_res_Inr raise_else check_tasks_iff not_less
    using known [of "dp_tasks plan"]
    by (auto split: option.splits)
qed

lemma ordered_topo:
  assumes "order_plan M plan max_hops = Inr ordered"
  shows "topo (map (\<lambda>t. (tk_id t, t)) (dp_tasks plan)) ordered" and "mset ordered = mset (dp_tasks plan)"
proof -
  let ?ts = "dp_tasks plan" and ?tb = "map (\<lambda>t. (tk_id t, t)) (dp_tasks plan)"
  have ts: "distinct (ids ?ts)" and v: "visit_all ?tb [] (ids ?ts) [] = Inr ordered"
    using assms by (auto simp: order_plan_Inr Let_def)
  have keyed: "keyed ?tb" by (simp add: keyed_def table_lookup [OF ts])
  have topo: "topo ?tb ordered \<and> set (ids ?ts) \<subseteq> set (ids ordered)"
    using visit_topo(2) [OF v keyed topo_Nil] by simp
  then show "topo ?tb ordered" by simp
  have sub: "t \<in> set ?ts" if "t \<in> set ordered" for t
    using topo_lookup [of ?tb ordered t] topo that by (simp add: table_lookup [OF ts])
  have "t \<in> set ordered" if "t \<in> set ?ts" for t
  proof -
    have "tk_id t \<in> set (ids ordered)" using topo that by auto
    then obtain u where u: "u \<in> set ordered" "tk_id u = tk_id t" by auto
    with sub that ts have "u = t" by (auto simp: ids_def distinct_map dest: inj_onD)
    with u show ?thesis by simp
  qed
  with sub have "set ordered = set ?ts" by blast
  moreover have "distinct ordered" "distinct ?ts"
    using topo_distinct [of ?tb ordered] topo ts by (auto simp: ids_def distinct_map)
  ultimately show "mset ordered = mset ?ts"
    by (simp add: set_eq_iff_mset_eq_distinct)
qed

lemma executable_order:
  assumes "order_plan M plan max_hops = Inr ordered"
  shows "executable_plan (mr_capabilities M) max_hops (dp_tasks plan)"
    and "mset ordered = mset (dp_tasks plan)"
    and "ordered = as @ t # bs \<Longrightarrow> set (tk_depends t) \<subseteq> set (ids as)"
proof -
  let ?ts = "dp_tasks plan" and ?tb = "map (\<lambda>t. (tk_id t, t)) (dp_tasks plan)"
  show ms: "mset ordered = mset ?ts" using assms by (rule ordered_topo(2))
  show "set (tk_depends t) \<subseteq> set (ids as)" if "ordered = as @ t # bs"
    using topo_split [OF ordered_topo(1) [OF assms] that] .
  have dom: "set (dict_keys ?tb) = set (ids ?ts)" by (force simp: ids_def)
  have "set (ids ordered) = set (ids ?ts)"
    using ms by (auto dest: mset_eq_setD)
  then have "acyclic (dependency ?tb)"
    using topo_acyclic [OF ordered_topo(1) [OF assms]] dom by simp
  with assms show "executable_plan (mr_capabilities M) max_hops ?ts"
    by (auto simp: executable_plan_def order_plan_Inr Let_def table_dependency)
qed

text \<open>
  C7: The runtime orders exactly the plans that can be executed: not more tasks than hops, no id
  twice, every task with an available agent that has the skill, every dependency a task of the
  plan, and no cycle. The order is a permutation of the tasks in which every task comes after all
  it depends on.
\<close>

theorem plan_order_correct:
  "((\<exists>ordered. order_plan M plan max_hops = Inr ordered) \<longleftrightarrow>
      executable_plan (mr_capabilities M) max_hops (dp_tasks plan)) \<and>
   (\<forall>ordered. order_plan M plan max_hops = Inr ordered \<longrightarrow>
      mset ordered = mset (dp_tasks plan) \<and>
      (\<forall>as t bs. ordered = as @ t # bs \<longrightarrow> set (tk_depends t) \<subseteq> set (ids as)))"
proof (intro conjI allI impI)
  let ?ts = "dp_tasks plan" and ?tb = "map (\<lambda>t. (tk_id t, t)) (dp_tasks plan)"
  have dom: "set (dict_keys ?tb) = set (ids ?ts)" by (force simp: ids_def)
  show "(\<exists>ordered. order_plan M plan max_hops = Inr ordered) \<longleftrightarrow>
      executable_plan (mr_capabilities M) max_hops ?ts"
  proof
    assume "\<exists>ordered. order_plan M plan max_hops = Inr ordered"
    then show "executable_plan (mr_capabilities M) max_hops ?ts" using executable_order(1) by blast
  next
    assume ex: "executable_plan (mr_capabilities M) max_hops ?ts"
    then have ts: "distinct (ids ?ts)" by (simp add: executable_plan_def)
    have "Range (dependency ?tb) \<subseteq> set (dict_keys ?tb)"
      using ex by (auto simp: table_dependency [OF ts] dom executable_plan_def depends_on_def)
    moreover have "acyclic (dependency ?tb)"
      using ex by (simp add: table_dependency [OF ts] executable_plan_def)
    ultimately have "visit_all ?tb [] (ids ?ts) [] \<noteq> Inl e" for e
      using visit_cycle(2) [of ?tb "[]" "ids ?ts" "[]" e] dom by auto
    then obtain ordered where "visit_all ?tb [] (ids ?ts) [] = Inr ordered"
      by (metis sum.exhaust)
    with ex have "order_plan M plan max_hops = Inr ordered"
      by (simp add: executable_plan_def order_plan_Inr Let_def)
    then show "\<exists>ordered. order_plan M plan max_hops = Inr ordered" by blast
  qed
  fix ordered assume ordered: "order_plan M plan max_hops = Inr ordered"
  show "mset ordered = mset ?ts" using ordered by (rule executable_order(2))
  show "set (tk_depends t) \<subseteq> set (ids as)" if "ordered = as @ t # bs" for as t bs
    using executable_order(3) [OF ordered that] .
qed

section \<open>A plan of two tasks\<close>

definition sample_runtime :: main_runtime where
  "sample_runtime =
     \<lparr>mr_capabilities = [(''auditor'', \<lparr>cap_agent = ''auditor'', cap_skills = [JStr ''review''], cap_available = True\<rparr>)],
      mr_max_retries = 1, mr_snapshot = Some (sample_snapshot ''h1''), mr_planner = Some sample_planner,
      mr_router = None, mr_files = [], mr_audit = None, mr_calls = [], mr_readings = 0\<rparr>"

definition first_task :: agent_task where
  "first_task = sample_task\<lparr>tk_id := ''a''\<rparr>"

definition second_task :: agent_task where
  "second_task = sample_task\<lparr>tk_id := ''b'', tk_depends := [''a'']\<rparr>"

definition two_tasks :: dependency_plan where
  "two_tasks =
     \<lparr>dp_id = ''p'', dp_request = ''code_review'', dp_tasks = [second_task, first_task], dp_gate = True,
      dp_schema = ''1'', dp_hash = ''h1'', dp_decisions = []\<rparr>"

lemma plan_order_correct_witness:
  "order_plan sample_runtime two_tasks 2 = Inr [first_task, second_task] \<and>
   executable_plan (mr_capabilities sample_runtime) 2 [second_task, first_task] \<and>
   mset [first_task, second_task] = mset [second_task, first_task] \<and>
   set (tk_depends second_task) \<subseteq> set (ids [first_task])"
proof -
  have "map_sum (\<lambda>e. e) ids (order_plan sample_runtime two_tasks 2) = Inr [''a'', ''b'']"
    by code_simp
  then obtain ts where ts: "order_plan sample_runtime two_tasks 2 = Inr ts" and ids: "ids ts = [''a'', ''b'']"
    by (cases "order_plan sample_runtime two_tasks 2") auto
  have p: "dp_tasks two_tasks = [second_task, first_task]" by (simp add: two_tasks_def)
  note all = plan_order_correct [of sample_runtime two_tasks 2, unfolded p]
  from all ts have ms: "mset ts = mset [second_task, first_task]" by blast
  obtain t u where tu: "ts = [t, u]" "tk_id t = ''a''" "tk_id u = ''b''"
    using ids by (auto simp: ids_def map_eq_Cons_conv)
  have "t = first_task" "u = second_task"
    using ms tu by (auto simp: first_task_def second_task_def add_eq_conv_ex)
  with tu ts have ord: "order_plan sample_runtime two_tasks 2 = Inr ([first_task] @ second_task # [])"
    by simp
  with all have "set (tk_depends second_task) \<subseteq> set (ids [first_task])" by blast
  with all ord ms tu show ?thesis by auto
qed

end
