(* ===== verification/Execution.thy ===== *)
theory Execution
  imports PlanOrder
begin

text \<open>
  What the execution of a plan by the main runtime does: checkpoints are read back as they were
  written, tasks are called in the order of their dependencies and at most as often as the
  retries allow, only behind the registry and the release gate, and a stopped request never
  calls a task again.
\<close>

section \<open>Reading a checkpoint back\<close>

text \<open>The keys come back sorted, and each key once.\<close>

definition norm_dict :: "(string, json) dict \<Rightarrow> (string, json) dict" where
  "norm_dict d = sort_key fst (json_norm_members d)"

definition norm_result :: "task_result \<Rightarrow> task_result" where
  "norm_result r = r\<lparr>tr_payload := norm_dict (tr_payload r), tr_provenance := norm_dict (tr_provenance r)\<rparr>"

definition norm_checkpoint :: "runtime_checkpoint \<Rightarrow> runtime_checkpoint" where
  "norm_checkpoint c =
     c\<lparr>ck_completed := sort_key fst (map (\<lambda>(k, r). (k, norm_result r)) (ck_completed c)),
       ck_failed := sort_key fst (ck_failed c), ck_dispatched := remdups (sort (ck_dispatched c))\<rparr>"

lemma norm_obj: "json_norm (JObj d) = JObj (norm_dict d)"
  by (simp add: norm_dict_def)

lemma norm_dict_get:
  "distinct (dict_keys d) \<Longrightarrow> dict_get (norm_dict d) k = map_option json_norm (dict_get d k)"
  unfolding norm_dict_def by (rule map_of_norm)

lemma json_norm_strs: "json_norm_list (map JStr xs) = map JStr xs"
  by (induction xs) simp_all

lemma result_of_norm:
  "\<exists>d. json_norm (result_json r) = JObj d \<and> result_of_json E d = Inr (norm_result r)"
proof -
  let ?m = "[(''task_id'', JStr (tr_task r)), (''agent_id'', JStr (tr_agent r)),
    (''status'', JStr (tr_status r)), (''evidence_reference'', JStr (tr_evidence r)),
    (''payload'', JObj (tr_payload r)), (''provenance'', JObj (tr_provenance r)),
    (''retryable'', JBool (tr_retryable r))]"
  have get: "dict_get (norm_dict ?m) k = map_option json_norm (dict_get ?m k)" for k
    by (rule norm_dict_get) simp
  have "result_of_json E (norm_dict ?m) = Inr (norm_result r)"
    unfolding result_of_json_def json_item_def dict_get_or_def
    by (simp add: get norm_result_def norm_dict_def py_dict_def)
  then show ?thesis
    unfolding result_json_def norm_obj by blast
qed

lemma completed_of_norm:
  "completed_of_json E (map (\<lambda>(k, r). (k, json_norm (result_json r))) xs) =
     Inr (map (\<lambda>(k, r). (k, norm_result r)) xs)"
proof (induction xs)
  case Nil
  show ?case by simp
next
  case (Cons x xs)
  obtain k r where x: "x = (k, r)" by (cases x)
  obtain d where d: "json_norm (result_json r) = JObj d" "result_of_json E d = Inr (norm_result r)"
    using result_of_norm by blast
  show ?case using Cons.IH d by (simp add: x)
qed

lemma norm_dict_map:
  "norm_dict (map (\<lambda>(k, v). (k, f v)) d) = map (\<lambda>(k, v). (k, json_norm (f v))) (sort_key fst d)"
proof -
  have "json_norm_members (map (\<lambda>(k, v). (k, f v)) d) = map (\<lambda>(k, v). (k, json_norm (f v))) d"
    by (auto simp: json_norm_members_map)
  then show ?thesis
    unfolding norm_dict_def by (simp add: sort_key_map [where k = fst] case_prod_beta)
qed

lemma py_str_strs: "map (py_str E) (map JStr xs) = xs"
  by (induction xs) simp_all

text \<open>
  A checkpoint that was written is read back as the same checkpoint, up to the order of the
  keys of its dictionaries, which come back sorted: no result, no failure, no dispatched key and
  neither of the flags is lost.
\<close>

theorem checkpoint_roundtrip:
  "checkpoint_of_json E (json_norm (checkpoint_json c)) = Inr (norm_checkpoint c)"
proof -
  let ?done = "map (\<lambda>(k, r). (k, result_json r)) (ck_completed c)"
  let ?failed = "map (\<lambda>(k, s). (k, JStr s)) (ck_failed c)"
  let ?m = "[(''request_id'', JStr (ck_request c)), (''idempotency_key'', JStr (ck_key c)),
    (''status'', JStr (ck_status c)), (''completed'', JObj ?done), (''failed'', JObj ?failed),
    (''dispatched_idempotency_keys'', JList (map JStr (sort (ck_dispatched c)))),
    (''paused'', JBool (ck_paused c)), (''stopped'', JBool (ck_stopped c))]"
  have get: "dict_get (norm_dict ?m) k = map_option json_norm (dict_get ?m k)" for k
    by (rule norm_dict_get) simp
  have "completed_of_json E (norm_dict ?done) =
      Inr (sort_key fst (map (\<lambda>(k, r). (k, norm_result r)) (ck_completed c)))"
    unfolding norm_dict_map completed_of_norm by (simp add: sort_key_map [where k = fst] case_prod_beta)
  moreover have "map (\<lambda>(k, w). (k, py_str E w)) (norm_dict ?failed) = sort_key fst (ck_failed c)"
    unfolding norm_dict_map by (simp add: comp_def case_prod_beta)
  moreover have "json_norm (JList (map JStr xs)) = JList (map JStr xs)" for xs
    by (simp add: json_norm_strs)
  ultimately have "checkpoint_of_json E (JObj (norm_dict ?m)) = Inr (norm_checkpoint c)"
    unfolding checkpoint_of_json_def json_item_def dict_get_or_def
    by (simp add: get norm_obj norm_checkpoint_def py_dict_def py_tuple_def py_str_strs del: json_norm.simps(2) map_map)
  then show ?thesis
    unfolding checkpoint_json_def norm_obj .
qed

section \<open>The calls of the dispatcher\<close>

text \<open>Saving and the audit log touch nothing but their files.\<close>

definition core where
  "core M = (mr_capabilities M, mr_max_retries M, mr_snapshot M, mr_planner M, mr_router M)"

named_theorems frame "what a step leaves as it was"

lemma save_frame [frame]:
  "save_checkpoint X rq c M = Inr M' \<Longrightarrow> mr_calls M' = mr_calls M \<and> core M' = core M"
  by (auto simp: save_checkpoint_def bind_res_Inr core_def)

lemma audit_frame [frame]:
  "append_audit X k i d M = Inr M' \<Longrightarrow> mr_calls M' = mr_calls M \<and> core M' = core M"
  by (auto simp: append_audit_def bind_res_Inr Let_def core_def)

lemma report_frame [frame]:
  "save_and_report X rq c s M = (res, M') \<Longrightarrow> mr_calls M' = mr_calls M \<and> core M' = core M"
  by (auto simp: save_and_report_def dest: save_frame split: sum.splits)

lemma settle_frame [frame]:
  "settle_task X rq t r c M = Inl (res, M') \<Longrightarrow> mr_calls M' = mr_calls M \<and> core M' = core M"
  "settle_task X rq t r c M = Inr (c', M') \<Longrightarrow> mr_calls M' = mr_calls M \<and> core M' = core M"
  unfolding settle_task_def Let_def by (auto dest!: frame split: sum.splits if_splits)

lemma settle_next:
  "settle_task X rq t r c M = Inr (c', M') \<Longrightarrow>
     validate_result t r = [] \<and> ck_failed c' = ck_failed c \<and>
     ck_completed c' = dict_set (tk_id t) r (ck_completed c) \<and>
     ck_dispatched c' = List.insert (dispatch_key rq t) (ck_dispatched c)"
  unfolding settle_task_def Let_def by (auto split: sum.splits if_splits)

lemma dispatch_loop_calls:
  "dispatch_loop X t n err M = (res, M') \<Longrightarrow>
     core M' = core M \<and> (\<exists>k \<le> n. mr_calls M' = mr_calls M @ replicate k t)"
proof (induction n arbitrary: err M)
  case 0
  then show ?case by auto
next
  case (Suc n)
  let ?M = "M\<lparr>mr_calls := mr_calls M @ [t]\<rparr>"
  have one: "core M' = core M \<and> (\<exists>k \<le> Suc n. mr_calls M' = mr_calls M @ replicate k t)"
    if "M' = ?M"
    using that by (auto simp: core_def intro!: exI [of _ 1])
  have more: "core M' = core M \<and> (\<exists>k \<le> Suc n. mr_calls M' = mr_calls M @ replicate k t)"
    if loop: "dispatch_loop X t n err' ?M = (res, M')" for err'
  proof -
    obtain k where "k \<le> n" "mr_calls M' = mr_calls ?M @ replicate k t" "core M' = core ?M"
      using Suc.IH [OF loop] by blast
    then show ?thesis by (auto simp: core_def intro!: exI [of _ "Suc k"])
  qed
  show ?case
    using Suc.prems one more
    by (auto simp: Let_def split: sum.splits if_splits py_exn.splits)
qed

lemma dispatch_key_inj: "dispatch_key rq t = dispatch_key rq u \<longleftrightarrow> tk_id t = tk_id u"
  by (simp add: dispatch_key_def)

text \<open>The tasks that a checkpoint leaves to do, and what a run makes of them: a number of calls each.\<close>

definition pending :: "runtime_request \<Rightarrow> runtime_checkpoint \<Rightarrow> agent_task list \<Rightarrow> agent_task list" where
  "pending rq c =
     filter (\<lambda>t. tk_id t \<notin> set (dict_keys (ck_completed c)) \<and> dispatch_key rq t \<notin> set (ck_dispatched c))"

definition calls_of :: "agent_task list \<Rightarrow> nat list \<Rightarrow> agent_task list" where
  "calls_of ts ks = concat (map (\<lambda>(t, k). replicate k t) (zip ts ks))"

lemma calls_of_simps [simp]:
  "calls_of ts [] = []" "calls_of [] ks = []" "calls_of (t # ts) (k # ks) = replicate k t @ calls_of ts ks"
  by (simp_all add: calls_of_def)

lemma pending_settled:
  assumes "settle_task X rq t r c M = Inr (c', M')" and "tk_id t \<notin> set (ids ts)"
  shows "pending rq c' ts = pending rq c ts"
proof -
  have "\<forall>u \<in> set ts. tk_id u \<noteq> tk_id t"
    using assms(2) by (auto simp: ids_def image_iff)
  moreover have "set (dict_keys (ck_completed c')) = insert (tk_id t) (set (dict_keys (ck_completed c)))"
    and "set (ck_dispatched c') = insert (dispatch_key rq t) (set (ck_dispatched c))"
    using settle_next [OF assms(1)] by (simp_all only: dict_keys_set set_insert)
  ultimately show ?thesis
    unfolding pending_def by (intro filter_cong) (simp_all only: insert_iff dispatch_key_inj simp_thms)
qed

lemma run_tasks_calls:
  "run_tasks X rq deadline ts c M = (res, M') \<Longrightarrow> distinct (ids ts) \<Longrightarrow>
     core M' = core M \<and>
     (\<exists>ks. length ks \<le> length (pending rq c ts) \<and> (\<forall>k \<in> set ks. k \<le> nat (mr_max_retries M + 1)) \<and>
        mr_calls M' = mr_calls M @ calls_of (pending rq c ts) ks)"
proof (induction X rq deadline ts c M arbitrary: rule: run_tasks.induct)
  case (1 X rq deadline c M)
  then show ?case by (auto dest!: report_frame intro!: exI [of _ "[]"])
next
  case (2 X rq deadline t ts c M)
  let ?M = "M\<lparr>mr_readings := Suc (mr_readings M)\<rparr>"
  have M: "core ?M = core M" "mr_calls ?M = mr_calls M" "mr_max_retries ?M = mr_max_retries M"
    by (simp_all add: core_def)
  show ?case
  proof (cases "tk_id t \<in> set (dict_keys (ck_completed c))")
    case True
    with 2 show ?thesis by (simp add: pending_def)
  next
    case new: False
    show ?thesis
    proof (cases "rx_clock X (mr_readings M) > deadline")
      case True
      then have "save_and_report X rq c ''TIMEOUT'' ?M = (res, M')"
        using "2.prems"(1) new by (simp add: Let_def)
      from report_frame [OF this] M show ?thesis by (auto intro!: exI [of _ "[]"])
    next
      case intime: False
      show ?thesis
      proof (cases "dispatch_key rq t \<in> set (ck_dispatched c)")
        case True
        with 2 new intime M show ?thesis by (simp add: pending_def Let_def)
      next
        case False
        then have pend: "pending rq c (t # ts) = t # pending rq c ts"
          using new by (simp add: pending_def)
        obtain out M2 where d: "dispatch_with_retry X t ?M = (out, M2)"
          by (cases "dispatch_with_retry X t ?M")
        then obtain k where k: "k \<le> nat (mr_max_retries M + 1)" "core M2 = core M"
          "mr_calls M2 = mr_calls M @ replicate k t"
          using dispatch_loop_calls [of X t _ _ ?M out M2] M
          unfolding dispatch_with_retry_def by auto
        have single: ?thesis if "core M' = core M2" "mr_calls M' = mr_calls M2"
          using that k by (auto simp: pend intro!: exI [of _ "[k]"])
        show ?thesis
        proof (cases out)
          case (Inl e)
          then have "M' = M2" using "2.prems"(1) new intime False d by (auto simp: Let_def)
          then show ?thesis using single by simp
        next
          case out: (Inr r)
          show ?thesis
          proof (cases "settle_task X rq t r c M2")
            case (Inl step)
            then have "settle_task X rq t r c M2 = Inl (res, M')"
              using "2.prems"(1) new intime False d out by (auto simp: Let_def)
            then show ?thesis using single by (auto dest: frame)
          next
            case (Inr st)
            obtain c' M3 where st: "st = (c', M3)" by (cases st)
            note settled = Inr [unfolded st]
            have run: "run_tasks X rq deadline ts c' M3 = (res, M')"
              using "2.prems"(1) new intime False d out settled by (simp add: Let_def)
            have "core M3 = core M" "mr_calls M3 = mr_calls M @ replicate k t"
              using settle_frame(2) [OF settled] k by auto
            moreover have "mr_max_retries M3 = mr_max_retries M"
              using \<open>core M3 = core M\<close> by (simp add: core_def)
            moreover have "pending rq c' ts = pending rq c ts"
              using pending_settled [OF settled] "2.prems"(2) by simp
            ultimately obtain ks where "length ks \<le> length (pending rq c ts)"
              "\<forall>k \<in> set ks. k \<le> nat (mr_max_retries M + 1)" "core M' = core M"
              "mr_calls M' = (mr_calls M @ replicate k t) @ calls_of (pending rq c ts) ks"
              using "2.IH"(3) [OF new refl intime False d [symmetric] out settled [unfolded st] refl run] "2.prems"(2)
              by auto
            with k show ?thesis
              unfolding pend by (intro conjI exI [of _ "k # ks"]) auto
          qed
        qed
      qed
    qed
  qed
qed

lemma execute_cases:
  assumes "execute X rq M = (res, M')"
  obtains (refused) "M' = M" and "\<not> isl res \<longrightarrow> rp_status (projr res) \<in> {''PAUSED'', ''STOPPED''}"
  | (runs) sn ordered c where "mr_snapshot M = Some sn" "sn_state sn = ''AGENT_REGISTRY_READY''"
      "rq_action rq \<in> {''release'', ''deploy''} \<longrightarrow> rq_gate_open rq"
      "order_plan M (rq_plan rq) (rq_max_hops rq) = Inr ordered"
      "load_checkpoint X rq M = Inr c" "\<not> ck_paused c" "\<not> ck_stopped c"
      "run_tasks X rq (rx_clock X (mr_readings M) + rq_timeout rq) ordered c
         (M\<lparr>mr_readings := Suc (mr_readings M)\<rparr>) = (res, M')"
proof (cases "registry_state M = ''AGENT_REGISTRY_READY'' \<and>
    (rq_action rq \<in> {''release'', ''deploy''} \<longrightarrow> rq_gate_open rq)")
  case False
  then have "M' = M \<and> isl res" using assms by (auto simp: execute_def split: if_splits)
  then show ?thesis using refused by simp
next
  case True
  then obtain sn where sn: "mr_snapshot M = Some sn" "sn_state sn = ''AGENT_REGISTRY_READY''"
    by (auto simp: registry_state_def split: option.splits)
  have ex: "execute X rq M = (case order_plan M (rq_plan rq) (rq_max_hops rq) of
      Inl e \<Rightarrow> (Inl e, M)
    | Inr ordered \<Rightarrow> (case load_checkpoint X rq M of
        Inl e \<Rightarrow> (Inl (Raised e), M)
      | Inr c \<Rightarrow> if ck_paused c then (Inr (report X rq c ''PAUSED''), M)
          else if ck_stopped c then (Inr (report X rq c ''STOPPED''), M)
          else run_tasks X rq (rx_clock X (mr_readings M) + rq_timeout rq) ordered c
                 (M\<lparr>mr_readings := Suc (mr_readings M)\<rparr>)))"
    unfolding execute_def using True by (intro trans [OF if_not_P] if_not_P) auto
  show ?thesis
  proof (cases "order_plan M (rq_plan rq) (rq_max_hops rq)")
    case (Inl e)
    then show ?thesis using assms ex by (intro refused) auto
  next
    case ordered: (Inr ordered)
    show ?thesis
    proof (cases "load_checkpoint X rq M")
      case (Inl e)
      then show ?thesis using assms ex ordered by (intro refused) auto
    next
      case (Inr c)
      show ?thesis
      proof (cases "ck_paused c \<or> ck_stopped c")
        case True
        then show ?thesis using assms ex ordered Inr by (intro refused) (auto simp: report_def split: if_splits)
      next
        case False
        then show ?thesis using assms ex ordered Inr runs [OF sn _ ordered Inr] True by auto
      qed
    qed
  qed
qed

lemma ordered_distinct:
  assumes "order_plan M plan max_hops = Inr ordered"
  shows "distinct (ids ordered)" and "set ordered = set (dp_tasks plan)"
  using topo_distinct [OF ordered_topo(1) [OF assms]] ordered_topo(2) [OF assms]
  by (auto dest: mset_eq_setD)

text \<open>
  C6: Executing a request calls the dispatcher only when the registry is ready, the human release
  gate is open for a release or a deployment, the plan can be executed, and the request is neither
  paused nor stopped. It then goes through the tasks in an order in which each comes after all it
  depends on, leaves out those that the checkpoint has as completed or dispatched, and calls each
  of the others at most once more than the retries.
\<close>

theorem calls_guarded:
  assumes "execute X rq M = (res, M')" and "mr_calls M' \<noteq> mr_calls M"
  shows "\<exists>sn c ordered counts.
     mr_snapshot M = Some sn \<and> sn_state sn = ''AGENT_REGISTRY_READY'' \<and>
     (rq_action rq \<in> {''release'', ''deploy''} \<longrightarrow> rq_gate_open rq) \<and>
     executable_plan (mr_capabilities M) (rq_max_hops rq) (dp_tasks (rq_plan rq)) \<and>
     load_checkpoint X rq M = Inr c \<and> \<not> ck_paused c \<and> \<not> ck_stopped c \<and>
     mset ordered = mset (dp_tasks (rq_plan rq)) \<and>
     (\<forall>as t bs. ordered = as @ t # bs \<longrightarrow> set (tk_depends t) \<subseteq> set (ids as)) \<and>
     length counts \<le> length (pending rq c ordered) \<and>
     (\<forall>k \<in> set counts. k \<le> nat (mr_max_retries M + 1)) \<and>
     mr_calls M' = mr_calls M @ calls_of (pending rq c ordered) counts"
  using assms(1)
proof (cases rule: execute_cases)
  case refused
  with assms(2) show ?thesis by simp
next
  case (runs sn ordered c)
  have plan: "executable_plan (mr_capabilities M) (rq_max_hops rq) (dp_tasks (rq_plan rq))"
    "mset ordered = mset (dp_tasks (rq_plan rq))"
    "\<And>as t bs. ordered = as @ t # bs \<Longrightarrow> set (tk_depends t) \<subseteq> set (ids as)"
    using runs(4) executable_order [OF runs(4)] by auto
  obtain counts where "length counts \<le> length (pending rq c ordered)"
    "\<forall>k \<in> set counts. k \<le> nat (mr_max_retries M + 1)"
    "mr_calls M' = mr_calls M @ calls_of (pending rq c ordered) counts"
    using run_tasks_calls [OF runs(8) ordered_distinct(1) [OF runs(4)]] by auto
  with runs(1,2,3,5,6,7) plan show ?thesis
    by (intro exI [of _ sn] exI [of _ c] exI [of _ ordered] exI [of _ counts] conjI) blast+
qed

section \<open>What a completed report means\<close>

lemma report_status: "save_and_report X rq c s M = (Inr rep, M') \<Longrightarrow>
    rp_status rep = s \<and> rep = report X rq (c\<lparr>ck_status := s\<rparr>) s"
  by (auto simp: save_and_report_def report_def split: sum.splits)

lemma settle_status:
  "settle_task X rq t r c M = Inl (Inr rep, M') \<Longrightarrow> rp_status rep \<in> {''FAILED'', ''CONFLICT''}"
  unfolding settle_task_def Let_def
  by (auto split: sum.splits if_splits dest!: report_status)

lemma run_tasks_completed:
  "run_tasks X rq deadline ts c M = (Inr rep, M') \<Longrightarrow> rp_status rep = ''COMPLETED'' \<Longrightarrow> distinct (ids ts) \<Longrightarrow>
     \<exists>c'. rep = report X rq c' ''COMPLETED'' \<and> ck_failed c' = ck_failed c \<and>
        set (dict_keys (ck_completed c')) = set (dict_keys (ck_completed c)) \<union> set (ids (pending rq c ts))"
proof (induction X rq deadline ts c M rule: run_tasks.induct)
  case (1 X rq deadline c M)
  then show ?case
    by (auto dest!: report_status simp: pending_def intro!: exI [of _ "c\<lparr>ck_status := ''COMPLETED''\<rparr>"])
next
  case (2 X rq deadline t ts c M)
  let ?M = "M\<lparr>mr_readings := Suc (mr_readings M)\<rparr>"
  show ?case
  proof (cases "tk_id t \<in> set (dict_keys (ck_completed c))")
    case True
    with 2 show ?thesis by (simp add: pending_def)
  next
    case new: False
    have intime: "\<not> rx_clock X (mr_readings M) > deadline"
      using "2.prems"(1,2) new report_status [of X rq c "''TIMEOUT''" ?M rep M'] by (auto simp: Let_def)
    show ?thesis
    proof (cases "dispatch_key rq t \<in> set (ck_dispatched c)")
      case True
      with 2 new intime show ?thesis by (simp add: pending_def Let_def)
    next
      case False
      then have pend: "pending rq c (t # ts) = t # pending rq c ts"
        using new by (simp add: pending_def)
      obtain out M2 where d: "dispatch_with_retry X t ?M = (out, M2)"
        by (cases "dispatch_with_retry X t ?M")
      obtain r where r: "out = Inr r"
        using "2.prems"(1) new intime False d by (cases out) (auto simp: Let_def)
      obtain c' M3 where settled: "settle_task X rq t r c M2 = Inr (c', M3)"
      proof (cases "settle_task X rq t r c M2")
        case (Inl step)
        then have "settle_task X rq t r c M2 = Inl (Inr rep, M')"
          using "2.prems"(1) new intime False d r by (simp add: Let_def)
        from settle_status [OF this] "2.prems"(2) show ?thesis by auto
      next
        case (Inr st)
        then show ?thesis using that by (cases st) auto
      qed
      have run: "run_tasks X rq deadline ts c' M3 = (Inr rep, M')"
        using "2.prems"(1) new intime False d r settled by (simp add: Let_def)
      have "pending rq c' ts = pending rq c ts"
        using pending_settled [OF settled] "2.prems"(3) by simp
      moreover have "set (dict_keys (ck_completed c')) = insert (tk_id t) (set (dict_keys (ck_completed c)))"
        "ck_failed c' = ck_failed c"
        using settle_next [OF settled] by (simp_all only: dict_keys_set)
      ultimately show ?thesis
        using "2.IH"(3) [OF new refl intime False d [symmetric] r settled refl run "2.prems"(2)] "2.prems"(3)
        unfolding pend by auto
    qed
  qed
qed

text \<open>
  A request reported COMPLETED has completed exactly the tasks that its checkpoint had
  completed before and those of the plan whose key had not been dispatched before; its failed
  tasks are those that had failed before. Only when no key had been dispatched does it follow that
  every task of the plan is completed: a task that failed in an earlier run is passed over, and
  the report says COMPLETED nevertheless.
\<close>

theorem completed_report:
  assumes "execute X rq M = (Inr rep, M')" and "rp_status rep = ''COMPLETED''"
  shows "\<exists>c. load_checkpoint X rq M = Inr c \<and>
     set (rp_completed rep) = set (dict_keys (ck_completed c)) \<union>
       {tk_id t |t. t \<in> set (dp_tasks (rq_plan rq)) \<and> dispatch_key rq t \<notin> set (ck_dispatched c)} \<and>
     set (rp_failed rep) = set (dict_keys (ck_failed c))"
  using assms(1)
proof (cases rule: execute_cases)
  case refused
  with assms(2) show ?thesis by simp
next
  case (runs sn ordered c)
  obtain c' where c': "rep = report X rq c' ''COMPLETED''" "ck_failed c' = ck_failed c"
    "set (dict_keys (ck_completed c')) = set (dict_keys (ck_completed c)) \<union> set (ids (pending rq c ordered))"
    using run_tasks_completed [OF runs(8) assms(2) ordered_distinct(1) [OF runs(4)]] by blast
  have "set (ids (pending rq c ordered)) \<union> set (dict_keys (ck_completed c)) =
      {tk_id t |t. t \<in> set (dp_tasks (rq_plan rq)) \<and> dispatch_key rq t \<notin> set (ck_dispatched c)} \<union>
      set (dict_keys (ck_completed c))"
    using ordered_distinct(2) [OF runs(4)] by (auto simp: pending_def)
  then have "set (rp_completed rep) = set (dict_keys (ck_completed c)) \<union>
      {tk_id t |t. t \<in> set (dp_tasks (rq_plan rq)) \<and> dispatch_key rq t \<notin> set (ck_dispatched c)}"
    unfolding c'(1) report_def using c'(3) by (simp only: runtime_report.simps set_sort) blast
  moreover have "set (rp_failed rep) = set (dict_keys (ck_failed c))"
    unfolding c'(1) report_def by (simp add: c'(2))
  ultimately show ?thesis using runs(5) by blast
qed

section \<open>Stopping\<close>

text \<open>What the owner of a request can do with it.\<close>

datatype operation = Execute | Recover | Resume | Pause | Stop

fun operate :: "runtime_request \<Rightarrow> runtime_env \<Rightarrow> operation \<Rightarrow> main_runtime \<Rightarrow> main_runtime" where
  "operate rq X Execute M = snd (execute X rq M)"
| "operate rq X Recover M = snd (recover X rq M)"
| "operate rq X Resume M = snd (resume X rq M)"
| "operate rq X Pause M = snd (pause X rq M)"
| "operate rq X Stop M = snd (stop X rq M)"

fun operate_all :: "runtime_request \<Rightarrow> (runtime_env \<times> operation) list \<Rightarrow> main_runtime \<Rightarrow> main_runtime" where
  "operate_all rq [] M = M"
| "operate_all rq ((X, op) # ops) M = operate_all rq ops (operate rq X op M)"

definition stopped :: "py_env \<Rightarrow> runtime_request \<Rightarrow> main_runtime \<Rightarrow> bool" where
  "stopped E rq M \<longleftrightarrow>
     (\<exists>X c. rx_platform X = E \<and> load_checkpoint X rq M = Inr c \<and> ck_stopped c)"

lemma load_platform:
  "rx_platform X = rx_platform Y \<Longrightarrow> load_checkpoint X rq M = load_checkpoint Y rq M"
  by (simp add: load_checkpoint_def checkpoint_path_def split: option.split)

lemma stopped_iff:
  "stopped (rx_platform X) rq M \<longleftrightarrow> (\<exists>c. load_checkpoint X rq M = Inr c \<and> ck_stopped c)"
  unfolding stopped_def using load_platform by metis

lemma execute_stopped:
  assumes "stopped (rx_platform X) rq M"
  shows "snd (execute X rq M) = M"
proof -
  obtain res M' where ex: "execute X rq M = (res, M')" by (cases "execute X rq M")
  then show ?thesis
  proof (cases rule: execute_cases)
    case (runs sn ordered c)
    then show ?thesis using assms by (simp add: stopped_iff)
  qed (simp add: ex)
qed

lemma mark_stopped:
  assumes "mark X rq f M = (res, M')" and "\<And>c. ck_stopped c \<Longrightarrow> ck_stopped (f c)"
    and "stopped (rx_platform X) rq M"
  shows "mr_calls M' = mr_calls M \<and> stopped (rx_platform X) rq M'"
proof -
  obtain c where c: "load_checkpoint X rq M = Inr c" "ck_stopped c"
    using assms(3) unfolding stopped_iff by blast
  show ?thesis
  proof (cases "save_checkpoint X rq (f c) M")
    case (Inl e)
    then show ?thesis using assms(1,3) c(1) by (auto simp: mark_def)
  next
    case (Inr M2)
    then have "M' = M2" using assms(1) c(1) by (auto simp: mark_def)
    moreover have "load_checkpoint X rq M2 = Inr (norm_checkpoint (f c))"
      using Inr checkpoint_roundtrip by (auto simp: save_checkpoint_def bind_res_Inr load_checkpoint_def)
    moreover have "ck_stopped (norm_checkpoint (f c))"
      using assms(2) [OF c(2)] by (simp add: norm_checkpoint_def)
    ultimately show ?thesis using save_frame [OF Inr] by (simp add: stopped_iff)
  qed
qed

lemma operate_stopped:
  assumes "stopped (rx_platform X) rq M"
  shows "mr_calls (operate rq X op M) = mr_calls M \<and> stopped (rx_platform X) rq (operate rq X op M)"
proof (cases op)
  case Resume
  obtain res M' where m: "mark X rq (\<lambda>c. c\<lparr>ck_paused := False, ck_status := ''RUNNING''\<rparr>) M = (res, M')"
    by (cases "mark X rq (\<lambda>c. c\<lparr>ck_paused := False, ck_status := ''RUNNING''\<rparr>) M")
  have M': "mr_calls M' = mr_calls M \<and> stopped (rx_platform X) rq M'"
    by (rule mark_stopped [OF m _ assms]) simp
  moreover have "snd (resume X rq M) = M'"
    using m execute_stopped [of X rq M'] M' by (auto simp: resume_def split: sum.splits)
  ultimately show ?thesis by (simp add: Resume)
next
  case Pause
  obtain res M' where "pause X rq M = (res, M')" by (cases "pause X rq M")
  with mark_stopped [OF this [unfolded pause_def] _ assms] show ?thesis by (simp add: Pause)
next
  case Stop
  obtain res M' where "stop X rq M = (res, M')" by (cases "stop X rq M")
  with mark_stopped [OF this [unfolded stop_def] _ assms] show ?thesis by (simp add: Stop)
qed (use assms execute_stopped in \<open>simp_all add: recover_def\<close>)

text \<open>
  C24: Stopping is final. Once a request has been stopped, no sequence of executing, recovering,
  resuming, pausing and stopping it, whatever the dispatcher and the clocks do, calls the
  dispatcher again.
\<close>

theorem stop_is_final:
  assumes "stop X rq M = (Inr (), M')" and "\<forall>(Y, op) \<in> set ops. rx_platform Y = rx_platform X"
  shows "mr_calls (operate_all rq ops M') = mr_calls M"
proof -
  obtain c where c: "load_checkpoint X rq M = Inr c"
      "save_checkpoint X rq (c\<lparr>ck_stopped := True, ck_status := ''STOPPED''\<rparr>) M = Inr M'"
    using assms(1) by (auto simp: stop_def mark_def split: sum.splits)
  then have "stopped (rx_platform X) rq M'"
    using checkpoint_roundtrip
    by (auto simp: save_checkpoint_def bind_res_Inr load_checkpoint_def stopped_iff norm_checkpoint_def)
  moreover have "stopped (rx_platform X) rq N \<Longrightarrow> mr_calls (operate_all rq ops N) = mr_calls N" for N
    using assms(2)
  proof (induction ops arbitrary: N)
    case Nil
    show ?case by simp
  next
    case (Cons x ops)
    obtain Y op where x: "x = (Y, op)" by (cases x)
    with Cons.prems have "rx_platform Y = rx_platform X" by simp
    with Cons operate_stopped [of Y rq N op] show ?case by (simp add: x)
  qed
  ultimately show ?thesis using save_frame [OF c(2)] by simp
qed

section \<open>A request with two tasks\<close>

definition plain_env :: py_env where
  "plain_env =
     \<lparr>sha256_hex = (\<lambda>s. ''h''), float_repr = (\<lambda>q. ''0.0''), round_sum = (\<lambda>xs. Fin 0),
      iso_text = int_str, iso_parse = (\<lambda>s. None)\<rparr>"

definition sample_request :: runtime_request where
  "sample_request =
     \<lparr>rq_id = ''r'', rq_plan = \<lparr>dp_id = ''p'', dp_request = ''code_review'',
        dp_tasks = [second_task, first_task], dp_gate = True, dp_schema = ''1'', dp_hash = ''h1'',
        dp_decisions = []\<rparr>,
      rq_key = ''k'', rq_action = ''release'', rq_timeout = 30, rq_max_hops = 50, rq_gate_open = True\<rparr>"

text \<open>A dispatcher that answers well, except that the answers before the n-th have no evidence.\<close>

definition sample_outside :: "nat \<Rightarrow> runtime_env" where
  "sample_outside n =
     \<lparr>rx_platform = plain_env,
      rx_dispatch = (\<lambda>i t. Inr [(''task_id'', JStr (tk_id t)), (''agent_id'', JStr (tk_agent t)),
        (''status'', JStr ''COMPLETED''), (''evidence_reference'', JStr (if i < n then [] else ''e'')),
        (''provenance'', JObj [(''s'', JStr ''x'')])]),
      rx_clock = (\<lambda>i. 0), rx_now = (\<lambda>i. ''now''), rx_exn_text = (\<lambda>e. [])\<rparr>"

lemma sample_runs:
  "case execute (sample_outside 0) sample_request sample_runtime of
     (res, M) \<Rightarrow> \<not> isl res \<and> rp_status (projr res) = ''COMPLETED'' \<and>
       rp_completed (projr res) = [''a'', ''b''] \<and> map tk_id (mr_calls M) = [''a'', ''b'']"
  by code_simp

lemma calls_guarded_witness:
  "\<exists>c ordered counts.
     load_checkpoint (sample_outside 0) sample_request sample_runtime = Inr c \<and>
     mset ordered = {#first_task, second_task#} \<and>
     map tk_id (calls_of (pending sample_request c ordered) counts) = [''a'', ''b''] \<and> set counts \<subseteq> {0, 1, 2}"
proof -
  obtain res M where run: "execute (sample_outside 0) sample_request sample_runtime = (res, M)"
    by (cases "execute (sample_outside 0) sample_request sample_runtime")
  then have calls: "map tk_id (mr_calls M) = [''a'', ''b'']" using sample_runs by simp
  then have "mr_calls M \<noteq> mr_calls sample_runtime" by (auto simp: sample_runtime_def)
  from calls_guarded [OF run this] obtain c ordered counts where
    "load_checkpoint (sample_outside 0) sample_request sample_runtime = Inr c"
    "mset ordered = mset (dp_tasks (rq_plan sample_request))"
    "\<forall>k \<in> set counts. k \<le> nat (mr_max_retries sample_runtime + 1)"
    "mr_calls M = mr_calls sample_runtime @ calls_of (pending sample_request c ordered) counts"
    by blast
  moreover from this have "set counts \<subseteq> {0, 1, 2}" by (force simp: sample_runtime_def)
  ultimately show ?thesis
    using calls by (intro exI [of _ c] exI [of _ ordered] exI [of _ counts])
      (auto simp: sample_runtime_def sample_request_def add_mset_commute)
qed

lemma completed_report_witness:
  "\<exists>rep M c. execute (sample_outside 0) sample_request sample_runtime = (Inr rep, M) \<and>
     load_checkpoint (sample_outside 0) sample_request sample_runtime = Inr c \<and>
     set (rp_completed rep) = {''a'', ''b''} \<and> set (rp_failed rep) = set (dict_keys (ck_failed c))"
proof -
  obtain res M where "execute (sample_outside 0) sample_request sample_runtime = (res, M)"
    by (cases "execute (sample_outside 0) sample_request sample_runtime")
  moreover from this obtain rep where "res = Inr rep" using sample_runs by (cases res) auto
  ultimately have run: "execute (sample_outside 0) sample_request sample_runtime = (Inr rep, M)"
    and st: "rp_status rep = ''COMPLETED''" and "rp_completed rep = [''a'', ''b'']"
    using sample_runs by auto
  with completed_report [OF run st] show ?thesis by auto
qed

lemma stop_is_final_witness:
  "\<exists>M. stop (sample_outside 0) sample_request sample_runtime = (Inr (), M) \<and>
     mr_calls (operate_all sample_request [(sample_outside 1, Resume), (sample_outside 0, Execute)] M) = []"
proof -
  have "case stop (sample_outside 0) sample_request sample_runtime of (res, M) \<Rightarrow> \<not> isl res"
    by code_simp
  then obtain M where stop: "stop (sample_outside 0) sample_request sample_runtime = (Inr (), M)"
    by (cases "stop (sample_outside 0) sample_request sample_runtime"; cases "fst (stop (sample_outside 0) sample_request sample_runtime)") auto
  have "mr_calls (operate_all sample_request [(sample_outside 1, Resume), (sample_outside 0, Execute)] M) =
      mr_calls sample_runtime"
    by (rule stop_is_final [OF stop]) (simp add: sample_outside_def)
  then show ?thesis using stop by (auto simp: sample_runtime_def)
qed

text \<open>
  Recovering a failed request does not retry the failed task. In a plan whose second task
  depends on the first, the first fails; recovering the request, with a dispatcher that would now
  answer, passes over the first task, calls the second, and reports COMPLETED with the first task
  among the failed ones.
\<close>

theorem recover_skips_failed:
  "case execute (sample_outside 1) sample_request sample_runtime of
     (res, M) \<Rightarrow> \<not> isl res \<and> rp_status (projr res) = ''FAILED'' \<and> rp_failed (projr res) = [''a''] \<and>
       (case recover (sample_outside 1) sample_request M of
          (res', M') \<Rightarrow> \<not> isl res' \<and> rp_status (projr res') = ''COMPLETED'' \<and>
            rp_completed (projr res') = [''b''] \<and> rp_failed (projr res') = [''a''] \<and>
            map tk_id (mr_calls M') = [''a'', ''b''])"
  by code_simp

end
