(* ===== verification/MarketData.thy ===== *)
theory MarketData
  imports Json
begin

text \<open>
  \<open>market_data/timeframes.py\<close>, \<open>schemas.py\<close>, \<open>normalization.py\<close> and \<open>cursors.py\<close>: the records of
  ticks and bars, how a row of the terminal becomes one, and the window of a backfill. Times are
  UTC microseconds. A row is a mapping of Python values; the conversion of a number to a time, the
  parsing of a text as a number, the formatting of a float and the rounding of a quotient of
  floats are the platform's.
\<close>

section \<open>Timeframes\<close>

datatype timeframe = M1 | M5 | M15 | H1 | H4 | D1

fun timeframe_value :: "timeframe \<Rightarrow> string" where
  "timeframe_value M1 = ''M1''"
| "timeframe_value M5 = ''M5''"
| "timeframe_value M15 = ''M15''"
| "timeframe_value H1 = ''H1''"
| "timeframe_value H4 = ''H4''"
| "timeframe_value D1 = ''D1''"

definition all_timeframes :: "timeframe list" where
  "all_timeframes = [M1, M5, M15, H1, H4, D1]"

definition ensure_timeframe :: "string \<Rightarrow> py_exn + timeframe" where
  "ensure_timeframe s =
     (case find (\<lambda>t. timeframe_value t = s) all_timeframes of
        None \<Rightarrow> Inl (ValueError (''Unsupported timeframe: '' @ s))
      | Some t \<Rightarrow> Inr t)"

fun timeframe_seconds :: "timeframe \<Rightarrow> int" where
  "timeframe_seconds M1 = 60"
| "timeframe_seconds M5 = 300"
| "timeframe_seconds M15 = 900"
| "timeframe_seconds H1 = 3600"
| "timeframe_seconds H4 = 14400"
| "timeframe_seconds D1 = 86400"

text \<open>\<open>timedelta(seconds=..)\<close> in microseconds.\<close>

definition timeframe_delta :: "timeframe \<Rightarrow> int" where
  "timeframe_delta t = timeframe_seconds t * 1000000"

lemma ensure_timeframe_value [simp]: "ensure_timeframe (timeframe_value t) = Inr t"
  by (cases t) (simp_all add: ensure_timeframe_def all_timeframes_def)

lemma timeframe_delta_pos: "0 < timeframe_delta t"
  by (cases t) (simp_all add: timeframe_delta_def)

text \<open>\<open>advance_window\<close>: the end of the next window of a backfill.\<close>

definition advance_window :: "int \<Rightarrow> int \<Rightarrow> timeframe \<Rightarrow> int \<Rightarrow> int" where
  "advance_window start_at end_at t max_bars = min end_at (start_at + timeframe_delta t * max_bars)"

section \<open>Records\<close>

record tick_record =
  tick_schema :: string
  tick_collector :: string
  tick_symbol :: string
  tick_broker :: string
  tick_time :: int
  tick_time_msc :: int
  tick_received :: int
  tick_bid :: pyfloat
  tick_ask :: pyfloat
  tick_last :: pyfloat
  tick_volume :: pyfloat
  tick_volume_real :: pyfloat
  tick_flags :: int
  tick_spread :: int
  tick_sequence :: string
  tick_quality :: string
  tick_quality_flags :: "string list"
  tick_source :: string
  tick_source_system :: string
  tick_fetched :: "int option"
  tick_class :: string
  tick_formula :: "string option"

record bar_record =
  bar_schema :: string
  bar_collector :: string
  bar_symbol :: string
  bar_broker :: string
  bar_timeframe :: string
  bar_open_time :: int
  bar_close_time :: int
  bar_open :: pyfloat
  bar_high :: pyfloat
  bar_low :: pyfloat
  bar_close :: pyfloat
  bar_tick_volume :: int
  bar_real_volume :: int
  bar_spread :: int
  bar_closed :: bool
  bar_id :: string
  bar_quality :: string
  bar_quality_flags :: "string list"
  bar_source :: string
  bar_source_system :: string
  bar_fetched :: "int option"
  bar_class :: string
  bar_formula :: "string option"

record quality_incident =
  qi_kind :: string
  qi_symbol :: string
  qi_timeframe :: "string option"
  qi_detail :: string
  qi_observed :: int
  qi_key :: string

definition opt_json :: "('a \<Rightarrow> json) \<Rightarrow> 'a option \<Rightarrow> json" where
  "opt_json f v = (case v of None \<Rightarrow> JNull | Some x \<Rightarrow> f x)"

definition time_json :: "py_env \<Rightarrow> int \<Rightarrow> json" where
  "time_json E t = JStr (iso_text E t)"

definition tick_json :: "py_env \<Rightarrow> tick_record \<Rightarrow> json" where
  "tick_json E r =
     JObj [(''schema_version'', JStr (tick_schema r)), (''collector_version'', JStr (tick_collector r)),
           (''logical_symbol'', JStr (tick_symbol r)), (''broker_symbol'', JStr (tick_broker r)),
           (''market_time_utc'', time_json E (tick_time r)), (''market_time_msc'', JInt (tick_time_msc r)),
           (''received_at_utc'', time_json E (tick_received r)), (''bid'', JFloat (tick_bid r)),
           (''ask'', JFloat (tick_ask r)), (''last'', JFloat (tick_last r)),
           (''volume'', JFloat (tick_volume r)), (''volume_real'', JFloat (tick_volume_real r)),
           (''flags'', JInt (tick_flags r)), (''spread_points'', JInt (tick_spread r)),
           (''sequence_id'', JStr (tick_sequence r)), (''data_quality'', JStr (tick_quality r)),
           (''quality_flags'', JList (map JStr (tick_quality_flags r))), (''source'', JStr (tick_source r)),
           (''source_system'', JStr (tick_source_system r)),
           (''fetched_at_utc'', opt_json (time_json E) (tick_fetched r)),
           (''realtime_class'', JStr (tick_class r)), (''formula_version'', opt_json JStr (tick_formula r))]"

definition bar_json :: "py_env \<Rightarrow> bar_record \<Rightarrow> json" where
  "bar_json E r =
     JObj [(''schema_version'', JStr (bar_schema r)), (''collector_version'', JStr (bar_collector r)),
           (''logical_symbol'', JStr (bar_symbol r)), (''broker_symbol'', JStr (bar_broker r)),
           (''timeframe'', JStr (bar_timeframe r)), (''open_time_utc'', time_json E (bar_open_time r)),
           (''close_time_utc'', time_json E (bar_close_time r)), (''open'', JFloat (bar_open r)),
           (''high'', JFloat (bar_high r)), (''low'', JFloat (bar_low r)), (''close'', JFloat (bar_close r)),
           (''tick_volume'', JInt (bar_tick_volume r)), (''real_volume'', JInt (bar_real_volume r)),
           (''spread'', JInt (bar_spread r)), (''is_closed'', JBool (bar_closed r)),
           (''bar_id'', JStr (bar_id r)), (''data_quality'', JStr (bar_quality r)),
           (''quality_flags'', JList (map JStr (bar_quality_flags r))), (''source'', JStr (bar_source r)),
           (''source_system'', JStr (bar_source_system r)),
           (''fetched_at_utc'', opt_json (time_json E) (bar_fetched r)),
           (''realtime_class'', JStr (bar_class r)), (''formula_version'', opt_json JStr (bar_formula r))]"

definition incident_json :: "py_env \<Rightarrow> quality_incident \<Rightarrow> json" where
  "incident_json E q =
     JObj [(''event_kind'', JStr (qi_kind q)), (''logical_symbol'', JStr (qi_symbol q)),
           (''timeframe'', opt_json JStr (qi_timeframe q)), (''detail'', JStr (qi_detail q)),
           (''observed_at_utc'', time_json E (qi_observed q)), (''incident_key'', JStr (qi_key q))]"

section \<open>Reading a row\<close>

text \<open>
  \<open>float(text)\<close> and \<open>int(text)\<close>, \<open>int(float)\<close> (it raises on NaN and infinity), a time from a number of
  seconds, \<open>f"{x:.8f}"\<close>, and \<open>round((ask - bid) / point)\<close>.
\<close>

record market_env =
  mk_platform :: py_env
  mk_float_of_text :: "string \<Rightarrow> py_exn + pyfloat"
  mk_int_of_text :: "string \<Rightarrow> py_exn + int"
  mk_int_of_float :: "pyfloat \<Rightarrow> py_exn + int"
  mk_from_seconds :: "pyfloat \<Rightarrow> py_exn + int"
  mk_per_thousand :: "pyfloat \<Rightarrow> pyfloat"
  mk_fixed8 :: "pyfloat \<Rightarrow> string"
  mk_points :: "pyfloat \<Rightarrow> pyfloat \<Rightarrow> pyfloat \<Rightarrow> py_exn + int"

type_synonym market_row = "(string, json) dict"

definition as_text :: "market_env \<Rightarrow> market_row \<Rightarrow> string \<Rightarrow> string" where
  "as_text K row name =
     (case dict_get_or row name JNull of JNull \<Rightarrow> [] | v \<Rightarrow> py_str (mk_platform K) v)"

definition as_float :: "market_env \<Rightarrow> market_row \<Rightarrow> string \<Rightarrow> py_exn + pyfloat" where
  "as_float K row name =
     (case dict_get_or row name JNull of
        JNull \<Rightarrow> Inr (Fin 0)
      | JStr s \<Rightarrow> mk_float_of_text K s
      | JInt i \<Rightarrow> Inr (Fin (of_int i))
      | JBool b \<Rightarrow> Inr (Fin (if b then 1 else 0))
      | JFloat x \<Rightarrow> Inr x
      | v \<Rightarrow> Inl (ValueError (name @ '' must be numeric, got '' @ py_repr (mk_platform K) v)))"

definition as_int :: "market_env \<Rightarrow> market_row \<Rightarrow> string \<Rightarrow> py_exn + int" where
  "as_int K row name =
     (case dict_get_or row name JNull of
        JNull \<Rightarrow> Inr 0
      | JStr s \<Rightarrow> mk_int_of_text K s
      | JInt i \<Rightarrow> Inr i
      | JBool b \<Rightarrow> Inr (if b then 1 else 0)
      | JFloat x \<Rightarrow> mk_int_of_float K x
      | v \<Rightarrow> Inl (ValueError (name @ '' must be integer-like, got '' @ py_repr (mk_platform K) v)))"

definition epoch_seconds_to_utc :: "market_env \<Rightarrow> json \<Rightarrow> py_exn + int" where
  "epoch_seconds_to_utc K v =
     (case num_of v of
        None \<Rightarrow> Inl (ValueError (''epoch seconds must be numeric, got '' @ py_repr (mk_platform K) v))
      | Some x \<Rightarrow> mk_from_seconds K x)"

definition epoch_milliseconds_to_utc :: "market_env \<Rightarrow> int \<Rightarrow> py_exn + int" where
  "epoch_milliseconds_to_utc K i = mk_from_seconds K (mk_per_thousand K (Fin (of_int i)))"

text \<open>Python's \<open>max\<close> and \<open>min\<close>: the first argument that no later one exceeds strictly.\<close>

fun py_max :: "pyfloat \<Rightarrow> pyfloat list \<Rightarrow> pyfloat" where
  "py_max m [] = m"
| "py_max m (x # xs) = py_max (if flt m x then x else m) xs"

fun py_min :: "pyfloat \<Rightarrow> pyfloat list \<Rightarrow> pyfloat" where
  "py_min m [] = m"
| "py_min m (x # xs) = py_min (if flt x m then x else m) xs"

definition market_schema_version :: string where
  "market_schema_version = ''1.2.0''"

definition collector_version :: string where
  "collector_version = ''1.2.15''"

text \<open>\<open>int(t.timestamp())\<close> of a time in microseconds: truncated towards zero.\<close>

definition whole_seconds :: "int \<Rightarrow> int" where
  "whole_seconds t = (if 0 \<le> t then t div 1000000 else - (- t div 1000000))"

definition normalize_tick ::
  "market_env \<Rightarrow> string \<Rightarrow> string \<Rightarrow> market_row \<Rightarrow> int \<Rightarrow> pyfloat \<Rightarrow> py_exn + tick_record" where
  "normalize_tick K logical broker row received point =
     bind_res (as_int K row ''time_msc'') (\<lambda>msc0.
     bind_res (if msc0 \<le> 0 then bind_res (as_int K row ''time'') (\<lambda>s. Inr (s * 1000)) else Inr msc0) (\<lambda>msc.
     bind_res (epoch_milliseconds_to_utc K msc) (\<lambda>at_time.
     bind_res (as_float K row ''bid'') (\<lambda>bid.
     bind_res (as_float K row ''ask'') (\<lambda>ask.
     bind_res (as_float K row ''last'') (\<lambda>last.
     bind_res (as_float K row ''volume'') (\<lambda>volume.
     bind_res (as_float K row ''volume_real'') (\<lambda>real.
     bind_res (as_int K row ''flags'') (\<lambda>flags.
       if fle bid (Fin 0) \<or> fle ask (Fin 0) \<or> flt ask bid
       then Inl (ValueError ''tick bid/ask prices must be positive with ask >= bid'')
       else bind_res (if flt (Fin 0) point then mk_points K bid ask point else Inr 0) (\<lambda>spread.
         Inr \<lparr>tick_schema = market_schema_version, tick_collector = collector_version,
              tick_symbol = logical, tick_broker = broker, tick_time = at_time, tick_time_msc = msc,
              tick_received = received, tick_bid = bid, tick_ask = ask, tick_last = last,
              tick_volume = volume, tick_volume_real = real, tick_flags = flags, tick_spread = spread,
              tick_sequence = logical @ '':'' @ broker @ '':'' @ int_str msc @ '':'' @ mk_fixed8 K bid @
                '':'' @ mk_fixed8 K ask @ '':'' @ mk_fixed8 K last @ '':'' @ mk_fixed8 K real,
              tick_quality = ''valid'', tick_quality_flags = [], tick_source = ''mt5_tick'',
              tick_source_system = ''MetaTrader5'', tick_fetched = Some received,
              tick_class = ''REALTIME'', tick_formula = None\<rparr>))))))))))"

definition normalize_bar ::
  "market_env \<Rightarrow> string \<Rightarrow> string \<Rightarrow> timeframe \<Rightarrow> market_row \<Rightarrow> int \<Rightarrow> py_exn + bar_record" where
  "normalize_bar K logical broker t row as_of =
     bind_res (epoch_seconds_to_utc K (dict_get_or row ''time'' JNull)) (\<lambda>open_time.
     bind_res (as_float K row ''open'') (\<lambda>op.
     bind_res (as_float K row ''high'') (\<lambda>hi.
     bind_res (as_float K row ''low'') (\<lambda>lo.
     bind_res (as_float K row ''close'') (\<lambda>cl.
     bind_res (as_int K row ''tick_volume'') (\<lambda>ticks.
     bind_res (as_int K row ''real_volume'') (\<lambda>real.
     bind_res (as_int K row ''spread'') (\<lambda>spread.
       if list_ex (\<lambda>p. fle p (Fin 0)) [op, hi, lo, cl] then Inl (ValueError ''bar prices must be positive'')
       else if flt hi (py_max op [cl, lo]) then Inl (ValueError ''bar high must be >= open, close, and low'')
       else if flt (py_min op [cl, hi]) lo then Inl (ValueError ''bar low must be <= open, close, and high'')
       else if ticks < 0 \<or> real < 0 then Inl (ValueError ''bar volumes must be >= 0'')
       else Inr \<lparr>bar_schema = market_schema_version, bar_collector = collector_version,
              bar_symbol = logical, bar_broker = broker, bar_timeframe = timeframe_value t,
              bar_open_time = open_time, bar_close_time = open_time + timeframe_delta t, bar_open = op,
              bar_high = hi, bar_low = lo, bar_close = cl, bar_tick_volume = ticks,
              bar_real_volume = real, bar_spread = spread,
              bar_closed = (open_time + timeframe_delta t \<le> as_of),
              bar_id = logical @ '':'' @ timeframe_value t @ '':'' @ int_str (whole_seconds open_time),
              bar_quality = ''valid'', bar_quality_flags = [], bar_source = ''mt5_bar'',
              bar_source_system = ''MetaTrader5'', bar_fetched = Some as_of,
              bar_class = ''REALTIME'', bar_formula = None\<rparr>))))))))"

section \<open>What an accepted row satisfies\<close>

lemma flt_trans: "flt a b \<Longrightarrow> flt b c \<Longrightarrow> flt a c"
  by (cases a; cases b; cases c; simp)

lemma flt_fle_trans: "flt a b \<Longrightarrow> fle b c \<Longrightarrow> flt a c"
  unfolding fle_def by (cases a; cases b; cases c; auto)

lemma fle_flt_trans: "fle a b \<Longrightarrow> flt b c \<Longrightarrow> flt a c"
  unfolding fle_def by (cases a; cases b; cases c; auto)

lemma py_max_bound:
  "NaN \<notin> set (h # m # xs) \<Longrightarrow> flt h (py_max m xs) \<longleftrightarrow> flt h m \<or> (\<exists>x \<in> set xs. flt h x)"
proof (induction xs arbitrary: m)
  case Nil
  show ?case by simp
next
  case (Cons x xs)
  then show ?case
    by (cases "flt m x") (auto dest: flt_trans flt_fle_trans simp: not_flt_fle)
qed

lemma py_min_bound:
  "NaN \<notin> set (h # m # xs) \<Longrightarrow> flt (py_min m xs) h \<longleftrightarrow> flt m h \<or> (\<exists>x \<in> set xs. flt x h)"
proof (induction xs arbitrary: m)
  case Nil
  show ?case by simp
next
  case (Cons x xs)
  then show ?case
    by (cases "flt x m") (auto dest: flt_trans fle_flt_trans simp: not_flt_fle)
qed

text \<open>The prices and volumes that a bar may have.\<close>

definition bar_in_bounds :: "pyfloat \<Rightarrow> pyfloat \<Rightarrow> pyfloat \<Rightarrow> pyfloat \<Rightarrow> int \<Rightarrow> int \<Rightarrow> bool" where
  "bar_in_bounds op hi lo cl ticks rvol \<longleftrightarrow>
     flt (Fin 0) lo \<and> fle lo op \<and> fle lo cl \<and> fle op hi \<and> fle cl hi \<and> 0 \<le> ticks \<and> 0 \<le> rvol"

lemma bar_checks_iff:
  assumes "NaN \<notin> {op, hi, lo, cl}"
  shows "\<not> list_ex (\<lambda>p. fle p (Fin 0)) [op, hi, lo, cl] \<and> \<not> flt hi (py_max op [cl, lo]) \<and>
      \<not> flt (py_min op [cl, hi]) lo \<and> \<not> (ticks < 0 \<or> rvol < 0) \<longleftrightarrow>
    bar_in_bounds op hi lo cl ticks rvol"
proof -
  have nan: "op \<noteq> NaN" "hi \<noteq> NaN" "lo \<noteq> NaN" "cl \<noteq> NaN" using assms by auto
  have pos: "\<not> fle p (Fin 0) \<longleftrightarrow> flt (Fin 0) p" if "p \<noteq> NaN" for p
    using not_flt_fle [of "Fin 0" p] that by auto
  have max: "\<not> flt hi (py_max op [cl, lo]) \<longleftrightarrow> fle op hi \<and> fle cl hi \<and> fle lo hi"
    using nan py_max_bound [of hi op "[cl, lo]"] by (auto simp: not_flt_fle)
  have min: "\<not> flt (py_min op [cl, hi]) lo \<longleftrightarrow> fle lo op \<and> fle lo cl \<and> fle lo hi"
    using nan py_min_bound [of lo op "[cl, hi]"] by (auto simp: not_flt_fle)
  show ?thesis
    unfolding max min bar_in_bounds_def
    using nan by (auto simp: pos intro: fle_trans flt_fle_trans)
qed

text \<open>
  C31: Of the rows whose fields can be read and whose prices are no NaN, a bar is made exactly of
  those with positive prices, open and close between low and high, and volumes that are not
  negative. The bar has the prices of the row, closes one timeframe after it opens, and counts as
  closed when that is not after the time of observation.
\<close>

theorem bar_accepted_iff:
  assumes "epoch_seconds_to_utc K (dict_get_or row ''time'' JNull) = Inr open_time"
    and "as_float K row ''open'' = Inr op" and "as_float K row ''high'' = Inr hi"
    and "as_float K row ''low'' = Inr lo" and "as_float K row ''close'' = Inr cl"
    and "as_int K row ''tick_volume'' = Inr ticks" and "as_int K row ''real_volume'' = Inr rvol"
    and "as_int K row ''spread'' = Inr spread" and "NaN \<notin> {op, hi, lo, cl}"
  shows "((\<exists>r. normalize_bar K logical broker t row as_of = Inr r) \<longleftrightarrow> bar_in_bounds op hi lo cl ticks rvol) \<and>
    (\<forall>r. normalize_bar K logical broker t row as_of = Inr r \<longrightarrow>
      bar_open r = op \<and> bar_high r = hi \<and> bar_low r = lo \<and> bar_close r = cl \<and>
      bar_open_time r = open_time \<and> bar_close_time r = open_time + timeframe_delta t \<and>
      (bar_closed r \<longleftrightarrow> bar_close_time r \<le> as_of))"
proof (intro conjI allI impI)
  show "(\<exists>r. normalize_bar K logical broker t row as_of = Inr r) \<longleftrightarrow> bar_in_bounds op hi lo cl ticks rvol"
    unfolding normalize_bar_def assms bind_res_simps bar_checks_iff [OF assms(9), symmetric] raise_else
    by simp
qed (simp_all add: normalize_bar_def assms raise_else)

text \<open>A comparison with NaN is false, so a row of NaN prices is accepted.\<close>

lemma nan_bar_accepted:
  assumes "as_float K row ''open'' = Inr NaN" "as_float K row ''high'' = Inr NaN"
    "as_float K row ''low'' = Inr NaN" "as_float K row ''close'' = Inr NaN"
    "epoch_seconds_to_utc K (dict_get_or row ''time'' JNull) = Inr t0"
    "as_int K row ''tick_volume'' = Inr 0" "as_int K row ''real_volume'' = Inr 0"
    "as_int K row ''spread'' = Inr 0"
  shows "\<exists>r. normalize_bar K logical broker t row as_of = Inr r"
  unfolding normalize_bar_def assms bind_res_simps by (simp add: fle_def)

section \<open>A row\<close>

definition sample_market :: market_env where
  "sample_market =
     \<lparr>mk_platform = \<lparr>sha256_hex = (\<lambda>s. s), float_repr = (\<lambda>q. int_str \<lfloor>q\<rfloor>), round_sum = (\<lambda>xs. Fin 0),
        iso_text = int_str, iso_parse = (\<lambda>s. None)\<rparr>,
      mk_float_of_text = (\<lambda>s. Inl (ValueError s)), mk_int_of_text = (\<lambda>s. Inl (ValueError s)),
      mk_int_of_float = (\<lambda>x. Inr 0),
      mk_from_seconds = (\<lambda>x. case x of Fin q \<Rightarrow> Inr \<lfloor>q * 1000000\<rfloor> | _ \<Rightarrow> Inl (ValueError ''time'')),
      mk_per_thousand = (\<lambda>x. case x of Fin q \<Rightarrow> Fin (q / 1000) | y \<Rightarrow> y), mk_fixed8 = (\<lambda>x. ''x''),
      mk_points = (\<lambda>b a p. Inr 0)\<rparr>"

definition sample_row :: "int \<Rightarrow> market_row" where
  "sample_row lo =
     [(''time'', JInt 60), (''open'', JInt 5), (''high'', JInt 7), (''low'', JInt lo), (''close'', JInt 6),
      (''tick_volume'', JInt 3)]"

lemma bar_accepted_iff_witness:
  "(\<exists>r. normalize_bar sample_market ''XAUUSD'' ''GOLD'' M1 (sample_row 4) 120000000 = Inr r \<and> bar_closed r) \<and>
   \<not> (\<exists>r. normalize_bar sample_market ''XAUUSD'' ''GOLD'' M1 (sample_row 6) 120000000 = Inr r)"
proof -
  have read: "epoch_seconds_to_utc sample_market (dict_get_or (sample_row lo) ''time'' JNull) = Inr 60000000"
    "as_float sample_market (sample_row lo) ''open'' = Inr (Fin 5)"
    "as_float sample_market (sample_row lo) ''high'' = Inr (Fin 7)"
    "as_float sample_market (sample_row lo) ''low'' = Inr (Fin (of_int lo))"
    "as_float sample_market (sample_row lo) ''close'' = Inr (Fin 6)"
    "as_int sample_market (sample_row lo) ''tick_volume'' = Inr 3"
    "as_int sample_market (sample_row lo) ''real_volume'' = Inr 0"
    "as_int sample_market (sample_row lo) ''spread'' = Inr 0" for lo
    by (simp_all add: sample_row_def sample_market_def epoch_seconds_to_utc_def as_float_def as_int_def
        dict_get_or_def)
  have nan: "NaN \<notin> {Fin 5, Fin 7, Fin q, Fin 6}" for q by simp
  note iff = bar_accepted_iff [OF read nan, where logical = "''XAUUSD''" and broker = "''GOLD''" and t = M1 and as_of = 120000000]
  have yes: "bar_in_bounds (Fin 5) (Fin 7) (Fin (of_int 4)) (Fin 6) 3 0"
    and no: "\<not> bar_in_bounds (Fin 5) (Fin 7) (Fin (of_int 6)) (Fin 6) 3 0"
    by (simp_all add: bar_in_bounds_def fle_def)
  obtain r where r: "normalize_bar sample_market ''XAUUSD'' ''GOLD'' M1 (sample_row 4) 120000000 = Inr r"
    using iff [of 4] yes by blast
  then have "bar_closed r" using iff [of 4] by (auto simp: timeframe_delta_def)
  with r iff [of 6] no show ?thesis by blast
qed

end
