(* ===== verification/Quality.thy ===== *)
theory Quality
  imports MarketData
begin

text \<open>
  \<open>market_data/quality.py\<close>: batches of ticks and bars are put in order and rid of repetitions, and
  what was wrong with them, missing or late becomes incidents. The time that an incident carries
  when its caller gives none is an argument.
\<close>

section \<open>Incidents\<close>

definition incident ::
  "string \<Rightarrow> string \<Rightarrow> string option \<Rightarrow> string \<Rightarrow> string \<Rightarrow> int \<Rightarrow> quality_incident" where
  "incident kind symbol tf detail unique observed =
     \<lparr>qi_kind = kind, qi_symbol = symbol, qi_timeframe = tf, qi_detail = detail, qi_observed = observed,
      qi_key = kind @ '':'' @ symbol @ '':'' @
        (case tf of None \<Rightarrow> ''tick'' | Some t \<Rightarrow> if t = [] then ''tick'' else t) @ '':'' @ unique\<rparr>"

section \<open>Batches\<close>

text \<open>\<open>any(left > right for left, right in pairwise(..))\<close>\<close>

definition out_of_order :: "('r \<Rightarrow> int) \<Rightarrow> 'r list \<Rightarrow> bool" where
  "out_of_order at_time rs = list_ex (\<lambda>(l, r). at_time l > at_time r) (adjacent rs)"

text \<open>The loop over the sorted records, with the ids seen so far.\<close>

fun keep_first :: "('r \<Rightarrow> string) \<Rightarrow> string list \<Rightarrow> 'r list \<Rightarrow> 'r list" where
  "keep_first ident seen [] = []"
| "keep_first ident seen (r # rs) =
     (if ident r \<in> set seen then keep_first ident seen rs
      else r # keep_first ident (ident r # seen) rs)"

definition dedup :: "('r \<Rightarrow> int) \<Rightarrow> ('r \<Rightarrow> string) \<Rightarrow> 'r list \<Rightarrow> 'r list" where
  "dedup at_time ident rs = keep_first ident [] (sort_key at_time rs)"

definition collisions :: "tick_record list \<Rightarrow> int list" where
  "collisions rs =
     remdups (map tick_time_msc (filter (\<lambda>r.
       length (remdups (map tick_sequence (filter (\<lambda>s. tick_time_msc s = tick_time_msc r) rs))) > 1) rs))"

definition normalize_tick_batch :: "int \<Rightarrow> tick_record list \<Rightarrow> tick_record list \<times> quality_incident list" where
  "normalize_tick_batch now rs =
     (if rs = [] then ([], [])
      else
        (let symbol = tick_symbol (hd rs); cs = collisions rs; kept = dedup tick_time_msc tick_sequence rs;
             removed = length rs - length kept
         in (kept,
             (if out_of_order tick_time_msc rs
              then [incident ''out_of_order_ticks'' symbol None
                      ''tick records arrived out of order and were normalized'' ''batch'' now]
              else []) @
             (if cs \<noteq> []
              then [incident ''tick_time_collision'' symbol None
                      (''detected '' @ nat_str (length cs) @ '' timestamps with differing tick payloads'')
                      (int_str (Min (set cs))) now]
              else []) @
             (if removed > 0
              then [incident ''duplicate_ticks'' symbol None
                      (''removed '' @ nat_str removed @ '' duplicate tick rows'') ''batch'' now]
              else []))))"

definition normalize_bar_batch :: "int \<Rightarrow> bar_record list \<Rightarrow> bar_record list \<times> quality_incident list" where
  "normalize_bar_batch now rs =
     (if rs = [] then ([], [])
      else
        (let symbol = bar_symbol (hd rs); tf = Some (bar_timeframe (hd rs));
             kept = dedup bar_open_time bar_id rs; removed = length rs - length kept
         in (kept,
             (if out_of_order bar_open_time rs
              then [incident ''out_of_order_bars'' symbol tf
                      ''bar records arrived out of order and were normalized'' ''batch'' now]
              else []) @
             (if removed > 0
              then [incident ''duplicate_bars'' symbol tf
                      (''removed '' @ nat_str removed @ '' duplicate bar rows'') ''batch'' now]
              else []))))"

section \<open>Current and closed bars\<close>

type_synonym bar_rows = "(string \<times> string, bar_record) dict"

definition bar_key :: "bar_record \<Rightarrow> string \<times> string" where
  "bar_key r = (bar_symbol r, bar_timeframe r)"

definition split_bars :: "bar_record list \<Rightarrow> int \<Rightarrow> bar_rows \<times> bar_rows" where
  "split_bars rs as_of =
     fold (\<lambda>r (current, closed).
         if bar_close_time r \<le> as_of then (current, dict_set (bar_key r) r closed)
         else (dict_set (bar_key r) r current, closed)) rs ([], [])"

section \<open>Missing bars\<close>

text \<open>\<open>weekday()\<close> of a time in microseconds: 1 January 1970 was a Thursday.\<close>

definition weekday :: "int \<Rightarrow> int" where
  "weekday t = (t div 86400000000 + 3) mod 7"

text \<open>The while loop from a candidate to the next bar that is there.\<close>

function missing_between :: "int \<Rightarrow> int \<Rightarrow> int \<Rightarrow> int" where
  "missing_between gap candidate current =
     (if candidate < current \<and> 0 < gap
      then (if weekday candidate < 5 then 1 else 0) + missing_between gap (candidate + gap) current
      else 0)"
  by pat_completeness auto

termination
  by (relation "measure (\<lambda>(gap, candidate, current). nat (current - candidate))") auto

declare missing_between.simps [simp del]

definition gap_incidents :: "int \<Rightarrow> int \<Rightarrow> bar_record \<Rightarrow> bar_record \<Rightarrow> quality_incident list" where
  "gap_incidents now gap previous current =
     (if bar_open_time current - bar_open_time previous \<le> gap then []
      else
        (let n = missing_between gap (bar_open_time previous + gap) (bar_open_time current)
         in if n \<noteq> 0
            then [incident ''missing_bars'' (bar_symbol current) (Some (bar_timeframe current))
                    (''detected '' @ int_str n @ '' missing '' @ bar_timeframe current @ '' bars'')
                    (bar_id current) now]
            else []))"

definition detect_missing_bars :: "int \<Rightarrow> bar_record list \<Rightarrow> py_exn + quality_incident list" where
  "detect_missing_bars now rs =
     (if length rs < 2 then Inr []
      else bind_res (ensure_timeframe (bar_timeframe (hd rs))) (\<lambda>t.
        Inr (concat (map (\<lambda>(p, c). gap_incidents now (timeframe_delta t) p c) (adjacent rs)))))"

section \<open>Closed bars that change\<close>

definition same_values :: "bar_record \<Rightarrow> bar_record \<Rightarrow> bool" where
  "same_values a b =
     (feq (bar_open a) (bar_open b) \<and> feq (bar_high a) (bar_high b) \<and> feq (bar_low a) (bar_low b) \<and>
      feq (bar_close a) (bar_close b) \<and> bar_tick_volume a = bar_tick_volume b \<and>
      bar_real_volume a = bar_real_volume b \<and> bar_spread a = bar_spread b)"

definition detect_closed_bar_mutation ::
  "int \<Rightarrow> bar_record option \<Rightarrow> bar_record option \<Rightarrow> quality_incident list" where
  "detect_closed_bar_mutation now previous latest =
     (case (previous, latest) of
        (Some p, Some l) \<Rightarrow>
          if bar_id p \<noteq> bar_id l \<or> same_values p l then []
          else [incident ''closed_bar_mutation'' (bar_symbol l) (Some (bar_timeframe l))
                  ''closed bar changed after it had already been persisted'' (bar_id l) now]
      | _ \<Rightarrow> [])"

section \<open>Freshness\<close>

text \<open>\<open>max(.., key=..)\<close>: the first of the records with the greatest key.\<close>

fun latest_by :: "('r \<Rightarrow> int) \<Rightarrow> 'r \<Rightarrow> 'r list \<Rightarrow> 'r" where
  "latest_by k m [] = m"
| "latest_by k m (r # rs) = latest_by k (if k r > k m then r else m) rs"

record freshness =
  fr_ticks :: string
  fr_bars :: string

definition freshness_status :: "int \<Rightarrow> int \<Rightarrow> string" where
  "freshness_status age limit = (if age \<le> limit * 1000000 then ''fresh'' else ''stale'')"

definition classify_freshness ::
  "int \<Rightarrow> tick_record list \<Rightarrow> bar_record list \<Rightarrow> int \<Rightarrow> py_exn + (freshness \<times> quality_incident list)" where
  "classify_freshness now ticks bars limit =
     (let (tick_status, tick_incidents) =
            (case ticks of
               [] \<Rightarrow> (''unknown'', [])
             | t # ts \<Rightarrow>
                 (let l = latest_by tick_time_msc t ts; st = freshness_status (now - tick_time l) limit
                  in (st, if st = ''stale'' \<and> weekday now < 5
                          then [incident ''stale_tick'' (tick_symbol l) None
                                  (''latest tick is older than '' @ int_str limit @ '' seconds'')
                                  (tick_sequence l) now]
                          else [])))
      in case bars of
           [] \<Rightarrow> Inr (\<lparr>fr_ticks = tick_status, fr_bars = ''unknown''\<rparr>, tick_incidents)
         | b # bs \<Rightarrow>
             (let l = latest_by bar_open_time b bs
              in bind_res (ensure_timeframe (bar_timeframe l)) (\<lambda>t.
                   let threshold = max limit (timeframe_seconds t * 2);
                       st = freshness_status (now - bar_open_time l) threshold
                   in Inr (\<lparr>fr_ticks = tick_status, fr_bars = st\<rparr>,
                           tick_incidents @
                           (if st = ''stale'' \<and> weekday now < 5
                            then [incident ''stale_bar'' (bar_symbol l) (Some (bar_timeframe l))
                                    (''latest bar is older than '' @ int_str threshold @ '' seconds'')
                                    (bar_id l) now]
                            else [])))))"

section \<open>What a normalised batch is\<close>

lemma keep_first_set:
  "set (map ident (keep_first ident seen rs)) = set (map ident rs) - set seen"
  by (induction rs arbitrary: seen) auto

lemma keep_first_distinct: "distinct (map ident (keep_first ident seen rs))"
proof (induction rs arbitrary: seen)
  case Nil
  show ?case by simp
next
  case (Cons r rs)
  then show ?case using keep_first_set [of ident "ident r # seen" rs] by auto
qed

lemma keep_first_subset: "set (keep_first ident seen rs) \<subseteq> set rs"
  by (induction rs arbitrary: seen) auto

lemma keep_first_sorted: "sorted (map k rs) \<Longrightarrow> sorted (map k (keep_first ident seen rs))"
proof (induction rs arbitrary: seen)
  case Nil
  show ?case by simp
next
  case (Cons r rs)
  then show ?case using keep_first_subset [of ident "ident r # seen" rs] by auto
qed

lemma keep_first_id:
  "distinct (map ident rs) \<Longrightarrow> set (map ident rs) \<inter> set seen = {} \<Longrightarrow> keep_first ident seen rs = rs"
  by (induction rs arbitrary: seen) auto

lemma keep_first_length: "length (keep_first ident seen rs) \<le> length rs"
  by (induction rs arbitrary: seen) (auto intro: le_SucI)

lemma keep_first_same_length:
  "length (keep_first ident seen rs) = length rs \<Longrightarrow> distinct (map ident rs) \<and> set (map ident rs) \<inter> set seen = {}"
proof (induction rs arbitrary: seen)
  case Nil
  show ?case by simp
next
  case (Cons r rs)
  have "ident r \<notin> set seen"
    using Cons.prems keep_first_length [of ident seen rs] by (auto split: if_splits)
  with Cons.prems Cons.IH [of "ident r # seen"] show ?case by auto
qed

lemma out_of_order_iff: "out_of_order k rs \<longleftrightarrow> \<not> sorted (map k rs)"
  unfolding out_of_order_def
proof (induction rs rule: adjacent.induct)
  case (1 x y rs)
  then show ?case
    by (simp only: adjacent.simps list.map list_ex_iff list.set ball_simps bex_simps sorted2) (auto simp: not_le)
qed simp_all

text \<open>
  What the two batch functions have in common: the records that are kept are those of \<open>dedup\<close>, and
  a batch that is in order and without repetitions brings no incident of its own.
\<close>

locale record_batch =
  fixes normalize :: "int \<Rightarrow> 'r list \<Rightarrow> 'r list \<times> 'i list"
    and at_time :: "'r \<Rightarrow> int"
    and ident :: "'r \<Rightarrow> string"
    and other :: "'r list \<Rightarrow> bool"
  assumes kept: "fst (normalize now rs) = dedup at_time ident rs"
    and silent: "snd (normalize now rs) = [] \<longleftrightarrow>
      \<not> out_of_order at_time rs \<and> length (dedup at_time ident rs) = length rs \<and> \<not> other rs"
begin

definition normal :: "'r list \<Rightarrow> bool" where
  "normal rs \<longleftrightarrow> sorted (map at_time rs) \<and> distinct (map ident rs)"

lemma kept_normal: "normal (fst (normalize now rs))"
  unfolding kept dedup_def normal_def by (simp add: keep_first_distinct keep_first_sorted)

lemma kept_ids: "set (map ident (fst (normalize now rs))) = set (map ident rs)"
  unfolding kept dedup_def keep_first_set by simp

lemma kept_records: "set (fst (normalize now rs)) \<subseteq> set rs"
  unfolding kept dedup_def using keep_first_subset [of ident "[]" "sort_key at_time rs"] by simp

lemma dedup_normal: "normal rs \<Longrightarrow> dedup at_time ident rs = rs"
  unfolding dedup_def normal_def by (simp add: keep_first_id sort_key_id_if_sorted)

lemma normal_unchanged: "normal rs \<Longrightarrow> fst (normalize now rs) = rs"
  by (simp add: kept dedup_normal)

lemma silent_iff: "snd (normalize now rs) = [] \<longleftrightarrow> normal rs \<and> \<not> other rs"
proof -
  have "length (dedup at_time ident rs) = length rs \<longleftrightarrow> distinct (map ident (sort_key at_time rs))"
    using keep_first_same_length [of ident "[]" "sort_key at_time rs"]
      keep_first_id [of ident "sort_key at_time rs" "[]"]
    by (auto simp: dedup_def)
  moreover have "sorted (map at_time rs) \<Longrightarrow> sort_key at_time rs = rs"
    by (rule sort_key_id_if_sorted)
  ultimately show ?thesis
    unfolding silent out_of_order_iff normal_def by auto
qed

lemma normalize_twice: "fst (normalize now' (fst (normalize now rs))) = fst (normalize now rs)"
  by (rule normal_unchanged) (rule kept_normal)

end

interpretation bar_batch: record_batch normalize_bar_batch bar_open_time bar_id "\<lambda>rs. False"
proof unfold_locales
  show "fst (normalize_bar_batch now rs) = dedup bar_open_time bar_id rs" for now rs
    by (simp add: normalize_bar_batch_def dedup_def Let_def)
  have "length (dedup bar_open_time bar_id rs) \<le> length rs" for rs
    unfolding dedup_def using keep_first_length [of bar_id "[]" "sort_key bar_open_time rs"] by simp
  then show "snd (normalize_bar_batch now rs) = [] \<longleftrightarrow>
      \<not> out_of_order bar_open_time rs \<and> length (dedup bar_open_time bar_id rs) = length rs \<and> \<not> False" for now rs
    by (auto simp: normalize_bar_batch_def Let_def out_of_order_def dedup_def le_less)
qed

interpretation tick_batch: record_batch normalize_tick_batch tick_time_msc tick_sequence
  "\<lambda>rs. collisions rs \<noteq> []"
proof unfold_locales
  show "fst (normalize_tick_batch now rs) = dedup tick_time_msc tick_sequence rs" for now rs
    by (simp add: normalize_tick_batch_def dedup_def Let_def)
  have "length (dedup tick_time_msc tick_sequence rs) \<le> length rs" for rs
    unfolding dedup_def using keep_first_length [of tick_sequence "[]" "sort_key tick_time_msc rs"] by simp
  then show "snd (normalize_tick_batch now rs) = [] \<longleftrightarrow>
      \<not> out_of_order tick_time_msc rs \<and> length (dedup tick_time_msc tick_sequence rs) = length rs \<and>
      \<not> collisions rs \<noteq> []" for now rs
    by (auto simp: normalize_tick_batch_def Let_def out_of_order_def dedup_def collisions_def le_less)
qed

text \<open>
  Normalising a batch of bars or of ticks keeps records of the batch only, every id of it once,
  in the order of time; doing it again changes nothing. A batch of bars brings no incident exactly
  when it is in that form already, a batch of ticks when, besides, no two ticks of one time differ.
\<close>

theorem batch_normalised:
  "sorted (map bar_open_time (fst (normalize_bar_batch now bars))) \<and>
   distinct (map bar_id (fst (normalize_bar_batch now bars))) \<and>
   set (map bar_id (fst (normalize_bar_batch now bars))) = set (map bar_id bars) \<and>
   set (fst (normalize_bar_batch now bars)) \<subseteq> set bars \<and>
   normalize_bar_batch now' (fst (normalize_bar_batch now bars)) = (fst (normalize_bar_batch now bars), []) \<and>
   (snd (normalize_bar_batch now bars) = [] \<longleftrightarrow> fst (normalize_bar_batch now bars) = bars) \<and>
   sorted (map tick_time_msc (fst (normalize_tick_batch now ticks))) \<and>
   distinct (map tick_sequence (fst (normalize_tick_batch now ticks))) \<and>
   set (map tick_sequence (fst (normalize_tick_batch now ticks))) = set (map tick_sequence ticks) \<and>
   set (fst (normalize_tick_batch now ticks)) \<subseteq> set ticks \<and>
   fst (normalize_tick_batch now' (fst (normalize_tick_batch now ticks))) = fst (normalize_tick_batch now ticks) \<and>
   (snd (normalize_tick_batch now ticks) = [] \<longleftrightarrow>
      fst (normalize_tick_batch now ticks) = ticks \<and> collisions ticks = [])"
proof -
  have bars_same: "bar_batch.normal bars \<longleftrightarrow> fst (normalize_bar_batch now bars) = bars"
    using bar_batch.normal_unchanged bar_batch.kept_normal by metis
  have ticks_same: "tick_batch.normal ticks \<longleftrightarrow> fst (normalize_tick_batch now ticks) = ticks"
    using tick_batch.normal_unchanged tick_batch.kept_normal by metis
  have "normalize_bar_batch now' (fst (normalize_bar_batch now bars)) = (fst (normalize_bar_batch now bars), [])"
    using bar_batch.normalize_twice bar_batch.silent_iff bar_batch.kept_normal by (intro prod_eqI) simp_all
  with bars_same ticks_same show ?thesis
    using bar_batch.kept_normal [of now bars] tick_batch.kept_normal [of now ticks]
      bar_batch.kept_ids [of now bars] tick_batch.kept_ids [of now ticks]
      bar_batch.kept_records [of now bars] tick_batch.kept_records [of now ticks]
      tick_batch.normalize_twice [of now' now ticks]
    unfolding bar_batch.silent_iff tick_batch.silent_iff bar_batch.normal_def tick_batch.normal_def
    by simp
qed

section \<open>Which bars are missing\<close>

text \<open>A slot of the grid on a day from Monday to Friday, strictly before the next bar.\<close>

definition working_slot :: "int \<Rightarrow> int \<Rightarrow> int \<Rightarrow> bool" where
  "working_slot first gap current \<longleftrightarrow>
     (\<exists>k :: nat. first + int k * gap < current \<and> weekday (first + int k * gap) < 5)"

lemma missing_between_nonneg: "0 \<le> missing_between gap candidate current"
  by (induction gap candidate current rule: missing_between.induct)
    (subst missing_between.simps, simp)

lemma working_slot_step:
  "0 < gap \<Longrightarrow> working_slot c gap current \<longleftrightarrow>
     c < current \<and> (weekday c < 5 \<or> working_slot (c + gap) gap current)"
proof
  assume gap: "0 < gap" and "working_slot c gap current"
  then obtain k :: nat where k: "c + int k * gap < current" "weekday (c + int k * gap) < 5"
    unfolding working_slot_def by blast
  moreover have "0 \<le> int k * gap" using gap by simp
  ultimately have "c < current" by linarith
  show "c < current \<and> (weekday c < 5 \<or> working_slot (c + gap) gap current)"
  proof (cases k)
    case 0
    with k show ?thesis by simp
  next
    case (Suc j)
    then have "c + gap + int j * gap = c + int k * gap" by (simp add: algebra_simps)
    with k \<open>c < current\<close> show ?thesis unfolding working_slot_def by metis
  qed
next
  assume "0 < gap" and r: "c < current \<and> (weekday c < 5 \<or> working_slot (c + gap) gap current)"
  show "working_slot c gap current"
  proof (cases "weekday c < 5")
    case True
    with r show ?thesis unfolding working_slot_def by (intro exI [of _ 0]) simp
  next
    case False
    with r obtain j :: nat where "c + gap + int j * gap < current" "weekday (c + gap + int j * gap) < 5"
      unfolding working_slot_def by blast
    moreover have "c + gap + int j * gap = c + int (Suc j) * gap" by (simp add: algebra_simps)
    ultimately show ?thesis unfolding working_slot_def by metis
  qed
qed

lemma missing_between_zero:
  "0 < gap \<Longrightarrow> missing_between gap candidate current = 0 \<longleftrightarrow> \<not> working_slot candidate gap current"
proof (induction gap candidate current rule: missing_between.induct)
  case (1 gap candidate current)
  have "candidate < current \<Longrightarrow> missing_between gap (candidate + gap) current = 0 \<longleftrightarrow>
      \<not> working_slot (candidate + gap) gap current"
    using 1 by simp
  then show ?case
    using 1(2) missing_between_nonneg [of gap "candidate + gap" current]
    unfolding working_slot_step [OF 1(2), of candidate current] missing_between.simps [of gap candidate current]
    by auto
qed

text \<open>
  C34: Bars are reported missing exactly when between two consecutive bars of the batch the grid of
  the timeframe has a slot on a working day. The gap of a weekend alone is not reported.
\<close>

theorem missing_bars_iff:
  assumes "ensure_timeframe (bar_timeframe (hd bars)) = Inr t"
  shows "detect_missing_bars now bars = Inr [] \<longleftrightarrow>
     \<not> (\<exists>(p, c) \<in> set (adjacent bars).
          working_slot (bar_open_time p + timeframe_delta t) (timeframe_delta t) (bar_open_time c))"
proof -
  have gap: "0 < timeframe_delta t" by (rule timeframe_delta_pos)
  have pair: "gap_incidents now (timeframe_delta t) p c = [] \<longleftrightarrow>
      \<not> working_slot (bar_open_time p + timeframe_delta t) (timeframe_delta t) (bar_open_time c)" for p c
  proof (cases "bar_open_time c - bar_open_time p \<le> timeframe_delta t")
    case True
    then have "\<not> bar_open_time p + timeframe_delta t < bar_open_time c" by simp
    then show ?thesis
      using True by (subst working_slot_step [OF gap]) (simp add: gap_incidents_def)
  next
    case False
    then show ?thesis by (simp add: gap_incidents_def Let_def missing_between_zero [OF gap])
  qed
  have "length bars < 2 \<Longrightarrow> adjacent bars = []"
    by (cases bars rule: adjacent.cases) auto
  then show ?thesis
    using assms pair by (auto simp: detect_missing_bars_def)
qed

definition sample_bar :: "int \<Rightarrow> bar_record" where
  "sample_bar t =
     \<lparr>bar_schema = ''1'', bar_collector = ''1'', bar_symbol = ''XAUUSD'', bar_broker = ''GOLD'',
      bar_timeframe = ''H1'', bar_open_time = t, bar_close_time = t + 3600000000, bar_open = Fin 5,
      bar_high = Fin 7, bar_low = Fin 4, bar_close = Fin 6, bar_tick_volume = 1, bar_real_volume = 0,
      bar_spread = 0, bar_closed = True, bar_id = int_str t, bar_quality = ''valid'',
      bar_quality_flags = [], bar_source = ''mt5_bar'', bar_source_system = ''MetaTrader5'',
      bar_fetched = None, bar_class = ''REALTIME'', bar_formula = None\<rparr>"

lemma missing_bars_iff_witness:
  "detect_missing_bars 0 [sample_bar 0, sample_bar 3600000000] = Inr [] \<and>
   detect_missing_bars 0 [sample_bar 0, sample_bar 7200000000] \<noteq> Inr []"
proof -
  have t: "ensure_timeframe (bar_timeframe (hd (sample_bar a # bs))) = Inr H1" for a bs
    by (simp add: sample_bar_def ensure_timeframe_def all_timeframes_def)
  have "\<not> working_slot 3600000000 3600000000 3600000000"
    by (subst working_slot_step) simp_all
  moreover have "working_slot 3600000000 3600000000 7200000000"
    by (subst working_slot_step) (simp_all add: weekday_def)
  ultimately show ?thesis
    unfolding missing_bars_iff [OF t] by (simp add: sample_bar_def timeframe_delta_def)
qed

end
