(* ===== verification/Terminal.thy ===== *)
theory Terminal
  imports Quality
begin

text \<open>
  What lies between the collector and the terminal: \<open>market_data/backend.py\<close> (the interface of the
  terminal and its records), \<open>connection.py\<close> (bounded retries), \<open>symbols.py\<close> (broker symbols for the
  configured ones) and \<open>storage/parquet_store.py\<close> (which file takes which records). The terminal, the
  clock, \<open>time.sleep\<close> and the writer of one table are operations on a world of their own that may
  answer anything and raise anything.
\<close>

section \<open>Actions\<close>

datatype market_exn =
    Disconnected string
  | Unresolvable string
  | Escaped py_exn

type_synonym ('w, 'a) act = "'w \<Rightarrow> (market_exn + 'a) \<times> 'w"

definition ret :: "'a \<Rightarrow> ('w, 'a) act" where
  "ret x = (\<lambda>w. (Inr x, w))"

definition raise_act :: "market_exn \<Rightarrow> ('w, 'a) act" where
  "raise_act e = (\<lambda>w. (Inl e, w))"

definition bind_act :: "('w, 'a) act \<Rightarrow> ('a \<Rightarrow> ('w, 'b) act) \<Rightarrow> ('w, 'b) act" where
  "bind_act f g = (\<lambda>w. case f w of (Inl e, w') \<Rightarrow> (Inl e, w') | (Inr x, w') \<Rightarrow> g x w')"

definition reading :: "('w \<Rightarrow> 'a) \<Rightarrow> ('w, 'a) act" where
  "reading f = (\<lambda>w. (Inr (f w), w))"

definition of_res :: "py_exn + 'a \<Rightarrow> ('w, 'a) act" where
  "of_res r = (case r of Inl e \<Rightarrow> raise_act (Escaped e) | Inr x \<Rightarrow> ret x)"

fun map_act :: "('a \<Rightarrow> ('w, 'b) act) \<Rightarrow> 'a list \<Rightarrow> ('w, 'b list) act" where
  "map_act f [] = ret []"
| "map_act f (x # xs) = bind_act (f x) (\<lambda>y. bind_act (map_act f xs) (\<lambda>ys. ret (y # ys)))"

lemma act_simps [simp]:
  "ret x w = (Inr x, w)"
  "raise_act e w = (Inl e, w)"
  "reading h w = (Inr (h w), w)"
  "of_res (Inl a) w = (Inl (Escaped a), w)"
  "of_res (Inr x) w = (Inr x, w)"
  by (simp_all add: ret_def raise_act_def reading_def of_res_def)

lemma bind_act_simps [simp]:
  "f w = (Inl e, w') \<Longrightarrow> bind_act f g w = (Inl e, w')"
  "f w = (Inr x, w') \<Longrightarrow> bind_act f g w = g x w'"
  by (simp_all add: bind_act_def)

lemma bind_act_Inr:
  "bind_act f g w = (Inr y, w'') \<longleftrightarrow> (\<exists>x w'. f w = (Inr x, w') \<and> g x w' = (Inr y, w''))"
  by (auto simp: bind_act_def split: prod.splits sum.splits)

section \<open>The terminal\<close>

record discovered_symbol =
  ds_broker :: string
  ds_description :: string
  ds_path :: string
  ds_visible :: bool
  ds_point :: pyfloat
  ds_digits :: int

record resolved_symbol =
  rs_logical :: string
  rs_broker :: string
  rs_aliases :: "string list"
  rs_description :: string
  rs_point :: pyfloat
  rs_digits :: int
  rs_visible :: bool

text \<open>
  The operations that the collector calls; \<open>te_last_error\<close> gives the \<open>repr\<close> of the error,
  \<open>te_write_table\<close> is \<open>_write_table\<close> (pyarrow, and the atomic rename of the file). The clock stands
  still between two operations: \<open>te_now\<close> is what \<open>utc_now()\<close> gives in a world.
\<close>

record 'w terminal =
  te_initialize :: "('w, bool) act"
  te_shutdown :: "('w, unit) act"
  te_sleep :: "int \<Rightarrow> ('w, unit) act"
  te_last_error :: "('w, string) act"
  te_symbols_get :: "('w, market_row list option) act"
  te_symbol_select :: "string \<Rightarrow> ('w, bool) act"
  te_symbol_tick :: "string \<Rightarrow> ('w, market_row option) act"
  te_rates_range :: "string \<Rightarrow> int \<Rightarrow> int \<Rightarrow> int \<Rightarrow> ('w, market_row list option) act"
  te_ticks_range :: "string \<Rightarrow> int \<Rightarrow> int \<Rightarrow> ('w, market_row list option) act"
  te_now :: "'w \<Rightarrow> int"
  te_write_table :: "string \<Rightarrow> json list \<Rightarrow> ('w, unit) act"

definition discovered_symbol_from_payload :: "market_env \<Rightarrow> market_row \<Rightarrow> py_exn + discovered_symbol" where
  "discovered_symbol_from_payload K row =
     bind_res (as_float K row ''point'') (\<lambda>point.
     bind_res (as_int K row ''digits'') (\<lambda>digits.
       Inr \<lparr>ds_broker = as_text K row ''name'', ds_description = as_text K row ''description'',
            ds_path = as_text K row ''path'', ds_visible = json_truthy (dict_get_or row ''visible'' JNull),
            ds_point = point, ds_digits = digits\<rparr>))"

section \<open>Bounded retries\<close>

text \<open>The body of the \<open>try\<close>.\<close>

definition attempt_once :: "'w terminal \<Rightarrow> ('w, 'a) act \<Rightarrow> ('w, 'a) act" where
  "attempt_once T operation =
     bind_act (te_initialize T) (\<lambda>ok.
       if \<not> ok
       then bind_act (te_last_error T) (\<lambda>err. raise_act (Disconnected (''backend initialize failed: '' @ err)))
       else operation)"

text \<open>The attempts that are left, the number of the next one, and \<open>last_error\<close>.\<close>

fun retry_from ::
  "'w terminal \<Rightarrow> int \<Rightarrow> int \<Rightarrow> nat \<Rightarrow> market_exn \<Rightarrow> ('w, 'a) act \<Rightarrow> ('w, 'a) act" where
  "retry_from T backoff attempt 0 last_error operation w = (Inl last_error, w)"
| "retry_from T backoff attempt (Suc n) last_error operation w =
     (case attempt_once T operation w of
        (Inl (Disconnected m), w1) \<Rightarrow>
          bind_act (te_shutdown T) (\<lambda>_.
            if n = 0 then raise_act (Disconnected m)
            else bind_act (te_sleep T (backoff * attempt)) (\<lambda>_.
              retry_from T backoff (attempt + 1) n (Disconnected m) operation)) w1
      | r \<Rightarrow> r)"

definition retry_run :: "'w terminal \<Rightarrow> int \<Rightarrow> int \<Rightarrow> ('w, 'a) act \<Rightarrow> ('w, 'a) act" where
  "retry_run T max_attempts backoff operation =
     retry_from T backoff 1 (nat max_attempts)
       (Disconnected ''market-data operation failed without an explicit backend error'') operation"

text \<open>The world in which an attempt starts after that many failed ones.\<close>

fun world_before :: "'w terminal \<Rightarrow> int \<Rightarrow> int \<Rightarrow> ('w, 'a) act \<Rightarrow> nat \<Rightarrow> 'w \<Rightarrow> 'w" where
  "world_before T backoff attempt operation 0 w = w"
| "world_before T backoff attempt operation (Suc n) w =
     world_before T backoff (attempt + 1) operation n
       (snd (te_sleep T (backoff * attempt) (snd (te_shutdown T (snd (attempt_once T operation w))))))"

definition outcome :: "'w terminal \<Rightarrow> int \<Rightarrow> int \<Rightarrow> ('w, 'a) act \<Rightarrow> nat \<Rightarrow> 'w \<Rightarrow> market_exn + 'a" where
  "outcome T backoff attempt operation k w =
     fst (attempt_once T operation (world_before T backoff attempt operation k w))"

lemma outcome_Suc:
  "outcome T backoff attempt operation (Suc k) w =
     outcome T backoff (attempt + 1) operation k
       (snd (te_sleep T (backoff * attempt) (snd (te_shutdown T (snd (attempt_once T operation w))))))"
  by (simp add: outcome_def)

fun disconnected :: "market_exn + 'a \<Rightarrow> bool" where
  "disconnected (Inl (Disconnected m)) = True"
| "disconnected _ = False"

text \<open>The result of the attempts: that of the first that does not lose the connection, or of the last.\<close>

definition settled_at :: "(nat \<Rightarrow> market_exn + 'a) \<Rightarrow> nat \<Rightarrow> nat \<Rightarrow> bool" where
  "settled_at out n k \<longleftrightarrow> k < n \<and> (\<forall>j<k. disconnected (out j)) \<and> (\<not> disconnected (out k) \<or> Suc k = n)"

lemma settled_at_Suc:
  "settled_at out (Suc n) (Suc k) \<longleftrightarrow> disconnected (out 0) \<and> settled_at (\<lambda>j. out (Suc j)) n k"
  unfolding settled_at_def by (auto simp: less_Suc_eq_0_disj)

lemma settled_at_unique: "settled_at out n k \<Longrightarrow> settled_at out n k' \<Longrightarrow> k = k'"
  unfolding settled_at_def by (metis Suc_lessI linorder_neqE_nat not_less_eq)

lemma settled_at_exists: "0 < n \<Longrightarrow> \<exists>k. settled_at out n k"
proof (induction n arbitrary: out)
  case (Suc n)
  show ?case
  proof (cases "disconnected (out 0) \<and> 0 < n")
    case True
    with Suc.IH [of "\<lambda>j. out (Suc j)"] show ?thesis using settled_at_Suc by blast
  next
    case False
    then show ?thesis by (intro exI [of _ 0]) (auto simp: settled_at_def)
  qed
qed simp

lemma retry_from_settled:
  assumes shutdown: "\<And>w. fst (te_shutdown T w) = Inr ()" and sleep: "\<And>s w. fst (te_sleep T s w) = Inr ()"
    and settled: "settled_at (\<lambda>k. outcome T backoff attempt operation k w) n k"
  shows "fst (retry_from T backoff attempt n e operation w) = outcome T backoff attempt operation k w"
  using settled
proof (induction n arbitrary: attempt w k e)
  case 0
  then show ?case by (simp add: settled_at_def)
next
  case (Suc n)
  obtain r w1 where once: "attempt_once T operation w = (r, w1)" by (cases "attempt_once T operation w")
  obtain w2 where shut: "te_shutdown T w1 = (Inr (), w2)" using shutdown [of w1] by (cases "te_shutdown T w1") auto
  obtain w3 where slept: "te_sleep T (backoff * attempt) w2 = (Inr (), w3)"
    using sleep [of "backoff * attempt" w2] by (cases "te_sleep T (backoff * attempt) w2") auto
  have first: "outcome T backoff attempt operation 0 w = r" by (simp add: outcome_def once)
  show ?case
  proof (cases "disconnected r")
    case False
    then have "fst (retry_from T backoff attempt (Suc n) e operation w) = r"
      by (cases r rule: disconnected.cases) (simp_all add: once)
    moreover have "k = 0"
      using Suc.prems False first by (cases k) (auto simp: settled_at_Suc)
    ultimately show ?thesis by (simp add: first)
  next
    case True
    then obtain m where m: "r = Inl (Disconnected m)" by (cases r rule: disconnected.cases) auto
    show ?thesis
    proof (cases k)
      case 0
      with Suc.prems True first have "n = 0" by (simp add: settled_at_def)
      with 0 show ?thesis by (simp add: once m shut first)
    next
      case (Suc k')
      with Suc.prems have rest: "settled_at (\<lambda>j. outcome T backoff (attempt + 1) operation j w3) n k'"
        by (simp add: settled_at_Suc outcome_Suc once shut slept)
      then have "n \<noteq> 0" by (auto simp: settled_at_def)
      then have "fst (retry_from T backoff attempt (Suc n) e operation w) =
          fst (retry_from T backoff (attempt + 1) n (Disconnected m) operation w3)"
        by (simp add: once m shut slept)
      also have "\<dots> = outcome T backoff attempt operation k w"
        using Suc.IH [OF rest] by (simp add: Suc outcome_Suc once shut slept)
      finally show ?thesis .
    qed
  qed
qed

text \<open>
  An operation that is run with bounded retries gives what the first of its attempts gives that
  does not fail for a lost connection, a value or another error; when each of the permitted attempts
  fails so, the failure of the last one. Every attempt starts where the one before, the shutdown
  and the sleep left the terminal.
\<close>

theorem retry_run_spec:
  assumes "\<And>w. fst (te_shutdown T w) = Inr ()" and "\<And>s w. fst (te_sleep T s w) = Inr ()"
    and "0 < max_attempts"
  shows "(\<exists>!k. settled_at (\<lambda>j. outcome T backoff 1 operation j w) (nat max_attempts) k) \<and>
    (settled_at (\<lambda>j. outcome T backoff 1 operation j w) (nat max_attempts) k \<longrightarrow>
      fst (retry_run T max_attempts backoff operation w) = outcome T backoff 1 operation k w)"
proof (intro conjI impI)
  let ?out = "\<lambda>j. outcome T backoff 1 operation j w"
  obtain k0 where "settled_at ?out (nat max_attempts) k0"
    using settled_at_exists [of "nat max_attempts" ?out] assms(3) by auto
  then show "\<exists>!k. settled_at ?out (nat max_attempts) k" using settled_at_unique by blast
  assume "settled_at ?out (nat max_attempts) k"
  then show "fst (retry_run T max_attempts backoff operation w) = ?out k"
    unfolding retry_run_def by (rule retry_from_settled [OF assms(1,2)])
qed

text \<open>A terminal that counts its calls and is connected from the third on.\<close>

definition counting_terminal :: "nat terminal" where
  "counting_terminal =
     \<lparr>te_initialize = (\<lambda>n. (Inr (2 \<le> n), Suc n)), te_shutdown = ret (), te_sleep = (\<lambda>_. ret ()),
      te_last_error = ret ''down'', te_symbols_get = ret None, te_symbol_select = (\<lambda>_. ret True),
      te_symbol_tick = (\<lambda>_. ret None), te_rates_range = (\<lambda>_ _ _ _. ret (Some [])),
      te_ticks_range = (\<lambda>_ _ _. ret (Some [])), te_now = int, te_write_table = (\<lambda>_ _. ret ())\<rparr>"

lemma retry_run_spec_witness:
  "fst (retry_run counting_terminal 3 5 (ret True) 0) = Inr True \<and>
   fst (retry_run counting_terminal 2 5 (ret True) 0) = Inl (Disconnected ''backend initialize failed: down'')"
proof -
  let ?out = "\<lambda>j. outcome counting_terminal 5 1 (ret True) j 0"
  have outs: "?out 0 = Inl (Disconnected ''backend initialize failed: down'')"
    "?out (Suc 0) = Inl (Disconnected ''backend initialize failed: down'')"
    "?out (Suc (Suc 0)) = Inr True"
    by (simp_all add: outcome_def attempt_once_def counting_terminal_def bind_act_def)
  have acts: "\<And>w. fst (te_shutdown counting_terminal w) = Inr ()" "\<And>s w. fst (te_sleep counting_terminal s w) = Inr ()"
    by (simp_all add: counting_terminal_def)
  have "settled_at ?out (nat 3) 2" "settled_at ?out (nat 2) 1"
    using outs by (auto simp: settled_at_def less_Suc_eq numeral_2_eq_2 numeral_3_eq_3)
  then show ?thesis
    using retry_run_spec [OF acts, of 3 5 "ret True" 0 2] retry_run_spec [OF acts, of 2 5 "ret True" 0 1] outs
    by (simp add: numeral_2_eq_2)
qed

end
