(* ===== verification/Symbols.thy ===== *)
theory Symbols
  imports Terminal
begin

text \<open>
  \<open>market_data/symbols.py\<close> and the methods of the collector that use it (\<open>_list_symbols\<close>,
  \<open>_resolve_symbols\<close>, \<open>_resolve_symbol\<close>): a configured symbol gets the broker symbol that its name or
  one of its aliases matches, provided that there is just one.
\<close>

section \<open>The settings of the collector\<close>

record symbol_target =
  st_logical :: string
  st_aliases :: "string list"

record collector_settings =
  se_symbols :: "symbol_target list"
  se_timeframes :: "timeframe list"
  se_tick_lookback :: int
  se_bar_lookback :: int
  se_freshness :: int
  se_attempts :: int
  se_backoff :: int
  se_root :: string
  se_dry_run :: bool

definition retried :: "'w terminal \<Rightarrow> collector_settings \<Rightarrow> ('w, 'a) act \<Rightarrow> ('w, 'a) act" where
  "retried T cfg operation = retry_run T (se_attempts cfg) (se_backoff cfg) operation"

section \<open>Matching\<close>

definition normalized_symbol_name :: "string \<Rightarrow> string" where
  "normalized_symbol_name s = filter is_alnum (str_upper s)"

text \<open>The lookup table; the set of the two names of a symbol is visited in some order.\<close>

definition symbol_lookup :: "discovered_symbol list \<Rightarrow> (string, discovered_symbol list) dict" where
  "symbol_lookup ds =
     fold (\<lambda>s. fold (\<lambda>c. dict_append (normalized_symbol_name c) s) (remdups [ds_broker s, ds_description s])) ds []"

definition symbol_matches ::
  "(string, discovered_symbol list) dict \<Rightarrow> symbol_target \<Rightarrow> discovered_symbol list" where
  "symbol_matches lookup t =
     concat (map (\<lambda>c. dict_get_or lookup (normalized_symbol_name c) []) (st_logical t # st_aliases t))"

definition unique_matches :: "discovered_symbol list \<Rightarrow> (string, discovered_symbol) dict" where
  "unique_matches ms = fold (\<lambda>s. dict_set (ds_broker s) s) (filter (\<lambda>s. ds_broker s \<noteq> []) ms) []"

definition mapping_incident :: "string \<Rightarrow> string \<Rightarrow> string \<Rightarrow> int \<Rightarrow> quality_incident" where
  "mapping_incident kind symbol detail now =
     \<lparr>qi_kind = kind, qi_symbol = symbol, qi_timeframe = None, qi_detail = detail, qi_observed = now,
      qi_key = kind @ '':'' @ symbol\<rparr>"

definition resolve_target ::
  "int \<Rightarrow> (string, discovered_symbol list) dict \<Rightarrow> symbol_target \<Rightarrow> quality_incident + resolved_symbol" where
  "resolve_target now lookup t =
     (case unique_matches (symbol_matches lookup t) of
        [] \<Rightarrow> Inl (mapping_incident ''missing_symbol_mapping'' (st_logical t)
          ''configured symbol could not be resolved from broker discovery'' now)
      | [(_, s)] \<Rightarrow> Inr \<lparr>rs_logical = st_logical t, rs_broker = ds_broker s, rs_aliases = st_aliases t,
          rs_description = ds_description s, rs_point = ds_point s, rs_digits = ds_digits s,
          rs_visible = ds_visible s\<rparr>
      | _ \<Rightarrow> Inl (mapping_incident ''ambiguous_symbol_mapping'' (st_logical t)
          ''configured symbol resolved to multiple broker symbols'' now))"

fun resolve_targets ::
  "int \<Rightarrow> (string, discovered_symbol list) dict \<Rightarrow> symbol_target list \<Rightarrow>
   resolved_symbol list \<times> quality_incident list" where
  "resolve_targets now lookup [] = ([], [])"
| "resolve_targets now lookup (t # ts) =
     (let (rs, qs) = resolve_targets now lookup ts
      in case resolve_target now lookup t of Inl q \<Rightarrow> (rs, q # qs) | Inr r \<Rightarrow> (r # rs, qs))"

definition resolve_symbols ::
  "int \<Rightarrow> symbol_target list \<Rightarrow> discovered_symbol list \<Rightarrow> resolved_symbol list \<times> quality_incident list" where
  "resolve_symbols now targets ds = resolve_targets now (symbol_lookup ds) targets"

section \<open>Resolution against the terminal\<close>

text \<open>\<open>payload is None\<close> becomes a lost connection.\<close>

definition payload_or_disconnected :: "'w terminal \<Rightarrow> string \<Rightarrow> ('w, 'a option) act \<Rightarrow> ('w, 'a) act" where
  "payload_or_disconnected T operation f =
     bind_act f (\<lambda>p. case p of
         None \<Rightarrow> bind_act (te_last_error T) (\<lambda>err.
           raise_act (Disconnected (''MetaTrader5 '' @ operation @ '' failed: '' @ err)))
       | Some x \<Rightarrow> ret x)"

definition list_symbols ::
  "market_env \<Rightarrow> 'w terminal \<Rightarrow> collector_settings \<Rightarrow> ('w, discovered_symbol list) act" where
  "list_symbols K T cfg =
     bind_act (retried T cfg (payload_or_disconnected T ''symbols_get'' (te_symbols_get T))) (\<lambda>rows.
       of_res (map_res (discovered_symbol_from_payload K) rows))"

text \<open>The loop that makes invisible symbols visible.\<close>

fun select_symbols ::
  "'w terminal \<Rightarrow> collector_settings \<Rightarrow> resolved_symbol list \<Rightarrow>
   ('w, resolved_symbol list \<times> quality_incident list) act" where
  "select_symbols T cfg [] = ret ([], [])"
| "select_symbols T cfg (r # rs) =
     (if rs_visible r
      then bind_act (select_symbols T cfg rs) (\<lambda>(fs, qs). ret (r # fs, qs))
      else
        bind_act (retried T cfg (te_symbol_select T (rs_broker r))) (\<lambda>selected.
        bind_act
          (if selected then ret []
           else bind_act (reading (te_now T)) (\<lambda>now. ret [mapping_incident ''symbol_select_failed'' (rs_logical r)
             ''matched broker symbol could not be enabled in MarketWatch'' now])) (\<lambda>q.
        bind_act (select_symbols T cfg rs) (\<lambda>(fs, qs). ret (r\<lparr>rs_visible := selected\<rparr> # fs, q @ qs)))))"

definition resolve_all ::
  "market_env \<Rightarrow> 'w terminal \<Rightarrow> collector_settings \<Rightarrow> ('w, resolved_symbol list \<times> quality_incident list) act" where
  "resolve_all K T cfg =
     bind_act (list_symbols K T cfg) (\<lambda>ds.
     bind_act (reading (te_now T)) (\<lambda>now.
     let (rs, qs) = resolve_symbols now (se_symbols cfg) ds
     in bind_act (select_symbols T cfg rs) (\<lambda>(fs, more). ret (fs, qs @ more))))"

definition resolve_one ::
  "market_env \<Rightarrow> 'w terminal \<Rightarrow> collector_settings \<Rightarrow> string \<Rightarrow> ('w, resolved_symbol) act" where
  "resolve_one K T cfg logical =
     bind_act (resolve_all K T cfg) (\<lambda>(rs, qs).
       case find (\<lambda>r. str_upper (rs_logical r) = str_upper logical) rs of
         Some r \<Rightarrow> ret r
       | None \<Rightarrow> raise_act (Unresolvable (''Unable to resolve symbol '' @ str_repr logical @ '': '' @
           (case filter (\<lambda>q. str_upper (qi_symbol q) = str_upper logical) qs of
              [] \<Rightarrow> ''symbol was not configured'' | q # _ \<Rightarrow> qi_detail q))))"

section \<open>When a symbol is resolved\<close>

definition matching_symbol :: "symbol_target \<Rightarrow> discovered_symbol \<Rightarrow> bool" where
  "matching_symbol t s \<longleftrightarrow> ds_broker s \<noteq> [] \<and>
     (\<exists>c \<in> set (st_logical t # st_aliases t). \<exists>n \<in> {ds_broker s, ds_description s}.
        normalized_symbol_name n = normalized_symbol_name c)"

lemma symbol_lookup_one:
  "set (dict_get_or (fold (\<lambda>c. dict_append (normalized_symbol_name c) s) cs d) k []) =
   set (dict_get_or d k []) \<union> (if k \<in> normalized_symbol_name ` set cs then {s} else {})"
  by (induction cs arbitrary: d) (auto simp: dict_get_or_append)

lemma symbol_lookup_set:
  "set (dict_get_or (fold (\<lambda>s. fold (\<lambda>c. dict_append (normalized_symbol_name c) s)
       (remdups [ds_broker s, ds_description s])) ds d) k []) =
   set (dict_get_or d k []) \<union>
   {s \<in> set ds. k \<in> normalized_symbol_name ` {ds_broker s, ds_description s}}"
proof (induction ds arbitrary: d)
  case Nil
  show ?case by simp
next
  case (Cons s ds)
  have names: "set (remdups [ds_broker s, ds_description s]) = {ds_broker s, ds_description s}" by simp
  show ?case
    unfolding fold_simps o_def Cons.IH symbol_lookup_one names by auto
qed

lemma symbol_lookup_get:
  "s \<in> set (dict_get_or (symbol_lookup ds) k []) \<longleftrightarrow>
     s \<in> set ds \<and> (normalized_symbol_name (ds_broker s) = k \<or> normalized_symbol_name (ds_description s) = k)"
  unfolding symbol_lookup_def symbol_lookup_set by (auto simp: dict_get_or_def)

lemma symbol_matches_set:
  "set (filter (\<lambda>s. ds_broker s \<noteq> []) (symbol_matches (symbol_lookup ds) t)) = {s \<in> set ds. matching_symbol t s}"
  unfolding symbol_matches_def matching_symbol_def by (auto simp: symbol_lookup_get simp del: remdups.simps)

lemma unique_matches_inv:
  assumes "distinct (dict_keys d)" and "\<And>b s. (b, s) \<in> set d \<Longrightarrow> b = ds_broker s"
  shows "let u = fold (\<lambda>s. dict_set (ds_broker s) s) ms d
    in distinct (dict_keys u) \<and> set (dict_keys u) = set (dict_keys d) \<union> ds_broker ` set ms \<and>
       set (map snd u) \<subseteq> set (map snd d) \<union> set ms \<and> (\<forall>(b, s) \<in> set u. b = ds_broker s)"
  using assms
proof (induction ms arbitrary: d)
  case Nil
  then show ?case by auto
next
  case (Cons s ms)
  let ?d = "dict_set (ds_broker s) s d"
  have "distinct (dict_keys ?d)" using Cons.prems(1) by (rule distinct_dict_set)
  moreover have sub: "set ?d \<subseteq> insert (ds_broker s, s) (set d)" by (rule set_dict_set)
  moreover have "b = ds_broker r" if "(b, r) \<in> set ?d" for b r using sub Cons.prems(2) that by auto
  ultimately have ih: "let u = fold (\<lambda>s. dict_set (ds_broker s) s) ms ?d
    in distinct (dict_keys u) \<and> set (dict_keys u) = set (dict_keys ?d) \<union> ds_broker ` set ms \<and>
       set (map snd u) \<subseteq> set (map snd ?d) \<union> set ms \<and> (\<forall>(b, s) \<in> set u. b = ds_broker s)"
    by (intro Cons.IH)
  let ?u = "fold (\<lambda>s. dict_set (ds_broker s) s) ms ?d"
  have "set (map snd ?d) \<subseteq> insert s (set (map snd d))" using sub by auto
  moreover have "set (map snd ?u) \<subseteq> set (map snd ?d) \<union> set ms" using ih by (simp only: Let_def)
  ultimately have "set (map snd ?u) \<subseteq> set (map snd d) \<union> set (s # ms)"
    unfolding list.set(2) by blast
  moreover have "set (dict_keys ?u) = set (dict_keys d) \<union> ds_broker ` set (s # ms)"
    using ih by (simp only: Let_def dict_keys_set) auto
  ultimately show ?case using ih unfolding Let_def fold_simps o_def by blast
qed

lemma unique_matches_spec:
  "distinct (dict_keys (unique_matches ms))"
  "set (dict_keys (unique_matches ms)) = ds_broker ` set (filter (\<lambda>s. ds_broker s \<noteq> []) ms)"
  "(b, s) \<in> set (unique_matches ms) \<Longrightarrow> s \<in> set ms \<and> b = ds_broker s"
  using unique_matches_inv [of "[]" "filter (\<lambda>s. ds_broker s \<noteq> []) ms"]
  unfolding unique_matches_def by (auto simp: Let_def)

text \<open>The broker symbols that a target matches.\<close>

definition broker_names :: "discovered_symbol list \<Rightarrow> symbol_target \<Rightarrow> string set" where
  "broker_names ds t = ds_broker ` {s \<in> set ds. matching_symbol t s}"

lemma resolve_target_spec:
  "(\<exists>r. resolve_target now (symbol_lookup ds) t = Inr r \<and> rs_broker r = b \<and> rs_logical r = st_logical t) \<longleftrightarrow>
     broker_names ds t = {b}"
  "resolve_target now (symbol_lookup ds) t = Inl q \<Longrightarrow> qi_symbol q = st_logical t"
proof -
  define u where "u = unique_matches (symbol_matches (symbol_lookup ds) t)"
  have keys: "distinct (dict_keys u)" "set (dict_keys u) = broker_names ds t"
    unfolding u_def broker_names_def unique_matches_spec(2) symbol_matches_set by (rule unique_matches_spec(1), rule refl)
  have own: "(k, s) \<in> set u \<Longrightarrow> k = ds_broker s" for k s unfolding u_def using unique_matches_spec(3) by blast
  show "(\<exists>r. resolve_target now (symbol_lookup ds) t = Inr r \<and> rs_broker r = b \<and> rs_logical r = st_logical t) \<longleftrightarrow>
     broker_names ds t = {b}"
  proof (cases u)
    case Nil
    with keys show ?thesis by (simp add: resolve_target_def u_def [symmetric])
  next
    case (Cons p ps)
    obtain k s where p: "p = (k, s)" by (cases p)
    have k: "k = ds_broker s" using own Cons p by simp
    show ?thesis
    proof (cases ps)
      case Nil
      with keys Cons p k show ?thesis by (auto simp: resolve_target_def u_def [symmetric])
    next
      case (Cons p' ps')
      with \<open>u = p # ps\<close> p keys have "broker_names ds t \<noteq> {b}" by (cases p') auto
      with \<open>u = p # ps\<close> p Cons show ?thesis by (simp add: resolve_target_def u_def [symmetric])
    qed
  qed
  show "resolve_target now (symbol_lookup ds) t = Inl q \<Longrightarrow> qi_symbol q = st_logical t"
    by (auto simp: resolve_target_def mapping_incident_def split: list.splits)
qed

text \<open>
  A target is resolved exactly when the discovered symbols that match its name or an alias, up
  to case and punctuation and by name or description, have one broker name between them, and then to
  that name; each of the other targets has one incident, in the order of the configuration.
\<close>

theorem resolve_symbols_spec:
  "map (\<lambda>r. (rs_logical r, {rs_broker r})) (fst (resolve_symbols now targets ds)) =
     map (\<lambda>t. (st_logical t, broker_names ds t)) (filter (\<lambda>t. is_singleton (broker_names ds t)) targets) \<and>
   map qi_symbol (snd (resolve_symbols now targets ds)) =
     map st_logical (filter (\<lambda>t. \<not> is_singleton (broker_names ds t)) targets)"
  unfolding resolve_symbols_def
proof (induction targets)
  case Nil
  show ?case by simp
next
  case (Cons t ts)
  show ?case
  proof (cases "resolve_target now (symbol_lookup ds) t")
    case (Inl q)
    then have "\<not> is_singleton (broker_names ds t)"
      using resolve_target_spec(1) [of now ds t] by (auto simp: is_singleton_def)
    with Inl Cons.IH resolve_target_spec(2) [OF Inl] show ?thesis by (simp add: case_prod_beta)
  next
    case (Inr r)
    then have "rs_logical r = st_logical t" by (auto simp: resolve_target_def split: list.splits)
    with Inr have "broker_names ds t = {rs_broker r}" using resolve_target_spec(1) [of now ds t "rs_broker r"] by auto
    with Inr Cons.IH \<open>rs_logical r = st_logical t\<close> show ?thesis by (simp add: case_prod_beta)
  qed
qed

end
