(* ===== verification/Parquet.thy ===== *)
theory Parquet
  imports Terminal
begin

text \<open>
  \<open>storage/parquet_store.py\<close>: the records of a batch are grouped by symbol, timeframe and date, and
  each group is written to a file of its own, named after what it holds. The table itself
  (\<open>pyarrow\<close>) and the replacement of the file are \<open>te_write_table\<close>; the date of a time is the first ten
  characters of its text.
\<close>

definition partition_date :: "py_env \<Rightarrow> int \<Rightarrow> string" where
  "partition_date E t = take 10 (iso_text E t)"

definition dumps_style :: dump_style where
  "dumps_style = \<lparr>item_sep = '', '', key_sep = '': '', allow_nan = True\<rparr>"

definition parquet_file_name ::
  "py_env \<Rightarrow> string \<Rightarrow> string \<Rightarrow> string option \<Rightarrow> string \<Rightarrow> string \<Rightarrow> string \<Rightarrow> nat \<Rightarrow> py_exn + string" where
  "parquet_file_name E dataset symbol tf date first_id last_id n_rows =
     (let tf_value = (case tf of None \<Rightarrow> ''tick'' | Some t \<Rightarrow> t)
      in bind_res (json_exn (json_dumps E dumps_style
           (JList [JStr dataset, JStr symbol, JStr tf_value, JStr date, JStr first_id, JStr last_id, JInt (int n_rows)])))
         (\<lambda>payload.
           Inr (dataset @ ''-'' @ symbol @ ''-'' @ tf_value @ ''-'' @ date @ ''-'' @ nat_str n_rows @ ''-'' @
                take 16 (sha256_hex E payload) @ ''.parquet'')))"

text \<open>The \<open>defaultdict(list)\<close> of a loop over the records.\<close>

definition grouped :: "('r \<Rightarrow> 'k) \<Rightarrow> 'r list \<Rightarrow> ('k, 'r list) dict" where
  "grouped key rs = fold (\<lambda>r. dict_append (key r) r) rs []"

definition tick_partition :: "py_env \<Rightarrow> tick_record \<Rightarrow> string \<times> string" where
  "tick_partition E r = (tick_symbol r, partition_date E (tick_time r))"

definition bar_partition :: "py_env \<Rightarrow> bar_record \<Rightarrow> string \<times> string \<times> string" where
  "bar_partition E r = (bar_symbol r, bar_timeframe r, partition_date E (bar_open_time r))"

definition write_tick_group ::
  "py_env \<Rightarrow> 'w terminal \<Rightarrow> string \<Rightarrow> bool \<Rightarrow> (string \<times> string) \<times> tick_record list \<Rightarrow> ('w, string) act" where
  "write_tick_group E T base dry = (\<lambda>((symbol, date), batch).
     bind_act (of_res (parquet_file_name E ''ticks'' symbol None date
       (tick_sequence (hd batch)) (tick_sequence (last batch)) (length batch))) (\<lambda>name.
     let path = base @ ''/ticks/symbol='' @ symbol @ ''/date='' @ date @ ''/'' @ name
     in bind_act (if dry then ret () else te_write_table T path (map (tick_json E) batch)) (\<lambda>_. ret path)))"

definition write_ticks ::
  "py_env \<Rightarrow> 'w terminal \<Rightarrow> string \<Rightarrow> bool \<Rightarrow> tick_record list \<Rightarrow> ('w, string list) act" where
  "write_ticks E T base dry rs = map_act (write_tick_group E T base dry) (grouped (tick_partition E) rs)"

definition write_bar_group ::
  "py_env \<Rightarrow> 'w terminal \<Rightarrow> string \<Rightarrow> bool \<Rightarrow> (string \<times> string \<times> string) \<times> bar_record list \<Rightarrow> ('w, string) act" where
  "write_bar_group E T base dry = (\<lambda>((symbol, tf, date), batch).
     bind_act (of_res (ensure_timeframe tf)) (\<lambda>_.
     bind_act (of_res (parquet_file_name E ''bars'' symbol (Some tf) date
       (bar_id (hd batch)) (bar_id (last batch)) (length batch))) (\<lambda>name.
     let path = base @ ''/bars/symbol='' @ symbol @ ''/timeframe='' @ tf @ ''/date='' @ date @ ''/'' @ name
     in bind_act (if dry then ret () else te_write_table T path (map (bar_json E) batch)) (\<lambda>_. ret path))))"

definition write_bars ::
  "py_env \<Rightarrow> 'w terminal \<Rightarrow> string \<Rightarrow> bool \<Rightarrow> bar_record list \<Rightarrow> ('w, string list) act" where
  "write_bars E T base dry rs = map_act (write_bar_group E T base dry) (grouped (bar_partition E) rs)"

section \<open>Every record is in one group\<close>

lemma dict_append_map:
  "distinct ks \<Longrightarrow>
   dict_append k r (map (\<lambda>k. (k, f k)) ks) =
     map (\<lambda>j. (j, if j = k then (if k \<in> set ks then f k else []) @ [r] else f j))
       (if k \<in> set ks then ks else ks @ [k])"
proof (induction ks)
  case Nil
  show ?case by (simp add: dict_append_def dict_get_or_def)
next
  case (Cons j ks)
  show ?case
  proof (cases "j = k")
    case True
    with Cons.prems show ?thesis by (auto simp: dict_append_def dict_get_or_def)
  next
    case False
    then have "dict_append k r (map (\<lambda>k. (k, f k)) (j # ks)) = (j, f j) # dict_append k r (map (\<lambda>k. (k, f k)) ks)"
      by (simp add: dict_append_def dict_get_or_def)
    with Cons False show ?thesis by auto
  qed
qed

text \<open>The keys in the order of their first record, each with its records in order.\<close>

lemma grouped_eq:
  "grouped key rs = map (\<lambda>k. (k, filter (\<lambda>r. key r = k) rs)) (rev (remdups (rev (map key rs))))"
proof (induction rs rule: rev_induct)
  case Nil
  show ?case by (simp add: grouped_def)
next
  case (snoc r rs)
  let ?ks = "rev (remdups (rev (map key rs)))"
  have "grouped key (rs @ [r]) = dict_append (key r) r (map (\<lambda>k. (k, filter (\<lambda>r. key r = k) rs)) ?ks)"
    using snoc by (simp add: grouped_def)
  also have "\<dots> = map (\<lambda>j. (j, if j = key r then (if key r \<in> set ?ks then filter (\<lambda>q. key q = key r) rs else []) @ [r]
        else filter (\<lambda>q. key q = j) rs)) (if key r \<in> set ?ks then ?ks else ?ks @ [key r])"
    by (rule dict_append_map) simp
  also have "\<dots> = map (\<lambda>k. (k, filter (\<lambda>q. key q = k) (rs @ [r]))) (rev (remdups (rev (map key (rs @ [r])))))"
    by (auto simp: filter_empty_conv image_iff)
  finally show ?case .
qed

text \<open>
  Writing ticks or bars makes one file for each symbol, timeframe and date among the records,
  with all the records of that partition, in the order of the batch; no record is left out and none
  is written twice.
\<close>

theorem records_partitioned:
  "(\<exists>ks. distinct ks \<and> set ks = bar_partition E ` set bars \<and>
      write_bars E T base dry bars = map_act (write_bar_group E T base dry)
        (map (\<lambda>k. (k, filter (\<lambda>r. bar_partition E r = k) bars)) ks)) \<and>
   (\<exists>ks. distinct ks \<and> set ks = tick_partition E ` set ticks \<and>
      write_ticks E T base dry ticks = map_act (write_tick_group E T base dry)
        (map (\<lambda>k. (k, filter (\<lambda>r. tick_partition E r = k) ticks)) ks))"
  unfolding write_bars_def write_ticks_def grouped_eq
  by (intro conjI exI [of _ "rev (remdups (rev (map (bar_partition E) bars)))"]
      exI [of _ "rev (remdups (rev (map (tick_partition E) ticks)))"]) simp_all

end
