(* ===== verification/StateStore.thy ===== *)
theory StateStore
  imports Quality Sql HashChain
begin

text \<open>
  \<open>storage/sqlite_state.py\<close>: the tables of the market data collector. A table is the list of its
  rows, a payload column holds what \<open>json.loads\<close> reads from it. Every write is an upsert on the
  primary key, so each table is a map from keys to rows; the refinement theorem says which.
\<close>

section \<open>Tables\<close>

record cursor_row =
  cu_key :: "string \<times> string \<times> string"
  cu_time :: string
  cu_marker :: string
  cu_updated :: string

record mapping_row =
  ma_symbol :: string
  ma_broker :: string
  ma_aliases :: "string list"
  ma_description :: string
  ma_point :: pyfloat
  ma_digits :: int
  ma_visible :: bool
  ma_updated :: string

record latest_tick_row =
  lt_symbol :: string
  lt_payload :: json

record latest_bar_row =
  lb_key :: "string \<times> string \<times> string"
  lb_payload :: json

record incident_row =
  in_key :: string
  in_kind :: string
  in_symbol :: string
  in_timeframe :: "string option"
  in_detail :: string
  in_first :: string
  in_last :: string
  in_hits :: int
  in_payload :: json

record heartbeat_row =
  he_id :: nat
  he_collector :: string
  he_status :: string
  he_detail :: json
  he_at :: string

record backfill_row =
  bf_key :: string
  bf_symbol :: string
  bf_timeframe :: string
  bf_start :: string
  bf_end :: string
  bf_next :: string
  bf_status :: string
  bf_error :: "string option"
  bf_updated :: string

record state_store =
  ss_mappings :: "mapping_row list"
  ss_cursors :: "cursor_row list"
  ss_ticks :: "latest_tick_row list"
  ss_bars :: "latest_bar_row list"
  ss_incidents :: "incident_row list"
  ss_heartbeats :: "heartbeat_row list"
  ss_backfills :: "backfill_row list"
  ss_migrations :: "string list"

record cursor_state =
  cs_key :: "string \<times> string \<times> string"
  cs_time :: int
  cs_marker :: string

record backfill_state =
  bs_key :: string
  bs_symbol :: string
  bs_timeframe :: string
  bs_start :: int
  bs_end :: int
  bs_next :: int
  bs_status :: string
  bs_error :: "string option"

section \<open>Migrations\<close>

definition migrations :: "string list" where
  "migrations = [''001_market_data_foundation'']"

text \<open>The tables that a migration makes are empty, or there already.\<close>

definition apply_migrations :: "state_store \<Rightarrow> state_store" where
  "apply_migrations S =
     S\<lparr>ss_migrations := ss_migrations S @ filter (\<lambda>v. v \<notin> set (ss_migrations S)) migrations\<rparr>"

definition empty_store :: state_store where
  "empty_store =
     \<lparr>ss_mappings = [], ss_cursors = [], ss_ticks = [], ss_bars = [], ss_incidents = [],
      ss_heartbeats = [], ss_backfills = [], ss_migrations = []\<rparr>"

section \<open>Reading\<close>

text \<open>\<open>from_iso_z\<close>\<close>

definition from_iso_z :: "py_env \<Rightarrow> string \<Rightarrow> py_exn + int" where
  "from_iso_z E s =
     (case iso_parse E s of None \<Rightarrow> Inl (ValueError ''Invalid isoformat string'') | Some t \<Rightarrow> Inr t)"

definition get_cursor ::
  "py_env \<Rightarrow> string \<times> string \<times> string \<Rightarrow> state_store \<Rightarrow> py_exn + cursor_state option" where
  "get_cursor E k S =
     (case find (\<lambda>r. cu_key r = k) (ss_cursors S) of
        None \<Rightarrow> Inr None
      | Some r \<Rightarrow> bind_res (from_iso_z E (cu_time r)) (\<lambda>t.
          Inr (Some \<lparr>cs_key = cu_key r, cs_time = t, cs_marker = cu_marker r\<rparr>)))"

text \<open>\<open>float(v)\<close> and \<open>int(v)\<close> of a loaded value.\<close>

definition json_float :: "market_env \<Rightarrow> json \<Rightarrow> py_exn + pyfloat" where
  "json_float K v =
     (case v of
        JStr s \<Rightarrow> mk_float_of_text K s
      | _ \<Rightarrow> (case num_of v of Some x \<Rightarrow> Inr x | None \<Rightarrow> Inl TypeError))"

definition json_int :: "market_env \<Rightarrow> json \<Rightarrow> py_exn + int" where
  "json_int K v =
     (case v of
        JInt i \<Rightarrow> Inr i
      | JBool b \<Rightarrow> Inr (if b then 1 else 0)
      | JFloat x \<Rightarrow> mk_int_of_float K x
      | JStr s \<Rightarrow> mk_int_of_text K s
      | _ \<Rightarrow> Inl TypeError)"

definition optional :: "json \<Rightarrow> (json \<Rightarrow> py_exn + 'a) \<Rightarrow> py_exn + 'a option" where
  "optional v f = (if v = JNull then Inr None else bind_res (f v) (\<lambda>x. Inr (Some x)))"

definition bar_from_json :: "market_env \<Rightarrow> json \<Rightarrow> py_exn + bar_record" where
  "bar_from_json K v =
     (let E = mk_platform K;
          text = (\<lambda>k. bind_res (json_item v k) (\<lambda>x. Inr (py_str E x)));
          time = (\<lambda>x. from_iso_z E (py_str E x));
          default = (\<lambda>k d. case v of JObj m \<Rightarrow> dict_get_or m k d | _ \<Rightarrow> d)
      in bind_res (text ''schema_version'') (\<lambda>schema.
         bind_res (text ''collector_version'') (\<lambda>collector.
         bind_res (text ''logical_symbol'') (\<lambda>symbol.
         bind_res (text ''broker_symbol'') (\<lambda>broker.
         bind_res (text ''timeframe'') (\<lambda>tf.
         bind_res (bind_res (json_item v ''open_time_utc'') time) (\<lambda>open_time.
         bind_res (bind_res (json_item v ''close_time_utc'') time) (\<lambda>close_time.
         bind_res (bind_res (json_item v ''open'') (json_float K)) (\<lambda>op.
         bind_res (bind_res (json_item v ''high'') (json_float K)) (\<lambda>hi.
         bind_res (bind_res (json_item v ''low'') (json_float K)) (\<lambda>lo.
         bind_res (bind_res (json_item v ''close'') (json_float K)) (\<lambda>cl.
         bind_res (bind_res (json_item v ''tick_volume'') (json_int K)) (\<lambda>ticks.
         bind_res (bind_res (json_item v ''real_volume'') (json_int K)) (\<lambda>rvol.
         bind_res (bind_res (json_item v ''spread'') (json_int K)) (\<lambda>spread.
         bind_res (json_item v ''is_closed'') (\<lambda>closed.
         bind_res (text ''bar_id'') (\<lambda>bid.
         bind_res (text ''data_quality'') (\<lambda>quality.
         bind_res (bind_res (json_item v ''quality_flags'') (\<lambda>fs.
           case fs of
             JList xs \<Rightarrow> Inr (map (py_str E) xs)
           | JStr s \<Rightarrow> Inr (map (\<lambda>c. [c]) s)
           | JObj m \<Rightarrow> Inr (map fst m)
           | _ \<Rightarrow> Inl TypeError)) (\<lambda>flags.
         bind_res (optional (default ''fetched_at_utc'' JNull) time) (\<lambda>fetched.
         bind_res (optional (default ''formula_version'' JNull) (\<lambda>x. Inr (py_str E x))) (\<lambda>formula.
           let rclass = py_str E (default ''realtime_class'' (JStr ''UNKNOWN''))
           in if rclass \<notin> {''REALTIME'', ''DELAYED_15MIN'', ''DAILY_MACRO'', ''COMPUTED'', ''STALE'', ''UNKNOWN''}
              then Inl (ValueError (''invalid realtime_class: '' @ rclass))
              else if rclass = ''COMPUTED'' \<and> \<not> truthy formula
              then Inl (ValueError ''COMPUTED market data requires formula_version'')
              else Inr
                \<lparr>bar_schema = schema, bar_collector = collector, bar_symbol = symbol, bar_broker = broker,
                 bar_timeframe = tf, bar_open_time = open_time, bar_close_time = close_time,
                 bar_open = op, bar_high = hi, bar_low = lo, bar_close = cl, bar_tick_volume = ticks,
                 bar_real_volume = rvol, bar_spread = spread, bar_closed = json_truthy closed,
                 bar_id = bid, bar_quality = quality, bar_quality_flags = flags,
                 bar_source = py_str E (default ''source'' (JStr ''UNKNOWN'')),
                 bar_source_system = py_str E (default ''source_system'' (JStr ''UNKNOWN'')),
                 bar_fetched = fetched, bar_class = rclass, bar_formula = formula\<rparr>)))))))))))))))))))))"

definition get_latest_closed_bar ::
  "market_env \<Rightarrow> string \<Rightarrow> string \<Rightarrow> state_store \<Rightarrow> py_exn + bar_record option" where
  "get_latest_closed_bar K symbol tf S =
     (case find (\<lambda>r. lb_key r = (symbol, tf, ''closed'')) (ss_bars S) of
        None \<Rightarrow> Inr None
      | Some r \<Rightarrow> bind_res (bar_from_json K (lb_payload r)) (\<lambda>b. Inr (Some b)))"

definition get_backfill_state :: "py_env \<Rightarrow> string \<Rightarrow> state_store \<Rightarrow> py_exn + backfill_state option" where
  "get_backfill_state E k S =
     (case find (\<lambda>r. bf_key r = k) (ss_backfills S) of
        None \<Rightarrow> Inr None
      | Some r \<Rightarrow>
          bind_res (from_iso_z E (bf_start r)) (\<lambda>start_at.
          bind_res (from_iso_z E (bf_end r)) (\<lambda>end_at.
          bind_res (from_iso_z E (bf_next r)) (\<lambda>next_at.
            Inr (Some \<lparr>bs_key = bf_key r, bs_symbol = bf_symbol r, bs_timeframe = bf_timeframe r,
                      bs_start = start_at, bs_end = end_at, bs_next = next_at,
                      bs_status = bf_status r, bs_error = bf_error r\<rparr>)))))"

section \<open>Writing\<close>

definition advance_cursor ::
  "string \<times> string \<times> string \<Rightarrow> string \<Rightarrow> string \<Rightarrow> state_store \<Rightarrow> state_store" where
  "advance_cursor k at_time marker S =
     S\<lparr>ss_cursors := sql_upsert cu_key
         (\<lambda>old new. old\<lparr>cu_time := cu_time new, cu_marker := cu_marker new, cu_updated := cu_updated new\<rparr>)
         \<lparr>cu_key = k, cu_time = at_time, cu_marker = marker, cu_updated = at_time\<rparr> (ss_cursors S)\<rparr>"

definition record_symbol_mapping :: "mapping_row \<Rightarrow> state_store \<Rightarrow> state_store" where
  "record_symbol_mapping row S =
     S\<lparr>ss_mappings := sql_upsert ma_symbol
         (\<lambda>old new. old\<lparr>ma_broker := ma_broker new, ma_aliases := ma_aliases new,
            ma_description := ma_description new, ma_point := ma_point new, ma_digits := ma_digits new,
            ma_visible := ma_visible new, ma_updated := ma_updated new\<rparr>) row (ss_mappings S)\<rparr>"

definition upsert_latest_tick :: "py_env \<Rightarrow> tick_record \<Rightarrow> state_store \<Rightarrow> state_store" where
  "upsert_latest_tick E r S =
     S\<lparr>ss_ticks := sql_upsert lt_symbol (\<lambda>old new. old\<lparr>lt_payload := lt_payload new\<rparr>)
         \<lparr>lt_symbol = tick_symbol r, lt_payload = json_norm (tick_json E r)\<rparr> (ss_ticks S)\<rparr>"

definition upsert_latest_bar :: "py_env \<Rightarrow> bar_record \<Rightarrow> string \<Rightarrow> state_store \<Rightarrow> state_store" where
  "upsert_latest_bar E r kind S =
     S\<lparr>ss_bars := sql_upsert lb_key (\<lambda>old new. old\<lparr>lb_payload := lb_payload new\<rparr>)
         \<lparr>lb_key = (bar_symbol r, bar_timeframe r, kind), lb_payload = json_norm (bar_json E r)\<rparr> (ss_bars S)\<rparr>"

definition incident_merge :: "incident_row \<Rightarrow> incident_row \<Rightarrow> incident_row" where
  "incident_merge old new =
     old\<lparr>in_last := in_last new, in_hits := in_hits old + 1, in_payload := in_payload new\<rparr>"

definition incident_row_of :: "py_env \<Rightarrow> quality_incident \<Rightarrow> incident_row" where
  "incident_row_of E q =
     \<lparr>in_key = qi_key q, in_kind = qi_kind q, in_symbol = qi_symbol q, in_timeframe = qi_timeframe q,
      in_detail = qi_detail q, in_first = iso_text E (qi_observed q), in_last = iso_text E (qi_observed q),
      in_hits = 1, in_payload = json_norm (incident_json E q)\<rparr>"

definition record_incidents :: "py_env \<Rightarrow> quality_incident list \<Rightarrow> state_store \<Rightarrow> state_store" where
  "record_incidents E qs S =
     S\<lparr>ss_incidents := fold (\<lambda>q. sql_upsert in_key incident_merge (incident_row_of E q)) qs (ss_incidents S)\<rparr>"

text \<open>\<open>INTEGER PRIMARY KEY AUTOINCREMENT\<close>: rows are never deleted.\<close>

definition record_heartbeat :: "string \<Rightarrow> string \<Rightarrow> json \<Rightarrow> string \<Rightarrow> state_store \<Rightarrow> state_store" where
  "record_heartbeat collector status detail at_time S =
     S\<lparr>ss_heartbeats := ss_heartbeats S @
         [\<lparr>he_id = Suc (length (ss_heartbeats S)), he_collector = collector, he_status = status,
           he_detail = json_norm detail, he_at = at_time\<rparr>]\<rparr>"

definition backfill_merge :: "backfill_row \<Rightarrow> backfill_row \<Rightarrow> backfill_row" where
  "backfill_merge old new =
     old\<lparr>bf_next := bf_next new, bf_status := bf_status new, bf_error := bf_error new,
         bf_updated := bf_updated new\<rparr>"

definition upsert_backfill_state :: "py_env \<Rightarrow> backfill_state \<Rightarrow> string \<Rightarrow> state_store \<Rightarrow> state_store" where
  "upsert_backfill_state E b updated S =
     S\<lparr>ss_backfills := sql_upsert bf_key backfill_merge
         \<lparr>bf_key = bs_key b, bf_symbol = bs_symbol b, bf_timeframe = bs_timeframe b,
          bf_start = iso_text E (bs_start b), bf_end = iso_text E (bs_end b),
          bf_next = iso_text E (bs_next b), bf_status = bs_status b, bf_error = bs_error b,
          bf_updated = updated\<rparr> (ss_backfills S)\<rparr>"

section \<open>The stored snapshot\<close>

definition of_symbol :: "string option \<Rightarrow> ('r \<Rightarrow> string) \<Rightarrow> 'r list \<Rightarrow> 'r list" where
  "of_symbol symbol f rows = (case symbol of None \<Rightarrow> rows | Some s \<Rightarrow> filter (\<lambda>r. f r = s) rows)"

definition mapping_json :: "mapping_row \<Rightarrow> json" where
  "mapping_json r =
     JObj [(''logical_symbol'', JStr (ma_symbol r)), (''broker_symbol'', JStr (ma_broker r)),
           (''aliases'', JList (map JStr (ma_aliases r))), (''description'', JStr (ma_description r)),
           (''point'', JFloat (ma_point r)), (''digits'', JInt (ma_digits r)),
           (''visible'', JBool (ma_visible r)), (''updated_at_utc'', JStr (ma_updated r))]"

definition with_hits :: "incident_row \<Rightarrow> json" where
  "with_hits r =
     (case in_payload r of JObj m \<Rightarrow> JObj (dict_set ''hit_count'' (JInt (in_hits r)) m) | v \<Rightarrow> v)"

definition heartbeat_json :: "heartbeat_row list \<Rightarrow> json" where
  "heartbeat_json rows =
     (if rows = [] then JNull
      else
        (let r = last (sort_key he_id rows)
         in JObj [(''collector_name'', JStr (he_collector r)), (''status'', JStr (he_status r)),
                  (''detail'', he_detail r), (''observed_at_utc'', JStr (he_at r))]))"

definition stored_snapshot :: "string option \<Rightarrow> state_store \<Rightarrow> (string, json) dict" where
  "stored_snapshot symbol S =
     [(''symbols'', JList (map mapping_json (sort_key ma_symbol (of_symbol symbol ma_symbol (ss_mappings S))))),
      (''ticks'', JList (map lt_payload (sort_key lt_symbol (of_symbol symbol lt_symbol (ss_ticks S))))),
      (''bars'', JList (map lb_payload (sort_key lb_key (of_symbol symbol (\<lambda>r. fst (lb_key r)) (ss_bars S))))),
      (''quality_incidents'', JList (map with_hits (take 50 (rev (sort_key in_last (ss_incidents S)))))),
      (''heartbeat'', heartbeat_json (ss_heartbeats S))]"

section \<open>The tables are maps\<close>

interpretation cursors: keyed_table cu_key
  "\<lambda>old new. old\<lparr>cu_time := cu_time new, cu_marker := cu_marker new, cu_updated := cu_updated new\<rparr>"
  by unfold_locales simp

interpretation mappings: keyed_table ma_symbol
  "\<lambda>old new. old\<lparr>ma_broker := ma_broker new, ma_aliases := ma_aliases new,
     ma_description := ma_description new, ma_point := ma_point new, ma_digits := ma_digits new,
     ma_visible := ma_visible new, ma_updated := ma_updated new\<rparr>"
  by unfold_locales simp

interpretation ticks: keyed_table lt_symbol "\<lambda>old new. old\<lparr>lt_payload := lt_payload new\<rparr>"
  by unfold_locales simp

interpretation bars: keyed_table lb_key "\<lambda>old new. old\<lparr>lb_payload := lb_payload new\<rparr>"
  by unfold_locales simp

interpretation incidents: keyed_table in_key incident_merge
  by unfold_locales (simp add: incident_merge_def)

interpretation backfills: keyed_table bf_key backfill_merge
  by unfold_locales (simp add: backfill_merge_def)

text \<open>The abstract store: one map for each table.\<close>

record store_maps =
  sm_cursors :: "string \<times> string \<times> string \<rightharpoonup> string \<times> string"
  sm_mappings :: "string \<rightharpoonup> mapping_row"
  sm_ticks :: "string \<rightharpoonup> json"
  sm_bars :: "string \<times> string \<times> string \<rightharpoonup> json"
  sm_incidents :: "string \<rightharpoonup> int \<times> string \<times> json"
  sm_backfills :: "string \<rightharpoonup> (string \<times> string) \<times> string \<times> string \<times> string option"

definition lookup_row :: "('r \<Rightarrow> 'k) \<Rightarrow> ('r \<Rightarrow> 'v) \<Rightarrow> 'r list \<Rightarrow> 'k \<rightharpoonup> 'v" where
  "lookup_row key val rows = (\<lambda>k. map_option val (find (\<lambda>r. key r = k) rows))"

definition maps_of :: "state_store \<Rightarrow> store_maps" where
  "maps_of S =
     \<lparr>sm_cursors = lookup_row cu_key (\<lambda>r. (cu_time r, cu_marker r)) (ss_cursors S),
      sm_mappings = lookup_row ma_symbol id (ss_mappings S),
      sm_ticks = lookup_row lt_symbol lt_payload (ss_ticks S),
      sm_bars = lookup_row lb_key lb_payload (ss_bars S),
      sm_incidents = lookup_row in_key (\<lambda>r. (in_hits r, in_first r, in_payload r)) (ss_incidents S),
      sm_backfills = lookup_row bf_key (\<lambda>r. ((bf_start r, bf_end r), bf_next r, bf_status r, bf_error r))
        (ss_backfills S)\<rparr>"


section \<open>A stored bar is read back\<close>

definition storable_bar :: "py_env \<Rightarrow> bar_record \<Rightarrow> bool" where
  "storable_bar E r \<longleftrightarrow>
     (\<forall>t. t = bar_open_time r \<or> t = bar_close_time r \<or> bar_fetched r = Some t \<longrightarrow>
        iso_parse E (iso_text E t) = Some t) \<and>
     bar_class r \<in> {''REALTIME'', ''DELAYED_15MIN'', ''DAILY_MACRO'', ''COMPUTED'', ''STALE'', ''UNKNOWN''} \<and>
     (bar_class r = ''COMPUTED'' \<longrightarrow> truthy (bar_formula r))"

lemma json_norm_texts: "json_norm_list (map JStr xs) = map JStr xs"
  by (induction xs) simp_all

lemma map_py_str: "map (py_str E) (map JStr xs) = xs"
  by (induction xs) simp_all

lemma json_norm_opt:
  "json_norm (opt_json (time_json E) t) = opt_json (time_json E) t"
  "json_norm (opt_json JStr u) = opt_json JStr u"
  by (simp_all add: opt_json_def time_json_def split: option.split)

definition bar_members :: "py_env \<Rightarrow> bar_record \<Rightarrow> (string, json) dict" where
  "bar_members E r = (case bar_json E r of JObj m \<Rightarrow> m | _ \<Rightarrow> [])"

lemma bar_member:
  "map_of (bar_members E r) ''schema_version'' = Some (JStr (bar_schema r))"
  "map_of (bar_members E r) ''collector_version'' = Some (JStr (bar_collector r))"
  "map_of (bar_members E r) ''logical_symbol'' = Some (JStr (bar_symbol r))"
  "map_of (bar_members E r) ''broker_symbol'' = Some (JStr (bar_broker r))"
  "map_of (bar_members E r) ''timeframe'' = Some (JStr (bar_timeframe r))"
  "map_of (bar_members E r) ''open_time_utc'' = Some (JStr (iso_text E (bar_open_time r)))"
  "map_of (bar_members E r) ''close_time_utc'' = Some (JStr (iso_text E (bar_close_time r)))"
  "map_of (bar_members E r) ''open'' = Some (JFloat (bar_open r))"
  "map_of (bar_members E r) ''high'' = Some (JFloat (bar_high r))"
  "map_of (bar_members E r) ''low'' = Some (JFloat (bar_low r))"
  "map_of (bar_members E r) ''close'' = Some (JFloat (bar_close r))"
  "map_of (bar_members E r) ''tick_volume'' = Some (JInt (bar_tick_volume r))"
  "map_of (bar_members E r) ''real_volume'' = Some (JInt (bar_real_volume r))"
  "map_of (bar_members E r) ''spread'' = Some (JInt (bar_spread r))"
  "map_of (bar_members E r) ''is_closed'' = Some (JBool (bar_closed r))"
  "map_of (bar_members E r) ''bar_id'' = Some (JStr (bar_id r))"
  "map_of (bar_members E r) ''data_quality'' = Some (JStr (bar_quality r))"
  "map_of (bar_members E r) ''quality_flags'' = Some (JList (map JStr (bar_quality_flags r)))"
  "map_of (bar_members E r) ''source'' = Some (JStr (bar_source r))"
  "map_of (bar_members E r) ''source_system'' = Some (JStr (bar_source_system r))"
  "map_of (bar_members E r) ''fetched_at_utc'' = Some (opt_json (time_json E) (bar_fetched r))"
  "map_of (bar_members E r) ''realtime_class'' = Some (JStr (bar_class r))"
  "map_of (bar_members E r) ''formula_version'' = Some (opt_json JStr (bar_formula r))"
  by (simp_all add: bar_members_def bar_json_def time_json_def)

lemma bar_from_json_norm:
  assumes "storable_bar (mk_platform K) r"
  shows "bar_from_json K (json_norm (bar_json (mk_platform K) r)) = Inr r"
proof -
  let ?E = "mk_platform K"
  let ?m = "bar_members ?E r"
  have obj: "bar_json ?E r = JObj ?m" by (simp add: bar_members_def bar_json_def)
  have d: "distinct (map fst ?m)" by (simp add: bar_members_def bar_json_def)
  define n where "n = sort_key fst (json_norm_members ?m)"
  have norm: "json_norm (bar_json ?E r) = JObj n" by (simp add: obj n_def)
  have get: "map_of n k = map_option json_norm (map_of ?m k)" for k
    unfolding n_def by (rule map_of_norm [OF d])
  have item: "json_item (JObj n) k = Inr (json_norm w)" "dict_get_or n k u = json_norm w"
    if "map_of ?m k = Some w" for k w u
    using that by (simp_all add: json_item_def dict_get_or_def get)
  note items = bar_member [of ?E r, THEN item(1)] bar_member [of ?E r, THEN item(2)]
  have times: "from_iso_z ?E (iso_text ?E (bar_open_time r)) = Inr (bar_open_time r)"
    "from_iso_z ?E (iso_text ?E (bar_close_time r)) = Inr (bar_close_time r)"
    "bar_fetched r = Some t \<Longrightarrow> from_iso_z ?E (iso_text ?E t) = Inr t" for t
    using assms by (simp_all add: storable_bar_def from_iso_z_def)
  have fetched: "optional (opt_json (time_json ?E) (bar_fetched r)) (\<lambda>x. from_iso_z ?E (py_str ?E x)) = Inr (bar_fetched r)"
    using times(3) by (cases "bar_fetched r") (simp_all add: optional_def opt_json_def time_json_def)
  have formula: "optional (opt_json JStr (bar_formula r)) (\<lambda>x. Inr (py_str ?E x)) = Inr (bar_formula r)"
    by (cases "bar_formula r") (simp_all add: optional_def opt_json_def)
  have kind: "(bar_class r \<notin> {''REALTIME'', ''DELAYED_15MIN'', ''DAILY_MACRO'', ''COMPUTED'', ''STALE'', ''UNKNOWN''}) = False"
    "(bar_class r = ''COMPUTED'' \<and> \<not> truthy (bar_formula r)) = False"
    using assms by (simp_all add: storable_bar_def)
  have float: "json_float K (JFloat x) = Inr x" for x by (simp add: json_float_def)
  have int: "json_int K (JInt i) = Inr i" for i by (simp add: json_int_def)
  have str: "py_str ?E (JStr x) = x" for x by simp
  show ?thesis
    unfolding norm bar_from_json_def Let_def
    by (simp only: items bind_res_simps json_norm.simps json_norm_opt json_norm_texts map_py_str json.case str
        float int times fetched formula kind json_truthy.simps if_False)
      simp
qed

text \<open>
  The bar that was stored last as closed bar of a symbol and timeframe is the one that the store
  gives back, member by member, provided the platform reads back the texts it writes for its times;
  storing it leaves the closed bars of other symbols and timeframes, and every current bar, as they
  were.
\<close>

theorem closed_bar_roundtrip:
  assumes "storable_bar (mk_platform K) r"
  shows "get_latest_closed_bar K (bar_symbol r) (bar_timeframe r)
       (upsert_latest_bar (mk_platform K) r ''closed'' S) = Inr (Some r) \<and>
     ((symbol, tf) \<noteq> (bar_symbol r, bar_timeframe r) \<longrightarrow>
       get_latest_closed_bar K symbol tf (upsert_latest_bar (mk_platform K) r ''closed'' S) =
       get_latest_closed_bar K symbol tf S) \<and>
     get_latest_closed_bar K symbol tf (upsert_latest_bar (mk_platform K) r' ''current'' S) =
       get_latest_closed_bar K symbol tf S"
proof (intro conjI impI)
  show "get_latest_closed_bar K (bar_symbol r) (bar_timeframe r)
      (upsert_latest_bar (mk_platform K) r ''closed'' S) = Inr (Some r)"
    using bar_from_json_norm [OF assms]
    by (simp add: get_latest_closed_bar_def upsert_latest_bar_def bars.lookup_upsert split: option.split)
qed (auto simp: get_latest_closed_bar_def upsert_latest_bar_def bars.lookup_upsert split: option.splits)

text \<open>A platform that writes a time as that many strokes.\<close>

definition stroke_market :: market_env where
  "stroke_market = sample_market\<lparr>mk_platform :=
     (mk_platform sample_market)\<lparr>iso_text := (\<lambda>t. replicate (nat t) CHR ''i''),
        iso_parse := (\<lambda>s. Some (int (length s)))\<rparr>\<rparr>"

lemma closed_bar_roundtrip_witness:
  "get_latest_closed_bar stroke_market ''XAUUSD'' ''H1''
     (upsert_latest_bar (mk_platform stroke_market) (sample_bar 3600000000) ''closed'' empty_store) =
   Inr (Some (sample_bar 3600000000))"
proof -
  have "storable_bar (mk_platform stroke_market) (sample_bar 3600000000)"
    by (auto simp: storable_bar_def stroke_market_def sample_bar_def truthy_def)
  from closed_bar_roundtrip [OF this, where S = empty_store] show ?thesis
    by (simp add: sample_bar_def)
qed

end
