(* ===== verification/Collector.thy ===== *)
theory Collector
  imports Symbols Parquet StateStore
begin

text \<open>
  \<open>market_data/collector.py\<close> (\<open>MarketDataService\<close>): one cycle of collection and the backfill of a
  range. The service has the state store and the world of the terminal; a transaction is a function
  of the store that takes effect as a whole or, when it raises, not at all. What its body reads
  through a connection of its own is the store as it was before.
\<close>

section \<open>The state of the service\<close>

record 'w service =
  co_store :: state_store
  co_world :: 'w

definition outside :: "('w, 'a) act \<Rightarrow> ('w service, 'a) act" where
  "outside f = (\<lambda>C. let (r, w) = f (co_world C) in (r, C\<lparr>co_world := w\<rparr>))"

definition of_store :: "(state_store \<Rightarrow> py_exn + 'a) \<Rightarrow> ('w service, 'a) act" where
  "of_store f = (\<lambda>C. of_res (f (co_store C)) C)"

definition transaction :: "(state_store \<Rightarrow> py_exn + 'a \<times> state_store) \<Rightarrow> ('w service, 'a) act" where
  "transaction f = (\<lambda>C.
     case f (co_store C) of
       Inl e \<Rightarrow> (Inl (Escaped e), C)
     | Inr (x, S) \<Rightarrow> (Inr x, C\<lparr>co_store := S\<rparr>))"

section \<open>Loading\<close>

fun timeframe_minutes :: "timeframe \<Rightarrow> int" where
  "timeframe_minutes M1 = 1"
| "timeframe_minutes M5 = 5"
| "timeframe_minutes M15 = 15"
| "timeframe_minutes H1 = 60"
| "timeframe_minutes H4 = 240"
| "timeframe_minutes D1 = 1440"

definition load_ticks ::
  "market_env \<Rightarrow> 'w terminal \<Rightarrow> collector_settings \<Rightarrow> resolved_symbol \<Rightarrow> int \<Rightarrow> int \<Rightarrow>
   ('w, tick_record list \<times> quality_incident list) act" where
  "load_ticks K T cfg rsym start_at end_at =
     bind_act (retried T cfg (payload_or_disconnected T ''copy_ticks_range''
       (te_ticks_range T (rs_broker rsym) start_at end_at))) (\<lambda>rows.
     bind_act (reading (te_now T)) (\<lambda>now.
     bind_act (of_res (map_res
       (\<lambda>row. normalize_tick K (rs_logical rsym) (rs_broker rsym) row now (rs_point rsym)) rows)) (\<lambda>records.
     bind_act (retried T cfg (te_symbol_tick T (rs_broker rsym))) (\<lambda>latest.
     bind_act (reading (te_now T)) (\<lambda>now'.
     bind_act (of_res (case latest of
         None \<Rightarrow> Inr []
       | Some row \<Rightarrow> bind_res (normalize_tick K (rs_logical rsym) (rs_broker rsym) row now' (rs_point rsym)) (\<lambda>t. Inr [t])))
       (\<lambda>more. ret (normalize_tick_batch now' (records @ more))))))))"

definition load_bars ::
  "market_env \<Rightarrow> 'w terminal \<Rightarrow> collector_settings \<Rightarrow> resolved_symbol \<Rightarrow> timeframe \<Rightarrow> int \<Rightarrow> int \<Rightarrow> int \<Rightarrow>
   ('w, bar_record list) act" where
  "load_bars K T cfg rsym tf start_at end_at as_of =
     bind_act (retried T cfg (payload_or_disconnected T ''copy_rates_range''
       (te_rates_range T (rs_broker rsym) (timeframe_minutes tf) start_at end_at))) (\<lambda>rows.
     of_res (map_res (\<lambda>row. normalize_bar K (rs_logical rsym) (rs_broker rsym) tf row as_of) rows))"

section \<open>Committing\<close>

definition closed_mutations ::
  "market_env \<Rightarrow> int \<Rightarrow> (string \<times> string \<Rightarrow> string \<times> string) \<Rightarrow> bar_rows \<Rightarrow> state_store \<Rightarrow>
   py_exn + quality_incident list" where
  "closed_mutations K now at_key closed_rows S =
     bind_res (map_res (\<lambda>(k, r). bind_res (get_latest_closed_bar K (fst (at_key k)) (snd (at_key k)) S)
         (\<lambda>previous. Inr (detect_closed_bar_mutation now previous (Some r)))) closed_rows)
       (\<lambda>qss. Inr (concat qss))"

definition store_current ::
  "py_env \<Rightarrow> (string \<times> string \<Rightarrow> string \<times> string) \<Rightarrow> bar_rows \<Rightarrow> state_store \<Rightarrow> state_store" where
  "store_current E at_key current_rows =
     fold (\<lambda>(k, r) S. advance_cursor (''bars'', at_key k) (iso_text E (bar_open_time r)) (bar_id r)
       (upsert_latest_bar E r ''current'' S)) current_rows"

definition store_closed :: "py_env \<Rightarrow> bar_rows \<Rightarrow> state_store \<Rightarrow> state_store" where
  "store_closed E closed_rows = fold (\<lambda>(k, r). upsert_latest_bar E r ''closed'') closed_rows"

definition store_ticks :: "py_env \<Rightarrow> string \<Rightarrow> tick_record list \<Rightarrow> state_store \<Rightarrow> state_store" where
  "store_ticks E symbol ticks S =
     (let S' = fold (upsert_latest_tick E) ticks S
      in if ticks = [] then S'
         else advance_cursor (''ticks'', symbol, []) (iso_text E (tick_time (last ticks))) (tick_sequence (last ticks)) S')"

definition commit_symbol_store ::
  "market_env \<Rightarrow> int \<Rightarrow> int \<Rightarrow> resolved_symbol \<Rightarrow> tick_record list \<Rightarrow> bar_rows \<Rightarrow> bar_rows \<Rightarrow>
   quality_incident list \<Rightarrow> state_store \<Rightarrow> py_exn + quality_incident list \<times> state_store" where
  "commit_symbol_store K now observed rsym ticks current_rows closed_rows incidents S =
     (let E = mk_platform K
      in bind_res (closed_mutations K now id closed_rows S) (\<lambda>ms.
           Inr (incidents @ ms,
             record_incidents E (incidents @ ms)
               (store_closed E closed_rows
                 (store_current E id current_rows
                   (store_ticks E (rs_logical rsym) ticks
                     (record_symbol_mapping
                       \<lparr>ma_symbol = rs_logical rsym, ma_broker = rs_broker rsym, ma_aliases = rs_aliases rsym,
                        ma_description = rs_description rsym, ma_point = rs_point rsym, ma_digits = rs_digits rsym,
                        ma_visible = True, ma_updated = iso_text E observed\<rparr> S)))))))"

definition commit_symbol ::
  "market_env \<Rightarrow> 'w terminal \<Rightarrow> collector_settings \<Rightarrow> resolved_symbol \<Rightarrow> tick_record list \<Rightarrow> bar_record list \<Rightarrow>
   bar_rows \<Rightarrow> bar_rows \<Rightarrow> quality_incident list \<Rightarrow> int \<Rightarrow> ('w service, quality_incident list) act" where
  "commit_symbol K T cfg rsym ticks bars current_rows closed_rows incidents observed =
     bind_act (outside (write_ticks (mk_platform K) T (se_root cfg) False ticks)) (\<lambda>_.
     bind_act (outside (write_bars (mk_platform K) T (se_root cfg) False bars)) (\<lambda>_.
     bind_act (outside (reading (te_now T))) (\<lambda>now.
       transaction (commit_symbol_store K now observed rsym ticks current_rows closed_rows incidents))))"

definition commit_bars_store ::
  "market_env \<Rightarrow> int \<Rightarrow> string \<Rightarrow> string \<Rightarrow> bar_rows \<times> bar_rows \<Rightarrow> quality_incident list \<Rightarrow> state_store \<Rightarrow>
   py_exn + unit \<times> state_store" where
  "commit_bars_store K now symbol tf rows incidents S =
     bind_res (closed_mutations K now (\<lambda>_. (symbol, tf)) (snd rows) S) (\<lambda>ms.
       Inr ((), record_incidents (mk_platform K) (incidents @ ms)
         (store_closed (mk_platform K) (snd rows)
           (store_current (mk_platform K) (\<lambda>_. (symbol, tf)) (fst rows) S))))"

definition commit_bars ::
  "market_env \<Rightarrow> 'w terminal \<Rightarrow> collector_settings \<Rightarrow> string \<Rightarrow> string \<Rightarrow> bar_record list \<Rightarrow>
   quality_incident list \<Rightarrow> ('w service, unit) act" where
  "commit_bars K T cfg symbol tf bars incidents =
     (if bars = [] then ret ()
      else
        bind_act (outside (write_bars (mk_platform K) T (se_root cfg) False bars)) (\<lambda>_.
        bind_act (outside (reading (te_now T))) (\<lambda>now.
          transaction (commit_bars_store K now symbol tf (split_bars bars (bar_close_time (last bars))) incidents))))"

section \<open>One symbol\<close>

record gathered =
  ga_bars :: "bar_record list"
  ga_incidents :: "quality_incident list"
  ga_current :: bar_rows
  ga_closed :: bar_rows

definition dict_merge :: "('k, 'v) dict \<Rightarrow> ('k, 'v) dict \<Rightarrow> ('k, 'v) dict" where
  "dict_merge d u = fold (\<lambda>(k, v). dict_set k v) u d"

definition cursor_time :: "cursor_state option \<Rightarrow> int \<Rightarrow> int" where
  "cursor_time c t0 = (case c of None \<Rightarrow> t0 | Some x \<Rightarrow> cs_time x)"

fun gather_bars ::
  "market_env \<Rightarrow> 'w terminal \<Rightarrow> collector_settings \<Rightarrow> resolved_symbol \<Rightarrow> int \<Rightarrow> timeframe list \<Rightarrow> gathered \<Rightarrow>
   ('w service, gathered) act" where
  "gather_bars K T cfg rsym observed [] g = ret g"
| "gather_bars K T cfg rsym observed (tf # tfs) g =
     bind_act (of_store (get_cursor (mk_platform K) (''bars'', rs_logical rsym, timeframe_value tf))) (\<lambda>cursor.
     bind_act (outside (load_bars K T cfg rsym tf
       (cursor_time cursor (observed - timeframe_minutes tf * 60 * se_bar_lookback cfg * 1000000)) observed observed)) (\<lambda>loaded.
     bind_act (outside (reading (te_now T))) (\<lambda>now.
     let (bars, batch) = normalize_bar_batch now loaded
     in bind_act (of_res (detect_missing_bars now bars)) (\<lambda>missing.
          let (current_rows, closed_rows) = split_bars bars observed
          in gather_bars K T cfg rsym observed tfs
               \<lparr>ga_bars = ga_bars g @ bars, ga_incidents = ga_incidents g @ batch @ missing,
                ga_current = dict_merge (ga_current g) current_rows, ga_closed = dict_merge (ga_closed g) closed_rows\<rparr>))))"

record collected =
  cl_ticks :: "tick_record list"
  cl_bars :: "bar_record list"
  cl_incidents :: "quality_incident list"
  cl_freshness :: freshness

definition collect_symbol ::
  "market_env \<Rightarrow> 'w terminal \<Rightarrow> collector_settings \<Rightarrow> resolved_symbol \<Rightarrow> int \<Rightarrow> bool \<Rightarrow> ('w service, collected) act" where
  "collect_symbol K T cfg rsym observed dry =
     bind_act (of_store (get_cursor (mk_platform K) (''ticks'', rs_logical rsym, []))) (\<lambda>cursor.
     bind_act (outside (load_ticks K T cfg rsym
       (cursor_time cursor (observed - se_tick_lookback cfg * 1000000)) observed)) (\<lambda>(ticks, tick_incidents).
     bind_act (gather_bars K T cfg rsym observed (se_timeframes cfg)
       \<lparr>ga_bars = [], ga_incidents = tick_incidents, ga_current = [], ga_closed = []\<rparr>) (\<lambda>g.
     bind_act (of_res (classify_freshness observed ticks (ga_bars g) (se_freshness cfg))) (\<lambda>(fresh, late).
     let incidents = ga_incidents g @ late
     in bind_act
          (if dry then ret incidents
           else commit_symbol K T cfg rsym ticks (ga_bars g) (ga_current g) (ga_closed g) incidents observed)
          (\<lambda>reported. ret \<lparr>cl_ticks = ticks, cl_bars = ga_bars g, cl_incidents = reported, cl_freshness = fresh\<rparr>)))))"

section \<open>One cycle\<close>

text \<open>\<open>build_heartbeat\<close> of \<open>runtime/heartbeat.py\<close>: what could be a secret is left out.\<close>

definition redacted_detail :: "(string, json) dict \<Rightarrow> (string, json) dict" where
  "redacted_detail d =
     filter (\<lambda>(k, v). \<not> str_contains ''password'' (str_lower k) \<and> \<not> str_contains ''token'' (str_lower k)) d"

record cycle =
  cy_symbols :: "string list"
  cy_ticks :: nat
  cy_bars :: nat
  cy_incidents :: "quality_incident list"
  cy_freshness :: "(string, freshness) dict"

text \<open>The loop over the resolved symbols: a list of what each of them brought.\<close>

definition collect_symbols ::
  "market_env \<Rightarrow> 'w terminal \<Rightarrow> collector_settings \<Rightarrow> int \<Rightarrow> bool \<Rightarrow> resolved_symbol list \<Rightarrow>
   ('w service, collected list) act" where
  "collect_symbols K T cfg observed dry = map_act (\<lambda>s. collect_symbol K T cfg s observed dry)"

definition cycle_of :: "resolved_symbol list \<Rightarrow> quality_incident list \<Rightarrow> collected list \<Rightarrow> cycle" where
  "cycle_of symbols incidents cs =
     \<lparr>cy_symbols = map rs_logical symbols, cy_ticks = sum_list (map (\<lambda>c. length (cl_ticks c)) cs),
      cy_bars = sum_list (map (\<lambda>c. length (cl_bars c)) cs),
      cy_incidents = incidents @ concat (map cl_incidents cs),
      cy_freshness = fold (\<lambda>(s, c). dict_set (rs_logical s) (cl_freshness c)) (zip symbols cs) []\<rparr>"

definition heartbeat_detail :: "cycle \<Rightarrow> (string, json) dict" where
  "heartbeat_detail y =
     redacted_detail
       [(''symbols'', JList (map JStr (cy_symbols y))), (''tick_count'', JInt (int (cy_ticks y))),
        (''bar_count'', JInt (int (cy_bars y))), (''incident_count'', JInt (int (length (cy_incidents y))))]"

text \<open>The time of observation is \<open>now\<close>, or the clock when there is none.\<close>

definition collect_once ::
  "market_env \<Rightarrow> 'w terminal \<Rightarrow> collector_settings \<Rightarrow> string list option \<Rightarrow> int option \<Rightarrow> bool option \<Rightarrow>
   ('w service, cycle) act" where
  "collect_once K T cfg symbol_filter now dry_run =
     bind_act (outside (reading (te_now T))) (\<lambda>clock.
     let observed = (case now of None \<Rightarrow> clock | Some t \<Rightarrow> t);
         dry = (case dry_run of None \<Rightarrow> se_dry_run cfg | Some d \<Rightarrow> d)
     in bind_act (outside (resolve_all K T cfg)) (\<lambda>(resolved, incidents).
        let chosen = (case symbol_filter of
               None \<Rightarrow> resolved
             | Some names \<Rightarrow> filter (\<lambda>s. str_upper (rs_logical s) \<in> set (map str_upper names)) resolved)
        in bind_act (collect_symbols K T cfg observed dry chosen) (\<lambda>cs.
           let y = cycle_of chosen incidents cs
           in bind_act
                (if dry then ret ()
                 else transaction (\<lambda>S. Inr ((), record_heartbeat ''market-data-collector'' ''ok''
                        (JObj (heartbeat_detail y)) (iso_text (mk_platform K) observed) S)))
                (\<lambda>_. ret y))))"

text \<open>\<open>collect_cycles\<close>: \<open>index\<close> counts up, the pause comes between two cycles.\<close>

fun cycles_from ::
  "market_env \<Rightarrow> 'w terminal \<Rightarrow> collector_settings \<Rightarrow> int option \<Rightarrow> bool \<Rightarrow> nat \<Rightarrow> ('w service, cycle list) act" where
  "cycles_from K T cfg pause dry 0 = ret []"
| "cycles_from K T cfg pause dry (Suc n) =
     bind_act (collect_once K T cfg None None (Some dry)) (\<lambda>y.
     bind_act (case pause of
         None \<Rightarrow> ret ()
       | Some s \<Rightarrow> if s \<noteq> 0 \<and> n \<noteq> 0 then outside (te_sleep T s) else ret ()) (\<lambda>_.
     bind_act (cycles_from K T cfg pause dry n) (\<lambda>ys. ret (y # ys))))"

definition collect_cycles ::
  "market_env \<Rightarrow> 'w terminal \<Rightarrow> collector_settings \<Rightarrow> int \<Rightarrow> int option \<Rightarrow> bool \<Rightarrow> ('w service, cycle list) act" where
  "collect_cycles K T cfg cycles pause dry =
     (if cycles < 1 then raise_act (Escaped (ValueError ''cycles must be at least 1''))
      else cycles_from K T cfg pause dry (nat cycles))"

section \<open>What a dry run leaves alone\<close>

text \<open>
  An action is a reader when it leaves the store as it is; the actions that a dry run is made of are
  readers, whatever the terminal does.
\<close>

definition keeps_store :: "('w service, 'a) act \<Rightarrow> bool" where
  "keeps_store f \<longleftrightarrow> (\<forall>C. co_store (snd (f C)) = co_store C)"

lemma keeps_store_basic:
  "keeps_store (ret x)"
  "keeps_store (raise_act e)"
  "keeps_store (of_res r)"
  "keeps_store (outside g)"
  "keeps_store (of_store h)"
  by (auto simp: keeps_store_def outside_def of_store_def of_res_def split: sum.split prod.split)

lemma keeps_store_bind:
  "keeps_store f \<Longrightarrow> (\<And>x. keeps_store (g x)) \<Longrightarrow> keeps_store (bind_act f g)"
  unfolding keeps_store_def bind_act_def by (simp split: sum.split prod.split) (metis snd_conv)

lemma keeps_store_cases:
  "(\<And>a b. p = (a, b) \<Longrightarrow> keeps_store (f a b)) \<Longrightarrow> keeps_store (case p of (a, b) \<Rightarrow> f a b)"
  "(\<And>x. keeps_store (h x)) \<Longrightarrow> keeps_store (Let v h)"
  by (auto split: prod.split)

lemma keeps_store_map: "(\<And>x. keeps_store (f x)) \<Longrightarrow> keeps_store (map_act f xs)"
  by (induction xs) (simp_all only: map_act.simps keeps_store_basic keeps_store_bind)

lemmas keeping = keeps_store_basic keeps_store_bind keeps_store_cases keeps_store_map

lemma keeps_store_gather: "keeps_store (gather_bars K T cfg s observed tfs g)"
proof (induction tfs arbitrary: g)
  case Nil
  show ?case unfolding gather_bars.simps by (rule keeping)
next
  case (Cons tf tfs)
  show ?case unfolding gather_bars.simps by (intro keeping Cons.IH)
qed

lemma keeps_store_symbol: "keeps_store (collect_symbol K T cfg s observed True)"
  unfolding collect_symbol_def if_True by (intro keeping keeps_store_gather)

lemma keeps_store_once: "keeps_store (collect_once K T cfg names now (Some True))"
  unfolding collect_once_def collect_symbols_def option.case Let_def if_True
  by (intro keeping keeps_store_symbol)

lemma keeps_store_cycles: "keeps_store (cycles_from K T cfg pause True n)"
proof (induction n)
  case 0
  show ?case unfolding cycles_from.simps by (rule keeping)
next
  case (Suc n)
  have "keeps_store (case pause of None \<Rightarrow> ret () | Some s \<Rightarrow> if s \<noteq> 0 \<and> n \<noteq> 0 then outside (te_sleep T s) else ret ())"
    by (cases pause) (auto simp only: option.case keeping split: if_split)
  then show ?case unfolding cycles_from.simps by (intro keeping keeps_store_once Suc.IH)
qed

text \<open>A dry run has no use for the writer of tables.\<close>

lemma writer_retry: "retry_from (T\<lparr>te_write_table := f\<rparr>) b a n e operation w = retry_from T b a n e operation w"
  by (induction T b a n e operation w rule: retry_from.induct)
    (auto simp: attempt_once_def bind_act_def split: sum.splits prod.splits market_exn.splits)


lemma writer_ops:
  "te_initialize (T\<lparr>te_write_table := f\<rparr>) = te_initialize T"
  "te_shutdown (T\<lparr>te_write_table := f\<rparr>) = te_shutdown T"
  "te_sleep (T\<lparr>te_write_table := f\<rparr>) = te_sleep T"
  "te_last_error (T\<lparr>te_write_table := f\<rparr>) = te_last_error T"
  "te_symbols_get (T\<lparr>te_write_table := f\<rparr>) = te_symbols_get T"
  "te_symbol_select (T\<lparr>te_write_table := f\<rparr>) = te_symbol_select T"
  "te_symbol_tick (T\<lparr>te_write_table := f\<rparr>) = te_symbol_tick T"
  "te_rates_range (T\<lparr>te_write_table := f\<rparr>) = te_rates_range T"
  "te_ticks_range (T\<lparr>te_write_table := f\<rparr>) = te_ticks_range T"
  "te_now (T\<lparr>te_write_table := f\<rparr>) = te_now T"
  by simp_all

lemma writer_retried: "retried (T\<lparr>te_write_table := f\<rparr>) cfg operation = retried T cfg operation"
  by (rule ext) (simp add: retried_def retry_run_def writer_retry)

lemma writer_select: "select_symbols (T\<lparr>te_write_table := f\<rparr>) cfg rs = select_symbols T cfg rs"
  by (induction rs) (simp_all only: select_symbols.simps writer_retried writer_ops)

lemma writer_loads:
  "resolve_all K (T\<lparr>te_write_table := f\<rparr>) cfg = resolve_all K T cfg"
  "load_ticks K (T\<lparr>te_write_table := f\<rparr>) cfg s a b = load_ticks K T cfg s a b"
  "load_bars K (T\<lparr>te_write_table := f\<rparr>) cfg s tf a b c = load_bars K T cfg s tf a b c"
  by (simp_all only: resolve_all_def list_symbols_def load_ticks_def load_bars_def payload_or_disconnected_def
      writer_retried writer_select writer_ops)

lemma writer_gather: "gather_bars K (T\<lparr>te_write_table := f\<rparr>) cfg s observed tfs g = gather_bars K T cfg s observed tfs g"
  by (induction tfs arbitrary: g) (simp_all only: gather_bars.simps writer_loads writer_ops)

lemma writer_symbol:
  "collect_symbol K (T\<lparr>te_write_table := f\<rparr>) cfg s observed True = collect_symbol K T cfg s observed True"
  by (simp only: collect_symbol_def writer_loads writer_gather if_True)

lemma writer_once:
  "collect_once K (T\<lparr>te_write_table := f\<rparr>) cfg names now (Some True) = collect_once K T cfg names now (Some True)"
  by (simp only: collect_once_def collect_symbols_def writer_loads writer_symbol writer_ops if_True option.case Let_def)

lemma writer_cycles:
  "cycles_from K (T\<lparr>te_write_table := f\<rparr>) cfg pause True n = cycles_from K T cfg pause True n"
  by (induction n) (simp_all only: cycles_from.simps writer_once writer_ops)

text \<open>
  A dry run of the collector, one cycle or many, leaves the state store as it is, and what it
  does and gives does not depend on the writer of the Parquet tables: that is never called.
\<close>

theorem dry_run_writes_nothing:
  "co_store (snd (collect_once K T cfg names now (Some True) C)) = co_store C \<and>
   co_store (snd (collect_cycles K T cfg cycles pause True C)) = co_store C \<and>
   collect_once K (T\<lparr>te_write_table := f\<rparr>) cfg names now (Some True) C =
     collect_once K T cfg names now (Some True) C \<and>
   collect_cycles K (T\<lparr>te_write_table := f\<rparr>) cfg cycles pause True C = collect_cycles K T cfg cycles pause True C"
  using keeps_store_once [of K T cfg names now] keeps_store_cycles [of K T cfg pause "nat cycles"]
  by (simp add: keeps_store_def collect_cycles_def writer_once writer_cycles)

section \<open>What a failing cycle leaves behind\<close>

text \<open>
  An action settles \<open>R\<close> and \<open>Q\<close> when after a failure the stores before and after stand in the relation
  \<open>R\<close>, and with a result in the relation \<open>Q\<close> of that result.
\<close>

definition settles ::
  "(state_store \<Rightarrow> state_store \<Rightarrow> bool) \<Rightarrow> ('a \<Rightarrow> state_store \<Rightarrow> state_store \<Rightarrow> bool) \<Rightarrow>
   ('w service, 'a) act \<Rightarrow> bool" where
  "settles R Q f \<longleftrightarrow> (\<forall>C. case f C of
       (Inl e, C') \<Rightarrow> R (co_store C) (co_store C')
     | (Inr x, C') \<Rightarrow> Q x (co_store C) (co_store C'))"

abbreviation unchanged :: "state_store \<Rightarrow> state_store \<Rightarrow> bool" where
  "unchanged S S' \<equiv> S' = S"

lemma settlesD: "settles R Q f \<Longrightarrow> f C = (Inl e, C') \<Longrightarrow> R (co_store C) (co_store C')"
  "settles R Q f \<Longrightarrow> f C = (Inr x, C') \<Longrightarrow> Q x (co_store C) (co_store C')"
  unfolding settles_def by (drule spec [of _ C], simp)+

lemma settlesI:
  assumes "\<And>C e C'. f C = (Inl e, C') \<Longrightarrow> R (co_store C) (co_store C')"
    and "\<And>C x C'. f C = (Inr x, C') \<Longrightarrow> Q x (co_store C) (co_store C')"
  shows "settles R Q f"
  unfolding settles_def using assms by (auto split: sum.split prod.split)

lemma settles_transaction: "settles unchanged (\<lambda>x S S'. f S = Inr (x, S')) (transaction f)"
  by (simp add: settles_def transaction_def split: sum.split prod.split)

lemma keeps_storeD: "keeps_store f \<Longrightarrow> f C = (r, C') \<Longrightarrow> co_store C' = co_store C"
  unfolding keeps_store_def by (metis snd_conv)

lemma settles_keeps: "keeps_store f \<Longrightarrow> settles unchanged (\<lambda>_. unchanged) f"
  by (rule settlesI) (erule (1) keeps_storeD)+

lemma settles_seq:
  assumes f: "settles R P f" and g: "\<And>x. settles R' Q' (g x)"
    and "\<And>x S S1 S2. P x S S1 \<Longrightarrow> R' S1 S2 \<Longrightarrow> R S S2"
    and "\<And>x y S S1 S2. P x S S1 \<Longrightarrow> Q' y S1 S2 \<Longrightarrow> Q y S S2"
  shows "settles R Q (bind_act f g)"
proof (rule settlesI)
  fix C e C'
  assume run: "bind_act f g C = (Inl e, C')"
  obtain r C1 where fC: "f C = (r, C1)" by (cases "f C")
  show "R (co_store C) (co_store C')"
  proof (cases r)
    case (Inl e1)
    with fC run settlesD(1) [OF f] show ?thesis by simp
  next
    case (Inr x)
    with fC run have "g x C1 = (Inl e, C')" by simp
    with fC Inr settlesD(2) [OF f] settlesD(1) [OF g] assms(3) show ?thesis by blast
  qed
next
  fix C y C'
  assume "bind_act f g C = (Inr y, C')"
  then obtain x C1 where "f C = (Inr x, C1)" "g x C1 = (Inr y, C')" by (auto simp: bind_act_Inr)
  with settlesD(2) [OF f] settlesD(2) [OF g] assms(4) show "Q y (co_store C) (co_store C')" by blast
qed

lemma settles_bind: "keeps_store f \<Longrightarrow> (\<And>x. settles unchanged Q (g x)) \<Longrightarrow> settles unchanged Q (bind_act f g)"
  by (rule settles_seq, rule settles_keeps) simp_all

lemma settles_ret:
  "settles R P f \<Longrightarrow> (\<And>x S S'. P x S S' \<Longrightarrow> Q (h x) S S') \<Longrightarrow> settles R Q (bind_act f (\<lambda>x. ret (h x)))"
  by (rule settlesI) (auto simp: bind_act_def split: prod.splits sum.splits dest: settlesD)

lemma settles_mono:
  "settles R P f \<Longrightarrow> (\<And>S S'. R S S' \<Longrightarrow> R' S S') \<Longrightarrow> (\<And>x S S'. P x S S' \<Longrightarrow> Q x S S') \<Longrightarrow> settles R' Q f"
  by (rule settlesI) (auto dest: settlesD)

lemma settles_cases:
  "(\<And>a b. p = (a, b) \<Longrightarrow> settles R Q (f a b)) \<Longrightarrow> settles R Q (case p of (a, b) \<Rightarrow> f a b)"
  "(\<And>x. settles R Q (h x)) \<Longrightarrow> settles R Q (Let v h)"
  by (auto split: prod.split)

lemma commit_symbol_settles:
  "settles unchanged (\<lambda>x S S'. \<exists>now. commit_symbol_store K now observed s ticks cur clo qs S = Inr (x, S'))
     (commit_symbol K T cfg s ticks bars cur clo qs observed)"
  unfolding commit_symbol_def
  by (rule settles_bind, rule keeping, rule settles_bind, rule keeping, rule settles_bind, rule keeping,
      rule settles_mono, rule settles_transaction) blast+

text \<open>What the collection of one symbol may do to the store.\<close>

definition symbol_committed ::
  "market_env \<Rightarrow> int \<Rightarrow> resolved_symbol \<Rightarrow> bool \<Rightarrow> collected \<Rightarrow> state_store \<Rightarrow> state_store \<Rightarrow> bool" where
  "symbol_committed K observed s dry r S S' \<longleftrightarrow>
     (if dry then S' = S
      else \<exists>now cur clo qs. commit_symbol_store K now observed s (cl_ticks r) cur clo qs S = Inr (cl_incidents r, S'))"

lemma collect_symbol_settles:
  "settles unchanged (symbol_committed K observed s dry) (collect_symbol K T cfg s observed dry)"
proof -
  have last: "settles unchanged (symbol_committed K observed s dry) (bind_act
      (if dry then ret qs else commit_symbol K T cfg s ticks bars cur clo qs observed)
      (\<lambda>x. ret \<lparr>cl_ticks = ticks, cl_bars = bars, cl_incidents = x, cl_freshness = fresh\<rparr>))"
    for ticks bars cur clo qs fresh
  proof (cases dry)
    case True
    then show ?thesis
      by (simp only: if_True) (rule settles_mono, rule settles_keeps, intro keeping, auto simp: symbol_committed_def)
  next
    case False
    then show ?thesis
      by (simp only: if_False) (rule settles_ret [OF commit_symbol_settles], auto simp: symbol_committed_def)
  qed
  show ?thesis
    unfolding collect_symbol_def
    by (rule settles_bind, rule keeping, rule settles_bind, rule keeping, rule settles_cases,
        rule settles_bind, rule keeps_store_gather, rule settles_bind, rule keeping,
        rule settles_cases, rule settles_cases, rule last)
qed

text \<open>
  C26: Collecting one symbol touches the state store in one transaction or not at all: when anything
  fails, and in a dry run, the store is as it was; otherwise it is the committed update of the store
  as it was at the start, and the incidents reported are the recorded ones.
\<close>

theorem symbol_commit_atomic:
  "case collect_symbol K T cfg s observed dry C of
     (Inl e, C') \<Rightarrow> co_store C' = co_store C
   | (Inr r, C') \<Rightarrow>
       if dry then co_store C' = co_store C
       else \<exists>now cur clo qs.
         commit_symbol_store K now observed s (cl_ticks r) cur clo qs (co_store C) = Inr (cl_incidents r, co_store C')"
proof (cases "collect_symbol K T cfg s observed dry C")
  case (Pair r C')
  note settled = collect_symbol_settles [of K observed s dry T cfg]
  show ?thesis
  proof (cases r)
    case (Inl e)
    with Pair settlesD(1) [OF settled] show ?thesis by simp
  next
    case (Inr x)
    with Pair settlesD(2) [OF settled] have "symbol_committed K observed s dry x (co_store C) (co_store C')" by simp
    with Pair Inr show ?thesis by (simp only: symbol_committed_def prod.case sum.case)
  qed
qed

end
