(* ===== verification/Backfill.thy ===== *)
theory Backfill
  imports Collector
begin

text \<open>
  \<open>MarketDataService.backfill\<close> of \<open>market_data/collector.py\<close>: a range is loaded window by window, the
  state of the run is stored after each, and a run that failed goes on where it stopped. The loop
  is a partial function: it is defined whatever the settings say, and it is shown to return.
\<close>

section \<open>The operation\<close>

record backfill_report =
  br_bars :: nat
  br_incidents :: "quality_incident list"
  br_key :: string

text \<open>\<open>isoformat()\<close> ends in an offset where \<open>to_iso_z\<close> has the letter Z.\<close>

definition iso_offset :: "py_env \<Rightarrow> int \<Rightarrow> string" where
  "iso_offset E t = butlast (iso_text E t) @ ''+00:00''"

definition run_key :: "py_env \<Rightarrow> string \<Rightarrow> timeframe \<Rightarrow> int \<Rightarrow> int \<Rightarrow> string" where
  "run_key E symbol tf start_at end_at =
     sha256_hex E (symbol @ '':'' @ timeframe_value tf @ '':'' @ iso_offset E start_at @ '':'' @ iso_offset E end_at)"

record backfill_run =
  bk_symbol :: resolved_symbol
  bk_timeframe :: timeframe
  bk_start :: int
  bk_end :: int
  bk_dry :: bool
  bk_key :: string

definition run_state :: "backfill_run \<Rightarrow> int \<Rightarrow> string \<Rightarrow> string option \<Rightarrow> backfill_state" where
  "run_state B next_at status err =
     \<lparr>bs_key = bk_key B, bs_symbol = rs_logical (bk_symbol B), bs_timeframe = timeframe_value (bk_timeframe B),
      bs_start = bk_start B, bs_end = bk_end B, bs_next = next_at, bs_status = status, bs_error = err\<rparr>"

definition record_progress ::
  "market_env \<Rightarrow> backfill_run \<Rightarrow> int \<Rightarrow> string \<Rightarrow> string option \<Rightarrow> ('w service, unit) act" where
  "record_progress K B next_at status err =
     transaction (\<lambda>S. Inr ((), upsert_backfill_state (mk_platform K) (run_state B next_at status err)
       (iso_text (mk_platform K) next_at) S))"

text \<open>The body of the \<open>try\<close>: one window.\<close>

definition backfill_window ::
  "market_env \<Rightarrow> 'w terminal \<Rightarrow> collector_settings \<Rightarrow> backfill_run \<Rightarrow> int \<Rightarrow> int \<Rightarrow>
   ('w service, nat \<times> quality_incident list) act" where
  "backfill_window K T cfg B a b =
     bind_act (outside (load_bars K T cfg (bk_symbol B) (bk_timeframe B) a b b)) (\<lambda>loaded.
     bind_act (outside (reading (te_now T))) (\<lambda>now.
     let (bars, batch) = normalize_bar_batch now loaded
     in bind_act (of_res (detect_missing_bars now bars)) (\<lambda>missing.
        bind_act
          (if bk_dry B then ret ()
           else
             bind_act (commit_bars K T cfg (rs_logical (bk_symbol B)) (timeframe_value (bk_timeframe B)) bars
               (batch @ missing)) (\<lambda>_.
             record_progress K B b (if b < bk_end B then ''running'' else ''complete'') None))
          (\<lambda>_. ret (length bars, batch @ missing)))))"

text \<open>\<open>str(exc)\<close>; that of an error other than the service's own is a parameter of the model.\<close>

definition exn_text :: "(py_exn \<Rightarrow> string) \<Rightarrow> market_exn \<Rightarrow> string" where
  "exn_text str e = (case e of Disconnected m \<Rightarrow> m | Unresolvable m \<Rightarrow> m | Escaped x \<Rightarrow> str x)"

text \<open>The window with its \<open>except\<close>: the failure is recorded, and raised again.\<close>

definition backfill_step ::
  "(py_exn \<Rightarrow> string) \<Rightarrow> market_env \<Rightarrow> 'w terminal \<Rightarrow> collector_settings \<Rightarrow> backfill_run \<Rightarrow> int \<Rightarrow> int \<Rightarrow>
   ('w service, nat \<times> quality_incident list) act" where
  "backfill_step str K T cfg B a b = (\<lambda>C.
     case backfill_window K T cfg B a b C of
       (Inl e, C1) \<Rightarrow>
         if bk_dry B then (Inl e, C1)
         else bind_act (record_progress K B a ''failed'' (Some (exn_text str e))) (\<lambda>_. raise_act e) C1
     | r \<Rightarrow> r)"

partial_function (option) backfill_loop ::
  "(py_exn \<Rightarrow> string) \<Rightarrow> market_env \<Rightarrow> 'w terminal \<Rightarrow> collector_settings \<Rightarrow> backfill_run \<Rightarrow> int \<Rightarrow> nat \<Rightarrow>
   quality_incident list \<Rightarrow> 'w service \<Rightarrow> ((market_exn + nat \<times> quality_incident list) \<times> 'w service) option" where
  "backfill_loop str K T cfg B next_at n_bars incidents C =
     (if next_at < bk_end B
      then
        (let b = advance_window next_at (bk_end B) (bk_timeframe B) (se_bar_lookback cfg);
             (r, C') = backfill_step str K T cfg B next_at b C
         in case r of
              Inl e \<Rightarrow> Some (Inl e, C')
            | Inr v \<Rightarrow> backfill_loop str K T cfg B b (n_bars + fst v) (incidents @ snd v) C')
      else Some (Inr (n_bars, incidents), C))"

definition first_start :: "market_env \<Rightarrow> backfill_run \<Rightarrow> state_store \<Rightarrow> py_exn + int" where
  "first_start K B S =
     bind_res (get_backfill_state (mk_platform K) (bk_key B) S) (\<lambda>st.
       Inr (case st of None \<Rightarrow> bk_start B | Some f \<Rightarrow> bs_next f))"

definition timeframe_of :: "string \<Rightarrow> py_exn + timeframe" where
  "timeframe_of s =
     (case find (\<lambda>t. timeframe_value t = s) all_timeframes of
        None \<Rightarrow> Inl (ValueError (str_repr s @ '' is not a valid Timeframe''))
      | Some t \<Rightarrow> Inr t)"

definition backfill_run_of ::
  "market_env \<Rightarrow> collector_settings \<Rightarrow> resolved_symbol \<Rightarrow> timeframe \<Rightarrow> int \<Rightarrow> int \<Rightarrow> bool option \<Rightarrow> backfill_run" where
  "backfill_run_of K cfg s tf start_at end_at dry_run =
     \<lparr>bk_symbol = s, bk_timeframe = tf, bk_start = start_at, bk_end = end_at,
      bk_dry = (case dry_run of None \<Rightarrow> se_dry_run cfg | Some d \<Rightarrow> d),
      bk_key = run_key (mk_platform K) (rs_logical s) tf start_at end_at\<rparr>"

definition backfill ::
  "(py_exn \<Rightarrow> string) \<Rightarrow> market_env \<Rightarrow> 'w terminal \<Rightarrow> collector_settings \<Rightarrow> string \<Rightarrow> string \<Rightarrow> int \<Rightarrow> int \<Rightarrow>
   bool option \<Rightarrow> 'w service \<Rightarrow> ((market_exn + backfill_report) \<times> 'w service) option" where
  "backfill str K T cfg symbol tf start_at end_at dry_run C =
     (if end_at \<le> start_at
      then Some (Inl (Escaped (ValueError ''backfill end must be after start'')), C)
      else
        (case timeframe_of tf of
           Inl e \<Rightarrow> Some (Inl (Escaped e), C)
         | Inr t \<Rightarrow>
             (case outside (resolve_one K T cfg symbol) C of
                (Inl e, C1) \<Rightarrow> Some (Inl e, C1)
              | (Inr s, C1) \<Rightarrow>
                  (let B = backfill_run_of K cfg s t start_at end_at dry_run
                   in case first_start K B (co_store C1) of
                        Inl e \<Rightarrow> Some (Inl (Escaped e), C1)
                      | Inr next_at \<Rightarrow>
                          map_option (\<lambda>(r, C2).
                            (case r of
                               Inl e \<Rightarrow> Inl e
                             | Inr v \<Rightarrow> Inr \<lparr>br_bars = fst v, br_incidents = snd v, br_key = bk_key B\<rparr>, C2))
                            (backfill_loop str K T cfg B next_at 0 [] C1)))))"

section \<open>The windows of a range\<close>

lemma advance_window_bounds:
  "a < e \<Longrightarrow> 0 < n \<Longrightarrow> a < advance_window a e tf n"
  "advance_window a e tf n \<le> e"
  "advance_window a e tf n \<le> a + timeframe_delta tf * n"
  using timeframe_delta_pos [of tf] by (simp_all add: advance_window_def)

function windows :: "int \<Rightarrow> int \<Rightarrow> timeframe \<Rightarrow> int \<Rightarrow> (int \<times> int) list" where
  "windows a e tf n =
     (if a < e \<and> 0 < n then (a, advance_window a e tf n) # windows (advance_window a e tf n) e tf n else [])"
  by pat_completeness auto

termination
  by (relation "measure (\<lambda>(a, e, tf, n). nat (e - a))") (use advance_window_bounds(1) in auto)

declare windows.simps [simp del]

lemma windows_chain:
  "a \<le> e \<Longrightarrow> 0 < n \<Longrightarrow> map fst (windows a e tf n) @ [e] = a # map snd (windows a e tf n)"
proof (induction a e tf n rule: windows.induct)
  case (1 a e tf n)
  show ?case
  proof (cases "a < e")
    case True
    with 1 advance_window_bounds(2) [of a e tf n] show ?thesis
      by (subst (1 2) windows.simps) simp
  next
    case False
    then have "windows a e tf n = []" by (subst windows.simps) simp
    with 1 False show ?thesis by simp
  qed
qed

lemma windows_bounded: "(a', b) \<in> set (windows a e tf n) \<Longrightarrow> a' < b \<and> b \<le> a' + timeframe_delta tf * n"
proof (induction a e tf n rule: windows.induct)
  case (1 a e tf n)
  show ?case
  proof (cases "a < e \<and> 0 < n")
    case True
    then have "windows a e tf n = (a, advance_window a e tf n) # windows (advance_window a e tf n) e tf n"
      by (subst windows.simps) simp
    with 1 True show ?thesis
      using advance_window_bounds(1) [of a e n tf] advance_window_bounds(3) [of a e tf n] by auto
  next
    case False
    then have "windows a e tf n = []" by (subst windows.simps) simp
    with 1 show ?thesis by simp
  qed
qed

text \<open>The windows, one after the other, until one fails.\<close>

fun run_windows ::
  "(py_exn \<Rightarrow> string) \<Rightarrow> market_env \<Rightarrow> 'w terminal \<Rightarrow> collector_settings \<Rightarrow> backfill_run \<Rightarrow> (int \<times> int) list \<Rightarrow>
   nat \<Rightarrow> quality_incident list \<Rightarrow> ('w service, nat \<times> quality_incident list) act" where
  "run_windows str K T cfg B [] n_bars incidents = ret (n_bars, incidents)"
| "run_windows str K T cfg B ((a, b) # ws) n_bars incidents =
     bind_act (backfill_step str K T cfg B a b) (\<lambda>v.
       run_windows str K T cfg B ws (n_bars + fst v) (incidents @ snd v))"

lemma backfill_loop_windows:
  assumes "0 < se_bar_lookback cfg"
  shows "backfill_loop str K T cfg B a n_bars incidents C =
    Some (run_windows str K T cfg B (windows a (bk_end B) (bk_timeframe B) (se_bar_lookback cfg)) n_bars incidents C)"
proof (induction a "bk_end B" "bk_timeframe B" "se_bar_lookback cfg" arbitrary: n_bars incidents C rule: windows.induct)
  case (1 a)
  let ?b = "advance_window a (bk_end B) (bk_timeframe B) (se_bar_lookback cfg)"
  show ?case
  proof (cases "a < bk_end B")
    case True
    obtain r C' where step: "backfill_step str K T cfg B a ?b C = (r, C')" by (cases "backfill_step str K T cfg B a ?b C")
    have ws: "windows a (bk_end B) (bk_timeframe B) (se_bar_lookback cfg) =
        (a, ?b) # windows ?b (bk_end B) (bk_timeframe B) (se_bar_lookback cfg)"
      using True assms by (subst windows.simps) simp
    show ?thesis
      unfolding ws using True assms step 1
      by (subst backfill_loop.simps) (cases r; simp)
  next
    case False
    then show ?thesis
      by (subst backfill_loop.simps) (simp add: windows.simps [of a])
  qed
qed

section \<open>A backfill returns\<close>

text \<open>
  C25: With a positive number of bars to a window the loop of a backfill returns. It is the run of
  windows that follow each other without a gap from where it starts to the end of the range, each of
  them at least an instant and at most that number of bars long; the run goes on until a window
  fails.
\<close>

theorem backfill_returns:
  assumes "0 < se_bar_lookback cfg" and "a \<le> bk_end B"
  shows "\<exists>ws. backfill_loop str K T cfg B a n_bars incidents C = Some (run_windows str K T cfg B ws n_bars incidents C) \<and>
    map fst ws @ [bk_end B] = a # map snd ws \<and>
    list_all (\<lambda>(s, e). s < e \<and> e \<le> s + timeframe_delta (bk_timeframe B) * se_bar_lookback cfg) ws"
proof (intro exI conjI)
  let ?ws = "windows a (bk_end B) (bk_timeframe B) (se_bar_lookback cfg)"
  show "backfill_loop str K T cfg B a n_bars incidents C = Some (run_windows str K T cfg B ?ws n_bars incidents C)"
    by (rule backfill_loop_windows [OF assms(1)])
  show "map fst ?ws @ [bk_end B] = a # map snd ?ws" using assms by (intro windows_chain)
  show "list_all (\<lambda>(s, e). s < e \<and> e \<le> s + timeframe_delta (bk_timeframe B) * se_bar_lookback cfg) ?ws"
    unfolding list_all_iff using windows_bounded by blast
qed

section \<open>A failed backfill goes on where it stopped\<close>

text \<open>What the windows do to the table of backfills.\<close>

definition same_backfills :: "state_store \<Rightarrow> state_store \<Rightarrow> bool" where
  "same_backfills S S' \<longleftrightarrow> ss_backfills S' = ss_backfills S"

lemma backfills_kept:
  "ss_backfills (store_current E at_key rows S) = ss_backfills S"
  "ss_backfills (store_closed E rows S) = ss_backfills S"
  "ss_backfills (record_incidents E qs S) = ss_backfills S"
proof -
  show "ss_backfills (store_current E at_key rows S) = ss_backfills S"
    unfolding store_current_def
    by (induction rows arbitrary: S) (auto simp: advance_cursor_def upsert_latest_bar_def)
  show "ss_backfills (store_closed E rows S) = ss_backfills S"
    unfolding store_closed_def by (induction rows arbitrary: S) (auto simp: upsert_latest_bar_def)
qed (simp add: record_incidents_def)

lemma commit_bars_settles:
  "settles unchanged (\<lambda>_. same_backfills) (commit_bars K T cfg symbol tf bars qs)"
proof (cases "bars = []")
  case True
  have "settles unchanged (\<lambda>_. unchanged) (ret ())" by (rule settles_keeps) (rule keeping)
  with True show ?thesis
    unfolding commit_bars_def
    by (simp only: if_True simp_thms) (erule settles_mono, auto simp: same_backfills_def)
next
  case False
  then show ?thesis
    unfolding commit_bars_def
    by (simp only: if_False)
      (rule settles_bind, rule keeping, rule settles_bind, rule keeping, rule settles_mono,
       rule settles_transaction, auto simp: same_backfills_def commit_bars_store_def bind_res_Inr backfills_kept)
qed

lemma record_progress_settles:
  "settles (\<lambda>S S'. False) (\<lambda>_ S S'. S' = upsert_backfill_state (mk_platform K) (run_state B n status err)
     (iso_text (mk_platform K) n) S) (record_progress K B n status err)"
  unfolding record_progress_def by (rule settlesI) (auto simp: transaction_def)

text \<open>The table of backfills after the progress of a run is recorded.\<close>

definition progressed ::
  "market_env \<Rightarrow> backfill_run \<Rightarrow> int \<Rightarrow> state_store \<Rightarrow> state_store \<Rightarrow> bool" where
  "progressed K B n S S' \<longleftrightarrow> (\<exists>status err. ss_backfills S' =
     ss_backfills (upsert_backfill_state (mk_platform K) (run_state B n status err) (iso_text (mk_platform K) n) S))"

lemma backfill_window_settles:
  assumes "\<not> bk_dry B"
  shows "settles same_backfills (\<lambda>_. progressed K B b) (backfill_window K T cfg B a b)"
proof -
  have progress: "settles (\<lambda>S S'. False) (\<lambda>_. progressed K B b) (record_progress K B b status err)" for status err
    by (rule settles_mono [OF record_progress_settles]) (auto simp: progressed_def)
  have commit: "settles same_backfills (\<lambda>_. same_backfills) (commit_bars K T cfg symbol tf bars qs)" for symbol tf bars qs
    by (rule settles_mono [OF commit_bars_settles]) (auto simp: same_backfills_def)
  have "settles same_backfills (\<lambda>_. progressed K B b)
      (bind_act (commit_bars K T cfg symbol tf bars qs) (\<lambda>_. record_progress K B b status err))" for symbol tf bars qs status err
    by (rule settles_seq [OF commit progress]) (auto simp: same_backfills_def progressed_def upsert_backfill_state_def)
  then have last: "settles same_backfills (\<lambda>_. progressed K B b)
      (bind_act (bind_act (commit_bars K T cfg symbol tf bars qs) (\<lambda>_. record_progress K B b status err))
        (\<lambda>_. ret v))" for symbol tf bars qs status err and v :: "nat \<times> quality_incident list"
    by (rule settles_ret)
  have first: "settles same_backfills (\<lambda>_. progressed K B b) (bind_act f g)"
    if "keeps_store f" and "\<And>x. settles same_backfills (\<lambda>_. progressed K B b) (g x)" for f :: "('w service, 'b) act" and g
  proof (rule settles_seq [OF _ that(2)])
    show "settles same_backfills (\<lambda>_. unchanged) f"
      by (rule settles_mono [OF settles_keeps [OF that(1)]]) (auto simp: same_backfills_def)
  qed (auto simp: same_backfills_def)
  show ?thesis
    unfolding backfill_window_def using assms
    by (simp only: if_False)
      (rule first, rule keeping, rule first, rule keeping, rule settles_cases, rule settles_cases, rule first, rule keeping, rule last)
qed

lemma backfill_step_settles:
  assumes "\<not> bk_dry B"
  shows "settles (progressed K B a) (\<lambda>_. progressed K B b) (backfill_step str K T cfg B a b)"
proof (rule settlesI)
  note window = backfill_window_settles [OF assms, of K b T cfg a]
  fix C e C'
  assume run: "backfill_step str K T cfg B a b C = (Inl e, C')"
  then obtain e1 C1 where w: "backfill_window K T cfg B a b C = (Inl e1, C1)"
    by (auto simp: backfill_step_def split: prod.splits sum.splits)
  with run assms have "C' = snd (record_progress K B a ''failed'' (Some (exn_text str e1)) C1)"
    by (auto simp: backfill_step_def record_progress_def transaction_def bind_act_def)
  with w have "same_backfills (co_store C) (co_store C1)"
    and "co_store C' = upsert_backfill_state (mk_platform K) (run_state B a ''failed'' (Some (exn_text str e1)))
      (iso_text (mk_platform K) a) (co_store C1)"
    using settlesD(1) [OF window] by (auto simp: record_progress_def transaction_def bind_act_def)
  then show "progressed K B a (co_store C) (co_store C')"
    by (auto simp: progressed_def same_backfills_def upsert_backfill_state_def)
next
  fix C v C'
  assume "backfill_step str K T cfg B a b C = (Inr v, C')"
  then have "backfill_window K T cfg B a b C = (Inr v, C')"
    using assms by (auto simp: backfill_step_def record_progress_def transaction_def bind_act_def split: prod.splits sum.splits)
  then show "progressed K B b (co_store C) (co_store C')"
    using settlesD(2) [OF backfill_window_settles [OF assms]] by blast
qed

text \<open>A run goes on at the time that it last recorded.\<close>

definition reads_back :: "py_env \<Rightarrow> bool" where
  "reads_back E \<longleftrightarrow> (\<forall>t. iso_parse E (iso_text E t) = Some t)"

lemma first_start_progressed:
  assumes "reads_back (mk_platform K)" and "first_start K B S = Inr n" and "progressed K B m S S'"
  shows "first_start K B S' = Inr m"
proof -
  have parse: "from_iso_z (mk_platform K) (iso_text (mk_platform K) t) = Inr t" for t
    using assms(1) by (simp add: reads_back_def from_iso_z_def)
  from assms(3) obtain status err where table: "ss_backfills S' = ss_backfills (upsert_backfill_state (mk_platform K)
      (run_state B m status err) (iso_text (mk_platform K) m) S)"
    by (auto simp: progressed_def)
  show ?thesis
  proof (cases "find (\<lambda>r. bf_key r = bk_key B) (ss_backfills S)")
    case None
    with table parse show ?thesis
      by (simp add: first_start_def get_backfill_state_def upsert_backfill_state_def backfills.lookup_upsert run_state_def)
  next
    case (Some row)
    with assms(2) obtain s e where "from_iso_z (mk_platform K) (bf_start row) = Inr s" "from_iso_z (mk_platform K) (bf_end row) = Inr e"
      by (auto simp: first_start_def get_backfill_state_def bind_res_Inr)
    with table parse Some show ?thesis
      by (simp add: first_start_def get_backfill_state_def upsert_backfill_state_def backfills.lookup_upsert
          run_state_def backfill_merge_def)
  qed
qed

lemma run_windows_progress:
  assumes "reads_back (mk_platform K)" and "\<not> bk_dry B" and "first_start K B (co_store C) = Inr n"
    and "map fst ws @ [e] = a # map snd ws"
  shows "(\<forall>v C'. run_windows str K T cfg B ws n_bars qs C = (Inr v, C') \<longrightarrow>
      first_start K B (co_store C') = Inr (if ws = [] then n else e)) \<and>
    (\<forall>x C'. run_windows str K T cfg B ws n_bars qs C = (Inl x, C') \<longrightarrow>
      (\<exists>passed rest v C1. ws = passed @ rest \<and> rest \<noteq> [] \<and> run_windows str K T cfg B passed n_bars qs C = (Inr v, C1) \<and>
        backfill_step str K T cfg B (fst (hd rest)) (snd (hd rest)) C1 = (Inl x, C') \<and>
        first_start K B (co_store C') = Inr (fst (hd rest))))"
  using assms(3,4)
proof (induction ws arbitrary: C n n_bars qs a)
  case Nil
  then show ?case by simp
next
  case (Cons p ws)
  obtain s b where p: "p = (s, b)" by (cases p)
  obtain r C1 where step: "backfill_step str K T cfg B s b C = (r, C1)" by (cases "backfill_step str K T cfg B s b C")
  note settled = settlesD [OF backfill_step_settles [OF assms(2), of K s b str T cfg]]
  show ?case
  proof (cases r)
    case (Inl x)
    with step settled(1) first_start_progressed [OF assms(1) Cons.prems(1)]
    have "first_start K B (co_store C1) = Inr s" by blast
    with p step Inl show ?thesis
      by (intro conjI allI impI exI [of _ "[]"] exI [of _ "p # ws"] exI [of _ "(n_bars, qs)"] exI [of _ C]) auto
  next
    case (Inr v)
    with step settled(2) first_start_progressed [OF assms(1) Cons.prems(1)]
    have b: "first_start K B (co_store C1) = Inr b" by blast
    have chain: "map fst ws @ [e] = b # map snd ws" using Cons.prems(2) p by simp
    have run: "run_windows str K T cfg B ((s, b) # passed) n_bars qs C =
        run_windows str K T cfg B passed (n_bars + fst v) (qs @ snd v) C1" for passed
      using step Inr by simp
    note ih = Cons.IH [OF b chain, of "n_bars + fst v" "qs @ snd v"]
    show ?thesis
    proof (intro conjI allI impI)
      fix w C'
      assume "run_windows str K T cfg B (p # ws) n_bars qs C = (Inr w, C')"
      with ih chain show "first_start K B (co_store C') = Inr (if p # ws = [] then n else e)"
        unfolding p run by (cases ws) auto
    next
      fix x C'
      assume "run_windows str K T cfg B (p # ws) n_bars qs C = (Inl x, C')"
      with ih obtain dn rest w C2 where "ws = dn @ rest" "rest \<noteq> []"
        "run_windows str K T cfg B dn (n_bars + fst v) (qs @ snd v) C1 = (Inr w, C2)"
        "backfill_step str K T cfg B (fst (hd rest)) (snd (hd rest)) C2 = (Inl x, C')"
        "first_start K B (co_store C') = Inr (fst (hd rest))"
        unfolding p run by blast
      then show "\<exists>passed rest v C1. p # ws = passed @ rest \<and> rest \<noteq> [] \<and>
          run_windows str K T cfg B passed n_bars qs C = (Inr v, C1) \<and>
          backfill_step str K T cfg B (fst (hd rest)) (snd (hd rest)) C1 = (Inl x, C') \<and> first_start K B (co_store C') = Inr (fst (hd rest))"
        by - (rule exI [of _ "p # dn"], rule exI [of _ rest], rule exI [of _ w], rule exI [of _ C2], simp add: p step Inr)
    qed
  qed
qed

lemma windows_suffix:
  "windows a e tf n = passed @ rest \<Longrightarrow> rest \<noteq> [] \<Longrightarrow> windows (fst (hd rest)) e tf n = rest"
proof (induction a e tf n arbitrary: passed rule: windows.induct)
  case (1 a e tf n)
  show ?case
  proof (cases "a < e \<and> 0 < n")
    case True
    then have ws: "windows a e tf n = (a, advance_window a e tf n) # windows (advance_window a e tf n) e tf n"
      by (subst windows.simps) simp
    show ?thesis
    proof (cases passed)
      case Nil
      with 1(2) ws have "fst (hd rest) = a" by (metis append_Nil list.sel(1) fst_conv)
      with 1(2) Nil show ?thesis by simp
    next
      case (Cons p dn)
      with 1(2) ws have "windows (advance_window a e tf n) e tf n = dn @ rest" by simp
      with 1(1) [OF True _ 1(3)] show ?thesis by blast
    qed
  next
    case False
    then have "windows a e tf n = []" by (subst windows.simps) simp
    with 1 show ?thesis by simp
  qed
qed

text \<open>
  C9: A backfill that is no dry run and fails has done a first part of its windows, and what it
  stored makes the next run of the same backfill begin at the window that failed and do exactly the
  windows that are left; one that ends leaves nothing to do. This needs a platform that reads back
  the times it writes.
\<close>

theorem backfill_resumes:
  assumes "reads_back (mk_platform K)" and "\<not> bk_dry B" and "0 < se_bar_lookback cfg"
    and "first_start K B (co_store C) = Inr a" and "a \<le> bk_end B"
    and "backfill_loop str K T cfg B a n_bars qs C = Some (r, C')"
  shows "\<exists>passed rest v C1. windows a (bk_end B) (bk_timeframe B) (se_bar_lookback cfg) = passed @ rest \<and>
    run_windows str K T cfg B passed n_bars qs C = (Inr v, C1) \<and>
    (\<exists>a'. first_start K B (co_store C') = Inr a' \<and>
       windows a' (bk_end B) (bk_timeframe B) (se_bar_lookback cfg) = rest) \<and>
    (case rest of
       [] \<Rightarrow> r = Inr v \<and> C' = C1
     | (s, e) # _ \<Rightarrow> (\<exists>x. r = Inl x \<and> backfill_step str K T cfg B s e C1 = (Inl x, C')))"
proof -
  let ?ws = "\<lambda>a. windows a (bk_end B) (bk_timeframe B) (se_bar_lookback cfg)"
  have run: "run_windows str K T cfg B (?ws a) n_bars qs C = (r, C')"
    using assms(6) unfolding backfill_loop_windows [OF assms(3)] by simp
  note progress = run_windows_progress [OF assms(1,2,4) windows_chain [OF assms(5,3), of "bk_timeframe B"],
      where str = str and T = T and cfg = cfg and n_bars = n_bars and qs = qs]
  show ?thesis
  proof (cases r)
    case (Inr v)
    then have next_at: "first_start K B (co_store C') = Inr (if ?ws a = [] then a else bk_end B)"
      using progress run by blast
    have "?ws (bk_end B) = []" by (subst windows.simps) simp
    with next_at have "\<exists>a'. first_start K B (co_store C') = Inr a' \<and> ?ws a' = []" by (cases "?ws a = []") auto
    with run Inr show ?thesis
      by - (rule exI [of _ "?ws a"], rule exI [of _ "[]"], rule exI [of _ v], rule exI [of _ C'], simp)
  next
    case (Inl x)
    then obtain passed rest v C1 where split: "?ws a = passed @ rest" "rest \<noteq> []"
      and "run_windows str K T cfg B passed n_bars qs C = (Inr v, C1)"
      and "backfill_step str K T cfg B (fst (hd rest)) (snd (hd rest)) C1 = (Inl x, C')"
      and "first_start K B (co_store C') = Inr (fst (hd rest))"
      using progress run by blast
    moreover have "?ws (fst (hd rest)) = rest" using windows_suffix [OF split] .
    ultimately show ?thesis
      using Inl by - (rule exI [of _ passed], rule exI [of _ rest], rule exI [of _ v], rule exI [of _ C1],
        cases rest, auto)
  qed
qed

section \<open>A run that fails\<close>

text \<open>A platform that reads back its times, and a terminal that is lost from the second minute on.\<close>

definition signed_market :: market_env where
  "signed_market = sample_market\<lparr>mk_platform :=
     (mk_platform sample_market)
       \<lparr>iso_text := (\<lambda>t. (if t < 0 then ''-'' else ''+'') @ replicate (nat \<bar>t\<bar>) CHR ''i''),
        iso_parse := (\<lambda>s. Some (if hd s = CHR ''-'' then - int (length (tl s)) else int (length (tl s))))\<rparr>\<rparr>"

definition failing_terminal :: "nat terminal" where
  "failing_terminal = counting_terminal
     \<lparr>te_initialize := ret True,
      te_rates_range := (\<lambda>_ _ a _. if a < 60000000 then ret (Some []) else raise_act (Disconnected ''lost''))\<rparr>"

definition minute_settings :: collector_settings where
  "minute_settings =
     \<lparr>se_symbols = [], se_timeframes = [], se_tick_lookback = 1, se_bar_lookback = 1, se_freshness = 1,
      se_attempts = 1, se_backoff = 1, se_root = [], se_dry_run = False\<rparr>"

definition minute_run :: backfill_run where
  "minute_run =
     \<lparr>bk_symbol = \<lparr>rs_logical = ''XAUUSD'', rs_broker = ''GOLD'', rs_aliases = [], rs_description = [],
        rs_point = Fin 1, rs_digits = 2, rs_visible = True\<rparr>,
      bk_timeframe = M1, bk_start = 0, bk_end = 180000000, bk_dry = False, bk_key = ''k''\<rparr>"

definition idle_service :: "nat service" where
  "idle_service = \<lparr>co_store = empty_store, co_world = 0\<rparr>"

lemma minute_windows:
  "windows 0 (bk_end minute_run) (bk_timeframe minute_run) (se_bar_lookback minute_settings) =
     [(0, 60000000), (60000000, 120000000), (120000000, 180000000)]"
  "windows 60000000 (bk_end minute_run) (bk_timeframe minute_run) (se_bar_lookback minute_settings) =
     [(60000000, 120000000), (120000000, 180000000)]"
  by (simp_all add: windows.simps [of 0] windows.simps [of 60000000] windows.simps [of 120000000]
      windows.simps [of 180000000] minute_run_def minute_settings_def advance_window_def timeframe_delta_def)

lemma minute_loads:
  "load_bars K failing_terminal minute_settings s tf a b c w =
     (if a < 60000000 then Inr [] else Inl (Disconnected ''lost''), w)"
  by (simp add: load_bars_def retried_def retry_run_def minute_settings_def failing_terminal_def
      counting_terminal_def attempt_once_def payload_or_disconnected_def bind_act_def)

lemma minute_step:
  "backfill_step str K failing_terminal minute_settings minute_run a b C =
     (if a < 60000000
      then (Inr (0, []), snd (record_progress K minute_run b (if b < 180000000 then ''running'' else ''complete'') None C))
      else (Inl (Disconnected ''lost''),
        snd (record_progress K minute_run a ''failed'' (Some ''lost'') C)))"
  by (simp add: backfill_step_def backfill_window_def outside_def minute_loads bind_act_def reading_def
      normalize_bar_batch_def detect_missing_bars_def of_res_def commit_bars_def minute_run_def
      record_progress_def transaction_def exn_text_def ret_def raise_act_def)

lemma backfill_returns_witness:
  "\<exists>ws. backfill_loop (\<lambda>_. []) signed_market failing_terminal minute_settings minute_run 0 0 [] idle_service =
     Some (run_windows (\<lambda>_. []) signed_market failing_terminal minute_settings minute_run ws 0 [] idle_service) \<and>
   map fst ws @ [180000000] = 0 # map snd ws"
  using backfill_returns [of minute_settings 0 minute_run "\<lambda>_. []" signed_market failing_terminal 0 "[]" idle_service]
  by (auto simp: minute_settings_def minute_run_def)

lemma backfill_resumes_witness:
  "\<exists>C'. backfill_loop (\<lambda>_. []) signed_market failing_terminal minute_settings minute_run 0 0 [] idle_service =
      Some (Inl (Disconnected ''lost''), C') \<and>
    first_start signed_market minute_run (co_store C') = Inr 60000000"
proof -
  let ?run = "backfill_loop (\<lambda>_. []) signed_market failing_terminal minute_settings minute_run 0 0 [] idle_service"
  have facts: "reads_back (mk_platform signed_market)" "\<not> bk_dry minute_run" "0 < se_bar_lookback minute_settings"
    "first_start signed_market minute_run (co_store idle_service) = Inr 0" "0 \<le> bk_end minute_run"
    by (simp_all add: reads_back_def signed_market_def minute_run_def minute_settings_def first_start_def
        get_backfill_state_def idle_service_def empty_store_def)
  obtain C' where run: "?run = Some (Inl (Disconnected ''lost''), C')"
    unfolding backfill_loop_windows [OF facts(3)] minute_windows by (simp add: minute_step bind_act_def)
  from backfill_resumes [OF facts run] obtain passed rest v C1 a' where
    split: "[(0, 60000000), (60000000, 120000000), (120000000, 180000000)] = passed @ rest"
    and a': "first_start signed_market minute_run (co_store C') = Inr a'"
      "windows a' (bk_end minute_run) (bk_timeframe minute_run) (se_bar_lookback minute_settings) = rest"
    and failed: "case rest of [] \<Rightarrow> Inl (Disconnected ''lost'') = Inr v \<and> C' = C1
      | (s, e) # _ \<Rightarrow> (\<exists>x. (Inl (Disconnected ''lost'') :: market_exn + nat \<times> quality_incident list) = Inl x \<and>
          backfill_step (\<lambda>_. []) signed_market failing_terminal minute_settings minute_run s e C1 = (Inl x, C'))"
    and ok: "run_windows (\<lambda>_. []) signed_market failing_terminal minute_settings minute_run passed 0 [] idle_service = (Inr v, C1)"
    unfolding minute_windows by blast
  show ?thesis
  proof (cases passed)
    case Nil
    with split failed show ?thesis by (auto simp: minute_step)
  next
    case (Cons p ps)
    with split have p: "p = (0, 60000000)" "[(60000000, 120000000), (120000000, 180000000)] = ps @ rest" by simp_all
    show ?thesis
    proof (cases ps)
      case Nil
      with p a'(2) have "windows a' (bk_end minute_run) (bk_timeframe minute_run) (se_bar_lookback minute_settings) =
          [(60000000, 120000000), (120000000, 180000000)]" by simp
      then have "a' = 60000000" by (subst (asm) (1) windows.simps) (auto split: if_splits)
      with run a'(1) show ?thesis by blast
    next
      case (Cons q qs)
      with p have "q = (60000000, 120000000)" by simp
      with ok \<open>passed = p # ps\<close> p Cons show ?thesis by (simp add: minute_step bind_act_def)
    qed
  qed
qed

end
