(* ===== verification/EnvAudit.thy ===== *)
theory EnvAudit
  imports Telegram
begin

text \<open>
  \<open>env.py\<close>: the runtime environment file, its audit against the specification of every variable, and
  the settings made of it. The audit is where the program insists that it only advises: the variables
  that would allow execution have an expected value. The file system is a parameter: which \<open>.env\<close>
  files there are, the lines of one, and how paths are resolved and joined.
\<close>

section \<open>Paths and platform\<close>

record project_paths =
  pp_root :: string
  pp_state :: string
  pp_workspace :: string
  pp_runtime_env :: string
  pp_runtime_config :: string

record env_platform =
  ep_resolve :: "string \<Rightarrow> string"
  ep_absolute :: "string \<Rightarrow> bool"
  ep_join :: "string \<Rightarrow> string \<Rightarrow> string"
  ep_parts :: "string \<Rightarrow> string list"
  ep_lines :: "string \<Rightarrow> string list option"
  ep_env_files :: "string \<Rightarrow> string list"
  ep_bracketed_host :: "string \<Rightarrow> bool"

datatype env_exn =
    DuplicateEnv string
  | EnvMissing string
  | SettingsInvalid string
  | Malformed string

section \<open>The file\<close>

text \<open>\<open>line.split("=", 1)\<close>\<close>

definition split_assignment :: "string \<Rightarrow> (string \<times> string) option" where
  "split_assignment line =
     (if CHR ''='' \<in> set line
      then Some (takeWhile (\<lambda>c. c \<noteq> CHR ''='') line, tl (dropWhile (\<lambda>c. c \<noteq> CHR ''='') line))
      else None)"

fun parse_env_lines :: "string list \<Rightarrow> (string, string) dict \<Rightarrow> env_exn + (string, string) dict" where
  "parse_env_lines [] values = Inr values"
| "parse_env_lines (raw # lines) values =
     (let line = str_strip raw
      in if line = [] \<or> starts_with ''#'' line then parse_env_lines lines values
         else (case split_assignment line of
                 None \<Rightarrow> Inl (Malformed (''Invalid .env line: '' @ str_repr raw))
               | Some (k, v) \<Rightarrow> parse_env_lines lines (dict_set (str_strip k) (str_strip v) values)))"

definition parse_env_file :: "string list \<Rightarrow> env_exn + (string, string) dict" where
  "parse_env_file lines = parse_env_lines lines []"

section \<open>Values\<close>

datatype env_parser = Bool_parser | Int_parser | String_parser | Path_parser | Url_parser | Secret_parser

datatype env_value = EBool bool | EInt int | EText string | EPath string | ESecret string

definition parse_bool :: "string \<Rightarrow> string + env_value" where
  "parse_bool raw =
     (let n = str_lower (str_strip raw)
      in if n = ''true'' then Inr (EBool True)
         else if n = ''false'' then Inr (EBool False)
         else Inl ''expected true or false'')"

text \<open>The scheme and the host of \<open>urlparse\<close>, on ASCII text without control characters.\<close>

definition scheme_char :: "char \<Rightarrow> bool" where
  "scheme_char c = (is_alnum c \<or> c = CHR ''+'' \<or> c = CHR ''-'' \<or> c = CHR ''.'')"

definition is_letter :: "char \<Rightarrow> bool" where
  "is_letter c = (is_alnum c \<and> \<not> is_digit c)"

definition url_scheme :: "string \<Rightarrow> string \<times> string" where
  "url_scheme url =
     (let s = takeWhile (\<lambda>c. c \<noteq> CHR '':'') url
      in if length s < length url \<and> s \<noteq> [] \<and> is_letter (hd s) \<and> list_all scheme_char s
         then (str_lower s, drop (Suc (length s)) url)
         else ([], url))"

definition url_netloc :: "string \<Rightarrow> string" where
  "url_netloc rest =
     (if starts_with ''//'' rest
      then takeWhile (\<lambda>c. c \<noteq> CHR ''/'' \<and> c \<noteq> CHR ''?'' \<and> c \<noteq> CHR ''#'') (drop 2 rest)
      else [])"

definition parse_url :: "env_platform \<Rightarrow> string \<Rightarrow> string + env_value" where
  "parse_url F raw =
     (let (scheme, rest) = url_scheme raw;
          netloc = url_netloc rest
      in if (CHR ''['' \<in> set netloc) \<noteq> (CHR '']'' \<in> set netloc) then Inl ''Invalid IPv6 URL''
         else if CHR ''['' \<in> set netloc \<and> \<not> ep_bracketed_host F netloc then Inl ''Invalid IPv6 URL''
         else if scheme \<notin> {''http'', ''https''} \<or> netloc = [] then Inl ''expected absolute http(s) URL''
         else Inr (EText raw))"

fun run_parser :: "env_platform \<Rightarrow> env_parser \<Rightarrow> string \<Rightarrow> string + env_value" where
  "run_parser F Bool_parser raw = parse_bool raw"
| "run_parser F Int_parser raw =
     (case parse_int raw of
        Some i \<Rightarrow> Inr (EInt i)
      | None \<Rightarrow> Inl (''invalid literal for int() with base 10: '' @ str_repr raw))"
| "run_parser F String_parser raw = Inr (EText raw)"
| "run_parser F Path_parser raw = Inr (EPath raw)"
| "run_parser F Url_parser raw = parse_url F raw"
| "run_parser F Secret_parser raw = Inr (ESecret raw)"

text \<open>\<open>SecretValue.redacted\<close>, which is also its \<open>repr\<close>.\<close>

definition redacted_secret :: "py_env \<Rightarrow> string \<Rightarrow> string" where
  "redacted_secret E value =
     (if value = [] then ''<blank>'' else ''<redacted:'' @ take 12 (sha256_hex E value) @ ''>'')"

section \<open>The specification of the variables\<close>

record env_spec =
  es_name :: string
  es_parser :: env_parser
  es_allow_blank :: bool
  es_expected :: "string option"

definition env_spec :: "string \<Rightarrow> env_parser \<Rightarrow> bool \<Rightarrow> string option \<Rightarrow> env_spec" where
  "env_spec name parser blank expected =
     \<lparr>es_name = name, es_parser = parser, es_allow_blank = blank, es_expected = expected\<rparr>"

definition build_env_specs :: "project_paths \<Rightarrow> env_spec list" where
  "build_env_specs P =
     [
      env_spec ''OPENCLAW_HOME'' Path_parser False (Some (pp_root P)),
      env_spec ''OPENCLAW_STATE_DIR'' Path_parser False (Some (pp_state P)),
      env_spec ''OPENCLAW_CONFIG_PATH'' Path_parser False (Some (pp_runtime_config P)),
      env_spec ''OPENCLAW_WORKSPACE_DIR'' Path_parser False (Some (pp_workspace P)),
      env_spec ''OPENCLAW_LOG_LEVEL'' String_parser False None,
      env_spec ''OPENCLAW_GATEWAY_TOKEN'' Secret_parser True None,
      env_spec ''OPENCLAW_HOOKS_TOKEN'' Secret_parser True None,
      env_spec ''ADVISOR_ENGINE_API_TOKEN'' Secret_parser True None,
      env_spec ''AI_PROVIDER'' String_parser True None,
      env_spec ''OPENAI_ENABLED'' Bool_parser False None,
      env_spec ''CLAUDE_ENABLED'' Bool_parser False None,
      env_spec ''GEMINI_ENABLED'' Bool_parser False None,
      env_spec ''DEEPSEEK_ENABLED'' Bool_parser False None,
      env_spec ''AI_PROVIDER_FALLBACK_ENABLED'' Bool_parser False None,
      env_spec ''AI_PROVIDER_FALLBACK_ORDER'' String_parser False None,
      env_spec ''ALLOW_PAID_PROVIDER_SMOKE_TEST'' Bool_parser False None,
      env_spec ''OPENAI_MODEL'' String_parser True None,
      env_spec ''CLAUDE_MODEL'' String_parser True None,
      env_spec ''GEMINI_MODEL'' String_parser True None,
      env_spec ''DEEPSEEK_MODEL'' String_parser True None,
      env_spec ''OPENAI_TIMEOUT_SECONDS'' Int_parser True None,
      env_spec ''CLAUDE_TIMEOUT_SECONDS'' Int_parser True None,
      env_spec ''GEMINI_TIMEOUT_SECONDS'' Int_parser True None,
      env_spec ''DEEPSEEK_TIMEOUT_SECONDS'' Int_parser True None,
      env_spec ''DEEPSEEK_API_KEY'' Secret_parser True None,
      env_spec ''OPENAI_API_KEY'' Secret_parser True None,
      env_spec ''ANTHROPIC_API_KEY'' Secret_parser True None,
      env_spec ''GEMINI_API_KEY'' Secret_parser True None,
      env_spec ''GOOGLE_API_KEY'' Secret_parser True None,
      env_spec ''TELEGRAM_ENABLED'' Bool_parser False None,
      env_spec ''TELEGRAM_BOT_TOKEN'' Secret_parser True None,
      env_spec ''TELEGRAM_ALLOWED_USER_ID'' String_parser True None,
      env_spec ''TELEGRAM_TARGET_CHAT_ID'' String_parser True None,
      env_spec ''TELEGRAM_GROUP_CHAT_ID'' String_parser True None,
      env_spec ''TELEGRAM_THREAD_ID'' String_parser True None,
      env_spec ''OPENCLAW_TELEGRAM_OPERATOR_ENABLED'' Bool_parser False None,
      env_spec ''OPENCLAW_TELEGRAM_OPERATOR_BOT_TOKEN'' Secret_parser True None,
      env_spec ''OPENCLAW_TELEGRAM_OPERATOR_OWNER_USER_ID'' String_parser True None,
      env_spec ''OPENCLAW_TELEGRAM_OPERATOR_ALLOWED_CHAT_IDS'' String_parser True None,
      env_spec ''OPENCLAW_TELEGRAM_OPERATOR_MODE'' String_parser False None,
      env_spec ''OPENCLAW_TELEGRAM_OPERATOR_WEBHOOK_ENABLED'' Bool_parser False None,
      env_spec ''OPENCLAW_TELEGRAM_MARKET_ENABLED'' Bool_parser False None,
      env_spec ''OPENCLAW_TELEGRAM_MARKET_BOT_TOKEN'' Secret_parser True None,
      env_spec ''OPENCLAW_TELEGRAM_MARKET_TARGET_CHAT_ID'' String_parser True None,
      env_spec ''OPENCLAW_TELEGRAM_MARKET_TARGET_THREAD_ID'' String_parser True None,
      env_spec ''OPENCLAW_TELEGRAM_MARKET_INBOUND_ENABLED'' Bool_parser False None,
      env_spec ''MT5_ENABLED'' Bool_parser False None,
      env_spec ''MT5_TERMINAL_PATH'' Path_parser True None,
      env_spec ''MT5_USE_EXISTING_SESSION'' Bool_parser False None,
      env_spec ''MT5_LOGIN'' String_parser True None,
      env_spec ''MT5_PASSWORD'' Secret_parser True None,
      env_spec ''MT5_SERVER'' String_parser True None,
      env_spec ''MT5_XAUUSD_SYMBOL'' String_parser True None,
      env_spec ''MT5_EURUSD_SYMBOL'' String_parser True None,
      env_spec ''MT5_GBPUSD_SYMBOL'' String_parser True None,
      env_spec ''MT5_AUDUSD_SYMBOL'' String_parser True None,
      env_spec ''MT5_NZDUSD_SYMBOL'' String_parser True None,
      env_spec ''MT5_USDJPY_SYMBOL'' String_parser True None,
      env_spec ''MT5_USDCHF_SYMBOL'' String_parser True None,
      env_spec ''MT5_USDCAD_SYMBOL'' String_parser True None,
      env_spec ''MT5_DXY_SYMBOL'' String_parser True None,
      env_spec ''MT5_US10Y_SYMBOL'' String_parser True None,
      env_spec ''FRED_ENABLED'' Bool_parser False None,
      env_spec ''FRED_API_KEY'' Secret_parser True None,
      env_spec ''FRED_BASE_URL'' Url_parser False None,
      env_spec ''FRED_TIMEOUT_SECONDS'' Int_parser False None,
      env_spec ''FRED_MAX_RETRIES'' Int_parser False None,
      env_spec ''FRED_CACHE_TTL_SECONDS'' Int_parser False None,
      env_spec ''FRED_US10Y_SERIES_ID'' String_parser False None,
      env_spec ''FRED_USD_BROAD_SERIES_ID'' String_parser False None,
      env_spec ''ADVISOR_ONLY'' Bool_parser False (Some ''true''),
      env_spec ''EXECUTION_ALLOWED'' Bool_parser False (Some ''false''),
      env_spec ''ALLOW_ORDER_SEND'' Bool_parser False (Some ''false''),
      env_spec ''ADVISOR_ENGINE_HOST'' String_parser False None,
      env_spec ''ADVISOR_ENGINE_PORT'' Int_parser False None,
      env_spec ''ADVISOR_ENGINE_BASE_URL'' Url_parser False None,
      env_spec ''ADVISOR_TIMEZONE'' String_parser False None,
      env_spec ''ADVISOR_PRIMARY_SYMBOL'' String_parser False None,
      env_spec ''ADVISOR_RUNTIME_MODE'' String_parser False None,
      env_spec ''OPENCLAW_HOOKS_ENABLED'' Bool_parser False None,
      env_spec ''OPENCLAW_HOOKS_PATH'' String_parser False None,
      env_spec ''OPENCLAW_GATEWAY_HOST'' String_parser False None,
      env_spec ''OPENCLAW_GATEWAY_PORT'' Int_parser False None,
      env_spec ''ADVISOR_DATA_DIR'' Path_parser False None,
      env_spec ''ADVISOR_LOG_DIR'' Path_parser False None,
      env_spec ''ADVISOR_DB_PATH'' Path_parser False None,
      env_spec ''APP_ENV'' String_parser False None,
      env_spec ''DRY_RUN'' Bool_parser False None,
      env_spec ''SHADOW_MODE'' Bool_parser False None,
      env_spec ''LIVE_TELEGRAM_ALLOWED'' Bool_parser False (Some ''false''),
      env_spec ''REVEAL_SECRET_VALUES'' Bool_parser False (Some ''false'')]"

section \<open>The audit\<close>

datatype env_status = Present | Missing | Blank | Invalid_format

record env_issue =
  ei_name :: string
  ei_status :: env_status
  ei_message :: string

record env_report =
  er_path :: string
  er_values :: "(string, string) dict"
  er_statuses :: "(string, env_status) dict"
  er_duplicates :: "string list"
  er_issues :: "env_issue list"

definition env_issue :: "string \<Rightarrow> env_status \<Rightarrow> string \<Rightarrow> env_issue" where
  "env_issue name status message = \<lparr>ei_name = name, ei_status = status, ei_message = message\<rparr>"

definition detect_duplicate_env_files :: "env_platform \<Rightarrow> project_paths \<Rightarrow> string option \<Rightarrow> string list" where
  "detect_duplicate_env_files F P env_path =
     (let selected = ep_resolve F (case env_path of None \<Rightarrow> pp_runtime_env P | Some p \<Rightarrow> p);
          allowed = {selected, ep_resolve F (pp_runtime_env P)};
          skipped = (\<lambda>r. list_ex (\<lambda>p. p \<in> {''_tmp'', ''._tmp'', ''.tmp_pytest''}) (ep_parts F r) \<and>
             ''state'' \<in> set (ep_parts F r) \<and> ep_parts F r \<noteq> [] \<and> last (ep_parts F r) = ''.env'')
      in sort_key (ep_parts F)
           (filter (\<lambda>r. \<not> skipped r \<and> r \<notin> allowed) (map (ep_resolve F) (ep_env_files F (pp_root P)))))"

definition validate_expected ::
  "env_platform \<Rightarrow> env_spec \<Rightarrow> string \<Rightarrow> env_value \<Rightarrow> string \<Rightarrow> string + unit" where
  "validate_expected F spec raw parsed base_dir =
     (case es_expected spec of
        None \<Rightarrow> Inr ()
      | Some expected \<Rightarrow>
          (case parsed of
             EPath p \<Rightarrow>
               if ep_resolve F (if ep_absolute F p then p else ep_join F base_dir p) \<noteq> ep_resolve F expected
               then Inl (''expected '' @ expected) else Inr ()
           | _ \<Rightarrow> if str_lower raw \<noteq> str_lower expected then Inl (''expected '' @ expected) else Inr ()))"

text \<open>The body of the loop over the specifications: the status and the issue of one variable.\<close>

definition audit_variable ::
  "env_platform \<Rightarrow> string \<Rightarrow> (string, string) dict \<Rightarrow> env_spec \<Rightarrow> env_status \<times> env_issue list" where
  "audit_variable F base_dir values spec =
     (case dict_get values (es_name spec) of
        None \<Rightarrow> (Missing, [env_issue (es_name spec) Missing ''Variable is missing''])
      | Some raw \<Rightarrow>
          if raw = []
          then (Blank, if es_allow_blank spec then [] else [env_issue (es_name spec) Blank ''Required variable is blank''])
          else
            (case bind_res (run_parser F (es_parser spec) raw) (\<lambda>v. validate_expected F spec raw v base_dir) of
               Inr _ \<Rightarrow> (Present, [])
             | Inl message \<Rightarrow> (Invalid_format, [env_issue (es_name spec) Invalid_format message])))"

definition is_on :: "(string, string) dict \<Rightarrow> string \<Rightarrow> string \<Rightarrow> bool" where
  "is_on values name missing = (str_lower (dict_get_or values name missing) = ''true'')"

definition blank_issues :: "(string, env_status) dict \<Rightarrow> string list \<Rightarrow> string \<Rightarrow> env_issue list" where
  "blank_issues statuses names message =
     map (\<lambda>n. env_issue n Blank message) (filter (\<lambda>n. dict_get statuses n = Some Blank) names)"

text \<open>\<open>issue.partition(": ")\<close>: the name before the separator and the message after it.\<close>

fun partition_at :: "string \<Rightarrow> string \<Rightarrow> string \<times> string" where
  "partition_at sep [] = ([], [])"
| "partition_at sep (c # s) =
     (if starts_with sep (c # s) then ([], drop (length sep) (c # s))
      else (let (a, b) = partition_at sep s in (c # a, b)))"

definition bot_issue :: "string \<Rightarrow> env_issue" where
  "bot_issue text =
     (let (name, message) = partition_at '': '' text
      in env_issue name Invalid_format (if message = [] then text else message))"

definition token_names :: "string list" where
  "token_names = [''OPENCLAW_GATEWAY_TOKEN'', ''OPENCLAW_HOOKS_TOKEN'', ''ADVISOR_ENGINE_API_TOKEN'']"

definition token_issues :: "(string, string) dict \<Rightarrow> env_issue list" where
  "token_issues values =
     (let tokens = filter (\<lambda>v. v \<noteq> []) (map (\<lambda>n. dict_get_or values n []) token_names)
      in if length (remdups tokens) \<noteq> length tokens
         then [env_issue ''OPENCLAW_TOKENS'' Invalid_format
                 ''Gateway, hooks, and engine tokens must be distinct when present'']
         else [])"

definition audit_values ::
  "env_platform \<Rightarrow> project_paths \<Rightarrow> (string, string) dict \<Rightarrow> (string, env_status) dict \<times> env_issue list" where
  "audit_values F P values =
     (let audited = map (\<lambda>s. (es_name s, audit_variable F (pp_root P) values s)) (build_env_specs P);
          statuses = fold (\<lambda>(n, r). dict_set n (fst r)) audited []
      in (statuses,
          concat (map (\<lambda>(n, r). snd r) audited) @
          (if is_on values ''TELEGRAM_ENABLED'' ''false''
           then blank_issues statuses [''TELEGRAM_BOT_TOKEN'', ''TELEGRAM_TARGET_CHAT_ID'']
             ''Required when TELEGRAM_ENABLED=true''
           else []) @
          map bot_issue (validate_dual_bot_contract values) @
          (if is_on values ''MT5_ENABLED'' ''false'' \<and> \<not> is_on values ''MT5_USE_EXISTING_SESSION'' ''true''
           then blank_issues statuses [''MT5_LOGIN'', ''MT5_PASSWORD'', ''MT5_SERVER'']
             ''Required when MT5_ENABLED=true and MT5_USE_EXISTING_SESSION=false''
           else []) @
          token_issues values))"

definition audit_environment ::
  "env_platform \<Rightarrow> project_paths \<Rightarrow> string option \<Rightarrow> env_exn + env_report" where
  "audit_environment F P env_path =
     (let selected = ep_resolve F (case env_path of None \<Rightarrow> pp_runtime_env P | Some p \<Rightarrow> p)
      in case ep_lines F selected of
           None \<Rightarrow> Inl (EnvMissing (''Missing env file: '' @ selected))
         | Some lines \<Rightarrow>
             (let duplicates = detect_duplicate_env_files F P (Some selected)
              in if duplicates \<noteq> []
                 then Inl (DuplicateEnv (''Found prohibited env files: '' @ str_join '', '' duplicates))
                 else bind_res (parse_env_file lines) (\<lambda>values.
                   let (statuses, issues) = audit_values F P values
                   in Inr \<lparr>er_path = selected, er_values = values, er_statuses = statuses,
                           er_duplicates = duplicates, er_issues = issues\<rparr>)))"

section \<open>The settings\<close>

record app_settings =
  as_path :: string
  as_raw :: "(string, string) dict"
  as_parsed :: "(string, env_value) dict"
  as_secrets :: "(string, string) dict"

text \<open>The loop over the specifications; a blank value is kept as text.\<close>

fun parse_values ::
  "env_platform \<Rightarrow> (string, string) dict \<Rightarrow> env_spec list \<Rightarrow> (string, env_value) dict \<Rightarrow> (string, string) dict \<Rightarrow>
   env_exn + (string, env_value) dict \<times> (string, string) dict" where
  "parse_values F values [] parsed secrets = Inr (parsed, secrets)"
| "parse_values F values (s # ss) parsed secrets =
     (let raw = dict_get_or values (es_name s) []
      in if raw = []
         then parse_values F values ss (dict_set (es_name s) (EText raw) parsed)
           (if es_parser s = Secret_parser then dict_set (es_name s) raw secrets else secrets)
         else (case run_parser F (es_parser s) raw of
                 Inl message \<Rightarrow> Inl (Malformed message)
               | Inr v \<Rightarrow> parse_values F values ss (dict_set (es_name s) v parsed)
                   (case v of ESecret x \<Rightarrow> dict_set (es_name s) x secrets | _ \<Rightarrow> secrets)))"

definition load_settings ::
  "env_platform \<Rightarrow> project_paths \<Rightarrow> string option \<Rightarrow> bool \<Rightarrow> env_exn + app_settings" where
  "load_settings F P env_path strict =
     bind_res (audit_environment F P env_path) (\<lambda>report.
       if strict \<and> er_issues report \<noteq> []
       then Inl (SettingsInvalid (str_join ''; '' (map (\<lambda>i. ei_name i @ '': '' @ ei_message i) (er_issues report))))
       else bind_res (parse_values F (er_values report) (build_env_specs P) [] []) (\<lambda>(parsed, secrets).
         Inr \<lparr>as_path = er_path report, as_raw = er_values report, as_parsed = parsed, as_secrets = secrets\<rparr>))"

section \<open>What strict settings guarantee\<close>

lemma spec_names:
  "map es_name (build_env_specs P) = map es_name (build_env_specs \<lparr>pp_root = [], pp_state = [], pp_workspace = [],
     pp_runtime_env = [], pp_runtime_config = []\<rparr>)"
  by (simp add: build_env_specs_def env_spec_def)

lemma specs_distinct: "distinct (map es_name (build_env_specs P))"
  unfolding spec_names [of P] by code_simp

lemma safety_specs:
  "env_spec ''ADVISOR_ONLY'' Bool_parser False (Some ''true'') \<in> set (build_env_specs P)"
  "env_spec ''EXECUTION_ALLOWED'' Bool_parser False (Some ''false'') \<in> set (build_env_specs P)"
  "env_spec ''ALLOW_ORDER_SEND'' Bool_parser False (Some ''false'') \<in> set (build_env_specs P)"
  "env_spec ''LIVE_TELEGRAM_ALLOWED'' Bool_parser False (Some ''false'') \<in> set (build_env_specs P)"
  "env_spec ''REVEAL_SECRET_VALUES'' Bool_parser False (Some ''false'') \<in> set (build_env_specs P)"
  unfolding build_env_specs_def by (simp_all only: list.set insert_iff simp_thms)

lemma audit_values_ok:
  assumes "snd (audit_values F P values) = []"
  shows "s \<in> set (build_env_specs P) \<Longrightarrow> snd (audit_variable F (pp_root P) values s) = []"
    and "validate_dual_bot_contract values = []" and "token_issues values = []"
  using assms by (auto simp: audit_values_def Let_def)

lemma variable_ok:
  assumes "snd (audit_variable F base_dir values s) = []"
  obtains raw where "dict_get values (es_name s) = Some raw" and "raw = [] \<Longrightarrow> es_allow_blank s"
    and "raw \<noteq> [] \<Longrightarrow> \<exists>v. run_parser F (es_parser s) raw = Inr v \<and> validate_expected F s raw v base_dir = Inr ()"
proof (cases "dict_get values (es_name s)")
  case None
  with assms show ?thesis by (simp add: audit_variable_def)
next
  case (Some raw)
  show ?thesis
  proof (rule that [OF Some])
    show "raw = [] \<Longrightarrow> es_allow_blank s" using assms Some by (auto simp: audit_variable_def split: if_splits)
    show "raw \<noteq> [] \<Longrightarrow> \<exists>v. run_parser F (es_parser s) raw = Inr v \<and> validate_expected F s raw v base_dir = Inr ()"
      using assms Some by (auto simp: audit_variable_def bind_res_Inr split: sum.splits)
  qed
qed

lemma dropWhile_lower: "dropWhile is_space (map char_lower s) = map char_lower (dropWhile is_space s)"
proof -
  have "is_space (char_lower c) = is_space c" for c
    by (simp add: is_space_def char_lower_def Let_def of_char_of)
  then show ?thesis by (induction s) simp_all
qed

lemma strip_lower: "str_strip (str_lower s) = str_lower (str_strip s)"
  unfolding str_strip_def str_lower_def by (simp only: dropWhile_lower rev_map)

lemma parse_bool_Inr:
  "parse_bool raw = Inr v \<Longrightarrow> \<exists>c. v = EBool c \<and> str_lower (str_strip raw) = (if c then ''true'' else ''false'')"
  unfolding parse_bool_def Let_def by (simp only: split: if_splits) (auto split: if_splits)

lemma expected_bool:
  "validate_expected F s raw (EBool c) base_dir = Inr () \<Longrightarrow> es_expected s = Some e \<Longrightarrow> str_lower raw = str_lower e"
  by (simp add: validate_expected_def split: if_splits)

lemma truth_words:
  "str_strip ''true'' = ''true''" "str_strip ''false'' = ''false''"
  "str_lower ''true'' = ''true''" "str_lower ''false'' = ''false''"
  by code_simp+

lemma flag_ok:
  assumes "snd (audit_variable F base_dir values (env_spec n Bool_parser False (Some (if b then ''true'' else ''false'')))) = []"
  shows "\<exists>raw. dict_get values n = Some raw \<and> raw \<noteq> [] \<and> run_parser F Bool_parser raw = Inr (EBool b)"
proof -
  let ?e = "if b then ''true'' else ''false''"
  let ?s = "env_spec n Bool_parser False (Some ?e)"
  have s: "es_name ?s = n" "es_parser ?s = Bool_parser" "\<not> es_allow_blank ?s" "es_expected ?s = Some ?e"
    by (simp_all add: env_spec_def)
  obtain raw where raw: "dict_get values n = Some raw" "raw \<noteq> []"
    and "\<exists>v. parse_bool raw = Inr v \<and> validate_expected F ?s raw v base_dir = Inr ()"
    using variable_ok [OF assms] s by (metis run_parser.simps(1))
  then obtain v where v: "parse_bool raw = Inr v" "validate_expected F ?s raw v base_dir = Inr ()" by blast
  obtain c where c: "v = EBool c" "str_lower (str_strip raw) = (if c then ''true'' else ''false'')"
    using parse_bool_Inr [OF v(1)] by blast
  have "str_lower raw = ?e" using expected_bool [OF v(2) [unfolded c(1)] s(4)] by (cases b) (simp_all only: if_True if_False truth_words)
  then have "str_lower (str_strip raw) = ?e"
    unfolding strip_lower [symmetric] by (cases b) (simp_all only: if_True if_False truth_words)
  with c(2) have "c = b" by (cases b; cases c) simp_all
  with raw v(1) c(1) show ?thesis by simp
qed

lemma parse_values_other:
  "parse_values F values ss parsed secrets = Inr (p, q) \<Longrightarrow> n \<notin> es_name ` set ss \<Longrightarrow> dict_get p n = dict_get parsed n"
proof (induction ss arbitrary: parsed secrets)
  case Nil
  then show ?case by simp
next
  case (Cons t ss)
  obtain w sec where "parse_values F values ss (dict_set (es_name t) w parsed) sec = Inr (p, q)"
    using Cons.prems(1) by (auto simp: Let_def split: if_splits sum.splits)
  from Cons.IH [OF this] Cons.prems(2) show ?case by simp
qed

lemma parse_values_get:
  "parse_values F values ss parsed secrets = Inr (p, q) \<Longrightarrow> distinct (map es_name ss) \<Longrightarrow> s \<in> set ss \<Longrightarrow>
   dict_get values (es_name s) = Some raw \<Longrightarrow> raw \<noteq> [] \<Longrightarrow> run_parser F (es_parser s) raw = Inr v \<Longrightarrow>
   dict_get p (es_name s) = Some v"
proof (induction ss arbitrary: parsed secrets)
  case Nil
  then show ?case by simp
next
  case (Cons t ss)
  obtain w sec where rest: "parse_values F values ss (dict_set (es_name t) w parsed) sec = Inr (p, q)"
    and w: "dict_get_or values (es_name t) [] \<noteq> [] \<Longrightarrow> run_parser F (es_parser t) (dict_get_or values (es_name t) []) = Inr w"
    using Cons.prems(1) by (auto simp: Let_def split: if_splits sum.splits)
  show ?case
  proof (cases "s = t")
    case True
    with Cons.prems w have "w = v" by (simp add: dict_get_or_def)
    with parse_values_other [OF rest] Cons.prems(2) True show ?thesis by simp
  next
    case False
    with Cons.IH [OF rest] Cons.prems show ?thesis by simp
  qed
qed

lemma load_settings_strict:
  assumes "load_settings F P env_path True = Inr S"
  shows "snd (audit_values F P (as_raw S)) = []"
    and "\<exists>q. parse_values F (as_raw S) (build_env_specs P) [] [] = Inr (as_parsed S, q)"
  using assms
  by (auto simp: load_settings_def audit_environment_def bind_res_Inr Let_def split: if_splits option.splits prod.splits)

text \<open>
  C3: Settings that were loaded strictly say that the program only advises: \<open>ADVISOR_ONLY\<close> is true and
  execution, the sending of orders, live Telegram and the showing of secrets are false. Every
  variable of the specification is there, those that must not be blank are not, each that is not
  blank has the form its parser asks for, and no two of the three service tokens, nor the tokens of
  the two bots, are the same.
\<close>

theorem advisor_only_enforced:
  assumes "load_settings F P env_path True = Inr S"
  shows "dict_get (as_parsed S) ''ADVISOR_ONLY'' = Some (EBool True) \<and>
    dict_get (as_parsed S) ''EXECUTION_ALLOWED'' = Some (EBool False) \<and>
    dict_get (as_parsed S) ''ALLOW_ORDER_SEND'' = Some (EBool False) \<and>
    dict_get (as_parsed S) ''LIVE_TELEGRAM_ALLOWED'' = Some (EBool False) \<and>
    dict_get (as_parsed S) ''REVEAL_SECRET_VALUES'' = Some (EBool False) \<and>
    list_all (\<lambda>s. \<exists>raw. dict_get (as_raw S) (es_name s) = Some raw \<and>
      (if raw = [] then es_allow_blank s else (\<exists>v. run_parser F (es_parser s) raw = Inr v))) (build_env_specs P) \<and>
    distinct (filter (\<lambda>v. v \<noteq> []) (map (\<lambda>n. dict_get_or (as_raw S) n []) token_names)) \<and>
    validate_dual_bot_contract (as_raw S) = []"
proof -
  note ok = audit_values_ok [OF load_settings_strict(1) [OF assms]]
  obtain q where parsed: "parse_values F (as_raw S) (build_env_specs P) [] [] = Inr (as_parsed S, q)"
    using load_settings_strict(2) [OF assms] by blast
  have flag: "dict_get (as_parsed S) n = Some (EBool b)"
    if spec: "env_spec n Bool_parser False (Some (if b then ''true'' else ''false'')) \<in> set (build_env_specs P)" for n b
  proof -
    obtain raw where raw: "dict_get (as_raw S) n = Some raw" "raw \<noteq> []" "run_parser F Bool_parser raw = Inr (EBool b)"
      using flag_ok [OF ok(1) [OF spec]] by blast
    then show ?thesis
      using parse_values_get [OF parsed specs_distinct spec] by (simp add: env_spec_def)
  qed
  have "\<exists>raw. dict_get (as_raw S) (es_name s) = Some raw \<and>
      (if raw = [] then es_allow_blank s else (\<exists>v. run_parser F (es_parser s) raw = Inr v))"
    if "s \<in> set (build_env_specs P)" for s
    using variable_ok [OF ok(1) [OF that]] by (metis (full_types))
  moreover have "distinct (filter (\<lambda>v. v \<noteq> []) (map (\<lambda>n. dict_get_or (as_raw S) n []) token_names))"
    using ok(3) by (auto simp: token_issues_def Let_def length_remdups_eq split: if_splits)
  ultimately show ?thesis
    using flag [of "''ADVISOR_ONLY''" True] flag [of "''EXECUTION_ALLOWED''" False] flag [of "''ALLOW_ORDER_SEND''" False]
      flag [of "''LIVE_TELEGRAM_ALLOWED''" False] flag [of "''REVEAL_SECRET_VALUES''" False] safety_specs [of P] ok(2)
    by (simp add: list_all_iff)
qed

section \<open>A file that is accepted\<close>

text \<open>Pairs that are read back from the lines that assign them.\<close>

definition assignable :: "string \<times> string \<Rightarrow> bool" where
  "assignable = (\<lambda>(k, v). k \<noteq> [] \<and> CHR ''='' \<notin> set k \<and> hd k \<noteq> CHR ''#'' \<and> \<not> is_space (hd k) \<and> \<not> is_space (last k) \<and>
     (v \<noteq> [] \<longrightarrow> \<not> is_space (hd v) \<and> \<not> is_space (last v)))"

definition assignment :: "string \<times> string \<Rightarrow> string" where
  "assignment = (\<lambda>(k, v). k @ ''='' @ v)"

lemma strip_id: "s = [] \<or> \<not> is_space (hd s) \<and> \<not> is_space (last s) \<Longrightarrow> str_strip s = s"
proof (elim disjE conjE)
  assume ends: "\<not> is_space (hd s)" "\<not> is_space (last s)"
  then have "dropWhile is_space s = s" by (cases s) simp_all
  moreover from ends have "dropWhile is_space (rev s) = rev s" by (cases s rule: rev_cases) simp_all
  ultimately show ?thesis by (simp add: str_strip_def)
qed (simp add: str_strip_def)

lemma not_space: "\<not> is_space CHR ''=''"
  by code_simp

lemma split_assignable:
  assumes "CHR ''='' \<notin> set k"
  shows "split_assignment (k @ ''='' @ v) = Some (k, v)"
proof -
  have "takeWhile (\<lambda>c. c \<noteq> CHR ''='') (k @ CHR ''='' # v) = k"
    and "dropWhile (\<lambda>c. c \<noteq> CHR ''='') (k @ CHR ''='' # v) = CHR ''='' # v"
    using assms by (induction k) auto
  then show ?thesis by (simp add: split_assignment_def)
qed

lemma parse_env_assignments:
  "list_all assignable d \<Longrightarrow> distinct (map fst (acc @ d)) \<Longrightarrow>
   parse_env_lines (map assignment d) acc = Inr (acc @ d)"
proof (induction d arbitrary: acc)
  case Nil
  then show ?case by simp
next
  case (Cons p d)
  obtain k v where p: "p = (k, v)" by (cases p)
  from Cons.prems p have k: "k \<noteq> []" "CHR ''='' \<notin> set k" "hd k \<noteq> CHR ''#''" "\<not> is_space (hd k)" "\<not> is_space (last k)"
    and v: "v \<noteq> [] \<Longrightarrow> \<not> is_space (hd v) \<and> \<not> is_space (last v)"
    by (simp_all add: assignable_def)
  have line: "str_strip (assignment p) = assignment p"
    using k v not_space by (intro strip_id) (auto simp: p assignment_def)
  have sides: "str_strip k = k" "str_strip v = v" using k v by (auto intro: strip_id)
  have "\<not> starts_with ''#'' (assignment p)" "assignment p \<noteq> []"
    using k by (cases k; simp add: p assignment_def)+
  moreover have "split_assignment (assignment p) = Some (k, v)"
    using split_assignable [OF k(2)] by (simp add: p assignment_def)
  moreover have "dict_set k v acc = acc @ [(k, v)]"
    using Cons.prems(2) p by (intro dict_set_new) auto
  ultimately show ?case
    using Cons.IH [of "acc @ [(k, v)]"] Cons.prems p line sides by (simp add: Let_def)
qed

definition plain_platform :: "string list \<Rightarrow> env_platform" where
  "plain_platform lines =
     \<lparr>ep_resolve = (\<lambda>p. p), ep_absolute = (\<lambda>p. True), ep_join = (\<lambda>b p. p), ep_parts = (\<lambda>p. [p]),
      ep_lines = (\<lambda>p. Some lines), ep_env_files = (\<lambda>r. []), ep_bracketed_host = (\<lambda>h. False)\<rparr>"

definition plain_paths :: project_paths where
  "plain_paths = \<lparr>pp_root = ''/r'', pp_state = ''/r/state'', pp_workspace = ''/r/workspace'',
     pp_runtime_env = ''/r/state/.env'', pp_runtime_config = ''/r/state/openclaw.json''\<rparr>"

definition plain_value :: "env_spec \<Rightarrow> string" where
  "plain_value s =
     (case es_expected s of
        Some e \<Rightarrow> e
      | None \<Rightarrow>
          (case es_parser s of
             Bool_parser \<Rightarrow> ''false'' | Int_parser \<Rightarrow> ''1'' | Url_parser \<Rightarrow> ''http://h'' | Secret_parser \<Rightarrow> [] | _ \<Rightarrow> ''x''))"

definition plain_values :: "(string, string) dict" where
  "plain_values = map (\<lambda>s. (es_name s, plain_value s)) (build_env_specs plain_paths)"

text \<open>Each variable of that file passes.\<close>

definition plain_spec :: "env_spec \<Rightarrow> bool" where
  "plain_spec s =
     (case es_expected s of
        None \<Rightarrow> es_parser s = Secret_parser \<longrightarrow> es_allow_blank s
      | Some e \<Rightarrow> e \<noteq> [] \<and> (es_parser s = Path_parser \<or> es_parser s = Bool_parser \<and> e \<in> {''true'', ''false''}))"

lemma plain_specs: "list_all plain_spec (build_env_specs plain_paths)"
  by (simp add: build_env_specs_def env_spec_def plain_spec_def plain_paths_def)

lemma plain_parsers:
  "run_parser F Bool_parser ''true'' = Inr (EBool True)" "run_parser F Bool_parser ''false'' = Inr (EBool False)"
  "run_parser F Int_parser ''1'' = Inr (EInt 1)" "run_parser F Url_parser ''http://h'' = Inr (EText ''http://h'')"
  by (simp_all only: run_parser.simps) (code_simp | simp add: parse_url_def url_scheme_def)+

lemma plain_get: "s \<in> set (build_env_specs plain_paths) \<Longrightarrow> dict_get plain_values (es_name s) = Some (plain_value s)"
  using specs_distinct [of plain_paths] by (intro map_of_is_SomeI) (auto simp: plain_values_def o_def)

lemma plain_variable:
  assumes "s \<in> set (build_env_specs plain_paths)"
  shows "snd (audit_variable (plain_platform ls) r plain_values s) = [] \<and>
    (plain_value s \<noteq> [] \<longrightarrow> (\<exists>v. run_parser (plain_platform ls) (es_parser s) (plain_value s) = Inr v))"
proof -
  note get = plain_get [OF assms]
  have "plain_spec s" using plain_specs assms by (simp add: list_all_iff)
  then show ?thesis
    using plain_parsers [of "plain_platform ls"]
    by (cases "es_expected s"; cases "es_parser s")
      (auto simp: audit_variable_def get plain_value_def plain_spec_def validate_expected_def plain_platform_def)
qed

lemma plain_lookup:
  "env_spec n p b e \<in> set (build_env_specs plain_paths) \<Longrightarrow> dict_get plain_values n = Some (plain_value (env_spec n p b e))"
  using plain_get [of "env_spec n p b e"] by (simp add: env_spec_def)

lemma plain_members:
  "env_spec ''TELEGRAM_ENABLED'' Bool_parser False None \<in> set (build_env_specs P)"
  "env_spec ''MT5_ENABLED'' Bool_parser False None \<in> set (build_env_specs P)"
  "env_spec ''OPENCLAW_TELEGRAM_OPERATOR_ENABLED'' Bool_parser False None \<in> set (build_env_specs P)"
  "env_spec ''OPENCLAW_TELEGRAM_MARKET_ENABLED'' Bool_parser False None \<in> set (build_env_specs P)"
  "env_spec ''OPENCLAW_TELEGRAM_OPERATOR_MODE'' String_parser False None \<in> set (build_env_specs P)"
  "env_spec ''OPENCLAW_TELEGRAM_OPERATOR_BOT_TOKEN'' Secret_parser True None \<in> set (build_env_specs P)"
  "env_spec ''OPENCLAW_GATEWAY_TOKEN'' Secret_parser True None \<in> set (build_env_specs P)"
  "env_spec ''OPENCLAW_HOOKS_TOKEN'' Secret_parser True None \<in> set (build_env_specs P)"
  "env_spec ''ADVISOR_ENGINE_API_TOKEN'' Secret_parser True None \<in> set (build_env_specs P)"
  unfolding build_env_specs_def by (simp_all only: list.set insert_iff simp_thms)

lemmas plain_lookups = plain_members [THEN plain_lookup, unfolded plain_value_def env_spec_def env_spec.simps
  option.case env_parser.case]

lemma plain_audit: "snd (audit_values (plain_platform ls) plain_paths plain_values) = []"
proof -
  have "is_on plain_values ''TELEGRAM_ENABLED'' d = False" "is_on plain_values ''MT5_ENABLED'' d = False"
    "flag plain_values ''OPENCLAW_TELEGRAM_OPERATOR_ENABLED'' = False" "flag plain_values ''OPENCLAW_TELEGRAM_MARKET_ENABLED'' = False" for d
    unfolding is_on_def flag_def dict_get_or_def plain_lookups option.case truth_words by simp_all
  moreover have "token_issues plain_values = []"
    by (simp add: token_issues_def token_names_def dict_get_or_def plain_lookups)
  ultimately show ?thesis
    using plain_variable [of _ ls "pp_root plain_paths"]
    by (simp add: audit_values_def Let_def validate_dual_bot_contract_def dict_get_or_def plain_lookups)
qed

lemma plain_assignable: "list_all assignable plain_values"
  unfolding plain_values_def by code_simp

lemma plain_parsed:
  "set ss \<subseteq> set (build_env_specs plain_paths) \<Longrightarrow>
   \<exists>p q. parse_values (plain_platform ls) plain_values ss parsed secrets = Inr (p, q)"
proof (induction ss arbitrary: parsed secrets)
  case Nil
  then show ?case by simp
next
  case (Cons s ss)
  then have s: "s \<in> set (build_env_specs plain_paths)" by simp
  have get: "dict_get_or plain_values (es_name s) [] = plain_value s"
    using plain_get [OF s] by (simp add: dict_get_or_def)
  from Cons plain_variable [OF s, of ls "[]"] show ?case
    by (cases "plain_value s = []") (auto simp: Let_def get)
qed

lemma plain_loaded:
  "\<exists>S. load_settings (plain_platform (map assignment plain_values)) plain_paths None True = Inr S \<and> as_raw S = plain_values"
proof -
  let ?F = "plain_platform (map assignment plain_values)"
  have keys: "distinct (map fst ([] @ plain_values))"
    using specs_distinct [of plain_paths] by (simp add: plain_values_def o_def)
  have read: "parse_env_file (map assignment plain_values) = Inr plain_values"
    unfolding parse_env_file_def using parse_env_assignments [OF plain_assignable keys] by simp
  obtain p q where "parse_values ?F plain_values (build_env_specs plain_paths) [] [] = Inr (p, q)"
    using plain_parsed by blast
  with read plain_audit [of "map assignment plain_values"] show ?thesis
    by (simp add: load_settings_def audit_environment_def detect_duplicate_env_files_def case_prod_beta Let_def
        plain_platform_def)
qed

lemma advisor_only_enforced_witness:
  "\<exists>S. load_settings (plain_platform (map assignment plain_values)) plain_paths None True = Inr S \<and>
     dict_get (as_parsed S) ''EXECUTION_ALLOWED'' = Some (EBool False)"
  using plain_loaded advisor_only_enforced by blast

end
