(* ===== verification/Backup.thy ===== *)
theory Backup
  imports HashChain
begin

text \<open>
  \<open>BackupManager\<close> of \<open>persistence/__init__.py\<close>: copying a tree without what must not be copied, with a
  manifest of digests; verifying a backup against its manifest; and the restore drill. A tree is the
  list of its regular files in the order of \<open>rglob\<close>, each with its relative path and its bytes; the
  directory of a backup maps paths to files. A file that the manager wrote as JSON is held as the
  value that \<open>json.loads\<close> makes of it, any other file as its bytes.
\<close>

section \<open>Files\<close>

datatype backup_file = Data string | Dumped json

type_synonym backup_dir = "(string, backup_file) dict"

definition bytes_of :: "py_env \<Rightarrow> backup_file \<Rightarrow> string" where
  "bytes_of E f =
     (case f of
        Data s \<Rightarrow> s
      | Dumped v \<Rightarrow> (case canonical_json E v of Inl _ \<Rightarrow> [] | Inr s \<Rightarrow> s @ [CHR 0x0A]))"

definition hash_file :: "py_env \<Rightarrow> backup_file \<Rightarrow> string" where
  "hash_file E f = sha256_hex E (bytes_of E f)"

definition manifest_name :: string where
  "manifest_name = ''manifest.json''"

section \<open>What is left out\<close>

abbreviation bs :: char where "bs \<equiv> CHR 0x5C"

definition normalized_path :: "string \<Rightarrow> string" where
  "normalized_path p = str_lower (map (\<lambda>c. if c = CHR ''/'' then bs else c) p)"

definition path_parts :: "string \<Rightarrow> string list" where
  "path_parts n = filter (\<lambda>q. q \<noteq> []) (str_split bs n)"

definition excluded_dirs :: "string list" where
  "excluded_dirs =
     [''.git'', ''.venv'', ''venv'', ''node_modules'', ''_tmp'', ''__pycache__'', ''.pytest_cache'',
      ''.mypy_cache'', ''.ruff_cache'', ''.tox'', ''.nox'']"

definition should_exclude :: "string \<Rightarrow> bool" where
  "should_exclude p =
     (let n = normalized_path p; parts = path_parts n
      in ends_with (bs # ''.env'') n \<or> n = ''.env'' \<or> n = ''state'' @ bs # ''.env'' \<or>
         starts_with (''data'' @ bs # ''backups'') n \<or> str_contains (bs # ''data'' @ bs # ''backups'' @ [bs]) n \<or>
         starts_with (''state'' @ bs # ''npm'') n \<or> str_contains (bs # ''state'' @ bs # ''npm'' @ [bs]) n \<or>
         list_ex (\<lambda>q. q \<in> set excluded_dirs) parts \<or> list_ex (ends_with ''.egg-info'') parts \<or>
         n \<in> {''.coverage'', ''coverage.xml''} \<or> ends_with ''.coverage'' n \<or>
         starts_with ''htmlcov'' n \<or> str_contains (bs # ''htmlcov'' @ [bs]) n \<or>
         list_ex (\<lambda>w. str_contains w n) [''apikey'', ''password'', ''token'', ''browser profile''])"

section \<open>Creating a backup\<close>

definition file_entry :: "py_env \<Rightarrow> string \<times> string \<Rightarrow> json" where
  "file_entry E = (\<lambda>(p, c).
     JObj [(''path'', JStr p), (''sha256'', JStr (hash_file E (Data c))), (''size'', JInt (int (length c)))])"

definition kept_files :: "(string \<times> string) list \<Rightarrow> (string \<times> string) list" where
  "kept_files tree = filter (\<lambda>(p, c). \<not> should_exclude p) tree"

definition backup_manifest ::
  "py_env \<Rightarrow> string \<Rightarrow> string \<Rightarrow> string \<Rightarrow> (string \<times> string) list \<Rightarrow> (string, json) dict" where
  "backup_manifest E backup_id now source tree =
     [(''backup_id'', JStr backup_id), (''created_at_utc'', JStr now), (''source_root'', JStr source),
      (''files'', JList (map (file_entry E) (kept_files tree))),
      (''excluded'', JList (map (\<lambda>(p, c). JStr p) (filter (\<lambda>(p, c). should_exclude p) tree)))]"

text \<open>The directory may be there already: two backups of one second share it.\<close>

definition backup_create ::
  "py_env \<Rightarrow> string \<Rightarrow> string \<Rightarrow> string \<Rightarrow> (string \<times> string) list \<Rightarrow> backup_dir \<Rightarrow>
   py_exn + (string, json) dict \<times> backup_dir" where
  "backup_create E backup_id now source tree dir =
     (let manifest = backup_manifest E backup_id now source tree;
          copied = fold (\<lambda>(p, c). dict_set p (Data c)) (kept_files tree) dir
      in bind_res (json_exn (fingerprint E (JObj manifest))) (\<lambda>h.
           let sealed = dict_set ''manifest_sha256'' (JStr h) manifest
           in Inr (sealed, dict_set manifest_name (Dumped (json_norm (JObj sealed))) copied)))"

section \<open>Verifying a backup\<close>

definition load_manifest :: "backup_dir \<Rightarrow> py_exn + json" where
  "load_manifest dir =
     (case dict_get dir manifest_name of
        None \<Rightarrow> Inl (OSError ''No such file or directory'')
      | Some (Data s) \<Rightarrow> Inl (ValueError ''not JSON'')
      | Some (Dumped v) \<Rightarrow> Inr v)"

definition manifest_files :: "json \<Rightarrow> py_exn + json list" where
  "manifest_files v =
     (case v of
        JObj m \<Rightarrow> py_tuple (dict_get_or m ''files'' (JList []))
      | _ \<Rightarrow> Inl AttributeError)"

definition item_path :: "json \<Rightarrow> py_exn + string" where
  "item_path item =
     bind_res (json_item item ''path'') (\<lambda>p. case p of JStr s \<Rightarrow> Inr s | _ \<Rightarrow> Inl TypeError)"

text \<open>One round of the loop: the mismatch it adds, if any.\<close>

definition check_item :: "py_env \<Rightarrow> backup_dir \<Rightarrow> json \<Rightarrow> py_exn + string list" where
  "check_item E dir item =
     bind_res (item_path item) (\<lambda>p.
       case dict_get dir p of
         None \<Rightarrow> Inr [p]
       | Some f \<Rightarrow> bind_res (json_item item ''sha256'') (\<lambda>h.
           Inr (if py_eq (JStr (hash_file E f)) h then [] else [p])))"

record verification =
  bv_valid :: bool
  bv_mismatches :: "string list"
  bv_error :: "py_exn option"
  bv_manifest :: json

definition backup_verify :: "py_env \<Rightarrow> backup_dir \<Rightarrow> verification" where
  "backup_verify E dir =
     (case bind_res (load_manifest dir) (\<lambda>m. bind_res (manifest_files m) (\<lambda>items.
         bind_res (map_res (check_item E dir) items) (\<lambda>ps. Inr (m, concat ps)))) of
        Inr (m, ps) \<Rightarrow> \<lparr>bv_valid = (ps = []), bv_mismatches = ps, bv_error = None, bv_manifest = m\<rparr>
      | Inl e \<Rightarrow> \<lparr>bv_valid = False, bv_mismatches = [], bv_error = Some e, bv_manifest = JObj []\<rparr>)"

section \<open>The restore drill\<close>

text \<open>The loop that copies into a fresh directory, which is removed in the end.\<close>

fun restore_files :: "backup_dir \<Rightarrow> json list \<Rightarrow> backup_dir \<Rightarrow> py_exn + backup_dir" where
  "restore_files dir [] restored = Inr restored"
| "restore_files dir (item # items) restored =
     bind_res (item_path item) (\<lambda>p.
       case dict_get dir p of
         None \<Rightarrow> Inl (OSError p)
       | Some f \<Rightarrow> restore_files dir items (dict_set p f restored))"

record drill =
  bd_valid :: bool
  bd_files :: nat

definition restore_drill :: "py_env \<Rightarrow> backup_dir \<Rightarrow> py_exn + drill" where
  "restore_drill E dir =
     (let v = backup_verify E dir
      in bind_res (manifest_files (bv_manifest v)) (\<lambda>items.
         bind_res (restore_files dir items []) (\<lambda>restored.
           Inr \<lparr>bd_valid = bv_valid v, bd_files = length items\<rparr>)))"

section \<open>What the manifest says\<close>

lemma dict_get_copied:
  "distinct (map fst kept) \<Longrightarrow>
   dict_get (fold (\<lambda>(p, c). dict_set p (Data c)) kept dir) p =
     (case dict_get kept p of Some c \<Rightarrow> Some (Data c) | None \<Rightarrow> dict_get dir p)"
proof (induction kept arbitrary: dir)
  case Nil
  show ?case by simp
next
  case (Cons x kept)
  obtain q c where x: "x = (q, c)" by (cases x)
  with Cons.prems have "dict_get kept q = None" and "distinct (map fst kept)" by (simp_all add: map_of_eq_None_iff)
  with Cons.IH [of "dict_set q (Data c) dir"] x show ?case by (auto split: option.split)
qed

lemma distinct_kept: "distinct (map fst tree) \<Longrightarrow> distinct (map fst (kept_files tree))"
  unfolding kept_files_def by (simp add: distinct_map_filter)

lemma created:
  assumes "backup_create E backup_id now source tree dir = Inr (m, dir')"
  shows "manifest_files (json_norm (JObj m)) = Inr (map (\<lambda>x. json_norm (file_entry E x)) (kept_files tree))"
    and "dir' = dict_set manifest_name (Dumped (json_norm (JObj m)))
      (fold (\<lambda>(p, c). dict_set p (Data c)) (kept_files tree) dir)"
proof -
  obtain h where m: "m = dict_set ''manifest_sha256'' (JStr h) (backup_manifest E backup_id now source tree)"
    and "dir' = dict_set manifest_name (Dumped (json_norm (JObj m)))
      (fold (\<lambda>(p, c). dict_set p (Data c)) (kept_files tree) dir)"
    using assms by (auto simp: backup_create_def bind_res_Inr Let_def)
  then show "dir' = dict_set manifest_name (Dumped (json_norm (JObj m)))
      (fold (\<lambda>(p, c). dict_set p (Data c)) (kept_files tree) dir)" by simp
  have d: "distinct (dict_keys m)" by (simp add: m backup_manifest_def)
  have "json_norm_list (map (file_entry E) xs) = map (\<lambda>x. json_norm (file_entry E x)) xs" for xs
    by (induction xs) simp_all
  then have "dict_get m ''files'' = Some (JList (map (file_entry E) (kept_files tree)))"
    and "json_norm (JList (map (file_entry E) (kept_files tree))) = JList (map (\<lambda>x. json_norm (file_entry E x)) (kept_files tree))"
    by (simp_all add: m backup_manifest_def)
  then show "manifest_files (json_norm (JObj m)) = Inr (map (\<lambda>x. json_norm (file_entry E x)) (kept_files tree))"
    using map_of_norm [OF d, of "''files''"] by (simp add: manifest_files_def dict_get_or_def py_tuple_def)
qed

lemma entry_items:
  "item_path (json_norm (file_entry E (p, c))) = Inr p"
  "json_item (json_norm (file_entry E (p, c))) ''sha256'' = Inr (JStr (hash_file E (Data c)))"
proof -
  let ?m = "[(''path'', JStr p), (''sha256'', JStr (hash_file E (Data c))), (''size'', JInt (int (length c)))]"
  have d: "distinct (dict_keys ?m)" by simp
  show "item_path (json_norm (file_entry E (p, c))) = Inr p"
    "json_item (json_norm (file_entry E (p, c))) ''sha256'' = Inr (JStr (hash_file E (Data c)))"
    using map_of_norm [OF d, of "''path''"] map_of_norm [OF d, of "''sha256''"]
    by (simp_all add: item_path_def json_item_def file_entry_def)
qed

text \<open>A copied file that is missing, or has other contents as far as the digest tells.\<close>

definition damaged :: "py_env \<Rightarrow> backup_dir \<Rightarrow> string \<times> string \<Rightarrow> bool" where
  "damaged E dir = (\<lambda>(p, c).
     case dict_get dir p of None \<Rightarrow> True | Some f \<Rightarrow> hash_file E f \<noteq> hash_file E (Data c))"

lemma check_entry:
  "check_item E dir (json_norm (file_entry E x)) = Inr (if damaged E dir x then [fst x] else [])"
  by (cases x) (auto simp: check_item_def entry_items damaged_def split: option.split)

lemma check_entries:
  "map_res (check_item E dir) (map (\<lambda>x. json_norm (file_entry E x)) xs) =
     Inr (map (\<lambda>x. if damaged E dir x then [fst x] else []) xs)"
  by (induction xs) (simp_all add: check_entry)

lemma verify_created:
  assumes "backup_create E backup_id now source tree dir = Inr (m, dir')"
    and "dict_get D manifest_name = Some (Dumped (json_norm (JObj m)))"
  shows "backup_verify E D = \<lparr>bv_valid = (filter (damaged E D) (kept_files tree) = []),
    bv_mismatches = map fst (filter (damaged E D) (kept_files tree)), bv_error = None, bv_manifest = json_norm (JObj m)\<rparr>"
proof -
  have c: "concat (map (\<lambda>x. if damaged E D x then [fst x] else []) xs) = map fst (filter (damaged E D) xs)" for xs
    by (induction xs) simp_all
  show ?thesis
    unfolding backup_verify_def load_manifest_def assms(2) option.case backup_file.case bind_res_simps created(1) [OF assms(1)]
      check_entries sum.case prod.case c by simp
qed

text \<open>
  C19: When a backup is verified, the mismatches are exactly the copied files that are no longer there or
  whose contents have another digest, whatever has happened to the directory, as long as the manifest
  is the one that was written. Right after its creation the only file that can be reported is one that
  was called \<open>manifest.json\<close> itself, for the manifest replaces it.
\<close>

theorem backup_verify_exact:
  assumes "backup_create E backup_id now source tree dir = Inr (m, dir')" and "distinct (map fst tree)"
    and "dict_get D manifest_name = Some (Dumped (json_norm (JObj m)))"
  shows "bv_mismatches (backup_verify E D) = map fst (filter (damaged E D) (kept_files tree)) \<and>
    (bv_valid (backup_verify E D) \<longleftrightarrow> bv_mismatches (backup_verify E D) = []) \<and>
    set (bv_mismatches (backup_verify E dir')) \<subseteq> {manifest_name} \<and>
    (manifest_name \<notin> set (map fst (kept_files tree)) \<longrightarrow> bv_valid (backup_verify E dir'))"
proof -
  have own: "dict_get dir' manifest_name = Some (Dumped (json_norm (JObj m)))"
    by (simp add: created(2) [OF assms(1)])
  have intact: "\<not> damaged E dir' (p, c)" if "(p, c) \<in> set (kept_files tree)" "p \<noteq> manifest_name" for p c
  proof -
    have "dict_get (kept_files tree) p = Some c"
      using that(1) distinct_kept [OF assms(2)] by (intro map_of_is_SomeI)
    with that(2) have "dict_get dir' p = Some (Data c)"
      by (simp add: created(2) [OF assms(1)] dict_get_copied [OF distinct_kept [OF assms(2)]])
    then show ?thesis by (simp add: damaged_def)
  qed
  have only: "p = manifest_name" if "(p, c) \<in> set (filter (damaged E dir') (kept_files tree))" for p c
    using that intact [of p c] by auto
  have "set (bv_mismatches (backup_verify E dir')) \<subseteq> {manifest_name}"
    unfolding verify_created [OF assms(1) own] using only by (auto simp del: set_filter)
  moreover have "bv_valid (backup_verify E dir')" if "manifest_name \<notin> set (map fst (kept_files tree))"
  proof -
    have "filter (damaged E dir') (kept_files tree) = []"
      using only that by (force simp: filter_empty_conv)
    then show ?thesis by (simp add: verify_created [OF assms(1) own])
  qed
  ultimately show ?thesis by (simp add: verify_created [OF assms(1,3)])
qed


text \<open>What the restore drill restores is the copied files, when the backup has just been made.\<close>

lemma restore_entries:
  "\<forall>(p, c) \<in> set xs. dict_get D p = Some (Data c) \<Longrightarrow>
   restore_files D (map (\<lambda>x. json_norm (file_entry E x)) xs) acc = Inr (fold (\<lambda>(p, c). dict_set p (Data c)) xs acc)"
  by (induction xs arbitrary: acc) (auto simp: entry_items)

text \<open>The manifest carries a digest of itself that no verification looks at.\<close>

lemma manifest_digest_unchecked:
  assumes "backup_create E backup_id now source tree dir = Inr (m, dir')" and "distinct (dict_keys m)"
  shows "manifest_files (json_norm (JObj (dict_set ''manifest_sha256'' h m))) = manifest_files (json_norm (JObj m))"
  using map_of_norm [OF assms(2), of "''files''"]
    map_of_norm [OF distinct_dict_set [OF assms(2)], of "''manifest_sha256''" h "''files''"]
  by (simp add: manifest_files_def dict_get_or_def)

section \<open>A small backup\<close>

definition small_tree :: "(string \<times> string) list" where
  "small_tree = [(''a.txt'', ''one''), (''manifest.json'', ''two''), (''state/.env'', ''key'')]"

definition plain_hash :: py_env where
  "plain_hash = \<lparr>sha256_hex = (\<lambda>s. s), float_repr = (\<lambda>q. []), round_sum = (\<lambda>xs. Fin 0), iso_text = int_str,
     iso_parse = (\<lambda>s. None)\<rparr>"

definition small_backup :: "(string, json) dict \<times> backup_dir" where
  "small_backup =
     (case backup_create plain_hash ''b'' ''now'' ''src'' small_tree [] of
        Inr r \<Rightarrow> r
      | Inl e \<Rightarrow> ([], []))"

lemma small_backup_ok: "backup_create plain_hash ''b'' ''now'' ''src'' small_tree [] = Inr (fst small_backup, snd small_backup)"
  by code_simp

lemma small_tree_distinct: "distinct (map fst small_tree)"
  by code_simp

lemma small_kept: "map fst (kept_files small_tree) = [''a.txt'', ''manifest.json'']"
  by code_simp

lemma backup_verify_exact_witness:
  "set (bv_mismatches (backup_verify plain_hash (snd small_backup))) \<subseteq> {manifest_name} \<and>
   bv_mismatches (backup_verify plain_hash [(manifest_name, Dumped (json_norm (JObj (fst small_backup))))]) =
     [''a.txt'', ''manifest.json'']"
proof -
  let ?D = "[(manifest_name, Dumped (json_norm (JObj (fst small_backup))))]"
  have D: "dict_get ?D manifest_name = Some (Dumped (json_norm (JObj (fst small_backup))))" by simp
  have "filter (damaged plain_hash ?D) (kept_files small_tree) = kept_files small_tree" by code_simp
  then show ?thesis
    using backup_verify_exact [OF small_backup_ok small_tree_distinct D] small_kept by simp
qed


end
