(* ===== verification/Shutdown.thy ===== *)
theory Shutdown
  imports Constants "HOL-Library.Multiset"
begin

text \<open>
  \<open>runtime/shutdown.py\<close>: the module's event, its lock and its list of callbacks, under any number of
  threads and with signals. A thread is the stack of the calls it is in, each at the statement it is
  about to execute; the handlers of \<open>SIGTERM\<close>, \<open>SIGINT\<close> and \<open>SIGBREAK\<close> run on the stack of the
  main thread, thread 0, on top of whatever it was doing. The lock is a \<open>threading.Lock\<close>: acquiring
  it again blocks, also in the thread that holds it. A callback is a name; the exception it may raise
  is caught, and what it does is to call the module again or nothing here.
\<close>

section \<open>State\<close>

text \<open>Where a call of \<open>_do_shutdown\<close> or of \<open>register_shutdown_callback\<close> is.\<close>

datatype 'c frame =
    Enter              \<comment> \<open>before \<open>with _SHUTDOWN_LOCK\<close>\<close>
  | Inside             \<comment> \<open>before \<open>if _SHUTDOWN_EVENT.is_set()\<close>\<close>
  | Noticed            \<comment> \<open>before the \<open>return\<close> that releases the lock\<close>
  | Marked             \<comment> \<open>after \<open>_SHUTDOWN_EVENT.set()\<close>, before the release\<close>
  | Opened             \<comment> \<open>before \<open>callbacks = list(_CALLBACKS)\<close>\<close>
  | Calling "'c list"  \<comment> \<open>in the loop, with the callbacks that are left\<close>
  | RegEnter 'c        \<comment> \<open>before \<open>with _SHUTDOWN_LOCK\<close>\<close>
  | RegInside 'c       \<comment> \<open>before \<open>_CALLBACKS.append(fn)\<close>\<close>
  | RegAdded           \<comment> \<open>before the release\<close>

record 'c shutdown =
  sd_event :: bool
  sd_lock :: bool
  sd_callbacks :: "'c list"
  sd_calls :: "'c list"
  sd_stacks :: "'c frame list list"

definition fresh_shutdown :: "nat \<Rightarrow> 'c shutdown" where
  "fresh_shutdown threads =
     \<lparr>sd_event = False, sd_lock = False, sd_callbacks = [], sd_calls = [], sd_stacks = replicate threads []\<rparr>"

section \<open>One statement\<close>

text \<open>The frames that replace the one on top, and the new state; \<open>None\<close> when the call has to wait.\<close>

fun frame_step :: "'c frame \<Rightarrow> 'c shutdown \<Rightarrow> ('c frame list \<times> 'c shutdown) option" where
  "frame_step Enter s = (if sd_lock s then None else Some ([Inside], s\<lparr>sd_lock := True\<rparr>))"
| "frame_step Inside s = Some (if sd_event s then ([Noticed], s) else ([Marked], s\<lparr>sd_event := True\<rparr>))"
| "frame_step Noticed s = Some ([], s\<lparr>sd_lock := False\<rparr>)"
| "frame_step Marked s = Some ([Opened], s\<lparr>sd_lock := False\<rparr>)"
| "frame_step Opened s = Some ([Calling (rev (sd_callbacks s))], s)"
| "frame_step (Calling []) s = Some ([], s)"
| "frame_step (Calling (c # cs)) s = Some ([Calling cs], s\<lparr>sd_calls := sd_calls s @ [c]\<rparr>)"
| "frame_step (RegEnter c) s = (if sd_lock s then None else Some ([RegInside c], s\<lparr>sd_lock := True\<rparr>))"
| "frame_step (RegInside c) s = Some ([RegAdded], s\<lparr>sd_callbacks := sd_callbacks s @ [c]\<rparr>)"
| "frame_step RegAdded s = Some ([], s\<lparr>sd_lock := False\<rparr>)"

definition set_stack :: "nat \<Rightarrow> 'c frame list \<Rightarrow> 'c shutdown \<Rightarrow> 'c shutdown" where
  "set_stack t fs s = s\<lparr>sd_stacks := (sd_stacks s)[t := fs]\<rparr>"

definition thread_step :: "nat \<Rightarrow> 'c shutdown \<Rightarrow> 'c shutdown option" where
  "thread_step t s =
     (if t < length (sd_stacks s)
      then case sd_stacks s ! t of
          [] \<Rightarrow> None
        | f # fs \<Rightarrow> (case frame_step f s of None \<Rightarrow> None | Some (gs, s') \<Rightarrow> Some (set_stack t (gs @ fs) s'))
      else None)"

definition call_frame :: "nat \<Rightarrow> 'c frame \<Rightarrow> 'c shutdown \<Rightarrow> 'c shutdown" where
  "call_frame t f s = set_stack t (f # sd_stacks s ! t) s"

text \<open>
  \<open>trigger_shutdown\<close> and \<open>register_shutdown_callback\<close> are called by a thread that is in no call of the
  module, or by a callback while the loop runs it; a signal comes at any moment.
\<close>

fun may_call :: "'c frame list \<Rightarrow> bool" where
  "may_call [] = True"
| "may_call (Calling cs # fs) = True"
| "may_call fs = False"

inductive shutdown_step :: "'c shutdown \<Rightarrow> 'c shutdown \<Rightarrow> bool" where
  run: "thread_step t s = Some s' \<Longrightarrow> shutdown_step s s'"
| trigger: "t < length (sd_stacks s) \<Longrightarrow> may_call (sd_stacks s ! t) \<Longrightarrow> shutdown_step s (call_frame t Enter s)"
| register: "t < length (sd_stacks s) \<Longrightarrow> may_call (sd_stacks s ! t) \<Longrightarrow> shutdown_step s (call_frame t (RegEnter c) s)"
| signal: "0 < length (sd_stacks s) \<Longrightarrow> shutdown_step s (call_frame 0 Enter s)"

inductive shutdown_reachable :: "'c shutdown \<Rightarrow> bool" where
  start: "shutdown_reachable (fresh_shutdown threads)"
| step: "shutdown_reachable s \<Longrightarrow> shutdown_step s s' \<Longrightarrow> shutdown_reachable s'"

inductive_cases shutdown_stepE: "shutdown_step s s'"

text \<open>A thread that is scheduled for at most \<open>n\<close> statements.\<close>

fun run_thread :: "nat \<Rightarrow> nat \<Rightarrow> 'c shutdown \<Rightarrow> 'c shutdown" where
  "run_thread 0 t s = s"
| "run_thread (Suc n) t s = (case thread_step t s of None \<Rightarrow> s | Some s' \<Rightarrow> run_thread n t s')"

section \<open>Frames of a state\<close>

fun holding :: "'c frame \<Rightarrow> bool" where
  "holding f = (case f of Inside \<Rightarrow> True | Noticed \<Rightarrow> True | Marked \<Rightarrow> True | RegInside c \<Rightarrow> True | RegAdded \<Rightarrow> True | _ \<Rightarrow> False)"

fun running :: "'c frame \<Rightarrow> bool" where
  "running f = (case f of Marked \<Rightarrow> True | Opened \<Rightarrow> True | Calling cs \<Rightarrow> True | _ \<Rightarrow> False)"

definition frames :: "'c shutdown \<Rightarrow> 'c frame list" where
  "frames s = concat (sd_stacks s)"

definition population :: "('c frame \<Rightarrow> bool) \<Rightarrow> 'c shutdown \<Rightarrow> nat" where
  "population P s = length (filter P (frames s))"

lemma population_set_stack:
  assumes "t < length (sd_stacks s)"
  shows "population P (set_stack t fs s) + length (filter P (sd_stacks s ! t)) =
    population P s + length (filter P fs)"
proof -
  have len: "length (filter P (concat xss)) = sum_list (map (\<lambda>fs. length (filter P fs)) xss)" for xss :: "'a frame list list"
    by (induction xss) simp_all
  have "sd_stacks s = take t (sd_stacks s) @ sd_stacks s ! t # drop (Suc t) (sd_stacks s)"
    using assms by (rule id_take_nth_drop)
  moreover have "(sd_stacks s)[t := fs] = take t (sd_stacks s) @ fs # drop (Suc t) (sd_stacks s)"
    using assms by (rule upd_conv_take_nth_drop)
  ultimately show ?thesis
    unfolding population_def frames_def set_stack_def len
    by simp (metis (no_types, lifting) add.assoc add.commute list.simps(9) map_append sum_list.Cons sum_list_append)
qed

lemma frames_set_stack:
  assumes "f \<in> set (frames (set_stack t fs s))"
  shows "f \<in> set fs \<or> f \<in> set (frames s)"
  using assms set_update_subset_insert [of "sd_stacks s" t fs] by (auto simp: frames_def set_stack_def)

lemma population_unique:
  assumes "population P s \<le> 1" and "f \<in> set (frames s)" and "P f" and "g \<in> set (frames s)" and "P g"
  shows "f = g"
proof -
  have "f \<in> set (filter P (frames s))" and "g \<in> set (filter P (frames s))" using assms by simp_all
  then show ?thesis
    using assms(1) unfolding population_def
    by (cases "filter P (frames s)" rule: remdups_adj.cases) auto
qed

lemma in_frames: "t < length (sd_stacks s) \<Longrightarrow> f \<in> set (sd_stacks s ! t) \<Longrightarrow> f \<in> set (frames s)"
  unfolding frames_def by (auto intro: nth_mem)

lemma population_0: "population P s = 0 \<longleftrightarrow> (\<forall>f \<in> set (frames s). \<not> P f)"
  by (simp add: population_def filter_empty_conv)

section \<open>What every reachable state keeps\<close>

lemma frame_step_stacks: "frame_step f s = Some (gs, s1) \<Longrightarrow> sd_stacks s1 = sd_stacks s"
  by (cases "(f, s)" rule: frame_step.cases) (auto split: if_splits)

lemma thread_stepE:
  assumes "thread_step t s = Some s'"
  obtains f fs gs s1 where "t < length (sd_stacks s)" and "sd_stacks s ! t = f # fs"
    and "frame_step f s = Some (gs, s1)" and "sd_stacks s1 = sd_stacks s" and "s' = set_stack t (gs @ fs) s1"
  using assms unfolding thread_step_def
  by (auto split: if_splits list.splits option.splits dest: frame_step_stacks)

text \<open>A snapshot of the callbacks, of which the calls have been made from the last one backwards.\<close>

definition called_of :: "'c shutdown \<Rightarrow> 'c list \<Rightarrow> bool" where
  "called_of s left = (\<exists>snap. prefix snap (sd_callbacks s) \<and> sd_calls s @ left = rev snap)"

definition frame_ok :: "'c shutdown \<Rightarrow> 'c frame \<Rightarrow> bool" where
  "frame_ok s f =
     (case f of
        Marked \<Rightarrow> sd_calls s = []
      | Opened \<Rightarrow> sd_calls s = []
      | Calling cs \<Rightarrow> called_of s cs
      | _ \<Rightarrow> True)"

definition shutdown_inv :: "'c shutdown \<Rightarrow> bool" where
  "shutdown_inv s \<longleftrightarrow>
     population holding s = (if sd_lock s then 1 else 0) \<and>
     population running s \<le> (if sd_event s then 1 else 0) \<and>
     (\<forall>f \<in> set (frames s). frame_ok s f) \<and>
     (\<not> sd_event s \<longrightarrow> sd_calls s = []) \<and>
     (sd_event s \<longrightarrow> population running s = 0 \<longrightarrow> called_of s [])"

lemma population_same: "sd_stacks s1 = sd_stacks s \<Longrightarrow> population P s1 = population P s"
  by (simp add: population_def frames_def)

lemma population_run:
  assumes "t < length (sd_stacks s)" and "sd_stacks s ! t = f # fs" and "sd_stacks s1 = sd_stacks s"
  shows "population P (set_stack t (gs @ fs) s1) + (if P f then 1 else 0) = population P s + length (filter P gs)"
  using population_set_stack [of t s1 P "gs @ fs"] assms population_same [OF assms(3), of P] by auto

lemma set_stack_simps [simp]:
  "sd_event (set_stack t fs s) = sd_event s" "sd_lock (set_stack t fs s) = sd_lock s"
  "sd_callbacks (set_stack t fs s) = sd_callbacks s" "sd_calls (set_stack t fs s) = sd_calls s"
  by (simp_all add: set_stack_def)

lemma call_frame_simps [simp]:
  "sd_event (call_frame t f s) = sd_event s" "sd_lock (call_frame t f s) = sd_lock s"
  "sd_callbacks (call_frame t f s) = sd_callbacks s" "sd_calls (call_frame t f s) = sd_calls s"
  by (simp_all add: call_frame_def)

lemma population_call:
  assumes "t < length (sd_stacks s)"
  shows "population P (call_frame t f s) = population P s + (if P f then 1 else 0)"
  using population_set_stack [OF assms, of P "f # sd_stacks s ! t"] by (auto simp: call_frame_def)

lemma frames_call:
  assumes "t < length (sd_stacks s)" and "g \<in> set (frames (call_frame t f s))"
  shows "g = f \<or> g \<in> set (frames s)"
  using frames_set_stack [of g t "f # sd_stacks s ! t" s] assms in_frames [OF assms(1)] by (auto simp: call_frame_def)

lemma inv_call:
  assumes "shutdown_inv s" and "t < length (sd_stacks s)" and "f = Enter \<or> (\<exists>c. f = RegEnter c)"
  shows "shutdown_inv (call_frame t f s)"
proof -
  have "\<not> holding f" "\<not> running f" and ok: "frame_ok s f" using assms(3) by (auto simp: frame_ok_def)
  moreover have "frame_ok s g" if "g \<in> set (frames (call_frame t f s))" for g
    using frames_call [OF assms(2) that] assms(1) ok by (auto simp: shutdown_inv_def)
  moreover have "frame_ok (call_frame t f s) g = frame_ok s g" for g
    by (simp add: frame_ok_def called_of_def cong: frame.case_cong)
  ultimately show ?thesis
    using assms(1) by (auto simp: shutdown_inv_def population_call [OF assms(2)] called_of_def)
qed

lemma not_running_ok: "\<not> running f \<Longrightarrow> frame_ok s f"
  by (cases f) (simp_all add: frame_ok_def)

lemma called_of_more: "called_of s cs \<Longrightarrow> called_of (s\<lparr>sd_callbacks := sd_callbacks s @ [c]\<rparr>) cs"
  by (auto simp: called_of_def intro: prefix_prefix)

lemma called_of_stack [simp]: "called_of (set_stack t fs s) cs = called_of s cs"
  by (simp add: called_of_def)

lemma frame_ok_stack [simp]: "frame_ok (set_stack t fs s) g = frame_ok s g"
  by (simp add: frame_ok_def cong: frame.case_cong)

text \<open>A statement either is one of the running call, or leaves the running call alone.\<close>

lemma frame_step_ok:
  assumes "frame_step f s = Some (gs, s1)" and "frame_ok s f" and "\<not> sd_event s \<longrightarrow> sd_calls s = []"
    and "running f \<longrightarrow> sd_event s"
  shows "(\<forall>g \<in> set gs. frame_ok s1 g) \<and> (\<not> running f \<longrightarrow> (\<forall>g. frame_ok s g \<longrightarrow> frame_ok s1 g)) \<and>
    (\<not> sd_event s1 \<longrightarrow> sd_calls s1 = []) \<and> (running f \<and> filter running gs = [] \<longrightarrow> called_of s1 []) \<and>
    (called_of s [] \<and> \<not> running f \<longrightarrow> called_of s1 [])"
  using assms
  by (cases "(f, s)" rule: frame_step.cases)
    (auto simp: frame_ok_def called_of_def split: if_splits frame.splits intro: prefix_prefix)

lemma frame_step_populations:
  assumes "frame_step f s = Some (gs, s1)"
  shows "length (filter holding gs) + (if sd_lock s then 1 else 0) = (if holding f then 1 else 0) + (if sd_lock s1 then 1 else 0) \<or>
    (holding f \<and> \<not> sd_lock s)"
    and "length (filter running gs) \<le> (if running f then 1 else 0) + (if sd_event s then 0 else if sd_event s1 then 1 else 0)"
    and "sd_event s \<longrightarrow> sd_event s1" and "sd_event s1 \<and> \<not> sd_event s \<longrightarrow> filter running gs \<noteq> []"
  using assms by (cases "(f, s)" rule: frame_step.cases; auto split: if_splits)+

lemmas frame_kinds = holding.simps running.simps

declare frame_kinds [simp del]

lemma inv_run:
  assumes inv: "shutdown_inv s" and "thread_step t s = Some s'"
  shows "shutdown_inv s'"
proof -
  from assms(2) obtain f fs gs s1 where t: "t < length (sd_stacks s)" "sd_stacks s ! t = f # fs"
    and step: "frame_step f s = Some (gs, s1)" and st: "sd_stacks s1 = sd_stacks s" and s': "s' = set_stack t (gs @ fs) s1"
    by (rule thread_stepE)
  note pop = population_run [OF t st, of _ gs, folded s']
  have f: "f \<in> set (frames s)" using in_frames [OF t(1), of f] t(2) by simp
  have inv_s: "population holding s = (if sd_lock s then 1 else 0)" "population running s \<le> (if sd_event s then 1 else 0)"
    "\<And>g. g \<in> set (frames s) \<Longrightarrow> frame_ok s g" "\<not> sd_event s \<longrightarrow> sd_calls s = []"
    "sd_event s \<longrightarrow> population running s = 0 \<longrightarrow> called_of s []"
    using inv unfolding shutdown_inv_def by blast+
  have "running f \<longrightarrow> sd_event s" using inv_s(2) f population_0 by (metis le_zero_eq)
  note ok = frame_step_ok [OF step inv_s(3) [OF f] inv_s(4) this]
  note pops = frame_step_populations [OF step]
  have "holding f \<Longrightarrow> population holding s \<noteq> 0" "running f \<Longrightarrow> population running s \<noteq> 0"
    using f population_0 by blast+
  then have lock: "population holding s' = (if sd_lock s1 then 1 else 0)"
    and event: "population running s' \<le> (if sd_event s1 then 1 else 0)"
    using pop [of holding] pop [of running] pops inv_s(1,2) by (auto split: if_splits)
  have old: "g \<in> set gs \<or> g \<in> set (frames s) \<and> \<not> running f" if g: "g \<in> set (frames s')" "running g" for g
  proof (cases "g \<in> set gs")
    case False
    then have "g \<in> set (frames s)"
      using g(1) frames_set_stack [of g t "gs @ fs" s1] in_frames [OF t(1), of g] t(2) st by (auto simp: s' frames_def)
    moreover have "\<not> running f"
    proof
      assume "running f"
      with pop [of running] inv_s(2) pops(2,3) have "population running s' \<le> 1" "population running s \<le> 1"
        by (auto split: if_splits)
      show False
      proof (cases "filter running gs = []")
        case True
        with pop [of running] \<open>running f\<close> \<open>population running s \<le> 1\<close> have "population running s' = 0" by simp
        with g show False using population_0 by blast
      next
        case False
        then obtain r where "r \<in> set gs" "running r" by (auto simp: filter_empty_conv)
        moreover have "r \<in> set (frames s')"
          using \<open>r \<in> set gs\<close> t(1) st unfolding s' frames_def set_stack_def by (auto simp: set_update_memI intro!: bexI [of _ "gs @ fs"])
        ultimately have "g = r" using population_unique [OF \<open>population running s' \<le> 1\<close>, of g r] g by simp
        with \<open>r \<in> set gs\<close> \<open>g \<notin> set gs\<close> show False by simp
      qed
    qed
    ultimately show ?thesis by simp
  qed simp
  have frames_ok: "frame_ok s' g" if "g \<in> set (frames s')" for g
    using old [OF that] not_running_ok [of g s1] ok inv_s(3) [of g] by (auto simp: s')
  have fin: "called_of s' []" if "sd_event s1" "population running s' = 0"
  proof -
    have "running f \<Longrightarrow> population running s \<noteq> 0" using f population_0 by blast
    with that(2) pop [of running] have "length (filter running gs) = 0" by (cases "running f") (simp_all del: length_0_conv)
    then have gs: "filter running gs = []" by simp
    with that(1) pops(4) have "sd_event s" by blast
    show ?thesis
    proof (cases "running f")
      case False
      with pop [of running] that(2) gs have "population running s = 0" by simp
      with inv_s(5) \<open>sd_event s\<close> False ok show ?thesis by (simp add: s')
    qed (use ok gs in \<open>simp add: s'\<close>)
  qed
  show ?thesis
    using lock event frames_ok fin ok unfolding shutdown_inv_def by (simp add: s')
qed

lemma inv_fresh: "shutdown_inv (fresh_shutdown threads)"
proof -
  have "concat (replicate n []) = []" for n by (induction n) simp_all
  then show ?thesis by (simp add: shutdown_inv_def fresh_shutdown_def population_def frames_def)
qed

lemma reachable_inv: "shutdown_reachable s \<Longrightarrow> shutdown_inv s"
proof (induction rule: shutdown_reachable.induct)
  case (step s s')
  from step.hyps(2) show ?case
    by (cases rule: shutdown_step.cases) (auto intro: inv_run inv_call step.IH)
qed (rule inv_fresh)

lemma prefix_calls:
  assumes "shutdown_inv s"
  shows "\<exists>snap. prefix snap (sd_callbacks s) \<and> prefix (sd_calls s) (rev snap)"
proof -
  have called: "\<exists>snap. prefix snap (sd_callbacks s) \<and> prefix (sd_calls s) (rev snap)"
    if "called_of s left \<or> sd_calls s = []" for left
  proof (cases "sd_calls s = []")
    case False
    with that show ?thesis unfolding called_of_def by (metis prefixI)
  qed (auto intro: exI [of _ "[]"])
  show ?thesis
  proof (cases "sd_event s \<and> population running s \<noteq> 0")
    case True
    then obtain f where "f \<in> set (frames s)" "running f" using population_0 [of running s] by auto
    from \<open>f \<in> set (frames s)\<close> assms have "frame_ok s f" unfolding shutdown_inv_def by blast
    with \<open>running f\<close> have "(\<exists>left. called_of s left) \<or> sd_calls s = []"
      by (cases f) (auto simp: frame_ok_def frame_kinds)
    then show ?thesis using called by blast
  next
    case False
    with assms have "called_of s [] \<or> sd_calls s = []" unfolding shutdown_inv_def by blast
    then show ?thesis using called by blast
  qed
qed

text \<open>
  C14: Under any interleaving of threads and signals the callbacks are called in the reverse order of
  their registration, none before the shutdown is signalled and each at most as often as it was
  registered, however many times the shutdown is triggered. When no call is in the loop any more, those
  that were registered at the moment of the snapshot have all been called.
\<close>

theorem shutdown_calls_reversed:
  assumes "shutdown_reachable s"
  shows "(\<exists>snap. prefix snap (sd_callbacks s) \<and> prefix (sd_calls s) (rev snap) \<and>
      (sd_event s \<and> list_all (\<lambda>f. \<not> running f) (frames s) \<longrightarrow> sd_calls s = rev snap)) \<and>
    (\<not> sd_event s \<longrightarrow> sd_calls s = []) \<and> mset (sd_calls s) \<subseteq># mset (sd_callbacks s)"
proof -
  note inv = reachable_inv [OF assms]
  obtain snap where snap: "prefix snap (sd_callbacks s)" "prefix (sd_calls s) (rev snap)"
    using prefix_calls [OF inv] by blast
  have "\<exists>snap. prefix snap (sd_callbacks s) \<and> prefix (sd_calls s) (rev snap) \<and>
      (sd_event s \<and> list_all (\<lambda>f. \<not> running f) (frames s) \<longrightarrow> sd_calls s = rev snap)"
  proof (cases "sd_event s \<and> population running s = 0")
    case True
    with inv obtain snap' where "prefix snap' (sd_callbacks s)" "sd_calls s = rev snap'"
      by (auto simp: shutdown_inv_def called_of_def)
    then show ?thesis by auto
  next
    case False
    with snap population_0 [of running s] show ?thesis by (auto simp: list_all_iff)
  qed
  moreover have "mset (sd_calls s) \<subseteq># mset (sd_callbacks s)"
    using snap by (auto simp: prefix_def dest!: arg_cong [where f = mset])
  ultimately show ?thesis using inv unfolding shutdown_inv_def by blast
qed

section \<open>One request\<close>

lemma run_thread_add: "run_thread (m + n) t s = run_thread n t (run_thread m t s)"
proof (induction m arbitrary: s)
  case (Suc m)
  have stuck: "run_thread n t s = s" if "thread_step t s = None" for s :: "'a shutdown"
    using that by (cases n) simp_all
  show ?case by (auto simp: Suc.IH stuck split: option.split)
qed simp

lemma thread_step_top:
  "t < length (sd_stacks s) \<Longrightarrow> sd_stacks s ! t = f # fs \<Longrightarrow> frame_step f s = Some (gs, s1) \<Longrightarrow>
   thread_step t s = Some (set_stack t (gs @ fs) s1)"
  by (simp add: thread_step_def)

lemma run_calling:
  assumes "t < length (sd_stacks s)" and "sd_stacks s ! t = Calling cs # fs"
  shows "run_thread (Suc (length cs)) t s = set_stack t fs (s\<lparr>sd_calls := sd_calls s @ cs\<rparr>)"
  using assms
proof (induction cs arbitrary: s)
  case Nil
  then show ?case by (simp add: thread_step_def set_stack_def)
next
  case (Cons c cs)
  let ?s = "set_stack t (Calling cs # fs) (s\<lparr>sd_calls := sd_calls s @ [c]\<rparr>)"
  have "thread_step t s = Some ?s" using thread_step_top [OF Cons.prems] by simp
  moreover have "run_thread (Suc (length cs)) t ?s = set_stack t fs (?s\<lparr>sd_calls := sd_calls ?s @ cs\<rparr>)"
    using Cons.prems by (intro Cons.IH) (simp_all add: set_stack_def)
  ultimately show ?case by (simp add: set_stack_def)
qed

text \<open>
  A request to shut down returns: when the lock is free and its thread is scheduled, it takes three
  statements and has no effect if the shutdown was signalled before, and otherwise as many as there are
  callbacks and five; the event is then set, every callback has been called in the reverse order of the
  registration, and the lock is free again.
\<close>

theorem shutdown_returns:
  assumes "t < length (sd_stacks s)" and "sd_stacks s ! t = Enter # fs" and "\<not> sd_lock s"
  shows "run_thread (if sd_event s then 3 else length (sd_callbacks s) + 5) t s =
    set_stack t fs (if sd_event s then s
      else s\<lparr>sd_event := True, sd_calls := sd_calls s @ rev (sd_callbacks s)\<rparr>)"
proof (cases "sd_event s")
  case True
  with assms show ?thesis
    by (simp add: thread_step_def set_stack_def numeral_3_eq_3)
next
  case False
  let ?s = "s\<lparr>sd_event := True, sd_stacks := (sd_stacks s)[t := Calling (rev (sd_callbacks s)) # fs]\<rparr>"
  have four: "run_thread 4 t s = ?s"
    using assms False by (simp add: thread_step_def set_stack_def numeral_eq_Suc)
  have rest: "run_thread (Suc (length (rev (sd_callbacks s)))) t ?s =
    set_stack t fs (?s\<lparr>sd_calls := sd_calls ?s @ rev (sd_callbacks s)\<rparr>)"
    using assms by (intro run_calling) simp_all
  have "length (sd_callbacks s) + 5 = 4 + Suc (length (rev (sd_callbacks s)))" by simp
  then have "run_thread (length (sd_callbacks s) + 5) t s = set_stack t fs (?s\<lparr>sd_calls := sd_calls ?s @ rev (sd_callbacks s)\<rparr>)"
    by (simp only: run_thread_add four rest)
  with False show ?thesis by (simp add: set_stack_def)
qed

section \<open>A signal during a registration\<close>

definition waits_for_itself :: "'c shutdown \<Rightarrow> bool" where
  "waits_for_itself s =
     (case sd_stacks s of (Enter # f # fs) # stacks \<Rightarrow> holding f | _ \<Rightarrow> False)"

inductive shutdown_steps :: "'c shutdown \<Rightarrow> 'c shutdown \<Rightarrow> bool" where
  none: "shutdown_steps s s"
| more: "shutdown_steps s s' \<Longrightarrow> shutdown_step s' s'' \<Longrightarrow> shutdown_steps s s''"

text \<open>The main thread has a frame that holds the lock below its topmost one.\<close>

definition self_blocked :: "'c shutdown \<Rightarrow> bool" where
  "self_blocked s \<longleftrightarrow>
     shutdown_inv s \<and> \<not> sd_event s \<and> sd_calls s = [] \<and> 0 < length (sd_stacks s) \<and>
     (\<exists>fs f. sd_stacks s ! 0 = Enter # fs \<and> f \<in> set fs \<and> holding f)"

lemma population_ge:
  assumes "t < length (sd_stacks s)"
  shows "length (filter P (sd_stacks s ! t)) \<le> population P s"
  using population_set_stack [OF assms, of P "[]"] by simp

lemma population_two:
  assumes "t < length (sd_stacks s)" and "u < length (sd_stacks s)" and "t \<noteq> u"
  shows "length (filter P (sd_stacks s ! t)) + length (filter P (sd_stacks s ! u)) \<le> population P s"
  using population_set_stack [OF assms(1), of P "[]"] population_ge [of u "set_stack t [] s" P] assms
  by (simp add: set_stack_def)

lemma self_blocked_stuck:
  assumes "self_blocked s"
  shows "thread_step t s = None"
proof (rule ccontr)
  assume "thread_step t s \<noteq> None"
  then obtain s' where "thread_step t s = Some s'" by auto
  then obtain g gs fs s1 where t: "t < length (sd_stacks s)" "sd_stacks s ! t = g # fs"
    and step: "frame_step g s = Some (gs, s1)" by (rule thread_stepE)
  from assms obtain f fs0 where main: "sd_stacks s ! 0 = Enter # fs0" "f \<in> set fs0" "holding f" "0 < length (sd_stacks s)"
    and inv: "shutdown_inv s" "\<not> sd_event s" unfolding self_blocked_def by blast
  have some: "1 \<le> length (filter holding (sd_stacks s ! 0))"
    using main by (cases "filter holding fs0") (auto simp: frame_kinds filter_empty_conv)
  with population_ge [OF main(4), of holding] inv(1) have lock: "sd_lock s" "population holding s = 1"
    by (auto simp: shutdown_inv_def split: if_splits)
  have "\<not> holding g"
  proof
    assume "holding g"
    have "t \<noteq> 0"
    proof
      assume "t = 0"
      with t(2) main(1) \<open>holding g\<close> show False by (simp add: frame_kinds)
    qed
    with population_two [OF main(4) t(1), of holding] some lock(2) t(2) \<open>holding g\<close> show False by simp
  qed
  moreover have "\<not> running g"
    using inv population_0 [of running s] in_frames [OF t(1), of g] t(2) by (auto simp: shutdown_inv_def)
  ultimately show False
    using step lock(1) by (cases g) (auto simp: frame_kinds)
qed

lemma self_blocked_step:
  assumes "self_blocked s" and "shutdown_step s s'"
  shows "self_blocked s'"
  using assms(2)
proof (cases rule: shutdown_step.cases)
  case (run t)
  with self_blocked_stuck [OF assms(1)] show ?thesis by simp
next
  case (trigger t)
  with assms(1) show ?thesis
    using inv_call [of s t Enter] by (cases "t = 0") (auto simp: self_blocked_def call_frame_def set_stack_def)
next
  case (register t c)
  with assms(1) show ?thesis
    using inv_call [of s t "RegEnter c"] by (cases "t = 0") (auto simp: self_blocked_def call_frame_def set_stack_def)
next
  case signal
  with assms(1) show ?thesis
    using inv_call [of s 0 Enter] by (auto simp: self_blocked_def call_frame_def set_stack_def)
qed


section \<open>Two short runs\<close>

text \<open>Two threads; the main thread registers two callbacks, and the other one triggers the shutdown.\<close>

definition registered :: "nat shutdown" where
  "registered = run_thread 3 0 (call_frame 0 (RegEnter 2) (run_thread 3 0 (call_frame 0 (RegEnter 1) (fresh_shutdown 2))))"

definition requested :: "nat shutdown" where
  "requested = call_frame 1 Enter registered"

text \<open>A signal comes after the main thread has taken the lock for a third one.\<close>

definition interrupted :: "nat shutdown" where
  "interrupted = call_frame 0 Enter (run_thread 1 0 (call_frame 0 (RegEnter 3) registered))"

lemma reachable_run: "shutdown_reachable s \<Longrightarrow> shutdown_reachable (run_thread n t s)"
proof (induction n arbitrary: s)
  case (Suc n)
  show ?case
    using Suc.IH [OF shutdown_reachable.step [OF Suc.prems shutdown_step.run]] Suc.prems by (simp split: option.split)
qed simp

lemma reachable_call:
  "shutdown_reachable s \<Longrightarrow> t < length (sd_stacks s) \<Longrightarrow> may_call (sd_stacks s ! t) \<Longrightarrow>
   f = Enter \<or> f = RegEnter c \<Longrightarrow> shutdown_reachable (call_frame t f s)"
  by (auto intro: shutdown_reachable.step shutdown_step.intros)

lemma registered_reachable: "shutdown_reachable registered"
  unfolding registered_def
  by (intro reachable_run reachable_call [where c = 2] reachable_call [where c = 1] shutdown_reachable.start; code_simp)

lemma requested_reachable: "shutdown_reachable (run_thread 9 1 requested)"
  unfolding requested_def
  by (intro reachable_run reachable_call [where c = 0] registered_reachable; code_simp)

lemma interrupted_reachable: "shutdown_reachable interrupted"
proof -
  have "shutdown_reachable (run_thread 1 0 (call_frame 0 (RegEnter 3) registered))"
    by (intro reachable_run reachable_call [where c = 3] registered_reachable; code_simp)
  moreover have "0 < length (sd_stacks (run_thread 1 0 (call_frame 0 (RegEnter 3) registered)))" by code_simp
  ultimately show ?thesis
    unfolding interrupted_def by (auto intro: shutdown_reachable.step shutdown_step.signal)
qed

lemma shutdown_calls_reversed_witness:
  "sd_calls (run_thread 9 1 requested) = [2, 1] \<and> mset (sd_calls (run_thread 9 1 requested)) \<subseteq># {#1, 2#}"
proof -
  have "sd_calls (run_thread 9 1 requested) = [2, 1]" "sd_callbacks (run_thread 9 1 requested) = [1, 2]" by code_simp+
  then show ?thesis using shutdown_calls_reversed [OF requested_reachable] by simp
qed

lemma shutdown_returns_witness:
  "run_thread 7 1 requested = set_stack 1 [] (requested\<lparr>sd_event := True, sd_calls := [2, 1]\<rparr>)"
proof -
  have at: "1 < length (sd_stacks requested)" "sd_stacks requested ! 1 = Enter # []" "\<not> sd_lock requested" by code_simp+
  have "\<not> sd_event requested" "sd_callbacks requested = [1, 2]" "sd_calls requested = []" by code_simp+
  then show ?thesis using shutdown_returns [OF at] by simp
qed


end
