(* ===== verification/Watchdog.thy ===== *)
theory Watchdog
  imports Telegram Constants
begin

text \<open>
  \<open>runtime/watchdog.py\<close>, and the signed heartbeats of \<open>runtime/heartbeat.py\<close>. A probe and a
  callback are functions that read and change the world outside (\<open>'w\<close>) and may raise; the clock is
  a reading of that world. Probes registered with one watchdog are different objects, so that
  each has its own count. The Thai texts are lists of code points.
\<close>

section \<open>Probes\<close>

record component_status =
  cs_name :: string
  cs_status :: string
  cs_message :: string
  cs_checked_at :: string

record 'w component_probe =
  cp_name :: string
  cp_probe :: "'w \<Rightarrow> (string + bool) \<times> 'w"
  cp_event_type :: string
  cp_failures :: nat

text \<open>\<open>check\<close>; a raise is the text of its exception.\<close>

definition probe_status :: "bool \<Rightarrow> nat \<Rightarrow> string" where
  "probe_status healthy failures =
     (if healthy then ''OK'' else if failures < 3 then ''DEGRADED'' else ''FAILED'')"

definition probe_outcome :: "string + bool \<Rightarrow> bool \<times> string" where
  "probe_outcome outcome =
     (case outcome of
        Inl exc \<Rightarrow> (False, ''probe raised: '' @ exc)
      | Inr b \<Rightarrow> (b, if b then ''OK'' else ''FAILED''))"

definition check_probe ::
  "('w \<Rightarrow> string) \<Rightarrow> 'w component_probe \<Rightarrow> 'w \<Rightarrow> component_status \<times> 'w component_probe \<times> 'w" where
  "check_probe clock p w =
     (let now = clock w;
          (outcome, w1) = cp_probe p w;
          (healthy, msg) = probe_outcome outcome;
          failures = (if healthy then 0 else Suc (cp_failures p))
      in (\<lparr>cs_name = cp_name p, cs_status = probe_status healthy failures, cs_message = msg, cs_checked_at = now\<rparr>,
          p\<lparr>cp_failures := failures\<rparr>, w1))"

section \<open>Incidents\<close>

definition impact_before :: utext where
  "impact_before =
      [3626, 3656, 3623, 3609, 3611, 3619, 3632, 3585, 3629, 3610, 32]"

definition impact_after :: utext where
  "impact_after =
      [32, 3607, 3635, 3591, 3634, 3609, 3612, 3636, 3604, 3611, 3585, 3605, 3636]"

definition recovery_promise :: utext where
  "recovery_promise =
      [119, 97, 116, 99, 104, 100, 111, 103, 32, 3592, 3632, 3614, 3618, 3634, 3618, 3634, 3617,
      32, 114, 101, 115, 116, 97, 114, 116, 32, 3629, 3633, 3605, 3650, 3609, 3617, 3633, 3605,
      3636]"

record incident =
  in_event_type :: string
  in_severity :: string
  in_component :: string
  in_timestamp :: string
  in_failures :: nat
  in_message :: string
  in_root_cause :: string
  in_impact :: utext
  in_recovery :: utext

definition build_incident :: "'w component_probe \<Rightarrow> component_status \<Rightarrow> incident" where
  "build_incident p st =
     \<lparr>in_event_type = (if cp_event_type p \<in> set telegram_system_events then cp_event_type p else ''SYSTEM_INCIDENT''),
      in_severity = (if cs_status st = ''FAILED'' then ''CRITICAL'' else ''WARNING''),
      in_component = cs_name st, in_timestamp = cs_checked_at st, in_failures = cp_failures p,
      in_message = cs_message st, in_root_cause = ''component_'' @ cs_name st @ ''_health_probe_failed'',
      in_impact = impact_before @ text_of (cs_name st) @ impact_after, in_recovery = recovery_promise\<rparr>"

section \<open>The watchdog\<close>

type_synonym 'w callback = "incident \<Rightarrow> 'w \<Rightarrow> py_exn option \<times> 'w"

record 'w watchdog =
  wd_probes :: "'w component_probe list"
  wd_max_restart :: int
  wd_callbacks :: "'w callback list"

definition new_watchdog :: "int \<Rightarrow> 'w watchdog" where
  "new_watchdog max_restart = \<lparr>wd_probes = [], wd_max_restart = max_restart, wd_callbacks = []\<rparr>"

definition register_probe :: "'w component_probe \<Rightarrow> 'w watchdog \<Rightarrow> 'w watchdog" where
  "register_probe p d = d\<lparr>wd_probes := wd_probes d @ [p]\<rparr>"

definition on_incident :: "'w callback \<Rightarrow> 'w watchdog \<Rightarrow> 'w watchdog" where
  "on_incident cb d = d\<lparr>wd_callbacks := wd_callbacks d @ [cb]\<rparr>"

text \<open>The loop over the callbacks: what a callback did stays done when it raises, and the next is called.\<close>

fun notify :: "'w callback list \<Rightarrow> incident \<Rightarrow> 'w \<Rightarrow> 'w" where
  "notify [] i w = w"
| "notify (cb # cbs) i w = (case cb i w of (Some exc, w1) \<Rightarrow> notify cbs i w1 | (None, w1) \<Rightarrow> notify cbs i w1)"

record watchdog_report =
  wr_checked_at :: string
  wr_components :: "component_status list"
  wr_incidents :: "incident list"

definition all_healthy :: "watchdog_report \<Rightarrow> bool" where
  "all_healthy r = list_all (\<lambda>c. cs_status c = ''OK'') (wr_components r)"

definition incidents_of :: "'w component_probe \<Rightarrow> component_status \<Rightarrow> incident list" where
  "incidents_of p st = (if cs_status st \<in> {''DEGRADED'', ''FAILED''} then [build_incident p st] else [])"

fun check_probes ::
  "('w \<Rightarrow> string) \<Rightarrow> 'w callback list \<Rightarrow> 'w component_probe list \<Rightarrow> 'w \<Rightarrow>
   component_status list \<times> incident list \<times> 'w component_probe list \<times> 'w" where
  "check_probes clock cbs [] w = ([], [], [], w)"
| "check_probes clock cbs (p # ps) w =
     (let (st, p1, w1) = check_probe clock p w;
          raised = incidents_of p1 st;
          (sts, incs, ps1, w2) = check_probes clock cbs ps (fold (notify cbs) raised w1)
      in (st # sts, raised @ incs, p1 # ps1, w2))"

definition check_all :: "('w \<Rightarrow> string) \<Rightarrow> 'w watchdog \<Rightarrow> 'w \<Rightarrow> watchdog_report \<times> 'w watchdog \<times> 'w" where
  "check_all clock d w =
     (let (sts, incs, ps, w1) = check_probes clock (wd_callbacks d) (wd_probes d) w
      in (\<lparr>wr_checked_at = clock w, wr_components = sts, wr_incidents = incs\<rparr>, d\<lparr>wd_probes := ps\<rparr>, w1))"

section \<open>Heartbeats\<close>

record component_health =
  ch_gateway :: string
  ch_python_engine :: string
  ch_queue :: string
  ch_mt5 :: string

record external_heartbeat =
  eh_schema_version :: string
  eh_system_id :: string
  eh_emitted_at :: string
  eh_sequence :: nat
  eh_health :: component_health
  eh_signature :: string

definition heartbeat_schema_version :: string where
  "heartbeat_schema_version = ''heartbeat-v1''"

definition health_json :: "component_health \<Rightarrow> json" where
  "health_json h =
     JObj [(''gateway'', JStr (ch_gateway h)), (''python_engine'', JStr (ch_python_engine h)),
           (''queue'', JStr (ch_queue h)), (''mt5'', JStr (ch_mt5 h))]"

definition unsigned_json :: "string \<Rightarrow> string \<Rightarrow> string \<Rightarrow> nat \<Rightarrow> component_health \<Rightarrow> (string, json) dict" where
  "unsigned_json version system now n h =
     [(''schema_version'', JStr version), (''system_id'', JStr system), (''emitted_at_utc'', JStr now),
      (''sequence'', JInt (int n)), (''component_health'', health_json h)]"

definition external_json :: "external_heartbeat \<Rightarrow> (string, json) dict" where
  "external_json b =
     unsigned_json (eh_schema_version b) (eh_system_id b) (eh_emitted_at b) (eh_sequence b) (eh_health b) @
     [(''signature'', JStr (eh_signature b))]"

text \<open>The separators of \<open>json.dumps\<close> by default; HMAC-SHA256 in hexadecimal is an argument, key first.\<close>

definition signed_style :: dump_style where
  "signed_style = \<lparr>item_sep = '', '', key_sep = '': '', allow_nan = True\<rparr>"

definition sign_payload :: "(string \<Rightarrow> string \<Rightarrow> string) \<Rightarrow> string \<Rightarrow> string \<Rightarrow> string" where
  "sign_payload hmac payload secret = hmac secret payload"

definition build_external_heartbeat ::
  "py_env \<Rightarrow> (string \<Rightarrow> string \<Rightarrow> string) \<Rightarrow> string \<Rightarrow> string \<Rightarrow> nat \<Rightarrow> component_health \<Rightarrow> string \<Rightarrow>
   json_error + external_heartbeat" where
  "build_external_heartbeat E hmac now system n h secret =
     bind_res (json_dumps E signed_style (JObj (unsigned_json heartbeat_schema_version system now n h)))
       (\<lambda>unsigned. Inr \<lparr>eh_schema_version = heartbeat_schema_version, eh_system_id = system, eh_emitted_at = now,
          eh_sequence = n, eh_health = h, eh_signature = sign_payload hmac unsigned secret\<rparr>)"

text \<open>What \<open>urllib.request.Request\<close> makes of a URL, as far as it can raise: its scheme.\<close>

definition unwrap_url :: "string \<Rightarrow> string" where
  "unwrap_url url =
     (let u = str_strip url;
          u = (if starts_with ''<'' u \<and> ends_with ''>'' u then str_strip (butlast (tl u)) else u)
      in if starts_with ''URL:'' u then str_strip (drop 4 u) else u)"

definition without_fragment :: "string \<Rightarrow> string" where
  "without_fragment u =
     (if CHR ''#'' \<in> set u then rev (tl (dropWhile (\<lambda>c. c \<noteq> CHR ''#'') (rev u))) else u)"

definition url_scheme :: "string \<Rightarrow> string option" where
  "url_scheme url =
     (let u = without_fragment (unwrap_url url);
          p = takeWhile (\<lambda>c. c \<noteq> CHR ''/'' \<and> c \<noteq> CHR '':'') u
      in case drop (length p) u of
           c # rest \<Rightarrow> if c = CHR '':'' \<and> p \<noteq> [] then Some p else None
         | [] \<Rightarrow> None)"

record emitter =
  em_system_id :: string
  em_secret :: string
  em_endpoint :: string
  em_timeout :: int
  em_sequence :: nat

definition new_emitter :: "string \<Rightarrow> string \<Rightarrow> string option \<Rightarrow> int \<Rightarrow> emitter" where
  "new_emitter system secret endpoint timeout =
     \<lparr>em_system_id = system, em_secret = secret, em_endpoint = (case endpoint of None \<Rightarrow> [] | Some u \<Rightarrow> u),
      em_timeout = timeout, em_sequence = 0\<rparr>"

datatype emit_result =
    NotConfigured external_heartbeat
  | Emitted int external_heartbeat
  | EmitFailed string external_heartbeat

text \<open>
  \<open>urlopen\<close> gets the endpoint, the payload and the timeout and answers with the HTTP status, or the
  text of what it raises. The sequence number is used up even when the call raises.
\<close>

type_synonym http_open = "string \<Rightarrow> json \<Rightarrow> int \<Rightarrow> string + int"

definition emit ::
  "py_env \<Rightarrow> (string \<Rightarrow> string \<Rightarrow> string) \<Rightarrow> http_open \<Rightarrow> string \<Rightarrow> component_health \<Rightarrow> emitter \<Rightarrow>
   (py_exn + emit_result) \<times> emitter" where
  "emit E hmac urlopen now h em =
     (let n = Suc (em_sequence em); em1 = em\<lparr>em_sequence := n\<rparr>
      in (bind_res (json_exn (build_external_heartbeat E hmac now (em_system_id em) n h (em_secret em))) (\<lambda>b.
            if em_endpoint em = [] then Inr (NotConfigured b)
            else if url_scheme (em_endpoint em) = None then Inl (ValueError (''unknown url type: '' @ str_repr (em_endpoint em)))
            else case urlopen (em_endpoint em) (JObj (external_json b)) (em_timeout em) of
                Inr status \<Rightarrow> Inr (Emitted status b)
              | Inl exc \<Rightarrow> Inr (EmitFailed exc b)), em1))"

text \<open>\<open>build_missed_heartbeat_incident\<close>\<close>

definition missed_1 :: utext where
  "missed_1 =
      [3619, 3632, 3610, 3610, 32]"

definition missed_2 :: utext where
  "missed_2 =
      [32, 3652, 3617, 3656, 3626, 3656, 3591, 32, 104, 101, 97, 114, 116, 98, 101, 97, 116, 32,
      3617, 3634, 32]"

definition missed_3 :: utext where
  "missed_3 =
      [32, 3619, 3629, 3610, 32, 40, 3648, 3585, 3603, 3601, 3660, 58, 32]"

definition missed_4 :: utext where
  "missed_4 =
      [32, 3619, 3629, 3610, 41, 32, 3588, 3619, 3633, 3657, 3591, 3621, 3656, 3634, 3626, 3640,
      3604, 3607, 3637, 3656, 3614, 3610, 58, 32]"

record missed_heartbeat =
  mh_schema_version :: string
  mh_system_id :: string
  mh_last_seen :: string
  mh_detected_at :: string
  mh_missed :: int
  mh_threshold :: int
  mh_event_type :: string
  mh_severity :: string
  mh_message :: utext

definition missed_heartbeat_incident :: "string \<Rightarrow> string \<Rightarrow> string \<Rightarrow> int \<Rightarrow> int \<Rightarrow> missed_heartbeat" where
  "missed_heartbeat_incident now system last_seen missed threshold =
     \<lparr>mh_schema_version = heartbeat_schema_version, mh_system_id = system, mh_last_seen = last_seen,
      mh_detected_at = now, mh_missed = missed, mh_threshold = threshold,
      mh_event_type = ''SYSTEM_OFFLINE_DETECTED'', mh_severity = ''CRITICAL'',
      mh_message = missed_1 @ text_of system @ missed_2 @ text_of (int_str missed) @ missed_3 @
        text_of (int_str threshold) @ missed_4 @ text_of last_seen\<rparr>"

section \<open>Notices of shutdown and recovery\<close>

text \<open>The two payloads of \<open>runtime/shutdown.py\<close> for Telegram.\<close>

record system_notice =
  no_event_type :: string
  no_severity :: string
  no_component :: string
  no_timestamp :: string
  no_message :: utext
  no_root_cause :: string
  no_impact :: utext
  no_recovery :: utext

definition notice_before :: utext where
  "notice_before =
      [3619, 3632, 3610, 3610, 32]"

definition closing_down :: utext where
  "closing_down =
      [32, 3585, 3635, 3621, 3633, 3591, 3611, 3636, 3604, 3605, 3633, 3623, 3629, 3618, 3656,
      3634, 3591, 3611, 3621, 3629, 3604, 3616, 3633, 3618]"

definition started_again :: utext where
  "started_again =
      [32, 3648, 3619, 3636, 3656, 3617, 3607, 3635, 3591, 3634, 3609, 3651, 3627, 3617, 3656,
      3648, 3619, 3637, 3618, 3610, 3619, 3657, 3629, 3618, 3649, 3621, 3657, 3623]"

definition closing_impact :: utext where
  "closing_impact =
      [3619, 3632, 3610, 3610, 3592, 3632, 3627, 3618, 3640, 3604, 3619, 3633, 3610, 3591, 3634,
      3609, 3651, 3627, 3617, 3656, 3649, 3621, 3632, 3610, 3633, 3609, 3607, 3638, 3585, 32, 99,
      104, 101, 99, 107, 112, 111, 105, 110, 116, 32, 3585, 3656, 3629, 3609, 3611, 3636, 3604]"

definition closing_recovery :: utext where
  "closing_recovery =
      [3619, 3632, 3610, 3610, 3592, 3632, 3648, 3619, 3636, 3656, 3617, 3651, 3627, 3617, 3656,
      3629, 3633, 3605, 3650, 3609, 3617, 3633, 3605, 3636, 3648, 3617, 3639, 3656, 3629, 32, 87,
      105, 110, 100, 111, 119, 115, 32, 3610, 3641, 3605]"

definition recovery_progress :: utext where
  "recovery_progress =
      [3585, 3635, 3621, 3633, 3591, 3585, 3621, 3633, 3610, 3617, 3634, 3607, 3635, 3591, 3634,
      3609, 3605, 3656, 3629, 3592, 3634, 3585, 32, 99, 104, 101, 99, 107, 112, 111, 105, 110,
      116]"

definition shutdown_notice :: "string \<Rightarrow> string \<Rightarrow> system_notice" where
  "shutdown_notice now component =
     \<lparr>no_event_type = ''SYSTEM_SHUTTING_DOWN'', no_severity = ''INFO'', no_component = component, no_timestamp = now,
      no_message = notice_before @ text_of component @ closing_down, no_root_cause = ''graceful_shutdown_signal'',
      no_impact = closing_impact, no_recovery = closing_recovery\<rparr>"

definition recovery_notice :: "string \<Rightarrow> string \<Rightarrow> system_notice" where
  "recovery_notice now component =
     \<lparr>no_event_type = ''SYSTEM_RECOVERED'', no_severity = ''INFO'', no_component = component, no_timestamp = now,
      no_message = notice_before @ text_of component @ started_again, no_root_cause = ''system_restart'',
      no_impact = text_of ''none'', no_recovery = recovery_progress\<rparr>"

section \<open>Rounds of checks\<close>

text \<open>Between two rounds the world may become anything: each round starts in a world of its own.\<close>

fun run_rounds :: "('w \<Rightarrow> string) \<Rightarrow> 'w watchdog \<Rightarrow> 'w list \<Rightarrow> watchdog_report list" where
  "run_rounds clock d [] = []"
| "run_rounds clock d (w # ws) = (case check_all clock d w of (r, d1, w1) \<Rightarrow> r # run_rounds clock d1 ws)"

fun probe_rounds :: "('w \<Rightarrow> string) \<Rightarrow> 'w component_probe \<Rightarrow> 'w list \<Rightarrow> component_status list" where
  "probe_rounds clock p [] = []"
| "probe_rounds clock p (w # ws) = (case check_probe clock p w of (st, p1, w1) \<Rightarrow> st # probe_rounds clock p1 ws)"

text \<open>In a round every probe is checked once, in some world.\<close>

lemma check_probes_nth:
  assumes "check_probes clock cbs ps w = (sts, incs, ps1, w1)"
  shows "length sts = length ps \<and> length ps1 = length ps \<and>
    (\<forall>j < length ps. \<exists>u u1. check_probe clock (ps ! j) u = (sts ! j, ps1 ! j, u1))"
  using assms
proof (induction ps arbitrary: w sts incs ps1 w1)
  case (Cons p ps)
  obtain st q u1 where p: "check_probe clock p w = (st, q, u1)" by (cases "check_probe clock p w")
  obtain sts' incs' ps' w' where rest: "check_probes clock cbs ps (fold (notify cbs) (incidents_of q st) u1) = (sts', incs', ps', w')"
    by (cases "check_probes clock cbs ps (fold (notify cbs) (incidents_of q st) u1)")
  from Cons.prems p rest have eq: "sts = st # sts'" "ps1 = q # ps'" by auto
  from Cons.IH [OF rest] p eq show ?case
    by (auto simp: nth_Cons split: nat.split)
qed simp

lemma run_rounds_column:
  assumes "j < length (wd_probes d)"
  shows "\<exists>us. length us = length ws \<and>
    map (\<lambda>r. wr_components r ! j) (run_rounds clock d ws) = probe_rounds clock (wd_probes d ! j) us"
  using assms
proof (induction ws arbitrary: d)
  case (Cons w ws)
  obtain sts incs ps1 w1 where c: "check_probes clock (wd_callbacks d) (wd_probes d) w = (sts, incs, ps1, w1)"
    by (cases "check_probes clock (wd_callbacks d) (wd_probes d) w")
  note n = check_probes_nth [OF c]
  with Cons.prems obtain u u1 where u: "check_probe clock (wd_probes d ! j) u = (sts ! j, ps1 ! j, u1)" by blast
  have "j < length (wd_probes (d\<lparr>wd_probes := ps1\<rparr>))" using n Cons.prems by simp
  from Cons.IH [OF this] obtain us where us: "length us = length ws"
    "map (\<lambda>r. wr_components r ! j) (run_rounds clock (d\<lparr>wd_probes := ps1\<rparr>) ws) = probe_rounds clock (ps1 ! j) us"
    by auto
  show ?case
    using us u c by (intro exI [of _ "u # us"]) (simp add: check_all_def)
qed simp

text \<open>The count of failures is the length of the last run of bad answers.\<close>

definition answered_badly :: "component_status \<Rightarrow> bool" where
  "answered_badly st = (cs_message st \<noteq> ''OK'')"

fun status_after :: "nat \<Rightarrow> bool list \<Rightarrow> string list" where
  "status_after n [] = []"
| "status_after n (b # bs) = (let m = (if b then Suc n else 0) in probe_status (\<not> b) m # status_after m bs)"

lemma probe_outcome_bad: "snd (probe_outcome r) \<noteq> ''OK'' \<longleftrightarrow> \<not> fst (probe_outcome r)"
  by (auto simp: probe_outcome_def split: sum.split)

lemma check_probe_status:
  assumes "check_probe clock p w = (st, q, w1)"
  shows "cs_status st = probe_status (\<not> answered_badly st) (if answered_badly st then Suc (cp_failures p) else 0)"
    and "cp_failures q = (if answered_badly st then Suc (cp_failures p) else 0)"
    and "cs_name st = cp_name p" and "cp_name q = cp_name p" and "cp_event_type q = cp_event_type p"
  using assms probe_outcome_bad [of "fst (cp_probe p w)"]
  by (auto simp: check_probe_def answered_badly_def Let_def split: prod.splits)

lemma probe_rounds_status:
  "map cs_status (probe_rounds clock p us) =
     status_after (cp_failures p) (map answered_badly (probe_rounds clock p us))"
proof (induction us arbitrary: p)
  case (Cons u us)
  obtain st q u1 where c: "check_probe clock p u = (st, q, u1)" by (cases "check_probe clock p u")
  show ?case using check_probe_status(1,2) [OF c] by (simp add: c Cons.IH Let_def)
qed simp

definition bad_streak :: "nat \<Rightarrow> bool list \<Rightarrow> nat" where
  "bad_streak n bs = fold (\<lambda>b m. if b then Suc m else 0) bs n"

lemma status_after_nth:
  "i < length bs \<Longrightarrow> status_after n bs ! i = probe_status (\<not> bs ! i) (bad_streak n (take (Suc i) bs))"
proof (induction bs arbitrary: n i)
  case (Cons b bs)
  then show ?case by (cases i) (simp_all add: bad_streak_def Let_def)
qed simp

lemma bad_streak_take:
  "i < length bs \<Longrightarrow> bad_streak n (take (Suc i) bs) = (if bs ! i then Suc (bad_streak n (take i bs)) else 0)"
  by (simp add: bad_streak_def take_Suc_conv_app_nth)

lemma third_failure:
  assumes "i < length bs"
  shows "status_after 0 bs ! i =
    (if \<not> bs ! i then ''OK''
     else if 2 \<le> i \<and> bs ! (i - 1) \<and> bs ! (i - 2) then ''FAILED'' else ''DEGRADED'')"
proof -
  have zero: "bad_streak 0 (take 0 bs) = 0" by (simp add: bad_streak_def)
  have "0 < length bs" using assms by auto
  with zero have "bad_streak 0 (take (Suc 0) bs) = (if bs ! 0 then 1 else 0)" by (simp add: bad_streak_take del: take_0)
  with zero show ?thesis
    using assms
    by (cases i; cases "i - 1"; cases "i - 2")
      (simp_all add: status_after_nth probe_status_def bad_streak_take)
qed

lemma run_rounds_length [simp]: "length (run_rounds clock d ws) = length ws"
  by (induction ws arbitrary: d) (auto split: prod.split)

text \<open>
  C17: A registered probe that has not failed yet is reported \<open>OK\<close> in exactly the rounds in which it
  answers well, \<open>FAILED\<close> exactly from its third bad answer in a row, and \<open>DEGRADED\<close> in the other
  rounds, whatever the world does in between and whatever the other probes and the callbacks do.
\<close>

theorem failed_from_third_failure:
  assumes "j < length (wd_probes d)" and "cp_failures (wd_probes d ! j) = 0" and "i < length ws"
  shows "let st = (\<lambda>k. wr_components (run_rounds clock d ws ! k) ! j); bad = (\<lambda>k. answered_badly (st k))
    in cs_status (st i) =
      (if \<not> bad i then ''OK''
       else if 2 \<le> i \<and> bad (i - 1) \<and> bad (i - 2) then ''FAILED'' else ''DEGRADED'')"
proof -
  obtain us where us: "length us = length ws"
    "map (\<lambda>r. wr_components r ! j) (run_rounds clock d ws) = probe_rounds clock (wd_probes d ! j) us"
    using run_rounds_column [OF assms(1)] by blast
  let ?rs = "probe_rounds clock (wd_probes d ! j) us"
  have len: "length ?rs = length ws" by (metis us(2) length_map run_rounds_length)
  have at: "wr_components (run_rounds clock d ws ! k) ! j = ?rs ! k" if "k < length ws" for k
    using that by (simp flip: us(2))
  have "cs_status (?rs ! i) = status_after 0 (map answered_badly ?rs) ! i"
    by (metis probe_rounds_status assms(2,3) len nth_map)
  with third_failure [of i "map answered_badly ?rs"] assms(3) show ?thesis
    by (simp add: len at Let_def)
qed

section \<open>One round\<close>

lemma check_probes_report:
  assumes "check_probes clock cbs ps w = (sts, incs, ps1, w1)"
  shows "map cs_name sts = map cp_name ps \<and>
    list_all2 (\<lambda>st i. in_component i = cs_name st \<and> in_message i = cs_message st \<and> in_timestamp i = cs_checked_at st \<and>
        (in_severity i = ''CRITICAL'' \<longleftrightarrow> cs_status st = ''FAILED''))
      (filter (\<lambda>st. cs_status st \<noteq> ''OK'') sts) incs \<and>
    (\<forall>i \<in> set incs. in_event_type i \<in> insert ''SYSTEM_INCIDENT'' (set telegram_system_events))"
  using assms
proof (induction ps arbitrary: w sts incs ps1 w1)
  case (Cons p ps)
  obtain st q u1 where p: "check_probe clock p w = (st, q, u1)" by (cases "check_probe clock p w")
  obtain sts' incs' ps' w' where rest: "check_probes clock cbs ps (fold (notify cbs) (incidents_of q st) u1) = (sts', incs', ps', w')"
    by (cases "check_probes clock cbs ps (fold (notify cbs) (incidents_of q st) u1)")
  from Cons.prems p rest have eq: "sts = st # sts'" "incs = incidents_of q st @ incs'" by auto
  have "cs_status st \<in> {''OK'', ''DEGRADED'', ''FAILED''}"
    using check_probe_status(1) [OF p] by (simp add: probe_status_def)
  then show ?case
    using Cons.IH [OF rest] check_probe_status(3) [OF p] eq by (auto simp: incidents_of_def build_incident_def)
qed simp

text \<open>
  A round reports every registered component once, in order; its incidents are those of the
  components that are not \<open>OK\<close>, one each and in order, \<open>CRITICAL\<close> exactly for those that have
  \<open>FAILED\<close>, of a system event type or \<open>SYSTEM_INCIDENT\<close>; and all is healthy exactly when there are none.
\<close>

theorem watchdog_round_report:
  "case check_all clock d w of (r, d1, w1) \<Rightarrow>
     map cs_name (wr_components r) = map cp_name (wd_probes d) \<and>
     list_all2 (\<lambda>st i. in_component i = cs_name st \<and> in_message i = cs_message st \<and> in_timestamp i = cs_checked_at st \<and>
         (in_severity i = ''CRITICAL'' \<longleftrightarrow> cs_status st = ''FAILED''))
       (filter (\<lambda>st. cs_status st \<noteq> ''OK'') (wr_components r)) (wr_incidents r) \<and>
     in_event_type ` set (wr_incidents r) \<subseteq> insert ''SYSTEM_INCIDENT'' (set telegram_system_events) \<and>
     (all_healthy r \<longleftrightarrow> wr_incidents r = [])"
proof -
  obtain sts incs ps1 w1 where c: "check_probes clock (wd_callbacks d) (wd_probes d) w = (sts, incs, ps1, w1)"
    by (cases "check_probes clock (wd_callbacks d) (wd_probes d) w")
  note report = check_probes_report [OF c]
  have "length (filter (\<lambda>st. cs_status st \<noteq> ''OK'') sts) = length incs"
    using report by (auto dest: list_all2_lengthD)
  then have "incs = [] \<longleftrightarrow> filter (\<lambda>st. cs_status st \<noteq> ''OK'') sts = []" by (metis length_0_conv)
  then have "list_all (\<lambda>st. cs_status st = ''OK'') sts \<longleftrightarrow> incs = []"
    by (simp add: list_all_iff filter_empty_conv)
  with report show ?thesis by (auto simp: check_all_def c all_healthy_def)
qed

text \<open>Every callback is told of every incident, the ones after a callback that raises too.\<close>

definition logging_callback :: "(nat \<Rightarrow> incident \<Rightarrow> py_exn option) \<Rightarrow> nat \<Rightarrow> ((nat \<times> incident) list \<times> 'a) callback" where
  "logging_callback raises k i w = (raises k i, fst w @ [(k, i)], snd w)"

lemma notify_logging:
  "notify (map (logging_callback raises) ks) i w = (fst w @ map (\<lambda>k. (k, i)) ks, snd w)"
  by (induction ks arbitrary: w) (auto simp: logging_callback_def split: option.split)

section \<open>Heartbeats verify\<close>

fun emit_all ::
  "py_env \<Rightarrow> (string \<Rightarrow> string \<Rightarrow> string) \<Rightarrow> http_open \<Rightarrow> (string \<times> component_health) list \<Rightarrow> emitter \<Rightarrow>
   (py_exn + emit_result) list \<times> emitter" where
  "emit_all E hmac urlopen [] em = ([], em)"
| "emit_all E hmac urlopen ((now, h) # xs) em =
     (case emit E hmac urlopen now h em of (r, em1) \<Rightarrow>
        (case emit_all E hmac urlopen xs em1 of (rs, em2) \<Rightarrow> (r # rs, em2)))"

fun heartbeat_of :: "emit_result \<Rightarrow> external_heartbeat" where
  "heartbeat_of (NotConfigured b) = b"
| "heartbeat_of (Emitted status b) = b"
| "heartbeat_of (EmitFailed exc b) = b"

text \<open>What a monitor does that shares the secret: sign the payload without its signature again.\<close>

definition monitor_accepts :: "py_env \<Rightarrow> (string \<Rightarrow> string \<Rightarrow> string) \<Rightarrow> string \<Rightarrow> (string, json) dict \<Rightarrow> bool" where
  "monitor_accepts E hmac secret payload =
     (case (json_dumps E signed_style (JObj (dict_pop ''signature'' payload)), dict_get payload ''signature'') of
        (Inr text, Some (JStr sig)) \<Rightarrow> sig = hmac secret text
      | _ \<Rightarrow> False)"

lemma unsigned_dumps: "\<exists>text. json_dumps E signed_style (JObj (unsigned_json v system now n h)) = Inr text"
  by (simp add: unsigned_json_def health_json_def)

lemma emit_spec:
  assumes "emit E hmac urlopen now h em = (r, em1)"
  shows "em1 = em\<lparr>em_sequence := Suc (em_sequence em)\<rparr> \<and>
    (case r of
       Inl e \<Rightarrow> em_endpoint em \<noteq> [] \<and> url_scheme (em_endpoint em) = None
     | Inr x \<Rightarrow> (em_endpoint em = [] \<or> url_scheme (em_endpoint em) \<noteq> None) \<and>
         (em_endpoint em = [] \<longleftrightarrow> x = NotConfigured (heartbeat_of x)) \<and>
         eh_sequence (heartbeat_of x) = Suc (em_sequence em) \<and> eh_health (heartbeat_of x) = h \<and>
         eh_emitted_at (heartbeat_of x) = now \<and>
         monitor_accepts E hmac (em_secret em) (external_json (heartbeat_of x)))"
proof -
  obtain msg where msg: "json_dumps E signed_style
      (JObj (unsigned_json heartbeat_schema_version (em_system_id em) now (Suc (em_sequence em)) h)) = Inr msg"
    using unsigned_dumps by blast
  define b where "b = \<lparr>eh_schema_version = heartbeat_schema_version, eh_system_id = em_system_id em, eh_emitted_at = now,
    eh_sequence = Suc (em_sequence em), eh_health = h, eh_signature = hmac (em_secret em) msg\<rparr>"
  then have b: "build_external_heartbeat E hmac now (em_system_id em) (Suc (em_sequence em)) h (em_secret em) = Inr b"
    by (simp only: build_external_heartbeat_def msg bind_res_simps sign_payload_def)
  have "dict_pop ''signature'' (external_json b) =
      unsigned_json heartbeat_schema_version (em_system_id em) now (Suc (em_sequence em)) h"
    and "dict_get (external_json b) ''signature'' = Some (JStr (hmac (em_secret em) msg))"
    by (simp_all add: external_json_def unsigned_json_def b_def)
  then have "monitor_accepts E hmac (em_secret em) (external_json b)"
    by (simp only: monitor_accepts_def msg) simp
  moreover have "eh_sequence b = Suc (em_sequence em)" "eh_health b = h" "eh_emitted_at b = now"
    by (simp_all add: b_def)
  ultimately show ?thesis
    using b assms by (auto simp: emit_def split: if_splits sum.splits)
qed

text \<open>
  C38: Whatever the endpoint answers, the heartbeats of an emitter are numbered one after the other,
  carry the health and the time they were emitted with, and are accepted by a monitor that shares the
  secret; a call raises exactly when there is an endpoint that is not a URL with a scheme, and the
  endpoint is not tried exactly when there is none.
\<close>

theorem heartbeats_verify:
  assumes "i < length xs"
  shows "case fst (emit_all E hmac urlopen xs em) ! i of
      Inl e \<Rightarrow> em_endpoint em \<noteq> [] \<and> url_scheme (em_endpoint em) = None
    | Inr x \<Rightarrow> (em_endpoint em = [] \<or> url_scheme (em_endpoint em) \<noteq> None) \<and>
        (em_endpoint em = [] \<longleftrightarrow> x = NotConfigured (heartbeat_of x)) \<and>
        eh_sequence (heartbeat_of x) = em_sequence em + i + 1 \<and>
        (eh_emitted_at (heartbeat_of x), eh_health (heartbeat_of x)) = xs ! i \<and>
        monitor_accepts E hmac (em_secret em) (external_json (heartbeat_of x))"
  using assms
proof (induction xs arbitrary: em i)
  case (Cons y xs)
  obtain now h where y: "y = (now, h)" by (cases y)
  obtain r em1 where e: "emit E hmac urlopen now h em = (r, em1)" by (cases "emit E hmac urlopen now h em")
  have run: "fst (emit_all E hmac urlopen (y # xs) em) = r # fst (emit_all E hmac urlopen xs em1)"
    by (simp add: y e split: prod.split)
  note spec = emit_spec [OF e]
  show ?case
  proof (cases i)
    case 0
    from spec show ?thesis unfolding 0 run nth_Cons_0 by (auto simp: y split: sum.split)
  next
    case (Suc k)
    with Cons.prems have "k < length xs" by simp
    have em1: "em1 = em\<lparr>em_sequence := Suc (em_sequence em)\<rparr>" using spec by blast
    from Cons.IH [OF \<open>k < length xs\<close>, of em1] show ?thesis unfolding Suc run nth_Cons_Suc unfolding em1 by (auto split: sum.splits)
  qed
qed simp

definition plain_hmac :: "string \<Rightarrow> string \<Rightarrow> string" where
  "plain_hmac secret payload = secret @ payload"

definition well :: component_health where
  "well = \<lparr>ch_gateway = ''OK'', ch_python_engine = ''OK'', ch_queue = ''OK'', ch_mt5 = ''OK''\<rparr>"

lemma heartbeats_verify_witness:
  "(case fst (emit_all sample_env plain_hmac (\<lambda>u p t. Inr 200) [(''t1'', well), (''t2'', well)] (new_emitter ''s'' ''k'' None 10)) ! 1 of
      Inl e \<Rightarrow> False
    | Inr x \<Rightarrow> eh_sequence (heartbeat_of x) = 2 \<and> monitor_accepts sample_env plain_hmac ''k'' (external_json (heartbeat_of x)))"
  using heartbeats_verify [of 1 "[(''t1'', well), (''t2'', well)]", where E = sample_env and hmac = plain_hmac
      and urlopen = "\<lambda>u p t. Inr 200" and em = "new_emitter ''s'' ''k'' None 10"]
  by (simp add: new_emitter_def split: sum.splits)

text \<open>A probe that answers badly, and a world that only counts the readings of its clock.\<close>

definition bad_probe :: "nat component_probe" where
  "bad_probe = \<lparr>cp_name = ''gateway'', cp_probe = (\<lambda>w. (Inl ''no answer'', w)), cp_event_type = ''GATEWAY_FAILED'', cp_failures = 0\<rparr>"

definition bad_watchdog :: "nat watchdog" where
  "bad_watchdog = register_probe bad_probe (new_watchdog 3)"

lemma failed_from_third_failure_witness:
  "cs_status (wr_components (run_rounds nat_str bad_watchdog [5, 6, 7] ! 2) ! 0) = ''FAILED''"
proof -
  have "0 < length (wd_probes bad_watchdog)" "cp_failures (wd_probes bad_watchdog ! 0) = 0"
    by (simp_all add: bad_watchdog_def register_probe_def new_watchdog_def bad_probe_def)
  moreover have "answered_badly (wr_components (run_rounds nat_str bad_watchdog [5, 6, 7] ! k) ! 0)" if "k \<in> {0, 1, 2}" for k
    using that
    by (auto simp: bad_watchdog_def register_probe_def new_watchdog_def bad_probe_def check_all_def check_probe_def
        probe_outcome_def answered_badly_def incidents_of_def probe_status_def Let_def)
  ultimately show ?thesis
    using failed_from_third_failure [of 0 bad_watchdog 2 "[5, 6, 7]" nat_str] by (simp add: Let_def)
qed

end
