(* ===== verification/Topology.thy ===== *)
theory Topology
  imports EnvAudit RegistryCheck
begin

text \<open>
  \<open>agent_topology.py\<close>: the contracts of the thirteen agents, the configuration rendered from them, and
  the validation of a configuration and of its routes. How \<open>pathlib\<close> joins two paths is an argument.
  Two tuples are equal when their items are; \<open>tuple(v)\<close> raises on what cannot be iterated.
\<close>

section \<open>Routes\<close>

definition realtime_routes :: "(string \<times> string) list" where
  "realtime_routes =
     [(''evidence-archive'', ''super-advisor''), (''super-advisor'', ''xau-strategy-auditor''),
      (''xau-strategy-auditor'', ''super-advisor''), (''super-advisor'', ''telegram-publisher''),
      (''telegram-publisher'', ''outcome-ledger'')]"

definition code_audit_routes :: "(string \<times> string) list" where
  "code_audit_routes = [(''source-bundle'', ''system-coder-auditor''), (''system-coder-auditor'', ''audit-report'')]"

definition code_work_order_routes :: "(string \<times> string) list" where
  "code_work_order_routes =
     [(''super-advisor'', ''blueprint-coder''), (''blueprint-coder'', ''system-coder-auditor''),
      (''system-coder-auditor'', ''security-compliance-agent''), (''security-compliance-agent'', ''super-advisor'')]"

text \<open>\<open>[tuple(r) for r in v] == list(allowed)\<close>\<close>

definition route_tuples :: "json \<Rightarrow> py_exn + json list list" where
  "route_tuples v = bind_res (py_tuple v) (map_res py_tuple)"

definition routes_are :: "json list list \<Rightarrow> (string \<times> string) list \<Rightarrow> bool" where
  "routes_are rs allowed = list_all2 (\<lambda>r (a, b). tuple_is r [a, b]) rs allowed"

definition allowlist_issue :: "json list list \<Rightarrow> (string \<times> string) list \<Rightarrow> string \<Rightarrow> registry_issue list" where
  "allowlist_issue rs allowed name =
     issue_when (\<not> routes_are rs allowed) (''routing.'' @ name) ''allowlist_mismatch''
       (name @ '' routing must match the allowlist'')"

definition disallowed_routes :: "(string \<times> string) list" where
  "disallowed_routes =
     [(''telegram-publisher'', ''xau-strategy-auditor''), (''telegram-publisher'', ''system-coder-auditor''),
      (''xau-strategy-auditor'', ''telegram-publisher''), (''system-coder-auditor'', ''super-advisor''),
      (''unknown-agent'', ''any''), (''blueprint-coder'', ''telegram-publisher''),
      (''blueprint-coder'', ''outcome-ledger''), (''blueprint-coder'', ''super-advisor''),
      (''blueprint-coder'', ''blueprint-coder'')]"

text \<open>A route in the set of the disallowed ones; a route that cannot be hashed raises.\<close>

definition disallowed_issue :: "json list \<Rightarrow> py_exn + registry_issue list" where
  "disallowed_issue r =
     (if \<not> list_all hashable r then Inl TypeError
      else Inr (case List.find (\<lambda>(a, b). tuple_is r [a, b]) disallowed_routes of
          None \<Rightarrow> []
        | Some (a, b) \<Rightarrow> [issue ''routing'' ''disallowed_route''
            (''disallowed route '' @ str_repr a @ '' -> '' @ str_repr b)]))"

record route_report =
  ro_version :: string
  ro_phase :: string
  ro_valid :: bool
  ro_allowed :: "(string \<times> string) list"
  ro_issues :: "registry_issue list"

definition validate_routing :: "(string, json) dict option \<Rightarrow> py_exn + route_report" where
  "validate_routing routes =
     (case routes of
        None \<Rightarrow> Inr \<lparr>ro_version = package_version, ro_phase = phase, ro_valid = False, ro_allowed = [],
            ro_issues = [issue ''routing'' ''missing'' ''routing config is required'']\<rparr>
      | Some d \<Rightarrow>
          bind_res (route_tuples (dict_get_or d ''realtime'' (JList []))) (\<lambda>realtime.
          bind_res (route_tuples (dict_get_or d ''code-audit'' (JList []))) (\<lambda>audit.
          bind_res (route_tuples (dict_get_or d ''code-work-order'' (JList []))) (\<lambda>work.
          bind_res (map_res disallowed_issue (realtime @ audit @ work)) (\<lambda>disallowed.
            let issues = allowlist_issue realtime realtime_routes ''realtime'' @
                  allowlist_issue audit code_audit_routes ''code-audit'' @
                  allowlist_issue work code_work_order_routes ''code-work-order'' @ concat disallowed
            in Inr \<lparr>ro_version = package_version, ro_phase = phase, ro_valid = (issues = []),
                 ro_allowed = realtime_routes @ code_audit_routes @ code_work_order_routes,
                 ro_issues = issues\<rparr>)))))"

section \<open>Contracts\<close>

record agent_contract =
  co_id :: string
  co_name :: string
  co_description :: string
  co_workspace :: string
  co_agent_dir :: string
  co_session_store :: string
  co_memory_dir :: string
  co_skills :: "string list"
  co_allowed_tools :: "string list"
  co_denied_tools :: "string list"
  co_secret_access :: string
  co_timeout :: int
  co_retry :: int

record agent_spec =
  sp_name :: string
  sp_description :: string
  sp_secret_access :: string
  sp_timeout :: int
  sp_retry :: int

definition agent_specs :: "(string, agent_spec) dict" where
  "agent_specs =
     [
      (''super-advisor'', \<lparr>sp_name = ''OpenClaw MAIN Agent Manager'',
        sp_description = ''Sole user-facing coordinator; planner, router, evidence arbiter, release gate.'',
        sp_secret_access = ''none'', sp_timeout = 300, sp_retry = 2\<rparr>),
      (''xau-strategy-auditor'', \<lparr>sp_name = ''XAU Strategy Research Agent'',
        sp_description = ''Read-only XAUUSD multi-timeframe research and alert-quality review.'',
        sp_secret_access = ''none'', sp_timeout = 90, sp_retry = 2\<rparr>),
      (''system-coder-auditor'', \<lparr>sp_name = ''System Coder Auditor'',
        sp_description = ''Read-only code-audit agent; isolated worktree patch proposals only.'',
        sp_secret_access = ''none'', sp_timeout = 90, sp_retry = 2\<rparr>),
      (''telegram-publisher'', \<lparr>sp_name = ''Thai Telegram Publisher'',
        sp_description = ''Approved Thai publication formatter and delivery safety gate.'',
        sp_secret_access = ''approved_payload_only'', sp_timeout = 60, sp_retry = 3\<rparr>),
      (''market-data-integrity-agent'', \<lparr>sp_name = ''Market Data Integrity Agent'',
        sp_description = ''MT5/FRED data quality audit: missing bars, timezone, provenance.'',
        sp_secret_access = ''none'', sp_timeout = 120, sp_retry = 3\<rparr>),
      (''price-action-microstructure-agent'', \<lparr>sp_name = ''Price Action Microstructure Agent'',
        sp_description = ''Candlestick structure, wick/body, rejection, and M1/M5 trigger analysis.'',
        sp_secret_access = ''none'', sp_timeout = 90, sp_retry = 2\<rparr>),
      (''intermarket-macro-agent'', \<lparr>sp_name = ''Intermarket Macro Agent'',
        sp_description = ''USD basket, US10Y, FX correlation, lead/lag, regime classification.'',
        sp_secret_access = ''none'', sp_timeout = 120, sp_retry = 2\<rparr>),
      (''statistical-backtest-agent'', \<lparr>sp_name = ''Statistical Backtest Agent'',
        sp_description = ''Sample adequacy, walk-forward, stability, overfitting and leakage detection.'',
        sp_secret_access = ''none'', sp_timeout = 300, sp_retry = 2\<rparr>),
      (''failure-root-cause-agent'', \<lparr>sp_name = ''Failure Root Cause Agent'',
        sp_description = (''Alert failure analysis, logic conflict audit, root-cause tree, corrective '' @
        ''hypothesis.''),
        sp_secret_access = ''none'', sp_timeout = 120, sp_retry = 2\<rparr>),
      (''security-compliance-agent'', \<lparr>sp_name = ''Security Compliance Agent'',
        sp_description = ''Advisor-only enforcement, secret exposure scan, agent privilege audit.'',
        sp_secret_access = ''none'', sp_timeout = 60, sp_retry = 2\<rparr>),
      (''reliability-watchdog-agent'', \<lparr>sp_name = ''Reliability Watchdog Agent'',
        sp_description = ''Process health, heartbeat monitoring, restart protocol, incident escalation.'',
        sp_secret_access = ''none'', sp_timeout = 30, sp_retry = 5\<rparr>),
      (''knowledge-skill-manager'', \<lparr>sp_name = ''Knowledge and Skill Manager'',
        sp_description = ''Research knowledge lifecycle, experiment records, skill candidate management.'',
        sp_secret_access = ''none'', sp_timeout = 120, sp_retry = 2\<rparr>),
      (''blueprint-coder'', \<lparr>sp_name = ''Blueprint Coder'',
        sp_description = (''Isolated code-creation agent; writes, refactors, and patches source code in an '' @
        ''isolated Git worktree. Triggered only by explicit APPLY_IMPROVEMENT command via '' @
        ''super-advisor. Cannot access state/.env, cannot push/merge/deploy, cannot '' @
        ''self-approve patches.''),
        sp_secret_access = ''none'', sp_timeout = 600, sp_retry = 1\<rparr>)]"

definition agent_contract_of :: "(string \<Rightarrow> string \<Rightarrow> string) \<Rightarrow> project_paths \<Rightarrow> string \<Rightarrow> agent_spec \<Rightarrow> agent_contract" where
  "agent_contract_of join P aid sp =
     (let home = join (join (pp_state P) ''agents'') aid
      in \<lparr>co_id = aid, co_name = sp_name sp, co_description = sp_description sp,
          co_workspace = join (join (pp_workspace P) ''agents'') aid,
          co_agent_dir = join home ''agent'', co_session_store = join home ''sessions'',
          co_memory_dir = join home ''memory'',
          co_skills = dict_get_or agent_skill_names aid [],
          co_allowed_tools = dict_get_or agent_allowed_tools aid [],
          co_denied_tools = dict_get_or agent_denied_tools aid [],
          co_secret_access = sp_secret_access sp, co_timeout = sp_timeout sp, co_retry = sp_retry sp\<rparr>)"

text \<open>Every runtime agent has its row in the three tables and its specification: no \<open>KeyError\<close>.\<close>

definition build_agent_topology :: "(string \<Rightarrow> string \<Rightarrow> string) \<Rightarrow> project_paths \<Rightarrow> agent_contract list" where
  "build_agent_topology join P =
     map (\<lambda>aid. agent_contract_of join P aid (the (dict_get agent_specs aid))) runtime_agent_ids"

lemma specs_total: "list_all (\<lambda>aid. dict_get agent_specs aid \<noteq> None \<and> dict_get agent_skill_names aid \<noteq> None \<and>
    dict_get agent_allowed_tools aid \<noteq> None \<and> dict_get agent_denied_tools aid \<noteq> None) runtime_agent_ids"
  by code_simp

section \<open>The rendered configuration\<close>

definition text_list :: "string list \<Rightarrow> json" where
  "text_list xs = JList (map JStr xs)"

definition route_list :: "(string \<times> string) list \<Rightarrow> json" where
  "route_list rs = JList (map (\<lambda>(a, b). text_list [a, b]) rs)"

definition blueprint_tools :: "agent_contract \<Rightarrow> json" where
  "blueprint_tools a =
     JObj [(''allow'', text_list (co_allowed_tools a)), (''deny'', text_list (co_denied_tools a)),
       (''exec'', if co_id a = ''blueprint-coder''
          then JObj [(''mode'', JStr ''allowlist''), (''allowlist'', text_list blueprint_coder_exec_allowlist),
            (''applyPatch'', JObj [(''enabled'', JBool True), (''workspaceOnly'', JBool True)])]
          else JObj [(''mode'', JStr ''deny''),
            (''applyPatch'', JObj [(''enabled'', JBool False), (''workspaceOnly'', JBool True)])]),
       (''fs'', JObj [(''workspaceOnly'', JBool True)]),
       (''message'', JObj [(''allowCrossContextSend'', JBool False),
          (''crossContext'', JObj [(''allowWithinProvider'', JBool False), (''allowAcrossProviders'', JBool False)]),
          (''actions'', JObj [(''allow'', JList [])]), (''broadcast'', JObj [(''enabled'', JBool False)])]),
       (''agentToAgent'', JObj [(''enabled'', JBool False)]), (''elevated'', JObj [(''enabled'', JBool False)]),
       (''sandbox'', JObj [(''tools'', JObj [(''allow'', text_list [''read'', ''session_status'']),
          (''deny'', text_list (co_denied_tools a))])])]"

definition blueprint_agent :: "agent_contract \<Rightarrow> json" where
  "blueprint_agent a =
     JObj [(''id'', JStr (co_id a)), (''default'', JBool (co_id a = ''super-advisor'')), (''name'', JStr (co_name a)),
       (''description'', JStr (co_description a)), (''workspace'', JStr (co_workspace a)),
       (''agentDir'', JStr (co_agent_dir a)), (''sessionStore'', JStr (co_session_store a)),
       (''memoryDir'', JStr (co_memory_dir a)), (''skills'', text_list (co_skills a)), (''tools'', blueprint_tools a),
       (''secretAccess'', JObj [(''mode'', JStr (co_secret_access a))]), (''timeoutSeconds'', JInt (co_timeout a)),
       (''retry'', JObj [(''maxAttempts'', JInt (co_retry a)), (''backoffSeconds'', JInt 2)])]"

definition render_blueprint_config :: "(string \<Rightarrow> string \<Rightarrow> string) \<Rightarrow> project_paths \<Rightarrow> (string, json) dict" where
  "render_blueprint_config join P =
     [(''version'', JStr package_version), (''phase'', JStr phase), (''skills'', text_list skill_names),
      (''agents'', JList (map blueprint_agent (build_agent_topology join P))),
      (''routing'', JObj [(''realtime'', route_list realtime_routes), (''code-audit'', route_list code_audit_routes),
         (''code-work-order'', route_list code_work_order_routes)])]"

section \<open>The validation of a configuration\<close>

record topology_report =
  to_version :: string
  to_phase :: string
  to_valid :: bool
  to_agents :: "agent_contract list"
  to_issues :: "registry_issue list"
  to_route_issues :: "registry_issue list"

text \<open>\<open>str(agent_item.get(key, ""))\<close> and \<open>list(agent_item.get(key, []))\<close>\<close>

definition item_text :: "py_env \<Rightarrow> (string, json) dict \<Rightarrow> string \<Rightarrow> string" where
  "item_text E item k = py_str E (dict_get_or item k (JStr []))"

definition item_list :: "(string, json) dict \<Rightarrow> string \<Rightarrow> py_exn + json list" where
  "item_list item k = py_tuple (dict_get_or item k (JList []))"

definition contract_of :: "agent_contract list \<Rightarrow> string \<Rightarrow> agent_contract option" where
  "contract_of agents aid = List.find (\<lambda>c. co_id c = aid) agents"

text \<open>The checks of an agent against its contract: the paths, the skills, and the tools when there are some.\<close>

definition contract_issues :: "py_env \<Rightarrow> string \<Rightarrow> (string, json) dict \<Rightarrow> agent_contract \<Rightarrow> py_exn + registry_issue list" where
  "contract_issues E at_item item c =
     bind_res (item_list item ''skills'') (\<lambda>skills.
       let isolation =
             issue_when (item_text E item ''workspace'' \<noteq> co_workspace c) (at_item @ ''.workspace'')
               ''workspace_mismatch'' ''agent workspace must be isolated per agent'' @
             issue_when (item_text E item ''agentDir'' \<noteq> co_agent_dir c) (at_item @ ''.agentDir'')
               ''agent_dir_mismatch'' ''agent directory must be isolated per agent'' @
             issue_when (\<not> tuple_is skills (co_skills c)) (at_item @ ''.skills'')
               ''skills_mismatch'' ''agent skill allowlist mismatch''
       in case dict_get item ''tools'' of
            Some (JObj tools) \<Rightarrow>
              bind_res (item_list tools ''allow'') (\<lambda>allow.
              bind_res (item_list tools ''deny'') (\<lambda>deny.
                Inr (isolation @
                  issue_when (\<not> tuple_is allow (co_allowed_tools c)) (at_item @ ''.tools.allow'')
                    ''allow_mismatch'' ''tool allowlist mismatch'' @
                  issue_when (\<not> tuple_is deny (co_denied_tools c)) (at_item @ ''.tools.deny'')
                    ''deny_mismatch'' ''tool denylist mismatch'')))
          | _ \<Rightarrow> Inr (isolation @ [issue (at_item @ ''.tools'') ''missing'' ''tools block is required'']))"

text \<open>The loop over the agent list, with the ids seen so far and the index.\<close>

fun agent_list_issues ::
  "py_env \<Rightarrow> agent_contract list \<Rightarrow> string list \<Rightarrow> nat \<Rightarrow> json list \<Rightarrow> py_exn + registry_issue list" where
  "agent_list_issues E agents seen i [] = Inr []"
| "agent_list_issues E agents seen i (v # vs) =
     (let at_item = indexed ''agents.list'' i
      in case v of
           JObj item \<Rightarrow>
             (let aid = item_text E item ''id''
              in case (dict_get agent_skill_names aid, contract_of agents aid) of
                   (Some sks, Some c) \<Rightarrow>
                     bind_res (contract_issues E at_item item c) (\<lambda>iss.
                     bind_res (agent_list_issues E agents (aid # seen) (Suc i) vs) (\<lambda>rest.
                       Inr (issue_when (aid \<in> set seen) (at_item @ ''.id'') ''duplicate_agent''
                              (''duplicate agent id '' @ str_repr aid) @ iss @ rest)))
                 | (Some sks, None) \<Rightarrow> Inl (OtherError ''StopIteration'')
                 | _ \<Rightarrow>
                     bind_res (agent_list_issues E agents seen (Suc i) vs) (\<lambda>rest.
                       Inr (issue (at_item @ ''.id'') ''unknown_agent'' (''unexpected agent id '' @ str_repr aid) # rest)))
         | _ \<Rightarrow>
             bind_res (agent_list_issues E agents seen (Suc i) vs) (\<lambda>rest.
               Inr (issue at_item ''type'' ''agent entry must be an object'' # rest)))"

definition agents_section_issues ::
  "py_env \<Rightarrow> agent_contract list \<Rightarrow> (string, json) dict \<Rightarrow> py_exn + registry_issue list" where
  "agents_section_issues E agents config =
     (case dict_get config ''agents'' of
        Some (JObj section) \<Rightarrow>
          (let defaults = (case dict_get section ''defaults'' of
               Some (JObj d) \<Rightarrow> []
             | _ \<Rightarrow> [issue ''agents.defaults'' ''missing'' ''defaults required''])
           in case dict_get section ''list'' of
                Some (JList items) \<Rightarrow>
                  bind_res (agent_list_issues E agents [] 0 items) (\<lambda>iss.
                    Inr (defaults @
                      issue_when (length items \<noteq> length agents) ''agents.list'' ''count_mismatch''
                        (''expected '' @ nat_str (length agents) @ '' agents, got '' @ nat_str (length items)) @ iss))
              | _ \<Rightarrow> Inr (defaults @ [issue ''agents.list'' ''missing'' ''agent list is required'']))
      | _ \<Rightarrow> Inr [issue ''agents'' ''missing'' ''agents section is required''])"

definition route_section_issues :: "(string, json) dict \<Rightarrow> py_exn + registry_issue list" where
  "route_section_issues config =
     (case dict_get config ''routing'' of
        Some (JObj d) \<Rightarrow>
          bind_res (route_tuples (dict_get_or d ''realtime'' (JList []))) (\<lambda>realtime.
          bind_res (route_tuples (dict_get_or d ''code-audit'' (JList []))) (\<lambda>audit.
          bind_res (route_tuples (dict_get_or d ''code-work-order'' (JList []))) (\<lambda>work.
            Inr (allowlist_issue realtime realtime_routes ''realtime'' @
              allowlist_issue audit code_audit_routes ''code-audit'' @
              allowlist_issue work code_work_order_routes ''code-work-order''))))
      | _ \<Rightarrow> Inr [])"

definition validate_agent_topology ::
  "py_env \<Rightarrow> (string \<Rightarrow> string \<Rightarrow> string) \<Rightarrow> project_paths \<Rightarrow> (string, json) dict option \<Rightarrow> py_exn + topology_report" where
  "validate_agent_topology E join P config =
     (let agents = build_agent_topology join P
      in case config of
           None \<Rightarrow> Inr \<lparr>to_version = package_version, to_phase = phase, to_valid = False, to_agents = agents,
               to_issues = [issue ''config'' ''missing'' ''config is required''], to_route_issues = []\<rparr>
         | Some d \<Rightarrow>
             bind_res (agents_section_issues E agents d) (\<lambda>iss.
             bind_res (route_section_issues d) (\<lambda>routes.
               let issues = issue_when (\<not> py_eq (dict_get_or d ''skills'' JNull) (text_list skill_names)) ''skills''
                     ''skill_catalog_mismatch'' ''runtime skill catalog must match the declared blueprint skills'' @ iss
               in Inr \<lparr>to_version = package_version, to_phase = phase, to_valid = (issues = [] \<and> routes = []),
                    to_agents = agents, to_issues = issues, to_route_issues = routes\<rparr>)))"

definition validate_skill_owners :: "string list \<Rightarrow> string list" where
  "validate_skill_owners names = filter (\<lambda>n. dict_get skill_owners n = None) names"

section \<open>What is valid\<close>

lemma route_is: "tuple_is r [a, b] \<longleftrightarrow> r = [JStr a, JStr b]"
  by (simp add: tuple_is_iff)

definition route_values :: "(string \<times> string) list \<Rightarrow> json list list" where
  "route_values rs = map (\<lambda>(a, b). [JStr a, JStr b]) rs"

lemma routes_are_iff: "routes_are rs allowed \<longleftrightarrow> rs = route_values allowed"
  unfolding routes_are_def route_values_def
  by (induction allowed arbitrary: rs) (auto simp: route_is list_all2_Cons2)

lemma allowlist_issue_Nil [simp]: "allowlist_issue rs allowed name = [] \<longleftrightarrow> rs = route_values allowed"
  by (simp add: allowlist_issue_def routes_are_iff)

definition routes_lawful :: "(string, json) dict \<Rightarrow> bool" where
  "routes_lawful d \<longleftrightarrow>
     route_tuples (dict_get_or d ''realtime'' (JList [])) = Inr (route_values realtime_routes) \<and>
     route_tuples (dict_get_or d ''code-audit'' (JList [])) = Inr (route_values code_audit_routes) \<and>
     route_tuples (dict_get_or d ''code-work-order'' (JList [])) = Inr (route_values code_work_order_routes)"

definition allowed_routes :: "(string \<times> string) list" where
  "allowed_routes = realtime_routes @ code_audit_routes @ code_work_order_routes"

lemma allowed_values:
  "route_values allowed_routes = route_values realtime_routes @ route_values code_audit_routes @ route_values code_work_order_routes"
  by (simp add: allowed_routes_def route_values_def)

lemma allowed_not_disallowed: "map_res disallowed_issue (route_values allowed_routes) = Inr (replicate 11 [])"
  by code_simp

lemma valid_routes: "validate_routing (Some d) = Inr rep \<Longrightarrow> ro_valid rep \<Longrightarrow> routes_lawful d"
  by (auto simp: validate_routing_def bind_res_Inr Let_def routes_lawful_def)

text \<open>
  A routing section is reported valid exactly when its three lists are the allowlists, item by item
  and in order. No allowed route is a disallowed one, so the list of disallowed routes never decides.
\<close>

theorem routing_valid_iff:
  "((\<exists>rep. validate_routing (Some d) = Inr rep \<and> ro_valid rep) \<longleftrightarrow> routes_lawful d) \<and>
   set allowed_routes \<inter> set disallowed_routes = {} \<and>
   \<not> (\<exists>rep. validate_routing None = Inr rep \<and> ro_valid rep)"
proof -
  have "set allowed_routes \<inter> set disallowed_routes = {}" by code_simp
  moreover have "\<exists>rep. validate_routing (Some d) = Inr rep \<and> ro_valid rep" if "routes_lawful d"
    using that allowed_not_disallowed unfolding routes_lawful_def validate_routing_def
    by (simp add: Let_def flip: allowed_values)
  moreover have "\<not> (\<exists>rep. validate_routing None = Inr rep \<and> ro_valid rep)" by (simp add: validate_routing_def)
  ultimately show ?thesis using valid_routes by blast
qed

section \<open>What a valid configuration gives the agents\<close>

definition tools_lawful :: "(string, json) dict \<Rightarrow> agent_contract \<Rightarrow> bool" where
  "tools_lawful item c =
     (case dict_get item ''tools'' of
        Some (JObj tools) \<Rightarrow>
          item_list tools ''allow'' = Inr (map JStr (co_allowed_tools c)) \<and>
          item_list tools ''deny'' = Inr (map JStr (co_denied_tools c))
      | _ \<Rightarrow> False)"

definition agent_item_lawful :: "py_env \<Rightarrow> agent_contract list \<Rightarrow> json \<Rightarrow> bool" where
  "agent_item_lawful E agents v =
     (case v of
        JObj item \<Rightarrow>
          (case contract_of agents (item_text E item ''id'') of
             Some c \<Rightarrow>
               item_text E item ''workspace'' = co_workspace c \<and> item_text E item ''agentDir'' = co_agent_dir c \<and>
               item_list item ''skills'' = Inr (map JStr (co_skills c)) \<and> tools_lawful item c
           | None \<Rightarrow> False)
      | _ \<Rightarrow> False)"

definition agent_item_id :: "py_env \<Rightarrow> json \<Rightarrow> string" where
  "agent_item_id E v = (case v of JObj item \<Rightarrow> item_text E item ''id'' | _ \<Rightarrow> [])"

lemma contract_issues_Nil:
  "contract_issues E at_item item c = Inr [] \<longleftrightarrow>
     item_text E item ''workspace'' = co_workspace c \<and> item_text E item ''agentDir'' = co_agent_dir c \<and>
     item_list item ''skills'' = Inr (map JStr (co_skills c)) \<and> tools_lawful item c"
  unfolding contract_issues_def tools_lawful_def
  by (auto simp: bind_res_Inr Let_def tuple_is_iff split: option.splits json.splits)

lemma agent_list_issues_Nil:
  assumes "agent_list_issues E agents seen i vs = Inr []"
  shows "list_all (agent_item_lawful E agents) vs \<and> distinct (map (agent_item_id E) vs) \<and>
    set (map (agent_item_id E) vs) \<inter> set seen = {}"
  using assms
proof (induction vs arbitrary: seen i)
  case (Cons v vs)
  from Cons.prems obtain item sks c where v: "v = JObj item" "dict_get agent_skill_names (item_text E item ''id'') = Some sks"
    and c: "contract_of agents (item_text E item ''id'') = Some c"
    by (auto simp: bind_res_Inr Let_def split: json.splits option.splits)
  with Cons.prems have iss: "contract_issues E (indexed ''agents.list'' i) item c = Inr []"
    and rest: "agent_list_issues E agents (item_text E item ''id'' # seen) (Suc i) vs = Inr []"
    and new: "item_text E item ''id'' \<notin> set seen"
    by (auto simp: bind_res_Inr Let_def)
  from Cons.IH [OF rest] have
    "list_all (agent_item_lawful E agents) vs \<and> distinct (map (agent_item_id E) vs) \<and>
     set (map (agent_item_id E) vs) \<inter> set (item_text E item ''id'' # seen) = {}"
    by auto
  moreover have "agent_item_lawful E agents v" using v c iss by (simp add: agent_item_lawful_def contract_issues_Nil)
  moreover have "agent_item_id E v = item_text E item ''id''" by (simp add: v agent_item_id_def)
  ultimately show ?case using new by auto
qed simp

text \<open>As many different known ids as there are agents are the runtime agents, each once.\<close>

lemma topology_ids: "map co_id (build_agent_topology join P) = runtime_agent_ids"
  by (simp add: build_agent_topology_def agent_contract_of_def Let_def comp_def)

lemma runtime_ids_once:
  assumes "\<forall>i \<in> set ids. contract_of (build_agent_topology join P) i \<noteq> None" and "distinct ids"
    and "length ids = length (build_agent_topology join P)"
  shows "mset ids = mset runtime_agent_ids"
proof -
  have "i \<in> set runtime_agent_ids" if known: "contract_of (build_agent_topology join P) i \<noteq> None" for i
  proof -
    from known obtain c where "c \<in> set (build_agent_topology join P)" "co_id c = i"
      by (auto simp: contract_of_def dest: find_Some_iff_mem)
    then show ?thesis unfolding topology_ids [of join P, symmetric] by auto
  qed
  with assms(1) have "set ids \<subseteq> set runtime_agent_ids" by blast
  moreover have d: "distinct runtime_agent_ids" by code_simp
  moreover have "length ids = length runtime_agent_ids"
    using assms(3) by (simp flip: topology_ids [of join P])
  ultimately have "set ids = set runtime_agent_ids"
    using assms(2) by (intro card_subset_eq) (simp_all only: distinct_card finite_set)
  with assms(2) d show ?thesis using set_eq_iff_mset_eq_distinct by blast
qed

text \<open>
  A configuration whose topology is valid lists exactly the runtime agents, each once, each with its
  own workspace and directory and with the skills, the allowed and the denied tools of its contract; a
  routing section, where there is one, is the allowlists.
\<close>

theorem topology_valid_agents:
  assumes "validate_agent_topology E join P (Some d) = Inr rep" and "to_valid rep"
  shows "\<exists>ags items. dict_get d ''agents'' = Some (JObj ags) \<and> dict_get ags ''list'' = Some (JList items) \<and>
    mset (map (agent_item_id E) items) = mset runtime_agent_ids \<and>
    list_all (agent_item_lawful E (build_agent_topology join P)) items \<and>
    dict_get d ''skills'' = Some (text_list skill_names) \<and>
    (case dict_get d ''routing'' of Some (JObj r) \<Rightarrow> routes_lawful r | _ \<Rightarrow> True)"
proof -
  let ?agents = "build_agent_topology join P"
  have checks: "agents_section_issues E ?agents d = Inr []" "route_section_issues d = Inr []"
    "py_eq (dict_get_or d ''skills'' JNull) (text_list skill_names)"
    using assms by (auto simp: validate_agent_topology_def bind_res_Inr Let_def)
  from checks(1) obtain ags items where sec: "dict_get d ''agents'' = Some (JObj ags)"
    "dict_get ags ''list'' = Some (JList items)"
    and issues: "agent_list_issues E ?agents [] 0 items = Inr []" and count: "length items = length ?agents"
    by (auto simp: agents_section_issues_def bind_res_Inr Let_def issue_when_def split: option.splits json.splits if_splits)
  note items = agent_list_issues_Nil [OF issues]
  have "contract_of ?agents (agent_item_id E v) \<noteq> None" if "v \<in> set items" for v
    using that items by (auto simp: list_all_iff agent_item_lawful_def agent_item_id_def split: json.splits option.splits)
  with items count have "mset (map (agent_item_id E) items) = mset runtime_agent_ids"
    by (intro runtime_ids_once) auto
  moreover have "dict_get d ''skills'' = Some (text_list skill_names)"
  proof -
    have "py_eq_list xs (map JStr ns) \<longleftrightarrow> xs = map JStr ns" for xs ns
      by (induction xs arbitrary: ns) (auto split: list.splits)
    with checks(3) show ?thesis
      by (auto simp: dict_get_or_def text_list_def split: option.splits) (cases "the (dict_get d ''skills'')"; auto)
  qed
  moreover have "case dict_get d ''routing'' of Some (JObj r) \<Rightarrow> routes_lawful r | _ \<Rightarrow> True"
    using checks(2) by (auto simp: route_section_issues_def routes_lawful_def bind_res_Inr split: option.splits json.splits)
  ultimately show ?thesis using sec items by blast
qed

end
