(* ===== verification/Config.thy ===== *)
theory Config
  imports Topology
begin

text \<open>
  \<open>config.py\<close>: the gate that a rendered OpenClaw configuration has to pass. A section that is not an
  object, or not a list, raises \<open>ConfigValidationError\<close>, a \<open>RuntimeError\<close>; everything else
  that is wrong is an issue. A key that is not there and a \<open>null\<close> are both \<open>None\<close>.
\<close>

section \<open>Reading a section\<close>

record config_issue =
  cf_path :: string
  cf_message :: string

record config_report =
  cr_valid :: bool
  cr_issues :: "config_issue list"

definition section_object :: "json \<Rightarrow> string \<Rightarrow> py_exn + (string, json) dict" where
  "section_object v path = (case v of JObj d \<Rightarrow> Inr d | _ \<Rightarrow> Inl (RuntimeError (path @ '' must be an object'')))"

definition section_list :: "json \<Rightarrow> string \<Rightarrow> py_exn + json list" where
  "section_list v path = (case v of JList xs \<Rightarrow> Inr xs | _ \<Rightarrow> Inl (RuntimeError (path @ '' must be a list'')))"

abbreviation member :: "(string, json) dict \<Rightarrow> string \<Rightarrow> json" where
  "member d k \<equiv> dict_get_or d k JNull"

definition object_in :: "(string, json) dict \<Rightarrow> string \<Rightarrow> string \<Rightarrow> py_exn + (string, json) dict" where
  "object_in d k path = section_object (member d k) path"

definition complain :: "bool \<Rightarrow> string \<Rightarrow> string \<Rightarrow> config_issue list" where
  "complain c path message = (if c then [\<lparr>cf_path = path, cf_message = message\<rparr>] else [])"

definition require_equal :: "py_env \<Rightarrow> json \<Rightarrow> json \<Rightarrow> string \<Rightarrow> config_issue list" where
  "require_equal E actual expected path =
     complain (\<not> py_eq actual expected) path (''expected '' @ py_repr E expected @ '', got '' @ py_repr E actual)"

text \<open>A \<open>bool\<close> is an \<open>int\<close>.\<close>

definition is_positive_int :: "json \<Rightarrow> bool" where
  "is_positive_int v = (case v of JInt i \<Rightarrow> 0 < i | JBool b \<Rightarrow> b | _ \<Rightarrow> False)"

definition require_positive_int :: "py_env \<Rightarrow> json \<Rightarrow> string \<Rightarrow> config_issue list" where
  "require_positive_int E actual path =
     complain (\<not> is_positive_int actual) path (''expected positive integer, got '' @ py_repr E actual)"

section \<open>Tools\<close>

definition required_denies :: "string \<Rightarrow> bool \<Rightarrow> bool \<Rightarrow> string list" where
  "required_denies path is_super is_coder =
     [''group:runtime'', ''group:web'', ''group:ui'', ''group:automation'', ''group:plugins'', ''group:memory'',
      ''group:sessions'', ''process'', ''code_execution'', ''browser'', ''canvas'', ''gateway'', ''subagents''] @
     (if is_coder then [] else [''write'', ''edit'', ''apply_patch'', ''exec'']) @
     (if path \<noteq> ''tools'' \<and> \<not> is_super then [''group:messaging'', ''message''] else [])"

text \<open>\<open>set(deny)\<close> when it is a list, with a raise on what cannot be hashed.\<close>

definition deny_values :: "json \<Rightarrow> py_exn + json list" where
  "deny_values v =
     (case v of
        JList xs \<Rightarrow> if list_all hashable xs then Inr xs else Inl TypeError
      | _ \<Rightarrow> Inr [])"

definition missing_denies :: "string list \<Rightarrow> json list \<Rightarrow> string list" where
  "missing_denies required deny = sort (filter (\<lambda>r. \<not> list_ex (\<lambda>v. py_eq v (JStr r)) deny) required)"

definition validate_tools ::
  "py_env \<Rightarrow> (string, json) dict \<Rightarrow> string \<Rightarrow> bool \<Rightarrow> bool \<Rightarrow> py_exn + config_issue list" where
  "validate_tools E tools path is_super is_coder =
     (let also = (if is_super then text_list [''message''] else JNull);
          allow = (if is_coder then [''read'', ''session_status'', ''write'', ''edit'', ''apply_patch'']
                   else [''read'', ''session_status''])
      in bind_res (deny_values (member tools ''deny'')) (\<lambda>deny.
         bind_res (object_in tools ''exec'' (path @ ''.exec'')) (\<lambda>exec.
         bind_res (object_in tools ''message'' (path @ ''.message'')) (\<lambda>message.
         bind_res (object_in message ''actions'' (path @ ''.message.actions'')) (\<lambda>actions.
         bind_res (object_in tools ''agentToAgent'' (path @ ''.agentToAgent'')) (\<lambda>between.
         bind_res (object_in tools ''elevated'' (path @ ''.elevated'')) (\<lambda>elevated.
         bind_res (object_in tools ''sandbox'' (path @ ''.sandbox'')) (\<lambda>sandbox.
         bind_res (object_in sandbox ''tools'' (path @ ''.sandbox.tools'')) (\<lambda>boxed.
           let missing = missing_denies (required_denies path is_super is_coder) deny
           in Inr (
             require_equal E (member tools ''allow'') (text_list allow) (path @ ''.allow'') @
             require_equal E (member tools ''alsoAllow'') also (path @ ''.alsoAllow'') @
             complain (missing \<noteq> []) (path @ ''.deny'') (''missing required denies: '' @ str_join '', '' missing) @
             require_equal E (member exec ''mode'') (JStr (if is_coder then ''allowlist'' else ''deny'')) (path @ ''.exec.mode'') @
             require_equal E (member message ''allowCrossContextSend'') (JBool False) (path @ ''.message.allowCrossContextSend'') @
             require_equal E (member actions ''allow'') (text_list (if is_super then [''reply''] else []))
               (path @ ''.message.actions.allow'') @
             require_equal E (member between ''enabled'') (JBool False) (path @ ''.agentToAgent.enabled'') @
             require_equal E (member elevated ''enabled'') (JBool False) (path @ ''.elevated.enabled'') @
             require_equal E (member boxed ''allow'') (text_list [''read'', ''session_status'']) (path @ ''.sandbox.tools.allow'') @
             require_equal E (member boxed ''alsoAllow'') also (path @ ''.sandbox.tools.alsoAllow'')))))))))))"

section \<open>Agents\<close>

definition secret_mode :: "string \<Rightarrow> string" where
  "secret_mode aid = (if aid = ''telegram-publisher'' then ''approved_payload_only'' else ''none'')"

definition agent_entry_issues ::
  "py_env \<Rightarrow> string \<Rightarrow> (string, json) dict \<Rightarrow> agent_contract \<Rightarrow> py_exn + config_issue list" where
  "agent_entry_issues E at_item agent c =
     bind_res (object_in agent ''tools'' (at_item @ ''.tools'')) (\<lambda>tools.
     bind_res (validate_tools E tools (at_item @ ''.tools'') (co_id c = ''super-advisor'') (co_id c = ''blueprint-coder'')) (\<lambda>tool_issues.
     bind_res (object_in agent ''secretAccess'' (at_item @ ''.secretAccess'')) (\<lambda>secret.
       Inr (require_equal E (member agent ''workspace'') (JStr (co_workspace c)) (at_item @ ''.workspace'') @
         require_equal E (member agent ''agentDir'') (JStr (co_agent_dir c)) (at_item @ ''.agentDir'') @
         require_equal E (member agent ''sessionStore'') (JStr (co_session_store c)) (at_item @ ''.sessionStore'') @
         require_equal E (member agent ''memoryDir'') (JStr (co_memory_dir c)) (at_item @ ''.memoryDir'') @
         require_equal E (member agent ''skills'') (text_list (co_skills c)) (at_item @ ''.skills'') @
         tool_issues @
         require_equal E (member secret ''mode'') (JStr (secret_mode (co_id c))) (at_item @ ''.secretAccess.mode'')))))"

fun agent_entries_issues ::
  "py_env \<Rightarrow> agent_contract list \<Rightarrow> string list \<Rightarrow> nat \<Rightarrow> json list \<Rightarrow> py_exn + config_issue list" where
  "agent_entries_issues E agents seen i [] = Inr []"
| "agent_entries_issues E agents seen i (v # vs) =
     (let at_item = indexed ''agents.list'' i
      in bind_res (section_object v at_item) (\<lambda>agent.
           let aid = item_text E agent ''id''
           in case contract_of agents aid of
                None \<Rightarrow>
                  bind_res (agent_entries_issues E agents seen (Suc i) vs) (\<lambda>rest.
                    Inr (complain True (at_item @ ''.id'') (''unexpected agent id '' @ str_repr aid) @ rest))
              | Some c \<Rightarrow>
                  bind_res (agent_entry_issues E at_item agent c) (\<lambda>iss.
                  bind_res (agent_entries_issues E agents (aid # seen) (Suc i) vs) (\<lambda>rest.
                    Inr (complain (aid \<in> set seen) (at_item @ ''.id'') (''duplicate agent id '' @ str_repr aid) @ iss @ rest)))))"

section \<open>Market data\<close>

definition symbol_issues :: "nat \<Rightarrow> json \<Rightarrow> py_exn + config_issue list" where
  "symbol_issues i v =
     (let at_item = indexed ''marketData.symbols'' i
      in bind_res (section_object v at_item) (\<lambda>sm.
           Inr (complain (case member sm ''canonical'' of JStr s \<Rightarrow> s = [] | _ \<Rightarrow> True) (at_item @ ''.canonical'')
                  ''expected non-empty canonical symbol'' @
                complain (case member sm ''aliases'' of
                     JList xs \<Rightarrow> xs = [] \<or> \<not> list_all (\<lambda>x. case x of JStr s \<Rightarrow> s \<noteq> [] | _ \<Rightarrow> False) xs
                   | _ \<Rightarrow> True) (at_item @ ''.aliases'') ''expected non-empty string alias list'')))"

definition supported_timeframes :: "string list" where
  "supported_timeframes = [''M1'', ''M5'', ''M15'', ''H1'', ''H4'', ''D1'']"

definition timeframes_supported :: "json list \<Rightarrow> bool" where
  "timeframes_supported xs =
     list_all (\<lambda>x. case x of JStr s \<Rightarrow> s \<in> set supported_timeframes | _ \<Rightarrow> False) xs"

definition storage_issue :: "(string, json) dict \<Rightarrow> string \<Rightarrow> config_issue list" where
  "storage_issue storage name =
     complain (case member storage name of JStr s \<Rightarrow> s = [] | _ \<Rightarrow> True) (''marketData.storage.'' @ name)
       ''expected non-empty string path''"

definition collection_names :: "string list" where
  "collection_names =
     [''pollSeconds'', ''tickLookbackSeconds'', ''barLookbackCount'', ''freshnessThresholdSeconds'', ''retryMaxAttempts'',
      ''retryBackoffSeconds'']"

definition validate_market_data :: "py_env \<Rightarrow> (string, json) dict \<Rightarrow> py_exn + config_issue list" where
  "validate_market_data E md =
     bind_res (object_in md ''backend'' ''marketData.backend'') (\<lambda>backend.
     bind_res (section_list (member md ''symbols'') ''marketData.symbols'') (\<lambda>symbols.
     bind_res (map_res (\<lambda>(i, v). symbol_issues i v) (enumerate 0 symbols)) (\<lambda>symbols_iss.
     bind_res (section_list (member md ''timeframes'') ''marketData.timeframes'') (\<lambda>timeframes.
     bind_res (object_in md ''storage'' ''marketData.storage'') (\<lambda>storage.
     bind_res (object_in md ''collection'' ''marketData.collection'') (\<lambda>collection.
       Inr (require_equal E (member backend ''kind'') (JStr ''mt5'') ''marketData.backend.kind'' @
         require_equal E (member backend ''mode'') (JStr ''readonly'') ''marketData.backend.mode'' @
         complain (symbols = []) ''marketData.symbols'' ''expected at least one symbol'' @
         concat symbols_iss @
         complain (timeframes = [] \<or> \<not> timeframes_supported timeframes) ''marketData.timeframes''
           (''expected supported timeframe list from '' @ py_repr E (text_list (sort supported_timeframes))) @
         concat (map (storage_issue storage) [''baseDir'', ''sqlitePath'', ''parquetDir'']) @
         concat (map (\<lambda>n. require_positive_int E (member collection n) (''marketData.collection.'' @ n)) collection_names))))))))"

section \<open>The gate\<close>

definition gateway_issues :: "py_env \<Rightarrow> (string, json) dict \<Rightarrow> py_exn + config_issue list" where
  "gateway_issues E config =
     bind_res (object_in config ''gateway'' ''gateway'') (\<lambda>gateway.
     bind_res (object_in gateway ''auth'' ''gateway.auth'') (\<lambda>auth.
     bind_res (object_in auth ''token'' ''gateway.auth.token'') (\<lambda>token.
     bind_res (object_in gateway ''controlUi'' ''gateway.controlUi'') (\<lambda>ui.
       Inr (require_equal E (member gateway ''mode'') (JStr ''local'') ''gateway.mode'' @
         require_equal E (member gateway ''bind'') (JStr ''loopback'') ''gateway.bind'' @
         require_equal E (member gateway ''port'') (JInt 18789) ''gateway.port'' @
         require_equal E (member auth ''mode'') (JStr ''token'') ''gateway.auth.mode'' @
         require_equal E (member token ''source'') (JStr ''env'') ''gateway.auth.token.source'' @
         require_equal E (member token ''provider'') (JStr ''default'') ''gateway.auth.token.provider'' @
         require_equal E (member token ''id'') (JStr ''OPENCLAW_GATEWAY_TOKEN'') ''gateway.auth.token.id'' @
         require_equal E (member ui ''enabled'') (JBool True) ''gateway.controlUi.enabled'')))))"

definition agents_issues_of ::
  "py_env \<Rightarrow> (string \<Rightarrow> string \<Rightarrow> string) \<Rightarrow> project_paths \<Rightarrow> (string, json) dict \<Rightarrow> py_exn + config_issue list" where
  "agents_issues_of E join P config =
     bind_res (object_in config ''agents'' ''agents'') (\<lambda>ags.
     bind_res (object_in ags ''defaults'' ''agents.defaults'') (\<lambda>defaults.
     bind_res (section_list (member ags ''list'') ''agents.list'') (\<lambda>items.
       let agents = build_agent_topology join P
       in bind_res (if length items \<noteq> length agents
            then Inr (complain True ''agents.list'' (''expected exactly '' @ nat_str (length agents) @ '' configured agents''))
            else agent_entries_issues E agents [] 0 items) (\<lambda>iss.
            Inr (require_equal E (member defaults ''workspace'') (JStr (join (pp_workspace P) ''agents'')) ''agents.defaults.workspace'' @
              require_equal E (member defaults ''skills'') (text_list skill_names) ''agents.defaults.skills'' @ iss)))))"

definition routing_issues_of :: "(string, json) dict \<Rightarrow> py_exn + config_issue list" where
  "routing_issues_of config =
     (case member config ''routing'' of
        JObj routing \<Rightarrow>
          bind_res (validate_routing (Some (map (\<lambda>k. (k, dict_get_or routing k (JList []))) [''realtime'', ''code-audit'', ''code-work-order'']))) (\<lambda>rep.
            Inr (if ro_valid rep then []
                 else map (\<lambda>i. \<lparr>cf_path = ''routing.'' @ is_path i, cf_message = is_rule i @ '': '' @ is_message i\<rparr>) (ro_issues rep)))
      | _ \<Rightarrow> Inr (complain True ''routing'' ''routing section is required''))"

definition validate_rendered_config ::
  "py_env \<Rightarrow> (string \<Rightarrow> string \<Rightarrow> string) \<Rightarrow> project_paths \<Rightarrow> json \<Rightarrow> py_exn + config_report" where
  "validate_rendered_config E join P v =
     bind_res (case v of JObj d \<Rightarrow> Inr d | _ \<Rightarrow> Inl (RuntimeError ''config must be an object'')) (\<lambda>config.
     bind_res (object_in config ''env'' ''env'') (\<lambda>env.
     bind_res (object_in env ''shellEnv'' ''env.shellEnv'') (\<lambda>shell.
     bind_res (gateway_issues E config) (\<lambda>gateway_iss.
     bind_res (object_in config ''hooks'' ''hooks'') (\<lambda>hooks.
     bind_res (agents_issues_of E join P config) (\<lambda>agents_iss.
     bind_res (object_in config ''marketData'' ''marketData'') (\<lambda>md.
     bind_res (validate_market_data E md) (\<lambda>market_iss.
     bind_res (object_in config ''tools'' ''tools'') (\<lambda>tools.
     bind_res (validate_tools E tools ''tools'' False False) (\<lambda>tool_iss.
     bind_res (routing_issues_of config) (\<lambda>routing_iss.
       let issues =
             require_equal E (member shell ''enabled'') (JBool False) ''env.shellEnv.enabled'' @ gateway_iss @
             require_equal E (member hooks ''enabled'') (JBool False) ''hooks.enabled'' @
             require_equal E (member config ''skills'') (text_list skill_names) ''skills'' @
             agents_iss @ market_iss @ tool_iss @ routing_iss
       in Inr \<lparr>cr_valid = (issues = []), cr_issues = issues\<rparr>)))))))))))"

section \<open>What a configuration that passes says\<close>

text \<open>The value at a path of keys, \<open>None\<close> where there is none.\<close>

fun at_path :: "json \<Rightarrow> string list \<Rightarrow> json" where
  "at_path v [] = v"
| "at_path v (k # ks) = (case v of JObj d \<Rightarrow> at_path (member d k) ks | _ \<Rightarrow> JNull)"

definition is_off :: "json \<Rightarrow> bool" where
  "is_off v = py_eq v (JBool False)"

definition tools_hardened :: "json \<Rightarrow> string \<Rightarrow> bool \<Rightarrow> bool \<Rightarrow> bool" where
  "tools_hardened v path is_super is_coder \<longleftrightarrow>
     at_path v [''allow''] = text_list (if is_coder then [''read'', ''session_status'', ''write'', ''edit'', ''apply_patch'']
       else [''read'', ''session_status'']) \<and>
     (\<exists>deny. at_path v [''deny''] = JList deny \<and> JStr ` set (required_denies path is_super is_coder) \<subseteq> set deny) \<and>
     at_path v [''exec'', ''mode''] = JStr (if is_coder then ''allowlist'' else ''deny'') \<and>
     is_off (at_path v [''message'', ''allowCrossContextSend'']) \<and>
     at_path v [''message'', ''actions'', ''allow''] = text_list (if is_super then [''reply''] else []) \<and>
     is_off (at_path v [''agentToAgent'', ''enabled'']) \<and> is_off (at_path v [''elevated'', ''enabled'']) \<and>
     at_path v [''sandbox'', ''tools'', ''allow''] = text_list [''read'', ''session_status'']"

definition agent_confined :: "py_env \<Rightarrow> agent_contract list \<Rightarrow> json \<Rightarrow> bool" where
  "agent_confined E agents v =
     (case contract_of agents (agent_item_id E v) of
        None \<Rightarrow> False
      | Some c \<Rightarrow>
          at_path v [''workspace''] = JStr (co_workspace c) \<and> at_path v [''agentDir''] = JStr (co_agent_dir c) \<and>
          at_path v [''sessionStore''] = JStr (co_session_store c) \<and> at_path v [''memoryDir''] = JStr (co_memory_dir c) \<and>
          at_path v [''skills''] = text_list (co_skills c) \<and>
          at_path v [''secretAccess'', ''mode''] = JStr (secret_mode (co_id c)) \<and>
          tools_hardened (at_path v [''tools'']) ''agents'' (co_id c = ''super-advisor'') (co_id c = ''blueprint-coder''))"

lemma complain_Nil [simp]: "complain c path m = [] \<longleftrightarrow> \<not> c"
  by (simp add: complain_def)

lemma require_equal_Nil [simp]: "require_equal E v w path = [] \<longleftrightarrow> py_eq v w"
  by (simp add: require_equal_def)

lemma py_eq_text_list [simp]: "py_eq v (text_list ns) \<longleftrightarrow> v = text_list ns"
proof -
  have "py_eq_list xs (map JStr ns) \<longleftrightarrow> xs = map JStr ns" for xs
    by (induction xs arbitrary: ns) (auto split: list.splits)
  then show ?thesis by (cases v) (auto simp: text_list_def)
qed

lemma object_in_Inr [simp]: "object_in d k path = Inr x \<longleftrightarrow> member d k = JObj x"
  by (auto simp: object_in_def section_object_def split: json.splits)

lemma section_list_Inr [simp]: "section_list v path = Inr xs \<longleftrightarrow> v = JList xs"
  by (auto simp: section_list_def split: json.splits)

lemma missing_denies_Nil: "missing_denies required deny = [] \<longleftrightarrow> JStr ` set required \<subseteq> set deny"
proof -
  have "sort xs = [] \<longleftrightarrow> xs = []" for xs :: "string list" by (metis length_0_conv length_sort)
  then show ?thesis by (auto simp: missing_denies_def filter_empty_conv list_ex_iff)
qed

lemma required_denies_some: "required_denies path is_super is_coder \<noteq> []"
  by (simp add: required_denies_def)

lemma validate_tools_Nil:
  assumes "validate_tools E tools path is_super is_coder = Inr []" and "path \<noteq> ''tools'' \<longrightarrow> where = ''agents''"
    and "path = ''tools'' \<longrightarrow> where = ''tools''"
  shows "tools_hardened (JObj tools) where is_super is_coder"
proof -
  have same: "required_denies where is_super is_coder = required_denies path is_super is_coder"
    using assms(2,3) by (auto simp: required_denies_def)
  obtain deny where deny: "deny_values (member tools ''deny'') = Inr deny"
    and all: "JStr ` set (required_denies path is_super is_coder) \<subseteq> set deny"
    using assms(1) by (auto simp: validate_tools_def bind_res_Inr Let_def missing_denies_Nil)
  then have "deny \<noteq> []" using required_denies_some [of path is_super is_coder] by auto
  with deny have "member tools ''deny'' = JList deny"
    by (auto simp: deny_values_def split: json.splits if_splits)
  with assms(1) all show ?thesis
    unfolding tools_hardened_def same
    by (auto simp: validate_tools_def bind_res_Inr Let_def is_off_def)
qed

lemma agent_entry_Nil:
  assumes "agent_entry_issues E (indexed ''agents.list'' i) agent c = Inr []"
    and "contract_of agents (item_text E agent ''id'') = Some c"
  shows "agent_confined E agents (JObj agent)"
proof -
  obtain tools where tools: "member agent ''tools'' = JObj tools"
    "validate_tools E tools (indexed ''agents.list'' i @ ''.tools'') (co_id c = ''super-advisor'') (co_id c = ''blueprint-coder'') = Inr []"
    using assms(1) by (auto simp: agent_entry_issues_def bind_res_Inr Let_def)
  have "tools_hardened (JObj tools) ''agents'' (co_id c = ''super-advisor'') (co_id c = ''blueprint-coder'')"
    using tools(2) by (rule validate_tools_Nil) (simp_all add: indexed_def)
  with assms tools(1) show ?thesis
    by (auto simp: agent_entry_issues_def bind_res_Inr Let_def agent_confined_def agent_item_id_def)
qed

lemma agent_entries_Nil:
  assumes "agent_entries_issues E agents seen i vs = Inr []"
  shows "list_all (agent_confined E agents) vs \<and> distinct (map (agent_item_id E) vs) \<and>
    set (map (agent_item_id E) vs) \<inter> set seen = {}"
  using assms
proof (induction vs arbitrary: seen i)
  case (Cons v vs)
  from Cons.prems obtain agent c where v: "v = JObj agent" and c: "contract_of agents (item_text E agent ''id'') = Some c"
    by (auto simp: bind_res_Inr Let_def section_object_def split: json.splits option.splits)
  with Cons.prems have iss: "agent_entry_issues E (indexed ''agents.list'' i) agent c = Inr []"
    and rest: "agent_entries_issues E agents (item_text E agent ''id'' # seen) (Suc i) vs = Inr []"
    and new: "item_text E agent ''id'' \<notin> set seen"
    by (auto simp: bind_res_Inr Let_def section_object_def)
  from Cons.IH [OF rest] agent_entry_Nil [OF iss c] v new show ?case
    by (auto simp: agent_item_id_def)
qed simp

text \<open>
  C4: A configuration that passes the gate listens on the loopback interface only, with a token from the
  environment, without hooks and without the shell's environment; its market data is read-only; it has
  exactly the runtime agents, each once and each confined to its own directories, skills and secrets;
  at the root and in every agent the tools are denied that run, browse, message or start other agents,
  only \<open>blueprint-coder\<close> may write files or execute, and the routes are the allowlists.
\<close>

theorem valid_config_confines:
  assumes "validate_rendered_config E join P v = Inr rep" and "cr_valid rep"
  shows "at_path v [''gateway'', ''mode''] = JStr ''local'' \<and> at_path v [''gateway'', ''bind''] = JStr ''loopback'' \<and>
    at_path v [''gateway'', ''auth'', ''mode''] = JStr ''token'' \<and>
    at_path v [''gateway'', ''auth'', ''token'', ''source''] = JStr ''env'' \<and>
    is_off (at_path v [''hooks'', ''enabled'']) \<and> is_off (at_path v [''env'', ''shellEnv'', ''enabled'']) \<and>
    at_path v [''marketData'', ''backend'', ''mode''] = JStr ''readonly'' \<and>
    (\<exists>items. at_path v [''agents'', ''list''] = JList items \<and>
       mset (map (agent_item_id E) items) = mset runtime_agent_ids \<and>
       list_all (agent_confined E (build_agent_topology join P)) items) \<and>
    tools_hardened (at_path v [''tools'']) ''tools'' False False \<and>
    (\<exists>r. at_path v [''routing''] = JObj r \<and> routes_lawful r)"
proof -
  obtain d where v: "v = JObj d" using assms(1) by (cases v) (simp_all add: validate_rendered_config_def)
  from assms obtain env shell hooks md tools where secs:
    "member d ''env'' = JObj env" "member env ''shellEnv'' = JObj shell" "is_off (member shell ''enabled'')"
    "member d ''hooks'' = JObj hooks" "is_off (member hooks ''enabled'')" "member d ''marketData'' = JObj md" "member d ''tools'' = JObj tools"
    and iss: "gateway_issues E d = Inr []" "agents_issues_of E join P d = Inr []" "validate_market_data E md = Inr []"
    "validate_tools E tools ''tools'' False False = Inr []" "routing_issues_of d = Inr []"
    unfolding v by (auto simp: validate_rendered_config_def bind_res_Inr Let_def is_off_def)
  have gateway: "at_path v [''gateway'', ''mode''] = JStr ''local''" "at_path v [''gateway'', ''bind''] = JStr ''loopback''"
    "at_path v [''gateway'', ''auth'', ''mode''] = JStr ''token''"
    "at_path v [''gateway'', ''auth'', ''token'', ''source''] = JStr ''env''"
    using iss(1) by (auto simp: v gateway_issues_def bind_res_Inr)
  have market: "at_path v [''marketData'', ''backend'', ''mode''] = JStr ''readonly''"
    using iss(3) secs(6) by (auto simp: v validate_market_data_def bind_res_Inr)
  from iss(2) obtain ags items where items: "member d ''agents'' = JObj ags" "member ags ''list'' = JList items"
    and entries: "agent_entries_issues E (build_agent_topology join P) [] 0 items = Inr []"
    and count: "length items = length (build_agent_topology join P)"
    by (auto simp: agents_issues_of_def bind_res_Inr Let_def split: if_splits)
  note agents = agent_entries_Nil [OF entries]
  have "\<forall>i \<in> set (map (agent_item_id E) items). contract_of (build_agent_topology join P) i \<noteq> None"
    using agents by (auto simp: list_all_iff agent_confined_def split: option.splits)
  then have "mset (map (agent_item_id E) items) = mset runtime_agent_ids"
    using agents count by (intro runtime_ids_once) auto
  moreover have "tools_hardened (JObj tools) ''tools'' False False"
    using iss(4) by (rule validate_tools_Nil) simp_all
  moreover have "\<exists>r. member d ''routing'' = JObj r \<and> routes_lawful r"
  proof -
    obtain r rep' where r: "member d ''routing'' = JObj r" and rep':
      "validate_routing (Some (map (\<lambda>k. (k, dict_get_or r k (JList []))) [''realtime'', ''code-audit'', ''code-work-order''])) = Inr rep'"
      and done': "ro_valid rep' \<or> ro_issues rep' = []"
      using iss(5) by (auto simp: routing_issues_of_def bind_res_Inr split: json.splits if_splits)
    have "ro_valid rep'" using rep' done' by (auto simp: validate_routing_def bind_res_Inr Let_def)
    with rep' have "routes_lawful (map (\<lambda>k. (k, dict_get_or r k (JList []))) [''realtime'', ''code-audit'', ''code-work-order''])"
      using valid_routes by blast
    with r show ?thesis by (auto simp: routes_lawful_def dict_get_or_def)
  qed
  ultimately show ?thesis
    using gateway market secs items agents by (auto simp: v)
qed

section \<open>A configuration that passes\<close>

definition slash_join :: "string \<Rightarrow> string \<Rightarrow> string" where
  "slash_join a b = a @ ''/'' @ b"

definition plain_paths :: project_paths where
  "plain_paths = \<lparr>pp_root = ''r'', pp_state = ''r/state'', pp_workspace = ''r/workspace'', pp_runtime_env = ''e'', pp_runtime_config = ''c''\<rparr>"

definition sample_tools :: "bool \<Rightarrow> bool \<Rightarrow> string list \<Rightarrow> json" where
  "sample_tools is_super is_coder deny =
     (let also = (if is_super then [(''alsoAllow'', text_list [''message''])] else [])
      in JObj (also @
        [(''allow'', text_list (if is_coder then [''read'', ''session_status'', ''write'', ''edit'', ''apply_patch'']
            else [''read'', ''session_status''])),
         (''deny'', text_list deny),
         (''exec'', JObj [(''mode'', JStr (if is_coder then ''allowlist'' else ''deny''))]),
         (''message'', JObj [(''allowCrossContextSend'', JBool False),
            (''actions'', JObj [(''allow'', text_list (if is_super then [''reply''] else []))])]),
         (''agentToAgent'', JObj [(''enabled'', JBool False)]), (''elevated'', JObj [(''enabled'', JBool False)]),
         (''sandbox'', JObj [(''tools'', JObj (also @ [(''allow'', text_list [''read'', ''session_status''])]))])]))"

definition sample_agent :: "agent_contract \<Rightarrow> json" where
  "sample_agent c =
     JObj [(''id'', JStr (co_id c)), (''workspace'', JStr (co_workspace c)), (''agentDir'', JStr (co_agent_dir c)),
       (''sessionStore'', JStr (co_session_store c)), (''memoryDir'', JStr (co_memory_dir c)),
       (''skills'', text_list (co_skills c)),
       (''tools'', sample_tools (co_id c = ''super-advisor'') (co_id c = ''blueprint-coder'') (co_denied_tools c)),
       (''secretAccess'', JObj [(''mode'', JStr (secret_mode (co_id c)))])]"

definition sample_market :: json where
  "sample_market =
     JObj [(''backend'', JObj [(''kind'', JStr ''mt5''), (''mode'', JStr ''readonly'')]),
       (''symbols'', JList [JObj [(''canonical'', JStr ''XAUUSD''), (''aliases'', text_list [''GOLD''])]]),
       (''timeframes'', text_list [''M1'']),
       (''storage'', JObj (map (\<lambda>n. (n, JStr ''d'')) [''baseDir'', ''sqlitePath'', ''parquetDir''])),
       (''collection'', JObj (map (\<lambda>n. (n, JInt 1)) collection_names))]"

definition sample_config :: "(string, json) dict" where
  "sample_config =
     [(''env'', JObj [(''shellEnv'', JObj [(''enabled'', JBool False)])]),
      (''gateway'', JObj [(''mode'', JStr ''local''), (''bind'', JStr ''loopback''), (''port'', JInt 18789),
         (''auth'', JObj [(''mode'', JStr ''token''), (''token'', JObj [(''source'', JStr ''env''), (''provider'', JStr ''default''),
            (''id'', JStr ''OPENCLAW_GATEWAY_TOKEN'')])]), (''controlUi'', JObj [(''enabled'', JBool True)])]),
      (''hooks'', JObj [(''enabled'', JBool False)]), (''skills'', text_list skill_names),
      (''agents'', JObj [(''defaults'', JObj [(''workspace'', JStr ''r/workspace/agents''), (''skills'', text_list skill_names)]),
         (''list'', JList (map sample_agent (build_agent_topology slash_join plain_paths)))]),
      (''marketData'', sample_market), (''tools'', sample_tools False False standard_deny),
      (''routing'', JObj [(''realtime'', route_list realtime_routes), (''code-audit'', route_list code_audit_routes),
         (''code-work-order'', route_list code_work_order_routes)])]"

lemma member_simps [simp]: "member ((k, v) # d) k' = (if k' = k then v else member d k')"
  by (simp add: dict_get_or_def)

lemma sample_tools_pass:
  assumes "set (required_denies path is_super is_coder) \<subseteq> set deny"
  shows "\<exists>tools. sample_tools is_super is_coder deny = JObj tools \<and> validate_tools E tools path is_super is_coder = Inr []"
proof -
  obtain tools where tools: "sample_tools is_super is_coder deny = JObj tools" by (simp add: sample_tools_def Let_def)
  have "member tools ''deny'' = text_list deny" using tools by (cases is_super) (auto simp: sample_tools_def Let_def)
  then have "deny_values (member tools ''deny'') = Inr (map JStr deny)"
    by (simp add: deny_values_def text_list_def list_all_iff)
  moreover have "missing_denies (required_denies path is_super is_coder) (map JStr deny) = []"
    using assms by (auto simp: missing_denies_Nil)
  ultimately have "validate_tools E tools path is_super is_coder = Inr []"
    using tools unfolding validate_tools_def
    by (cases is_super; cases is_coder)
      (auto simp: sample_tools_def Let_def object_in_def section_object_def require_equal_def complain_def dict_get_or_def)
  with tools show ?thesis by blast
qed

definition denies_enough :: "agent_contract \<Rightarrow> bool" where
  "denies_enough c =
     (set (required_denies ''agents'' (co_id c = ''super-advisor'') (co_id c = ''blueprint-coder'')) \<subseteq> set (co_denied_tools c))"

lemma sample_agent_passes:
  assumes "denies_enough c" and "path \<noteq> []"
  shows "\<exists>agent. sample_agent c = JObj agent \<and> agent_entry_issues E path agent c = Inr [] \<and>
    item_text E agent ''id'' = co_id c"
proof -
  obtain agent where agent: "sample_agent c = JObj agent" by (simp add: sample_agent_def)
  have "path @ ''.tools'' \<noteq> ''tools''" by (cases path) auto
  then have "required_denies (path @ ''.tools'') is_super is_coder = required_denies ''agents'' is_super is_coder" for is_super is_coder
    by (simp add: required_denies_def)
  with assms(1) obtain tools where "sample_tools (co_id c = ''super-advisor'') (co_id c = ''blueprint-coder'') (co_denied_tools c) = JObj tools"
    and "validate_tools E tools (path @ ''.tools'') (co_id c = ''super-advisor'') (co_id c = ''blueprint-coder'') = Inr []"
    using sample_tools_pass [of "path @ ''.tools''"] unfolding denies_enough_def by metis
  note tools = this
  have "member agent ''tools'' = JObj tools" "member agent ''workspace'' = JStr (co_workspace c)"
    "member agent ''agentDir'' = JStr (co_agent_dir c)" "member agent ''sessionStore'' = JStr (co_session_store c)"
    "member agent ''memoryDir'' = JStr (co_memory_dir c)" "member agent ''skills'' = text_list (co_skills c)"
    "member agent ''secretAccess'' = JObj [(''mode'', JStr (secret_mode (co_id c)))]"
    "item_text E agent ''id'' = co_id c"
    using agent [symmetric] tools(1) by (simp_all add: sample_agent_def item_text_def dict_get_or_def)
  then show ?thesis
    using agent tools(2)
    by (simp add: agent_entry_issues_def object_in_def section_object_def require_equal_def complain_def)
qed

lemma sample_agents_pass:
  assumes "list_all (\<lambda>c. denies_enough c \<and> contract_of agents (co_id c) = Some c) cs" and "distinct (map co_id cs)"
    and "set (map co_id cs) \<inter> set seen = {}"
  shows "agent_entries_issues E agents seen i (map sample_agent cs) = Inr []"
  using assms
proof (induction cs arbitrary: seen i)
  case (Cons c cs)
  have "indexed ''agents.list'' i \<noteq> []" by (simp add: indexed_def)
  moreover have "denies_enough c" using Cons.prems(1) by simp
  ultimately obtain agent where "sample_agent c = JObj agent"
    "agent_entry_issues E (indexed ''agents.list'' i) agent c = Inr []" "item_text E agent ''id'' = co_id c"
    using sample_agent_passes by blast
  moreover have "agent_entries_issues E agents (co_id c # seen) (Suc i) (map sample_agent cs) = Inr []"
    using Cons.prems by (intro Cons.IH) auto
  ultimately show ?case
    using Cons.prems by (simp add: Let_def section_object_def complain_def)
qed simp

lemma topology_contracts:
  "list_all (\<lambda>c. denies_enough c \<and> contract_of (build_agent_topology join P) (co_id c) = Some c) (build_agent_topology join P)"
proof -
  have "list_all (\<lambda>aid. set (required_denies ''agents'' (aid = ''super-advisor'') (aid = ''blueprint-coder''))
      \<subseteq> set (dict_get_or agent_denied_tools aid [])) runtime_agent_ids"
    by code_simp
  then have "list_all denies_enough (build_agent_topology join P)"
    by (simp add: build_agent_topology_def agent_contract_of_def Let_def list_all_iff denies_enough_def)
  moreover have "List.find (\<lambda>c. co_id c = co_id x) cs = Some x" if "distinct (map co_id cs)" "x \<in> set cs" for x and cs :: "agent_contract list"
    using that by (induction cs) auto
  moreover have "distinct (map co_id (build_agent_topology join P))" unfolding topology_ids by code_simp
  ultimately show ?thesis by (simp add: list_all_iff contract_of_def)
qed

lemma sample_agents_section: "agents_issues_of E slash_join plain_paths sample_config = Inr []"
proof -
  have "distinct (map co_id (build_agent_topology slash_join plain_paths))" unfolding topology_ids by code_simp
  then have "agent_entries_issues E (build_agent_topology slash_join plain_paths) [] 0
      (map sample_agent (build_agent_topology slash_join plain_paths)) = Inr []"
    by (intro sample_agents_pass topology_contracts) simp_all
  then show ?thesis
    by (simp add: agents_issues_of_def sample_config_def object_in_def section_object_def section_list_def Let_def
        require_equal_def complain_def plain_paths_def slash_join_def)
qed

lemma sample_market_passes: "\<exists>md. sample_market = JObj md \<and> validate_market_data E md = Inr []"
proof -
  have "supported_timeframes \<noteq> [] \<and> timeframes_supported [JStr ''M1'']" by code_simp
  then show ?thesis
    by (simp add: sample_market_def validate_market_data_def object_in_def section_object_def section_list_def
        require_equal_def complain_def text_list_def symbol_issues_def Let_def storage_issue_def collection_names_def
        require_positive_int_def is_positive_int_def)
qed

lemma sample_routes: "routing_issues_of sample_config = Inr []"
  by code_simp

lemma sample_config_passes:
  "\<exists>rep. validate_rendered_config E slash_join plain_paths (JObj sample_config) = Inr rep \<and> cr_valid rep"
proof -
  have "set (required_denies ''tools'' False False) \<subseteq> set standard_deny" by code_simp
  then obtain tools where tools: "sample_tools False False standard_deny = JObj tools"
    "validate_tools E tools ''tools'' False False = Inr []"
    using sample_tools_pass by blast
  obtain md where md: "sample_market = JObj md" "validate_market_data E md = Inr []" using sample_market_passes by blast
  have "gateway_issues E sample_config = Inr []"
    by (simp add: sample_config_def gateway_issues_def object_in_def section_object_def require_equal_def complain_def)
  moreover have "member sample_config ''marketData'' = JObj md" "member sample_config ''tools'' = JObj tools"
    "member sample_config ''skills'' = text_list skill_names" "member sample_config ''env'' = JObj [(''shellEnv'', JObj [(''enabled'', JBool False)])]"
    "member sample_config ''hooks'' = JObj [(''enabled'', JBool False)]"
    using md(1) tools(1) by (simp_all add: sample_config_def)
  ultimately show ?thesis
    using md(2) tools(2) sample_agents_section [of E] sample_routes
    by (simp add: validate_rendered_config_def object_in_def section_object_def require_equal_def complain_def Let_def)
qed

lemma valid_config_confines_witness:
  "at_path (JObj sample_config) [''gateway'', ''bind''] = JStr ''loopback'' \<and>
   (\<exists>items. at_path (JObj sample_config) [''agents'', ''list''] = JList items \<and>
     mset (map (agent_item_id sample_env) items) = mset runtime_agent_ids)"
  using sample_config_passes [of sample_env] valid_config_confines by blast

text \<open>The same configuration has a valid topology.\<close>

lemma sample_tools_lists:
  "\<exists>tools. sample_tools is_super is_coder deny = JObj tools \<and> item_list tools ''deny'' = Inr (map JStr deny) \<and>
     item_list tools ''allow'' =
       Inr (map JStr (if is_coder then [''read'', ''session_status'', ''write'', ''edit'', ''apply_patch''] else [''read'', ''session_status'']))"
  by (cases is_super) (simp_all add: sample_tools_def Let_def item_list_def py_tuple_def text_list_def dict_get_or_def)

definition allows_enough :: "agent_contract \<Rightarrow> bool" where
  "allows_enough c =
     (co_allowed_tools c = (if co_id c = ''blueprint-coder'' then [''read'', ''session_status'', ''write'', ''edit'', ''apply_patch'']
        else [''read'', ''session_status'']) \<and> dict_get agent_skill_names (co_id c) \<noteq> None)"

lemma sample_agent_contract:
  assumes "allows_enough c"
  shows "\<exists>agent. sample_agent c = JObj agent \<and> contract_issues E path agent c = Inr [] \<and> item_text E agent ''id'' = co_id c"
proof -
  obtain agent where agent: "sample_agent c = JObj agent" by (simp add: sample_agent_def)
  obtain tools where tools: "sample_tools (co_id c = ''super-advisor'') (co_id c = ''blueprint-coder'') (co_denied_tools c) = JObj tools"
    "item_list tools ''deny'' = Inr (map JStr (co_denied_tools c))"
    "item_list tools ''allow'' = Inr (map JStr (if co_id c = ''blueprint-coder''
       then [''read'', ''session_status'', ''write'', ''edit'', ''apply_patch''] else [''read'', ''session_status'']))"
    using sample_tools_lists [of "co_id c = ''super-advisor''" "co_id c = ''blueprint-coder''" "co_denied_tools c"] by blast
  have allow: "item_list tools ''allow'' = Inr (map JStr (co_allowed_tools c))"
    using assms tools(3) by (simp only: allows_enough_def)
  have "item_text E agent ''id'' = co_id c" "item_text E agent ''workspace'' = co_workspace c" "item_text E agent ''agentDir'' = co_agent_dir c"
    "item_list agent ''skills'' = Inr (map JStr (co_skills c))" "dict_get agent ''tools'' = Some (JObj tools)"
    using agent [symmetric] tools(1)
    by (simp_all add: sample_agent_def item_text_def item_list_def py_tuple_def text_list_def dict_get_or_def)
  with agent tools(2) allow show ?thesis by (simp add: contract_issues_Nil tools_lawful_def)
qed

lemma sample_agent_list:
  assumes "list_all (\<lambda>c. allows_enough c \<and> contract_of agents (co_id c) = Some c) cs" and "distinct (map co_id cs)"
    and "set (map co_id cs) \<inter> set seen = {}"
  shows "agent_list_issues E agents seen i (map sample_agent cs) = Inr []"
  using assms
proof (induction cs arbitrary: seen i)
  case (Cons c cs)
  then have "allows_enough c" by simp
  then obtain agent where "sample_agent c = JObj agent" "contract_issues E (indexed ''agents.list'' i) agent c = Inr []"
    "item_text E agent ''id'' = co_id c"
    using sample_agent_contract by blast
  moreover have "agent_list_issues E agents (co_id c # seen) (Suc i) (map sample_agent cs) = Inr []"
    using Cons.prems by (intro Cons.IH) auto
  moreover obtain sks where "dict_get agent_skill_names (co_id c) = Some sks"
    using \<open>allows_enough c\<close> by (auto simp: allows_enough_def)
  ultimately show ?case
    using Cons.prems by (simp add: Let_def issue_when_def)
qed simp

lemma sample_topology_valid:
  "\<exists>rep. validate_agent_topology E slash_join plain_paths (Some sample_config) = Inr rep \<and> to_valid rep"
proof -
  let ?agents = "build_agent_topology slash_join plain_paths"
  have "list_all (\<lambda>aid. dict_get agent_skill_names aid \<noteq> None \<and> dict_get_or agent_allowed_tools aid [] =
      (if aid = ''blueprint-coder'' then [''read'', ''session_status'', ''write'', ''edit'', ''apply_patch'']
       else [''read'', ''session_status''])) runtime_agent_ids"
    by code_simp
  then have "list_all allows_enough ?agents"
    by (simp add: build_agent_topology_def agent_contract_of_def Let_def list_all_iff allows_enough_def)
  moreover have "distinct (map co_id ?agents)" unfolding topology_ids by code_simp
  ultimately have "agent_list_issues E ?agents [] 0 (map sample_agent ?agents) = Inr []"
    using topology_contracts [of slash_join plain_paths] by (intro sample_agent_list) (auto simp: list_all_iff)
  then have "agents_section_issues E ?agents sample_config = Inr []"
    by (simp add: agents_section_issues_def sample_config_def issue_when_def)
  moreover have "route_section_issues sample_config = Inr []" by code_simp
  moreover have "member sample_config ''skills'' = text_list skill_names" by (simp add: sample_config_def)
  ultimately show ?thesis by (simp add: validate_agent_topology_def Let_def issue_when_def)
qed

lemma topology_valid_agents_witness:
  "\<exists>ags items. dict_get sample_config ''agents'' = Some (JObj ags) \<and> dict_get ags ''list'' = Some (JList items) \<and>
     mset (map (agent_item_id sample_env) items) = mset runtime_agent_ids"
  using sample_topology_valid [of sample_env] topology_valid_agents by blast

end
