(* ===== verification/WorkOrder.thy ===== *)
theory WorkOrder
  imports Topology
begin

text \<open>
  \<open>code_work_order.py\<close>: the contract under which \<open>blueprint-coder\<close> is dispatched, and the checks of what
  it executes, what it touches and who approves. \<open>CodeWorkOrderError\<close> is a \<open>ValueError\<close>. The order in
  which a \<open>frozenset\<close> is gone through is not fixed; the violations are listed in the order of the source.
\<close>

section \<open>The contract\<close>

record work_order =
  wo_baseline :: string
  wo_scope :: "json list"
  wo_intent :: string
  wo_description :: string
  wo_criteria :: "json list"
  wo_human_gate :: bool
  wo_initiated_by :: string
  wo_task_id :: string
  wo_worktree :: string

definition reason :: "bool \<Rightarrow> string \<Rightarrow> string list" where
  "reason c message = (if c then [message] else [])"

definition work_order_errors :: "work_order \<Rightarrow> string list" where
  "work_order_errors w =
     reason (length (wo_baseline w) < 7) ''baseline_commit must be a non-empty git SHA (min 7 chars)'' @
     reason (wo_scope w = []) ''scope must contain at least one file path or module name'' @
     reason (wo_intent w \<noteq> ''APPLY_IMPROVEMENT'')
       (''intent must be '' @ str_repr ''APPLY_IMPROVEMENT'' @ '', got '' @ str_repr (wo_intent w)) @
     reason (str_strip (wo_description w) = []) ''description must be a non-empty string'' @
     reason (wo_criteria w = []) ''acceptance_criteria must contain at least one criterion'' @
     reason (\<not> wo_human_gate w) ''human_release_gate_required must be True'' @
     reason (wo_initiated_by w \<noteq> ''super-advisor'')
       (''initiated_by must be '' @ str_repr ''super-advisor'' @ '', got '' @ str_repr (wo_initiated_by w)) @
     reason (str_strip (wo_task_id w) = []) ''task_id must be a non-empty string'' @
     reason (str_strip (wo_worktree w) = []) ''worktree_path must be a non-empty absolute path''"

definition checked_work_order :: "work_order \<Rightarrow> py_exn + work_order" where
  "checked_work_order w =
     (let errors = work_order_errors w
      in if errors \<noteq> [] then Inl (ValueError (str_join ''; '' errors)) else Inr w)"

definition work_order_json :: "work_order \<Rightarrow> (string, json) dict" where
  "work_order_json w =
     [(''baseline_commit'', JStr (wo_baseline w)), (''scope'', JList (wo_scope w)), (''intent'', JStr (wo_intent w)),
      (''description'', JStr (wo_description w)), (''acceptance_criteria'', JList (wo_criteria w)),
      (''human_release_gate_required'', JBool (wo_human_gate w)), (''initiated_by'', JStr (wo_initiated_by w)),
      (''task_id'', JStr (wo_task_id w)), (''worktree_path'', JStr (wo_worktree w))]"

definition work_order_fields :: "string list" where
  "work_order_fields =
     [''baseline_commit'', ''scope'', ''intent'', ''description'', ''acceptance_criteria'',
      ''human_release_gate_required'', ''initiated_by'', ''task_id'', ''worktree_path'']"

definition work_order_of :: "py_env \<Rightarrow> (string, json) dict \<Rightarrow> py_exn + work_order" where
  "work_order_of E d =
     (let missing = filter (\<lambda>k. dict_get d k = None) work_order_fields;
          text = (\<lambda>k. py_str E (dict_get_or d k JNull))
      in if missing \<noteq> [] then Inl (ValueError (''CodeWorkOrder missing required fields: '' @ str_join '', '' missing))
         else bind_res (py_tuple (dict_get_or d ''scope'' JNull)) (\<lambda>scope.
              bind_res (py_tuple (dict_get_or d ''acceptance_criteria'' JNull)) (\<lambda>criteria.
                checked_work_order
                  \<lparr>wo_baseline = text ''baseline_commit'', wo_scope = scope, wo_intent = text ''intent'',
                   wo_description = text ''description'', wo_criteria = criteria,
                   wo_human_gate = json_truthy (dict_get_or d ''human_release_gate_required'' JNull),
                   wo_initiated_by = text ''initiated_by'', wo_task_id = text ''task_id'', wo_worktree = text ''worktree_path''\<rparr>)))"

section \<open>What the coder executes and touches\<close>

definition forbidden_exec_patterns :: "string list" where
  "forbidden_exec_patterns =
     [''git push'', ''git merge'', ''git rebase'', ''git reset --hard'', ''git branch -D'', ''git tag'', ''git release'',
      ''docker'', ''kubectl'', ''pip install'', ''pip uninstall'', ''rm -rf'', ''del /f'']"

text \<open>In the source the backslashes are doubled twice: each of the two paths has two of them.\<close>

definition forbidden_paths :: "string list" where
  "forbidden_paths =
     [''state/.env'', ''state'' @ [CHR 0x5C, CHR 0x5C] @ ''env'', ''.env'', ''state/credentials'',
      ''state'' @ [CHR 0x5C, CHR 0x5C] @ ''credentials'']"

definition validate_exec_command :: "string \<Rightarrow> string list" where
  "validate_exec_command command =
     (let cmd_lower = str_strip (str_lower command)
      in map (\<lambda>p. ''forbidden exec command: '' @ str_repr p) (filter (\<lambda>p. starts_with p cmd_lower) forbidden_exec_patterns) @
         map (\<lambda>p. ''forbidden path access: '' @ str_repr p) (filter (\<lambda>p. str_contains p command) forbidden_paths))"

definition validate_file_scope :: "string \<Rightarrow> string list \<Rightarrow> bool" where
  "validate_file_scope path scope = list_ex (\<lambda>s. starts_with s path \<or> path = s) scope"

definition forbidden_self_approval :: "string list" where
  "forbidden_self_approval = [''blueprint-coder'']"

definition check_self_approval :: "string \<Rightarrow> work_order \<Rightarrow> string list" where
  "check_self_approval approver w =
     reason (approver \<in> set forbidden_self_approval)
       (''blueprint-coder (agent_id='' @ str_repr approver @ '') cannot approve its own work order (task_id='' @
        str_repr (wo_task_id w) @ '')'')"

section \<open>What an accepted order says\<close>

lemma reason_Nil [simp]: "reason c m = [] \<longleftrightarrow> \<not> c"
  by (simp add: reason_def)

definition order_lawful :: "work_order \<Rightarrow> bool" where
  "order_lawful w \<longleftrightarrow>
     7 \<le> length (wo_baseline w) \<and> wo_scope w \<noteq> [] \<and> wo_intent w = ''APPLY_IMPROVEMENT'' \<and> str_strip (wo_description w) \<noteq> [] \<and>
     wo_criteria w \<noteq> [] \<and> wo_human_gate w \<and> wo_initiated_by w = ''super-advisor'' \<and> str_strip (wo_task_id w) \<noteq> [] \<and>
     str_strip (wo_worktree w) \<noteq> []"

lemma checked_work_order_Inr: "checked_work_order w = Inr w' \<longleftrightarrow> order_lawful w \<and> w' = w"
  by (auto simp: checked_work_order_def work_order_errors_def order_lawful_def Let_def)

text \<open>
  An order is accepted only with every field, the intent \<open>APPLY_IMPROVEMENT\<close>, the human release
  gate, \<open>super-advisor\<close> as its initiator, a scope and criteria; and an accepted order survives being
  written and read back. The check of the approver refuses \<open>blueprint-coder\<close> and nobody else.
\<close>

theorem work_order_accepted:
  assumes "work_order_of E d = Inr w"
  shows "order_lawful w \<and> list_all (\<lambda>k. dict_get d k \<noteq> None) work_order_fields \<and>
    work_order_of E' (work_order_json w) = Inr w \<and>
    (check_self_approval approver w = [] \<longleftrightarrow> approver \<noteq> ''blueprint-coder'')"
proof -
  have missing: "filter (\<lambda>k. dict_get d k = None) work_order_fields = []"
    using assms by (auto simp: work_order_of_def Let_def split: if_splits)
  then have lawful: "order_lawful w"
    using assms by (auto simp: work_order_of_def Let_def bind_res_Inr checked_work_order_Inr)
  then have "work_order_of E' (work_order_json w) = Inr w"
    by (cases w) (simp add: work_order_of_def work_order_fields_def work_order_json_def Let_def py_tuple_def checked_work_order_Inr
        dict_get_or_def)
  with missing lawful show ?thesis
    by (auto simp: filter_empty_conv list_all_iff check_self_approval_def forbidden_self_approval_def)
qed

section \<open>What the command check refuses\<close>

definition live_patterns :: "string list" where
  "live_patterns = filter (\<lambda>p. str_lower p = p) forbidden_exec_patterns"

lemma lower_idem: "str_lower (str_lower s) = str_lower s"
proof -
  have "char_lower (char_lower c) = char_lower c" for c
    by (auto simp: char_lower_def Let_def of_char_of)
  then show ?thesis by (simp add: str_lower_def)
qed

lemma lower_part: "str_lower s = s \<Longrightarrow> sublist t s \<Longrightarrow> str_lower t = t"
  by (auto simp: sublist_def str_lower_def)

lemma strip_part: "sublist (str_strip s) s"
proof -
  have "suffix (dropWhile P xs) xs" for P and xs :: string by (rule suffix_dropWhile)
  then have "suffix (rev (str_strip s)) (rev (dropWhile is_space s))" "suffix (dropWhile is_space s) s"
    by (simp_all add: str_strip_def)
  then have "prefix (str_strip s) (dropWhile is_space s)" "suffix (dropWhile is_space s) s"
    by (simp_all add: suffix_to_prefix)
  then show ?thesis using sublist_order.order_trans prefix_imp_sublist suffix_imp_sublist by blast
qed


text \<open>Three commands and a path that get through.\<close>

lemma exec_command_gaps:
  "validate_exec_command ''git branch -D main'' = []"
  "validate_exec_command (''type state'' @ [CHR 0x5C] @ ''credentials'') = []"
  "validate_exec_command ''git -C . push'' = []"
  "validate_file_scope ''src/app/../../state/.env'' [''src/app'']"
  by code_simp+

definition sample_order :: "(string, json) dict" where
  "sample_order =
     [(''baseline_commit'', JStr ''0123456''), (''scope'', JList [JStr ''src/app'']), (''intent'', JStr ''APPLY_IMPROVEMENT''),
      (''description'', JStr ''d''), (''acceptance_criteria'', JList [JStr ''c'']), (''human_release_gate_required'', JBool True),
      (''initiated_by'', JStr ''super-advisor''), (''task_id'', JStr ''t''), (''worktree_path'', JStr ''w'')]"

lemma work_order_accepted_witness:
  "\<exists>w. work_order_of sample_env sample_order = Inr w \<and> order_lawful w \<and> work_order_of sample_env (work_order_json w) = Inr w"
proof -
  have "(case work_order_of sample_env sample_order of Inr w \<Rightarrow> True | Inl e \<Rightarrow> False)" by code_simp
  then obtain w where w: "work_order_of sample_env sample_order = Inr w" by (auto split: sum.splits)
  show ?thesis using w work_order_accepted [OF w, of sample_env] by blast
qed

end
