(* ===== verification/Journal.thy ===== *)
theory Journal
  imports HashChain Telegram "HOL-Library.Multiset"
begin

text \<open>
  Two stores of \<open>persistence/__init__.py\<close> that only append: the memory of the agents, one file of lines
  for each agent and day, and the journal of publications with its dead letters and its window of
  keys already seen. The file is opened for appending before the line is made, so that a value
  outside JSON leaves it created and as it was. Times and dates are arguments.
\<close>

section \<open>Memory of the agents\<close>

text \<open>The directory of an agent: its files by name.\<close>

type_synonym memory = "(string, (string, log_line list) dict) dict"

definition memory_entry :: "string \<Rightarrow> string \<Rightarrow> (string, json) dict option \<Rightarrow> string \<Rightarrow> json" where
  "memory_entry now agent provenance content =
     JObj [(''created_at_utc'', JStr now), (''agent_id'', JStr agent),
       (''provenance'', JObj (case provenance of None \<Rightarrow> [] | Some p \<Rightarrow> p)), (''content'', JStr content)]"

definition agent_dir :: "string \<Rightarrow> memory \<Rightarrow> memory" where
  "agent_dir agent m = (if dict_get m agent = None then dict_set agent [] m else m)"

text \<open>What the opened file holds, and the file with what has been written.\<close>

definition write_lines :: "string \<Rightarrow> string \<Rightarrow> log_line list \<Rightarrow> memory \<Rightarrow> memory" where
  "write_lines agent name new m =
     (let files = dict_get_or m agent []
      in dict_set agent (dict_set name (dict_get_or files name [] @ new) files) m)"

definition memory_append ::
  "py_env \<Rightarrow> string \<Rightarrow> string \<Rightarrow> string \<Rightarrow> string \<Rightarrow> (string, json) dict option \<Rightarrow> memory \<Rightarrow>
   (py_exn + string) \<times> memory" where
  "memory_append E now date agent content provenance m =
     (let entry = memory_entry now agent provenance content;
          name = date @ ''.md'';
          opened = write_lines agent name [] (agent_dir agent m)
      in case json_exn (canonical_json E entry) of
           Inl e \<Rightarrow> (Inl e, opened)
         | Inr text \<Rightarrow> (Inr name, write_lines agent name [Line (json_norm entry)] opened))"

fun memory_lines :: "log_line list \<Rightarrow> py_exn + json list" where
  "memory_lines [] = Inr []"
| "memory_lines (Blank # ls) = memory_lines ls"
| "memory_lines (Garbage # ls) = Inl (ValueError ''not JSON'')"
| "memory_lines (Line v # ls) = bind_res (memory_lines ls) (\<lambda>vs. Inr (v # vs))"

definition memory_read :: "string \<Rightarrow> memory \<Rightarrow> (py_exn + json list) \<times> memory" where
  "memory_read agent m =
     (let m1 = agent_dir agent m; files = dict_get_or m1 agent []
      in (bind_res (map_res memory_lines (map snd (sort_key fst files))) (\<lambda>vss. Inr (concat vss)), m1))"

section \<open>Messages\<close>

definition system_event_severity :: "(string, string) dict" where
  "system_event_severity =
     [(''SYSTEM_STARTED'', ''INFO''), (''SYSTEM_RECOVERED'', ''INFO''), (''SYSTEM_SHUTTING_DOWN'', ''INFO''),
      (''SYSTEM_OFFLINE_DETECTED'', ''CRITICAL''), (''GATEWAY_FAILED'', ''CRITICAL''), (''PYTHON_ENGINE_FAILED'', ''CRITICAL''),
      (''QUEUE_STALLED'', ''WARNING''), (''DATA_STALE'', ''WARNING''), (''MT5_DISCONNECTED'', ''WARNING''),
      (''FRED_UNAVAILABLE'', ''INFO''), (''DISK_LOW'', ''WARNING''), (''DATABASE_LOCKED'', ''CRITICAL''),
      (''EXPERIMENT_FAILED'', ''WARNING''), (''SECURITY_INCIDENT'', ''CRITICAL'')]"

definition evidence_label :: utext where
  "evidence_label =
      [10, 3627, 3621, 3633, 3585, 3600, 3634, 3609, 58, 32]"

definition component_label :: utext where
  "component_label =
      [3626, 3656, 3623, 3609, 3611, 3619, 3632, 3585, 3629, 3610, 58, 32]"

definition time_label :: utext where
  "time_label =
      [3648, 3623, 3621, 3634, 32, 85, 84, 67, 58, 32]"

definition cause_label :: utext where
  "cause_label =
      [3626, 3634, 3648, 3627, 3605, 3640, 58, 32]"

definition impact_label :: utext where
  "impact_label =
      [3612, 3621, 3585, 3619, 3632, 3607, 3610, 58, 32]"

definition remedy_label :: utext where
  "remedy_label =
      [3585, 3634, 3619, 3649, 3585, 3657, 3652, 3586, 58, 32]"

text \<open>\<open>str(payload.get(key, default))\<close> and \<open>str.strip\<close> on code points.\<close>

definition payload_text :: "py_env \<Rightarrow> (string, json) dict \<Rightarrow> string \<Rightarrow> string \<Rightarrow> string" where
  "payload_text E payload k otherwise = py_str E (dict_get_or payload k (JStr otherwise))"

definition is_uspace :: "nat \<Rightarrow> bool" where
  "is_uspace n =
     ((9 \<le> n \<and> n \<le> 13) \<or> (28 \<le> n \<and> n \<le> 32) \<or> (8192 \<le> n \<and> n \<le> 8202) \<or>
      n \<in> {133, 160, 5760, 8232, 8233, 8239, 8287, 12288})"

definition utext_strip :: "utext \<Rightarrow> utext" where
  "utext_strip s = rev (dropWhile is_uspace (rev (dropWhile is_uspace s)))"

definition format_thai :: "py_env \<Rightarrow> (string, json) dict \<Rightarrow> utext" where
  "format_thai E payload =
     utext_strip (text_of (payload_text E payload ''title'' ''OpenClaw'') @ evidence_label @
       text_of (payload_text E payload ''evidence_id'' ''UNKNOWN'') @ [10] @ text_of (payload_text E payload ''body'' []))"

definition severity_icon :: "string \<Rightarrow> utext" where
  "severity_icon s =
     (if s = ''CRITICAL'' then [128308] else if s = ''WARNING'' then [128993] else if s = ''INFO'' then [128994] else [9898])"

definition format_system_event :: "py_env \<Rightarrow> string \<Rightarrow> (string, json) dict \<Rightarrow> utext" where
  "format_system_event E now event =
     (let event_type = payload_text E event ''event_type'' ''SYSTEM_INCIDENT'';
          severity = payload_text E event ''severity'' (dict_get_or system_event_severity event_type ''INFO'');
          message = payload_text E event ''message'' [];
          root_cause = payload_text E event ''root_cause'' ''unknown'';
          impact = payload_text E event ''current_impact'' [];
          recovery = payload_text E event ''recovery_action'' [];
          correlation_id = payload_text E event ''correlation_id'' []
      in join_lines (
           [severity_icon severity @ text_of ('' ['' @ severity @ ''] '' @ event_type),
            component_label @ text_of (payload_text E event ''component'' ''unknown''),
            time_label @ text_of (payload_text E event ''timestamp_utc'' now)] @
           (if message \<noteq> [] then [text_of message] else []) @
           (if root_cause \<noteq> [] \<and> root_cause \<noteq> ''unknown'' then [cause_label @ text_of root_cause] else []) @
           (if impact \<noteq> [] then [impact_label @ text_of impact] else []) @
           (if recovery \<noteq> [] then [remedy_label @ text_of recovery] else []) @
           (if correlation_id \<noteq> [] then [text_of (''ID: '' @ take 12 correlation_id)] else [])))"

section \<open>The journal\<close>

text \<open>A line of one of the two files is held as the record that it is the JSON text of.\<close>

record delivery =
  dl_created_at :: string
  dl_mode :: string
  dl_message :: utext
  dl_payload :: "(string, json) dict"
  dl_status :: string

record dead_payload =
  dp_created_at :: string
  dp_reason :: string
  dp_payload :: "(string, json) dict"

text \<open>A file that has not been opened yet is not there.\<close>

record publish_journal =
  pj_deliveries :: "delivery list option"
  pj_dead :: "dead_payload list option"
  pj_seen :: "string set"

definition new_journal :: "delivery list option \<Rightarrow> dead_payload list option \<Rightarrow> publish_journal" where
  "new_journal deliveries dead = \<lparr>pj_deliveries = deliveries, pj_dead = dead, pj_seen = {}\<rparr>"

definition dedup_key :: "py_env \<Rightarrow> (string, json) dict \<Rightarrow> string" where
  "dedup_key E payload =
     py_str E (dict_get_or payload ''event_type'' (dict_get_or payload ''title'' (JStr []))) @ '':'' @
     payload_text E payload ''component'' []"

text \<open>\<open>event_type and event_type in _SYSTEM_EVENT_SEVERITY\<close>\<close>

definition is_system_event :: "(string, json) dict \<Rightarrow> py_exn + bool" where
  "is_system_event payload =
     (let v = dict_get_or payload ''event_type'' JNull
      in if \<not> json_truthy v then Inr False
         else if \<not> hashable v then Inl TypeError
         else Inr (case v of JStr s \<Rightarrow> dict_get system_event_severity s \<noteq> None | _ \<Rightarrow> False))"

definition file_of :: "'a list option \<Rightarrow> 'a list" where
  "file_of f = (case f of None \<Rightarrow> [] | Some xs \<Rightarrow> xs)"

definition dry_run ::
  "py_env \<Rightarrow> string \<Rightarrow> (string, json) dict \<Rightarrow> publish_journal \<Rightarrow> (py_exn + delivery) \<times> publish_journal" where
  "dry_run E now payload J =
     (case is_system_event payload of
        Inl e \<Rightarrow> (Inl e, J)
      | Inr system \<Rightarrow>
          (let entry = \<lparr>dl_created_at = now, dl_mode = ''dry_run'',
                 dl_message = (if system then format_system_event E now payload else format_thai E payload),
                 dl_payload = payload, dl_status = ''SKIPPED''\<rparr>
           in case json_exn (canonical_json E (JObj payload)) of
                Inl e \<Rightarrow> (Inl e, J\<lparr>pj_deliveries := Some (file_of (pj_deliveries J))\<rparr>)
              | Inr text \<Rightarrow> (Inr entry, J\<lparr>pj_deliveries := Some (file_of (pj_deliveries J) @ [entry])\<rparr>)))"

definition reject_payload ::
  "py_env \<Rightarrow> string \<Rightarrow> (string, json) dict \<Rightarrow> string \<Rightarrow> publish_journal \<Rightarrow> (py_exn + dead_payload) \<times> publish_journal" where
  "reject_payload E now payload because J =
     (let entry = \<lparr>dp_created_at = now, dp_reason = because, dp_payload = payload\<rparr>
      in case json_exn (canonical_json E (JObj payload)) of
           Inl e \<Rightarrow> (Inl e, J\<lparr>pj_dead := Some (file_of (pj_dead J))\<rparr>)
         | Inr text \<Rightarrow> (Inr entry, J\<lparr>pj_dead := Some (file_of (pj_dead J) @ [entry])\<rparr>))"

definition is_duplicate :: "py_env \<Rightarrow> (string, json) dict \<Rightarrow> publish_journal \<Rightarrow> bool \<times> publish_journal" where
  "is_duplicate E payload J =
     (let k = dedup_key E payload
      in if k \<in> pj_seen J then (True, J) else (False, J\<lparr>pj_seen := insert k (pj_seen J)\<rparr>))"

definition clear_dedup_window :: "publish_journal \<Rightarrow> publish_journal" where
  "clear_dedup_window J = J\<lparr>pj_seen := {}\<rparr>"

section \<open>Reading back the memory\<close>

lemma filter_blocks:
  "distinct ks \<Longrightarrow> filter (\<lambda>x. f x = k) (concat (map (\<lambda>k. filter (\<lambda>x. f x = k) xs) ks)) =
     (if k \<in> set ks then filter (\<lambda>x. f x = k) xs else [])"
  by (induction ks) (auto simp: filter_empty_conv intro: filter_cong)

lemma sorted_blocks:
  "sorted ks \<Longrightarrow> sorted (map f (concat (map (\<lambda>k. filter (\<lambda>x. f x = k) xs) ks)))"
  by (induction ks) (auto simp: sorted_append intro: sorted_map_same)

lemma sort_key_blocks:
  assumes "sorted ks" and "distinct ks" and "f ` set xs \<subseteq> set ks"
  shows "concat (map (\<lambda>k. filter (\<lambda>x. f x = k) xs) ks) = sort_key f xs"
proof (rule properties_for_sort_key [symmetric])
  let ?ys = "concat (map (\<lambda>k. filter (\<lambda>x. f x = k) xs) ks)"
  have same: "filter (\<lambda>x. f x = k) ?ys = filter (\<lambda>x. f x = k) xs" for k
  proof (cases "k \<in> set ks")
    case False
    with assms(3) have "filter (\<lambda>x. f x = k) xs = []" by (auto simp: filter_empty_conv)
    with filter_blocks [OF assms(2), of f k xs] False show ?thesis by simp
  qed (simp add: filter_blocks [OF assms(2)])
  show "mset ?ys = mset xs"
  proof (rule multiset_eqI)
    fix y
    have "count (mset zs) y = count (mset (filter (\<lambda>x. f x = f y) zs)) y" for zs by simp
    then show "count (mset ?ys) y = count (mset xs) y" using same [of "f y"] by metis
  qed
  show "filter (\<lambda>x. f k = f x) ?ys = filter (\<lambda>x. f k = f x) xs" if "k \<in> set ?ys" for k
    using same [of "f k"] by (simp add: eq_commute)
  show "sorted (map f ?ys)" using sorted_blocks [OF assms(1)] .
qed

record memory_note =
  mn_now :: string
  mn_date :: string
  mn_agent :: string
  mn_content :: string
  mn_provenance :: "(string, json) dict option"

definition note_json :: "memory_note \<Rightarrow> json" where
  "note_json n = memory_entry (mn_now n) (mn_agent n) (mn_provenance n) (mn_content n)"

definition append_note :: "py_env \<Rightarrow> memory_note \<Rightarrow> memory \<Rightarrow> memory" where
  "append_note E n m = snd (memory_append E (mn_now n) (mn_date n) (mn_agent n) (mn_content n) (mn_provenance n) m)"

text \<open>The notes of an agent that could be written, each with the file it went to.\<close>

definition notes_of :: "py_env \<Rightarrow> string \<Rightarrow> memory_note list \<Rightarrow> (string \<times> json) list" where
  "notes_of E agent ns =
     map (\<lambda>n. (mn_date n @ ''.md'', json_norm (note_json n)))
       (filter (\<lambda>n. mn_agent n = agent \<and> canonical_json E (note_json n) \<noteq> Inl NotJsonFloat) ns)"

definition holds_notes :: "memory \<Rightarrow> string \<Rightarrow> (string \<times> json) list \<Rightarrow> bool" where
  "holds_notes m agent xs \<longleftrightarrow>
     distinct (dict_keys (dict_get_or m agent [])) \<and>
     (\<forall>name. dict_get_or (dict_get_or m agent []) name [] = map (\<lambda>x. Line (snd x)) (filter (\<lambda>x. fst x = name) xs))"

lemma holds_agent_dir: "holds_notes (agent_dir a m) agent xs = holds_notes m agent xs"
  by (simp add: holds_notes_def agent_dir_def dict_get_or_def)

lemma holds_write:
  assumes "holds_notes m agent xs"
  shows "holds_notes (write_lines a name (map Line vs) m) agent (if a = agent then xs @ map (Pair name) vs else xs)"
  using assms by (auto simp: holds_notes_def write_lines_def Let_def intro: distinct_dict_set)

lemma holds_append:
  assumes "holds_notes m agent (notes_of E agent ns)"
  shows "holds_notes (append_note E n m) agent (notes_of E agent (ns @ [n]))"
proof -
  let ?name = "mn_date n @ ''.md''"
  have opened: "holds_notes (write_lines (mn_agent n) ?name [] (agent_dir (mn_agent n) m)) agent (notes_of E agent ns)"
    using holds_write [of "agent_dir (mn_agent n) m" agent "notes_of E agent ns" "mn_agent n" ?name "[]"] assms
    by (simp add: holds_agent_dir split: if_splits)
  show ?thesis
  proof (cases "canonical_json E (note_json n)")
    case (Inl e)
    then show ?thesis
      using opened by (cases e) (simp add: append_note_def memory_append_def note_json_def notes_of_def json_exn_def Let_def)
  next
    case (Inr text')
    then show ?thesis
      using holds_write [OF opened, of "mn_agent n" ?name "[json_norm (note_json n)]"]
      by (auto simp: append_note_def memory_append_def note_json_def notes_of_def Let_def)
  qed
qed

lemma holds_run: "holds_notes (fold (append_note E) ns []) agent (notes_of E agent ns)"
proof (induction ns rule: rev_induct)
  case Nil
  show ?case by (simp add: holds_notes_def notes_of_def dict_get_or_def)
next
  case (snoc n ns)
  then show ?case using holds_append by simp
qed

lemma memory_lines_map: "memory_lines (map Line vs) = Inr vs"
  by (induction vs) simp_all

lemma memory_lines_all: "map_res memory_lines (map (map Line) vss) = Inr vss"
  by (induction vss) (simp_all add: memory_lines_map)

text \<open>
  Whatever has been appended for whatever agents, an agent reads back exactly its own notes that
  could be written, as JSON reads them, ordered by the day of their file and within a day in the order
  in which they were written.
\<close>

theorem memory_read_back:
  "fst (memory_read agent (fold (append_note E) ns [])) = Inr (map snd (sort_key fst (notes_of E agent ns)))"
proof -
  let ?m = "fold (append_note E) ns []" and ?xs = "notes_of E agent ns"
  let ?files = "sort_key fst (dict_get_or ?m agent [])"
  have same: "dict_get_or (agent_dir agent ?m) agent [] = dict_get_or ?m agent []"
    by (simp add: agent_dir_def dict_get_or_def)
  note holds = holds_run [of E ns agent, unfolded holds_notes_def]
  have keys: "sorted (map fst ?files)" "distinct (map fst ?files)"
    using holds by (simp_all add: distinct_map)
  have lines: "ls = map Line (map snd (filter (\<lambda>x. fst x = name) ?xs))" if "(name, ls) \<in> set ?files" for name ls
  proof -
    have "dict_get (dict_get_or ?m agent []) name = Some ls" using that holds by (simp add: map_of_is_SomeI)
    with holds show ?thesis by (auto simp: dict_get_or_def comp_def split: option.splits)
  qed
  then have files: "map snd ?files = map (map Line) (map (\<lambda>name. map snd (filter (\<lambda>x. fst x = name) ?xs)) (map fst ?files))"
    by (auto simp: comp_def)
  have "map_res memory_lines (map snd ?files) = Inr (map (\<lambda>name. map snd (filter (\<lambda>x. fst x = name) ?xs)) (map fst ?files))"
    by (simp only: files memory_lines_all)
  moreover have "fst ` set ?xs \<subseteq> set (map fst ?files)"
  proof
    fix name
    assume "name \<in> fst ` set ?xs"
    then have "filter (\<lambda>x. fst x = name) ?xs \<noteq> []" by (auto simp: filter_empty_conv)
    with holds have "dict_get_or (dict_get_or ?m agent []) name [] \<noteq> []" by auto
    then show "name \<in> set (map fst ?files)"
      by (auto simp: dict_get_or_def split: option.splits dest: map_of_SomeD intro: rev_image_eqI)
  qed
  then have "concat (map (\<lambda>name. map snd (filter (\<lambda>x. fst x = name) ?xs)) (map fst ?files)) = map snd (sort_key fst ?xs)"
    unfolding sort_key_blocks [OF keys \<open>fst ` set ?xs \<subseteq> set (map fst ?files)\<close>, symmetric] by (simp add: map_concat comp_def)
  ultimately show ?thesis by (simp add: memory_read_def Let_def same)
qed

section \<open>Repetitions\<close>

text \<open>The answers of the journal to a sequence of payloads.\<close>

fun duplicate_marks :: "py_env \<Rightarrow> (string, json) dict list \<Rightarrow> publish_journal \<Rightarrow> bool list" where
  "duplicate_marks E [] J = []"
| "duplicate_marks E (p # ps) J = (case is_duplicate E p J of (b, J1) \<Rightarrow> b # duplicate_marks E ps J1)"

lemma duplicate_marks_seen:
  "i < length ps \<Longrightarrow> duplicate_marks E ps J ! i \<longleftrightarrow>
     dedup_key E (ps ! i) \<in> pj_seen J \<union> set (map (dedup_key E) (take i ps))"
proof (induction ps arbitrary: J i)
  case (Cons p ps)
  show ?case
  proof (cases i)
    case 0
    then show ?thesis by (simp add: is_duplicate_def Let_def)
  next
    case (Suc k)
    then show ?thesis
      using Cons.prems Cons.IH by (auto simp: is_duplicate_def Let_def)
  qed
qed simp

lemma file_of_Some [simp]: "file_of (Some xs) = xs"
  by (simp add: file_of_def)

text \<open>
  After the window has been cleared the journal calls a payload a duplicate exactly when one with the
  same event type (or title) and component has been asked about since; asking writes nothing, and
  writing a dry run or a dead letter neither asks nor looks at the window.
\<close>

theorem duplicates_by_key:
  assumes "i < length ps"
  shows "(duplicate_marks E ps (clear_dedup_window J) ! i \<longleftrightarrow> dedup_key E (ps ! i) \<in> dedup_key E ` set (take i ps)) \<and>
    pj_deliveries (snd (is_duplicate E p J)) = pj_deliveries J \<and> pj_dead (snd (is_duplicate E p J)) = pj_dead J \<and>
    pj_seen (snd (dry_run E now p J)) = pj_seen J \<and> pj_seen (snd (reject_payload E now p because J)) = pj_seen J"
  using duplicate_marks_seen [OF assms, of E "clear_dedup_window J"]
  by (auto simp: clear_dedup_window_def is_duplicate_def dry_run_def reject_payload_def Let_def split: sum.splits)

text \<open>
  A dry run appends one delivery, which is skipped and carries the payload, exactly when the payload is
  JSON and its type can be looked up; otherwise no delivery is added. An incident that has no system
  event type, as the watchdog makes them by default, is not formatted as one: without a title and a
  body its message is the same whatever the component, the severity and the cause.
\<close>

theorem dry_run_records:
  assumes "dry_run E now payload J = (r, J')"
  shows "(case r of
       Inr entry \<Rightarrow> file_of (pj_deliveries J') = file_of (pj_deliveries J) @ [entry] \<and> dl_payload entry = payload \<and>
         dl_status entry = ''SKIPPED''
     | Inl e \<Rightarrow> file_of (pj_deliveries J') = file_of (pj_deliveries J)) \<and>
    (isl r \<longleftrightarrow> isl (canonical_json E (JObj payload)) \<or>
       json_truthy (dict_get_or payload ''event_type'' JNull) \<and> \<not> hashable (dict_get_or payload ''event_type'' JNull)) \<and>
    (dict_get payload ''event_type'' = Some (JStr ''SYSTEM_INCIDENT'') \<and> dict_get payload ''title'' = None \<and>
       dict_get payload ''body'' = None \<and> dict_get payload ''evidence_id'' = None \<and> \<not> isl r \<longrightarrow>
     dl_message (projr r) = format_thai E [])"
proof -
  have "dict_get system_event_severity ''SYSTEM_INCIDENT'' = None" by code_simp
  moreover have "is_system_event payload = Inr False" if "dict_get payload ''event_type'' = Some (JStr ''SYSTEM_INCIDENT'')"
    using that \<open>dict_get system_event_severity ''SYSTEM_INCIDENT'' = None\<close> by (simp add: is_system_event_def dict_get_or_def)
  ultimately show ?thesis
    using assms
    by (auto simp: dry_run_def Let_def is_system_event_def format_thai_def payload_text_def dict_get_or_def
        json_exn_def split: sum.splits if_splits)
qed

definition default_incident :: "(string, json) dict" where
  "default_incident = [(''event_type'', JStr ''SYSTEM_INCIDENT''), (''component'', JStr ''gateway''), (''severity'', JStr ''CRITICAL'')]"

lemma duplicates_by_key_witness:
  "duplicate_marks sample_env [default_incident, default_incident] (clear_dedup_window (new_journal None None)) ! 1"
  using duplicates_by_key [of 1 "[default_incident, default_incident]" sample_env "new_journal None None"] by simp

lemma dry_run_records_witness:
  "\<exists>entry J'. dry_run sample_env ''now'' default_incident (new_journal None None) = (Inr entry, J') \<and>
     file_of (pj_deliveries J') = [entry] \<and> dl_message entry = format_thai sample_env []"
proof -
  obtain r J' where run: "dry_run sample_env ''now'' default_incident (new_journal None None) = (r, J')"
    by (cases "dry_run sample_env ''now'' default_incident (new_journal None None)")
  have "\<not> isl (canonical_json sample_env (JObj default_incident))" by code_simp
  moreover have "hashable (dict_get_or default_incident ''event_type'' JNull)" by (simp add: default_incident_def dict_get_or_def)
  ultimately obtain entry where r: "r = Inr entry" using dry_run_records [OF run] by (cases r) simp_all
  have "dict_get default_incident ''event_type'' = Some (JStr ''SYSTEM_INCIDENT'')" "dict_get default_incident ''title'' = None"
    "dict_get default_incident ''body'' = None" "dict_get default_incident ''evidence_id'' = None"
    by (simp_all add: default_incident_def)
  then show ?thesis
    using dry_run_records [OF run] run by (simp add: r new_journal_def file_of_def)
qed

end
