(* ===== verification/Regex.thy ===== *)
theory Regex
  imports Prelude
begin

text \<open>
  The part of Python's \<open>re\<close> that \<open>scanning.py\<close> uses: literals, greedy repetition of a character class,
  \<open>\b\<close>, negative look-around of one character, sequence and alternative. \<open>rx_match r s i\<close> lists the positions at which a match that starts
  at \<open>i\<close> may end, in the order in which the backtracking matcher tries them; the first one is the
  match, and \<open>search\<close> takes the leftmost start.
\<close>

section \<open>Expressions\<close>

datatype rx =
    Lit string
  | Rep "char \<Rightarrow> bool" nat "nat option"
  | WordBoundary
  | NotAfter "char \<Rightarrow> bool"
  | NotBefore "char \<Rightarrow> bool"
  | Seq rx rx
  | Alt rx rx

text \<open>\<open>\w\<close> and \<open>\d\<close> on the characters below 256.\<close>

definition is_digit :: "char \<Rightarrow> bool" where
  "is_digit c = (let n = (of_char c :: nat) in 48 \<le> n \<and> n \<le> 57)"

definition is_word :: "char \<Rightarrow> bool" where
  "is_word c =
     (let n = (of_char c :: nat)
      in is_alnum c \<or> n = 95 \<or> n \<in> {170, 178, 179, 181, 185, 186, 188, 189, 190} \<or> (192 \<le> n \<and> n \<noteq> 215 \<and> n \<noteq> 247))"

definition word_at :: "string \<Rightarrow> nat \<Rightarrow> bool" where
  "word_at s i = (i < length s \<and> is_word (s ! i))"

fun rx_match :: "rx \<Rightarrow> string \<Rightarrow> nat \<Rightarrow> nat list" where
  "rx_match (Lit l) s i = (if starts_with l (drop i s) then [i + length l] else [])"
| "rx_match (Rep P lo hi) s i =
     (let k = length (takeWhile P (drop i s));
          k = (case hi of None \<Rightarrow> k | Some h \<Rightarrow> min k h)
      in rev [i + lo ..< i + k + 1])"
| "rx_match WordBoundary s i = (if (0 < i \<and> word_at s (i - 1)) \<noteq> word_at s i then [i] else [])"
| "rx_match (NotAfter P) s i = (if 0 < i \<and> i \<le> length s \<and> P (s ! (i - 1)) then [] else [i])"
| "rx_match (NotBefore P) s i = (if i < length s \<and> P (s ! i) then [] else [i])"
| "rx_match (Seq r1 r2) s i = concat (map (rx_match r2 s) (rx_match r1 s i))"
| "rx_match (Alt r1 r2) s i = rx_match r1 s i @ rx_match r2 s i"

text \<open>\<open>pattern.search(s)\<close>: where the match starts and ends.\<close>

fun search_from :: "rx \<Rightarrow> string \<Rightarrow> nat \<Rightarrow> nat \<Rightarrow> (nat \<times> nat) option" where
  "search_from r s i 0 = None"
| "search_from r s i (Suc n) =
     (case rx_match r s i of
        [] \<Rightarrow> search_from r s (Suc i) n
      | j # js \<Rightarrow> Some (i, j))"

definition rx_search :: "rx \<Rightarrow> string \<Rightarrow> string option" where
  "rx_search r s =
     (case search_from r s 0 (Suc (length s)) of
        None \<Rightarrow> None
      | Some (i, j) \<Rightarrow> Some (take (j - i) (drop i s)))"

section \<open>What a search finds\<close>

lemma search_from_None: "search_from r s i n = None \<longleftrightarrow> (\<forall>k < n. rx_match r s (i + k) = [])"
proof (induction n arbitrary: i)
  case (Suc n)
  show ?case
    by (auto simp: Suc.IH less_Suc_eq_0_disj split: list.splits)
qed simp

lemma rx_search_iff: "rx_search r s \<noteq> None \<longleftrightarrow> (\<exists>i \<le> length s. rx_match r s i \<noteq> [])"
proof -
  have "rx_search r s = None \<longleftrightarrow> search_from r s 0 (Suc (length s)) = None"
    by (auto simp: rx_search_def split: option.splits)
  then show ?thesis unfolding search_from_None by (auto simp: less_Suc_eq_le)
qed

text \<open>A literal followed by at least so many characters of a class.\<close>

lemma search_prefixed:
  assumes "s = a @ l @ k @ b" and "n \<le> length k" and "list_all P k"
  shows "rx_search (Seq (Lit l) (Rep P n None)) s \<noteq> None"
proof -
  have "length k \<le> length (takeWhile P (k @ b))"
    using assms(3) by (simp add: list_all_iff takeWhile_append2)
  then have "rx_match (Seq (Lit l) (Rep P n None)) s (length a) \<noteq> []"
    using assms(1,2) by (simp add: Let_def)
  then show ?thesis unfolding rx_search_iff using assms(1) by (auto intro!: exI [of _ "length a"])
qed

lemma rx_match_Alt1: "rx_search r1 s \<noteq> None \<Longrightarrow> rx_search (Alt r1 r2) s \<noteq> None"
  unfolding rx_search_iff by auto

lemma rx_match_Alt2: "rx_search r2 s \<noteq> None \<Longrightarrow> rx_search (Alt r1 r2) s \<noteq> None"
  unfolding rx_search_iff by auto

text \<open>A word that stands alone: \<open>(?<![A-Za-z0-9_])word(?![A-Za-z0-9_])\<close>.\<close>

definition is_symbol_char :: "char \<Rightarrow> bool" where
  "is_symbol_char c = (is_alnum c \<or> c = CHR ''_'')"

definition alone_rx :: "string \<Rightarrow> rx" where
  "alone_rx w = Seq (NotAfter is_symbol_char) (Seq (Lit w) (NotBefore is_symbol_char))"

definition stands_alone :: "string \<Rightarrow> string \<Rightarrow> bool" where
  "stands_alone w s \<longleftrightarrow>
     (\<exists>a b. s = a @ w @ b \<and> (a = [] \<or> \<not> is_symbol_char (last a)) \<and> (b = [] \<or> \<not> is_symbol_char (hd b)))"

lemma alone_rx_search: "rx_search (alone_rx w) s \<noteq> None \<longleftrightarrow> stands_alone w s"
proof
  assume "rx_search (alone_rx w) s \<noteq> None"
  then obtain i where i: "i \<le> length s" and here: "rx_match (alone_rx w) s i \<noteq> []" unfolding rx_search_iff by blast
  then obtain b where b: "drop i s = w @ b" by (auto simp: alone_rx_def prefix_def split: if_splits)
  let ?a = "take i s"
  have eq: "s = ?a @ w @ b" using b by (metis append_take_drop_id)
  have "\<not> (0 < i \<and> is_symbol_char (s ! (i - 1)))" using here i by (auto simp: alone_rx_def split: if_splits)
  then have "?a = [] \<or> \<not> is_symbol_char (last ?a)" using i by (auto simp: last_conv_nth min_def split: if_splits)
  moreover have "b = [] \<or> \<not> is_symbol_char (hd b)"
  proof (cases b)
    case (Cons c cs)
    have "s ! (i + length w) = c" using i by (subst eq) (simp add: nth_append Cons)
    moreover have "i + length w < length s" using arg_cong [OF eq, of length] i Cons by simp
    ultimately show ?thesis using here Cons by (auto simp: alone_rx_def split: if_splits)
  qed simp
  ultimately show "stands_alone w s" unfolding stands_alone_def using eq by blast
next
  assume "stands_alone w s"
  then obtain a b where s: "s = a @ w @ b"
    and a: "a = [] \<or> \<not> is_symbol_char (last a)" and b: "b = [] \<or> \<not> is_symbol_char (hd b)"
    unfolding stands_alone_def by blast
  have "\<not> (length a + length w < length s \<and> is_symbol_char (s ! (length a + length w)))"
    using b by (cases b) (auto simp: s nth_append)
  moreover have "\<not> (0 < length a \<and> is_symbol_char (s ! (length a - 1)))"
    using a by (auto simp: s nth_append last_conv_nth)
  ultimately have "rx_match (alone_rx w) s (length a) \<noteq> []" using s by (auto simp: alone_rx_def)
  then show "rx_search (alone_rx w) s \<noteq> None" unfolding rx_search_iff using s by (auto intro!: exI [of _ "length a"])
qed

end
