(* ===== verification/SourceAst.thy ===== *)
theory SourceAst
  imports Json
begin

text \<open>
  The trees of Python's \<open>ast\<close> module as \<open>scanning.py\<close> reads them: the node classes it tells apart have a
  constructor, every other class is \<open>Other\<close> with its child nodes. \<open>ast.walk\<close>, the folding of string constants, and
  the depth-first search of the import graph are here.
\<close>

section \<open>Trees\<close>

text \<open>\<open>Call\<close> has its line, the callee, the positional arguments and the keyword nodes; \<open>Assign\<close> its line, the
  targets and the value; \<open>ImportFrom\<close> the module, which is \<open>None\<close> in \<open>from . import x\<close>, and the level, the number of
  leading dots.\<close>

datatype py_ast =
    Module "py_ast list"
  | ConstStr string
  | Name string
  | Add py_ast py_ast
  | Attribute py_ast string
  | Call nat py_ast "py_ast list" "py_ast list"
  | Assign nat "py_ast list" py_ast
  | Import "string list"
  | ImportFrom "string option" nat
  | Other "py_ast list"

fun child_nodes :: "py_ast \<Rightarrow> py_ast list" where
  "child_nodes (Module xs) = xs"
| "child_nodes (Add l r) = [l, r]"
| "child_nodes (Attribute v _) = [v]"
| "child_nodes (Call _ f xs ks) = f # xs @ ks"
| "child_nodes (Assign _ ts v) = ts @ [v]"
| "child_nodes (Other xs) = xs"
| "child_nodes _ = []"

text \<open>\<open>getattr(tree, "body", [])\<close>: of the trees that \<open>ast.parse\<close> returns.\<close>

fun tree_body :: "py_ast \<Rightarrow> py_ast list" where
  "tree_body (Module xs) = xs"
| "tree_body _ = []"

section \<open>Walking a tree\<close>

abbreviation tree_sizes :: "py_ast list \<Rightarrow> nat" where
  "tree_sizes ts \<equiv> sum_list (map size ts)"

lemma size_list_tree [simp]: "size_list size ts = tree_sizes ts + length ts"
  by (induction ts) simp_all

lemma child_nodes_smaller: "2 * tree_sizes (child_nodes t) + length (child_nodes t) < 2 * size t + 1"
  by (cases t) simp_all

text \<open>\<open>ast.walk\<close>: breadth first, with a queue.\<close>

function walk_queue :: "py_ast list \<Rightarrow> py_ast list" where
  "walk_queue [] = []"
| "walk_queue (node # todo) = node # walk_queue (todo @ child_nodes node)"
  by pat_completeness auto

termination
proof (relation "measure (\<lambda>ts. 2 * tree_sizes ts + length ts)")
  show "(todo @ child_nodes node, node # todo) \<in> measure (\<lambda>ts. 2 * tree_sizes ts + length ts)" for node todo
    using child_nodes_smaller [of node] by simp
qed simp

definition walk :: "py_ast \<Rightarrow> py_ast list" where
  "walk t = walk_queue [t]"

text \<open>The nodes of a tree, by recursion on the tree.\<close>

inductive node_in :: "py_ast \<Rightarrow> py_ast \<Rightarrow> bool" where
  self: "node_in t t"
| child: "c \<in> set (child_nodes t) \<Longrightarrow> node_in n c \<Longrightarrow> node_in n t"

lemma node_in_unfold: "node_in n t \<longleftrightarrow> n = t \<or> (\<exists>c \<in> set (child_nodes t). node_in n c)"
  by (subst node_in.simps) blast

lemma walk_queue_nodes: "set (walk_queue ts) = {n. \<exists>t \<in> set ts. node_in n t}"
proof (induction ts rule: walk_queue.induct)
  case (2 t ts)
  have "set (walk_queue (t # ts)) = insert t {n. \<exists>u \<in> set ts \<union> set (child_nodes t). node_in n u}"
    by (simp add: 2)
  also have "\<dots> = {n. \<exists>u \<in> set (t # ts). node_in n u}"
    by (auto simp: node_in_unfold [of _ t])
  finally show ?case .
qed simp

lemma walk_nodes: "set (walk t) = {n. node_in n t}"
  unfolding walk_def walk_queue_nodes by simp

section \<open>String constants\<close>

fun resolve_string :: "(string, string) dict \<Rightarrow> py_ast \<Rightarrow> string option" where
  "resolve_string bound (ConstStr s) = Some s"
| "resolve_string bound (Name n) = dict_get bound n"
| "resolve_string bound (Add l r) =
     (case (resolve_string bound l, resolve_string bound r) of
        (Some a, Some b) \<Rightarrow> Some (a @ b)
      | _ \<Rightarrow> None)"
| "resolve_string bound _ = None"

fun bind_target :: "string \<Rightarrow> py_ast \<Rightarrow> (string, string) dict \<Rightarrow> (string, string) dict" where
  "bind_target v (Name n) bound = dict_set n v bound"
| "bind_target v _ bound = bound"

fun add_constants :: "py_ast \<Rightarrow> (string, string) dict \<Rightarrow> (string, string) dict" where
  "add_constants (Assign _ targets value) bound =
     (case resolve_string bound value of
        None \<Rightarrow> bound
      | Some v \<Rightarrow> fold (bind_target v) targets bound)"
| "add_constants _ bound = bound"

definition module_constants :: "py_ast \<Rightarrow> (string, string) dict" where
  "module_constants tree = fold add_constants (tree_body tree) []"

section \<open>Searching a graph\<close>

text \<open>
  The loop over \<open>stack\<close>: \<open>pop\<close> takes from the end of the Python list, which is the head here, so what \<open>extend\<close> adds
  comes in reverse. The result lists the nodes in the order in which they are visited.
\<close>

definition successors :: "(string, string list) dict \<Rightarrow> string \<Rightarrow> string list" where
  "successors graph n = dict_get_or graph n []"

lemma successors_new: "n \<notin> set (dict_keys graph) \<Longrightarrow> successors graph n = []"
  by (simp add: successors_def dict_get_or_def map_of_eq_None_iff [THEN iffD2])

function explore :: "(string, string list) dict \<Rightarrow> string list \<Rightarrow> string list \<Rightarrow> string list" where
  "explore graph [] visited = []"
| "explore graph (current # stack) visited =
     (if current \<in> set visited then explore graph stack visited
      else current # explore graph (rev (successors graph current) @ stack) (current # visited))"
  by pat_completeness auto

termination
proof (relation "inv_image (less_than <*lex*> less_than)
    (\<lambda>(graph, stack, visited). (card (set (dict_keys graph) - set visited), length stack))")
  fix graph :: "(string, string list) dict" and n stack and visited :: "string list"
  assume new: "n \<notin> set visited"
  let ?left = "set (dict_keys graph) - set visited"
  show "((graph, rev (successors graph n) @ stack, n # visited), graph, n # stack, visited)
      \<in> inv_image (less_than <*lex*> less_than) (\<lambda>(graph, stack, visited). (card (set (dict_keys graph) - set visited), length stack))"
  proof (cases "n \<in> set (dict_keys graph)")
    case True
    then have "card (?left - {n}) < card ?left" using new by (intro card_Diff1_less) auto
    moreover have "set (dict_keys graph) - set (n # visited) = ?left - {n}" by auto
    ultimately show ?thesis by simp
  next
    case False
    then have "set (dict_keys graph) - set (n # visited) = ?left" by auto
    with False show ?thesis by (simp add: successors_new)
  qed
qed auto

text \<open>Reachability in the graph, and that the search finds exactly it, each node once.\<close>

inductive graph_path :: "(string, string list) dict \<Rightarrow> string \<Rightarrow> string \<Rightarrow> bool" for graph where
  here: "graph_path graph n n"
| there: "graph_path graph m n \<Longrightarrow> k \<in> set (successors graph n) \<Longrightarrow> graph_path graph m k"

lemma graph_path_closed:
  assumes "graph_path graph m n" and "m \<in> A" and "\<forall>v \<in> A. set (successors graph v) \<subseteq> A"
  shows "n \<in> A"
  using assms by (induction rule: graph_path.induct) auto

lemma explore_new: "set (explore graph stack visited) \<inter> set visited = {}"
  by (induction graph stack visited rule: explore.induct) auto

lemma explore_distinct: "distinct (explore graph stack visited)"
proof (induction graph stack visited rule: explore.induct)
  case (2 graph n stack visited)
  then show ?case using explore_new [of graph "rev (successors graph n) @ stack" "n # visited"] by auto
qed simp

lemma explore_stack: "set stack \<subseteq> set visited \<union> set (explore graph stack visited)"
  by (induction graph stack visited rule: explore.induct) auto

lemma explore_sound:
  "(\<And>n. n \<in> set stack \<Longrightarrow> graph_path graph m n) \<Longrightarrow> k \<in> set (explore graph stack visited) \<Longrightarrow> graph_path graph m k"
proof (induction graph stack visited arbitrary: k rule: explore.induct)
  case (2 graph n stack visited)
  have n: "graph_path graph m n" using "2.prems"(1) by simp
  show ?case
  proof (cases "n \<in> set visited")
    case True
    then show ?thesis using 2 by simp
  next
    case False
    have "graph_path graph m v" if "v \<in> set (rev (successors graph n) @ stack)" for v
      using that "2.prems"(1) n by (auto intro: graph_path.there)
    then show ?thesis using "2.IH"(2) [OF False] False "2.prems"(2) n by auto
  qed
qed simp

lemma explore_closed:
  assumes "\<forall>v \<in> set visited. set (successors graph v) \<subseteq> set visited \<union> set stack"
  shows "\<forall>v \<in> set visited \<union> set (explore graph stack visited).
    set (successors graph v) \<subseteq> set visited \<union> set (explore graph stack visited)"
  using assms
proof (induction graph stack visited rule: explore.induct)
  case (2 graph n stack visited)
  show ?case
  proof (cases "n \<in> set visited")
    case True
    then show ?thesis using 2 by auto
  next
    case False
    have "\<forall>v \<in> set (n # visited). set (successors graph v) \<subseteq> set (n # visited) \<union> set (rev (successors graph n) @ stack)"
      using "2.prems" by auto
    then show ?thesis using "2.IH"(2) [OF False] False by simp
  qed
qed simp

lemma explore_reachable: "set (explore graph [m] []) = {n. graph_path graph m n}"
proof (intro equalityI subsetI)
  fix n
  assume "n \<in> set (explore graph [m] [])"
  then show "n \<in> {n. graph_path graph m n}" using explore_sound [of "[m]" graph m n "[]"] by (simp add: graph_path.here)
next
  fix n
  assume n: "n \<in> {n. graph_path graph m n}"
  have m: "m \<in> set (explore graph [m] [])" using explore_stack [of "[m]" "[]" graph] by simp
  have "\<forall>v \<in> set (explore graph [m] []). set (successors graph v) \<subseteq> set (explore graph [m] [])"
    using explore_closed [of "[]" graph "[m]"] by simp
  with n m show "n \<in> set (explore graph [m] [])" using graph_path_closed by blast
qed

end
