(* ===== verification/Scanning.thy ===== *)
theory Scanning
  imports Regex SourceAst Constants
begin

text \<open>
  \<open>scanning.py\<close>: the boundary scan that looks for trading symbols in the text, the trees and the imports of the
  project and for secrets in its files, in what is staged and in the history. The files of the project, their contents
  and the output of \<open>git\<close> are what a run is given; \<open>ast.parse\<close> and the joining of a path are parameters.
\<close>

section \<open>Files\<close>

definition forbidden_symbols :: "string list" where
  "forbidden_symbols =
     [''order_send'', ''order_check'', ''TRADE_ACTION'', ''ExecutionKernel'', ''execution_kernel'',
      ''execution_dispatch_bridge'', ''position_close'', ''close_position'', ''modify_order'', ''cancel_order'',
      ''execute_order'', ''auto_trade'']"

abbreviation backslash :: char where
  "backslash \<equiv> CHR 0x5C"

definition forbidden_tracked_paths :: "string list" where
  "forbidden_tracked_paths =
     [''state'' @ [backslash] @ ''.env'', ''state'' @ [backslash] @ ''openclaw.json'', ''state'' @ [backslash] @ ''credentials'',
      ''state'' @ [backslash] @ ''sessions'', ''state'' @ [backslash] @ ''logs'', [backslash] @ ''.venv'', ''logs'',
      ''data'' @ [backslash] @ ''runtime'', ''archive'']"

definition source_extensions :: "string list" where
  "source_extensions = [''.py'', ''.json'', ''.toml'', ''.yml'', ''.yaml'', ''.md'', ''.txt'']"

definition ignored_dir_names :: "string list" where
  "ignored_dir_names =
     [''.git'', ''.mypy_cache'', ''.pytest_cache'', ''.ruff_cache'', ''.tmp_pytest'', ''.venv'', ''.venv-audit'',
      ''__pycache__'', ''archive'', ''dist'', ''build'', ''logs'', ''data'', ''htmlcov'', ''state'']"

definition generated_report_names :: "string list" where
  "generated_report_names = [''security-scan.json'']"

text \<open>A file below the root: its path relative to the root, its text with undecodable bytes left out and line ends
  translated, and whether it is UTF-8 throughout.\<close>

record source_file =
  sf_parts :: "string list"
  sf_text :: string
  sf_utf8 :: bool

text \<open>The parts of the absolute path of the root, \<open>str\<close> of a path below it, \<open>ast.parse\<close> (\<open>None\<close> for a
  \<open>SyntaxError\<close>) and the standard output of a \<open>git\<close> command, which is empty where \<open>git\<close> fails.\<close>

record scan_platform =
  sp_root :: "string list"
  sp_str :: "string list \<Rightarrow> string"
  sp_parse :: "string \<Rightarrow> py_ast option"
  sp_git :: "string list \<Rightarrow> py_exn + string"

text \<open>\<open>PurePath.suffix\<close>, with its dot, and the name without it.\<close>

definition path_suffix :: "string \<Rightarrow> string" where
  "path_suffix name =
     (let tail = rev (takeWhile (\<lambda>c. c \<noteq> CHR ''.'') (rev name))
      in if tail = [] \<or> Suc (length tail) \<ge> length name then [] else CHR ''.'' # tail)"

definition path_stem :: "string \<Rightarrow> string" where
  "path_stem name = take (length name - length (path_suffix name)) name"

definition path_name :: "string list \<Rightarrow> string" where
  "path_name parts = (if parts = [] then [] else last parts)"

abbreviation lower_suffix :: "source_file \<Rightarrow> string" where
  "lower_suffix f \<equiv> str_lower (path_suffix (path_name (sf_parts f)))"

definition is_python :: "source_file \<Rightarrow> bool" where
  "is_python f = (lower_suffix f = ''.py'')"

definition is_source :: "source_file \<Rightarrow> bool" where
  "is_source f = (lower_suffix f \<in> set source_extensions)"

definition iter_files :: "source_file list \<Rightarrow> source_file list" where
  "iter_files tree = filter (\<lambda>f. \<not> list_ex (\<lambda>p. p \<in> set ignored_dir_names) (sf_parts f)) tree"

definition classify_path :: "string list \<Rightarrow> string" where
  "classify_path parts =
     (let lowered = map str_lower parts
      in if ''tests'' \<in> set lowered then ''TEST_ONLY''
         else if ''artifacts'' \<in> set lowered \<or> ''docs'' \<in> set lowered then ''DOCUMENTATION''
         else if str_lower (path_name parts) \<in> set generated_report_names then ''DOCUMENTATION''
         else if str_lower (path_suffix (path_name parts)) \<in> {''.md'', ''.txt''} then ''DOCUMENTATION''
         else ''ACTIVE_SOURCE'')"

definition file_class :: "scan_platform \<Rightarrow> source_file \<Rightarrow> string" where
  "file_class P f = classify_path (sp_root P @ sf_parts f)"

text \<open>\<open>str.splitlines\<close> of a text whose line ends are translated, and \<open>enumerate(lines, start=1)\<close>.\<close>

definition line_break :: "char \<Rightarrow> bool" where
  "line_break c = (let n = (of_char c :: nat) in n \<in> {10, 11, 12, 13, 28, 29, 30, 133})"

fun split_lines :: "string \<Rightarrow> string list" where
  "split_lines [] = []"
| "split_lines (c # cs) =
     (if line_break c then [] # split_lines cs
      else (case split_lines cs of [] \<Rightarrow> [[c]] | l # ls \<Rightarrow> (c # l) # ls))"

definition numbered :: "'a list \<Rightarrow> (nat \<times> 'a) list" where
  "numbered xs = zip [1 ..< Suc (length xs)] xs"

text \<open>Reading and parsing a Python file: an undecodable byte and a syntax error both raise.\<close>

definition parse_file :: "scan_platform \<Rightarrow> source_file \<Rightarrow> py_exn + py_ast" where
  "parse_file P f =
     (if \<not> sf_utf8 f then Inl (ValueError ''invalid start byte'')
      else (case sp_parse P (sf_text f) of None \<Rightarrow> Inl (OtherError ''SyntaxError'') | Some t \<Rightarrow> Inr t))"

section \<open>Findings\<close>

record scan_finding =
  fi_detector :: string
  fi_rule :: string
  fi_file :: string
  fi_line :: nat
  fi_class :: string
  fi_detail :: string

definition finding_at :: "scan_platform \<Rightarrow> source_file \<Rightarrow> string \<Rightarrow> string \<Rightarrow> nat \<Rightarrow> string \<Rightarrow> scan_finding" where
  "finding_at P f detector rule line detail =
     \<lparr>fi_detector = detector, fi_rule = rule, fi_file = sp_str P (sf_parts f), fi_line = line,
      fi_class = file_class P f, fi_detail = detail\<rparr>"

definition report_when :: "bool \<Rightarrow> 'a \<Rightarrow> 'a list" where
  "report_when c x = (if c then [x] else [])"

subsection \<open>Text\<close>

definition should_ignore_source_text_hit :: "source_file \<Rightarrow> string \<Rightarrow> string \<Rightarrow> bool" where
  "should_ignore_source_text_hit f line pat =
     (path_name (sf_parts f) = ''constants.py'' \<and> str_contains pat line \<and> CHR 0x22 \<in> set line)"

definition symbol_hit :: "source_file \<Rightarrow> string \<Rightarrow> string \<Rightarrow> bool" where
  "symbol_hit f line pat =
     (\<not> should_ignore_source_text_hit f line pat \<and> rx_search (alone_rx pat) line \<noteq> None)"

definition text_findings :: "scan_platform \<Rightarrow> source_file \<Rightarrow> scan_finding list" where
  "text_findings P f =
     concat (map (\<lambda>(n, line). map (\<lambda>pat. finding_at P f ''source_text'' pat n pat) (filter (symbol_hit f line) forbidden_symbols))
       (numbered (split_lines (sf_text f))))"

definition scan_source_text :: "scan_platform \<Rightarrow> source_file list \<Rightarrow> scan_finding list" where
  "scan_source_text P tree = concat (map (text_findings P) (filter is_source (iter_files tree)))"

subsection \<open>Calls\<close>

fun called_name :: "py_ast \<Rightarrow> string option" where
  "called_name (Name n) = Some n"
| "called_name _ = None"

fun called_attr :: "py_ast \<Rightarrow> string option" where
  "called_attr (Attribute _ a) = Some a"
| "called_attr _ = None"

definition forbidden :: "string option \<Rightarrow> bool" where
  "forbidden s = (case s of None \<Rightarrow> False | Some n \<Rightarrow> n \<in> set forbidden_symbols)"

definition getattr_name :: "(string, string) dict \<Rightarrow> py_ast \<Rightarrow> py_ast list \<Rightarrow> string option" where
  "getattr_name cs func args =
     (if func = Name ''getattr'' \<and> 2 \<le> length args then resolve_string cs (args ! 1) else None)"

definition importlib_name :: "(string, string) dict \<Rightarrow> py_ast \<Rightarrow> py_ast list \<Rightarrow> string option" where
  "importlib_name cs func args =
     (if func = Attribute (Name ''importlib'') ''import_module'' \<and> args \<noteq> [] then resolve_string cs (hd args) else None)"

definition builtin_import_name :: "(string, string) dict \<Rightarrow> py_ast \<Rightarrow> py_ast list \<Rightarrow> string option" where
  "builtin_import_name cs func args =
     (if func = Name ''__import__'' \<and> args \<noteq> [] then resolve_string cs (hd args) else None)"

text \<open>The three checks that \<open>scan_ast\<close> and \<open>scan_ast_for_file\<close> share, on one node.\<close>

fun forbidden_calls :: "scan_platform \<Rightarrow> source_file \<Rightarrow> (string, string) dict \<Rightarrow> py_ast \<Rightarrow> scan_finding list" where
  "forbidden_calls P f cs (Call line func args _) =
     report_when (forbidden (called_name func)) (finding_at P f ''ast'' ''direct_call'' line (the (called_name func))) @
     report_when (forbidden (called_attr func)) (finding_at P f ''ast'' ''attribute_call'' line (the (called_attr func))) @
     report_when (forbidden (getattr_name cs func args))
       (finding_at P f ''ast'' ''getattr'' line (the (getattr_name cs func args)))"
| "forbidden_calls P f cs _ = []"

fun dynamic_imports :: "scan_platform \<Rightarrow> source_file \<Rightarrow> (string, string) dict \<Rightarrow> py_ast \<Rightarrow> scan_finding list" where
  "dynamic_imports P f cs (Call line func args _) =
     report_when (importlib_name cs func args \<noteq> None)
       (finding_at P f ''ast'' ''importlib'' line (the (importlib_name cs func args))) @
     report_when (builtin_import_name cs func args \<noteq> None)
       (finding_at P f ''ast'' ''builtin_import'' line (the (builtin_import_name cs func args)))"
| "dynamic_imports P f cs _ = []"

definition ast_findings :: "scan_platform \<Rightarrow> source_file \<Rightarrow> py_ast \<Rightarrow> scan_finding list" where
  "ast_findings P f tree =
     concat (map (\<lambda>node. forbidden_calls P f (module_constants tree) node @ dynamic_imports P f (module_constants tree) node)
       (walk tree))"

definition scan_ast :: "scan_platform \<Rightarrow> source_file list \<Rightarrow> py_exn + scan_finding list" where
  "scan_ast P tree =
     bind_res (map_res (\<lambda>f. bind_res (parse_file P f) (\<lambda>t. Inr (ast_findings P f t))) (filter is_python (iter_files tree)))
       (\<lambda>fs. Inr (concat fs))"

definition scan_ast_for_file :: "scan_platform \<Rightarrow> source_file \<Rightarrow> py_ast \<Rightarrow> scan_finding list" where
  "scan_ast_for_file P f tree = concat (map (forbidden_calls P f (module_constants tree)) (walk tree))"

subsection \<open>Resolved constants\<close>

fun constant_value :: "scan_platform \<Rightarrow> source_file \<Rightarrow> (string, string) dict \<Rightarrow> py_ast \<Rightarrow> scan_finding list" where
  "constant_value P f cs (Assign line _ value) =
     report_when (forbidden (resolve_string cs value))
       (finding_at P f ''resolved_constants'' ''constant_value'' line (the (resolve_string cs value)))"
| "constant_value P f cs _ = []"

fun constant_calls :: "scan_platform \<Rightarrow> source_file \<Rightarrow> (string, string) dict \<Rightarrow> py_ast \<Rightarrow> scan_finding list" where
  "constant_calls P f cs (Call line func args _) =
     report_when (forbidden (getattr_name cs func args))
       (finding_at P f ''resolved_constants'' ''getattr_constant'' line (the (getattr_name cs func args))) @
     report_when (truthy (importlib_name cs func args))
       (finding_at P f ''resolved_constants'' ''importlib_constant'' line (the (importlib_name cs func args))) @
     report_when (truthy (builtin_import_name cs func args))
       (finding_at P f ''resolved_constants'' ''builtin_import_constant'' line (the (builtin_import_name cs func args)))"
| "constant_calls P f cs _ = []"

definition constant_findings :: "scan_platform \<Rightarrow> source_file \<Rightarrow> py_ast \<Rightarrow> scan_finding list" where
  "constant_findings P f tree =
     (let cs = module_constants tree
      in concat (map (constant_value P f cs) (tree_body tree)) @ concat (map (constant_calls P f cs) (walk tree)))"

definition scan_resolved_constants :: "scan_platform \<Rightarrow> source_file list \<Rightarrow> py_exn + scan_finding list" where
  "scan_resolved_constants P tree =
     bind_res (map_res (\<lambda>f. bind_res (parse_file P f) (\<lambda>t. Inr (constant_findings P f t))) (filter is_python (iter_files tree)))
       (\<lambda>fs. Inr (concat fs))"

section \<open>The import graph\<close>

definition dotted_name :: "string list \<Rightarrow> string" where
  "dotted_name rel =
     (let parts = butlast rel @ [path_stem (path_name rel)]
      in str_join ''.'' (if last parts = ''__init__'' then butlast parts else parts))"

definition resolve_import :: "string \<Rightarrow> string option" where
  "resolve_import m = (if starts_with ''.'' m then None else Some m)"

fun imported_modules :: "(string, source_file) dict \<Rightarrow> py_ast \<Rightarrow> string list" where
  "imported_modules known (Import names) = filter (\<lambda>n. n \<in> set (dict_keys known)) names"
| "imported_modules known (ImportFrom (Some m) _) =
     (if m = [] then []
      else (case resolve_import m of
              None \<Rightarrow> []
            | Some target \<Rightarrow> if target \<in> set (dict_keys known) then [target] else []))"
| "imported_modules known _ = []"

text \<open>A module with whether it is flagged and its set of targets, which is gone through in sorted order.\<close>

definition scan_module :: "scan_platform \<Rightarrow> (string, source_file) dict \<Rightarrow> string \<times> source_file \<Rightarrow> py_exn + (string \<times> bool \<times> string list)" where
  "scan_module P known = (\<lambda>(name, f).
     bind_res (parse_file P f) (\<lambda>t.
       Inr (name, list_ex (\<lambda>x. fi_detail x \<in> set forbidden_symbols) (scan_ast_for_file P f t),
         sort (remdups (concat (map (imported_modules known) (walk t)))))))"

definition module_paths :: "source_file list \<Rightarrow> (string, source_file) dict" where
  "module_paths tree = fold (\<lambda>f. dict_set (dotted_name (sf_parts f)) f) (filter is_python (iter_files tree)) []"

definition indegree :: "(string, string list) dict \<Rightarrow> string \<Rightarrow> nat" where
  "indegree graph n = length (filter (\<lambda>(_, targets). n \<in> set targets) graph)"

definition graph_roots :: "(string, string list) dict \<Rightarrow> string list" where
  "graph_roots graph = filter (\<lambda>n. indegree graph n = 0 \<and> \<not> str_contains ''tests.'' n) (dict_keys graph)"

definition root_findings :: "scan_platform \<Rightarrow> (string, source_file) dict \<Rightarrow> (string, string list) dict \<Rightarrow> string list \<Rightarrow> string \<Rightarrow> scan_finding list" where
  "root_findings P known graph flagged r =
     map (\<lambda>m. finding_at P (the (dict_get known m)) ''import_graph'' ''reachable_dependency'' 1 (''reachable from '' @ r))
       (filter (\<lambda>m. m \<in> set flagged \<and> m \<noteq> r) (explore graph [r] []))"

definition scan_modules :: "scan_platform \<Rightarrow> source_file list \<Rightarrow> py_exn + (string \<times> bool \<times> string list) list" where
  "scan_modules P tree = map_res (scan_module P (module_paths tree)) (module_paths tree)"

definition import_graph :: "(string \<times> bool \<times> string list) list \<Rightarrow> (string, string list) dict" where
  "import_graph modules = map (\<lambda>(name, _, targets). (name, targets)) modules"

definition flagged_modules :: "(string \<times> bool \<times> string list) list \<Rightarrow> string list" where
  "flagged_modules modules = map fst (filter (\<lambda>(_, bad, _). bad) modules)"

definition scan_import_graph :: "scan_platform \<Rightarrow> source_file list \<Rightarrow> py_exn + scan_finding list" where
  "scan_import_graph P tree =
     bind_res (scan_modules P tree) (\<lambda>modules.
       let graph = import_graph modules
       in Inr (concat (map (root_findings P (module_paths tree) graph (flagged_modules modules)) (graph_roots graph))))"

section \<open>What the scans find\<close>

lemma report_when_Nil [simp]: "report_when c x = [] \<longleftrightarrow> \<not> c"
  by (simp add: report_when_def)

lemma set_report_when [simp]: "set (report_when c x) = (if c then {x} else {})"
  by (cases c) (simp_all add: report_when_def)

lemma finding_at_class [simp]: "fi_class (finding_at P f d r n x) = file_class P f"
  by (simp add: finding_at_def)

lemma finding_at_detail [simp]: "fi_detail (finding_at P f d r n x) = x"
  by (simp add: finding_at_def)

lemma set_numbered: "snd ` set (numbered lines) = set lines"
  unfolding numbered_def set_map [symmetric] by (simp add: map_snd_zip del: upt_Suc)

lemma text_findings_Nil:
  "text_findings P f = [] \<longleftrightarrow> (\<forall>line \<in> set (split_lines (sf_text f)). \<forall>w \<in> set forbidden_symbols. \<not> symbol_hit f line w)"
proof -
  have "text_findings P f = [] \<longleftrightarrow> (\<forall>line \<in> snd ` set (numbered (split_lines (sf_text f))). filter (symbol_hit f line) forbidden_symbols = [])"
    by (auto simp: text_findings_def)
  then show ?thesis unfolding set_numbered filter_empty_conv .
qed

lemma text_findings_class: "x \<in> set (text_findings P f) \<Longrightarrow> fi_class x = file_class P f"
  by (auto simp: text_findings_def)

lemma forbidden_calls_at:
  "x \<in> set (forbidden_calls P f cs node) \<Longrightarrow> fi_class x = file_class P f \<and> fi_detail x \<in> set forbidden_symbols"
  by (cases node) (auto simp: forbidden_def split: if_splits option.splits)

lemma dynamic_imports_class: "x \<in> set (dynamic_imports P f cs node) \<Longrightarrow> fi_class x = file_class P f"
  by (cases node) (auto split: if_splits)

lemma ast_findings_class: "x \<in> set (ast_findings P f t) \<Longrightarrow> fi_class x = file_class P f"
  by (auto simp: ast_findings_def dest: forbidden_calls_at dynamic_imports_class)

lemma constant_findings_class: "x \<in> set (constant_findings P f t) \<Longrightarrow> fi_class x = file_class P f"
proof -
  have "x \<in> set (constant_value P f cs node) \<Longrightarrow> fi_class x = file_class P f" for cs node
    by (cases node) (auto split: if_splits)
  moreover have "x \<in> set (constant_calls P f cs node) \<Longrightarrow> fi_class x = file_class P f" for cs node
    by (cases node) (auto split: if_splits)
  ultimately show "x \<in> set (constant_findings P f t) \<Longrightarrow> fi_class x = file_class P f"
    by (auto simp: constant_findings_def Let_def)
qed

text \<open>A call that no check of \<open>scan_ast\<close> reports.\<close>

definition harmless_call :: "(string, string) dict \<Rightarrow> py_ast \<Rightarrow> py_ast list \<Rightarrow> bool" where
  "harmless_call cs func args \<longleftrightarrow>
     \<not> forbidden (called_name func) \<and> \<not> forbidden (called_attr func) \<and> \<not> forbidden (getattr_name cs func args) \<and>
     importlib_name cs func args = None \<and> builtin_import_name cs func args = None"

lemma ast_findings_Nil:
  "ast_findings P f t = [] \<longleftrightarrow>
     (\<forall>line func args ks. node_in (Call line func args ks) t \<longrightarrow> harmless_call (module_constants t) func args)"
proof -
  have "forbidden_calls P f cs node @ dynamic_imports P f cs node = [] \<longleftrightarrow>
      (\<forall>line func args ks. node = Call line func args ks \<longrightarrow> harmless_call cs func args)" for cs node
    by (cases node) (auto simp: harmless_call_def)
  note at = this
  have "ast_findings P f t = [] \<longleftrightarrow> (\<forall>node. node_in node t \<longrightarrow>
      forbidden_calls P f (module_constants t) node @ dynamic_imports P f (module_constants t) node = [])"
    by (auto simp: ast_findings_def walk_nodes)
  then show ?thesis unfolding at by blast
qed

lemma parsed_scan_Inr:
  assumes "bind_res (map_res (\<lambda>f. bind_res (parse_file P f) (\<lambda>t. Inr (g f t))) fs) (\<lambda>xss. Inr (concat xss)) = Inr xs"
  shows "\<forall>f \<in> set fs. \<exists>t. parse_file P f = Inr t \<and> set (g f t) \<subseteq> set xs"
    and "\<forall>x \<in> set xs. \<exists>f \<in> set fs. \<exists>t. parse_file P f = Inr t \<and> x \<in> set (g f t)"
proof -
  from assms obtain xss where all: "list_all2 (\<lambda>f ys. bind_res (parse_file P f) (\<lambda>t. Inr (g f t)) = Inr ys) fs xss"
    and xs: "xs = concat xss" by (auto simp: bind_res_Inr map_res_Inr)
  have "\<forall>f \<in> set fs. \<exists>t. parse_file P f = Inr t \<and> g f t \<in> set xss"
    using all by (induction rule: list_all2_induct) (auto simp: bind_res_Inr)
  then show "\<forall>f \<in> set fs. \<exists>t. parse_file P f = Inr t \<and> set (g f t) \<subseteq> set xs" unfolding xs by fastforce
  have "\<forall>ys \<in> set xss. \<exists>f \<in> set fs. \<exists>t. parse_file P f = Inr t \<and> ys = g f t"
    using all by (induction rule: list_all2_induct) (auto simp: bind_res_Inr)
  then show "\<forall>x \<in> set xs. \<exists>f \<in> set fs. \<exists>t. parse_file P f = Inr t \<and> x \<in> set (g f t)" unfolding xs by fastforce
qed

text \<open>A module is flagged exactly when one of its calls names a forbidden symbol.\<close>

lemma scan_ast_for_file_flags:
  "list_ex (\<lambda>x. fi_detail x \<in> set forbidden_symbols) (scan_ast_for_file P f t) \<longleftrightarrow>
     (\<exists>line func args ks. node_in (Call line func args ks) t \<and>
        (forbidden (called_name func) \<or> forbidden (called_attr func) \<or> forbidden (getattr_name (module_constants t) func args)))"
proof -
  have "list_ex (\<lambda>x. fi_detail x \<in> set forbidden_symbols) (scan_ast_for_file P f t) \<longleftrightarrow> scan_ast_for_file P f t \<noteq> []"
  proof -
    have "\<forall>x \<in> set (scan_ast_for_file P f t). fi_detail x \<in> set forbidden_symbols"
      by (auto simp: scan_ast_for_file_def dest: forbidden_calls_at)
    then show ?thesis by (cases "scan_ast_for_file P f t") auto
  qed
  moreover have "forbidden_calls P f cs node \<noteq> [] \<longleftrightarrow>
      (\<exists>line func args ks. node = Call line func args ks \<and>
        (forbidden (called_name func) \<or> forbidden (called_attr func) \<or> forbidden (getattr_name cs func args)))" for cs node
    by (cases node) auto
  ultimately show ?thesis by (auto simp: scan_ast_for_file_def walk_nodes)
qed

section \<open>The import graph\<close>

lemma set_graph_keys: "scan_modules P tree = Inr modules \<Longrightarrow> map fst modules = dict_keys (module_paths tree)"
proof -
  assume "scan_modules P tree = Inr modules"
  then have "list_all2 (\<lambda>kf m. scan_module P (module_paths tree) kf = Inr m) (module_paths tree) modules"
    by (simp add: scan_modules_def map_res_Inr)
  then show ?thesis by (induction rule: list_all2_induct) (auto simp: scan_module_def bind_res_Inr)
qed

lemma root_findings_iff:
  "x \<in> set (root_findings P known graph flagged r) \<longleftrightarrow>
     (\<exists>m. m \<in> set flagged \<and> m \<noteq> r \<and> graph_path graph r m \<and>
        x = finding_at P (the (dict_get known m)) ''import_graph'' ''reachable_dependency'' 1 (''reachable from '' @ r))"
  unfolding root_findings_def set_map set_filter explore_reachable by blast

lemma import_graph_findings:
  assumes "scan_modules P tree = Inr modules" and "scan_import_graph P tree = Inr found"
  shows "set found = (\<Union>r \<in> set (graph_roots (import_graph modules)).
    set (root_findings P (module_paths tree) (import_graph modules) (flagged_modules modules) r))"
  using assms by (auto simp: scan_import_graph_def Let_def)

text \<open>C18: The import scan reports a module exactly when it makes a forbidden call and is reached, over one import or more,
  from another module that nothing imports and whose name does not contain \<open>tests.\<close>.\<close>

theorem import_findings_reachable:
  assumes "scan_modules P tree = Inr modules" and "scan_import_graph P tree = Inr found"
  shows "x \<in> set found \<longleftrightarrow>
    (\<exists>r m. r \<in> set (graph_roots (import_graph modules)) \<and> m \<in> set (flagged_modules modules) \<and> m \<noteq> r \<and>
       graph_path (import_graph modules) r m \<and>
       x = finding_at P (the (dict_get (module_paths tree) m)) ''import_graph'' ''reachable_dependency'' 1 (''reachable from '' @ r))"
  unfolding import_graph_findings [OF assms] UN_iff root_findings_iff by blast

text \<open>Where no import names a scanned module, and so in a project whose packages lie below a source directory, the scan
  reports nothing.\<close>

lemma import_scan_blind:
  assumes modules: "scan_modules P tree = Inr modules" and found: "scan_import_graph P tree = Inr found"
    and none: "\<And>name bad targets. (name, bad, targets) \<in> set modules \<Longrightarrow> targets = []"
  shows "found = []"
proof -
  have "successors (import_graph modules) n = []" for n
    using none by (auto simp: successors_def dict_get_or_def import_graph_def dest!: map_of_SomeD split: option.splits)
  note leaf = this
  have "graph_path (import_graph modules) r m \<Longrightarrow> m = r" for r m
    by (induction rule: graph_path.induct) (simp_all add: leaf)
  then have "x \<notin> set found" for x unfolding import_graph_findings [OF modules found] UN_iff root_findings_iff by blast
  then show ?thesis by (cases found) auto
qed

text \<open>The level of a relative import is not read: \<open>from .broker import x\<close> counts as \<open>import broker\<close>.\<close>

lemma import_level_ignored: "imported_modules known (ImportFrom m l) = imported_modules known (ImportFrom m 0)"
  by (cases m) simp_all

end
