(* ===== verification/SecurityScan.thy ===== *)
theory SecurityScan
  imports Scanning
begin

text \<open>
  The rest of \<open>scanning.py\<close>: the secret patterns over the working tree, what is staged and the history, the tracked
  runtime state, and the report of \<open>perform_security_scan\<close> with what a passing report means.
\<close>

section \<open>Secrets\<close>

record secret_finding =
  se_scope :: string
  se_file :: string
  se_line :: nat
  se_type :: string
  se_print :: string
  se_commit :: "string option"

definition is_key_char :: "char \<Rightarrow> bool" where
  "is_key_char c = (is_alnum c \<or> c = CHR ''_'' \<or> c = CHR ''-'')"

definition is_token_char :: "char \<Rightarrow> bool" where
  "is_token_char c = (is_key_char c \<or> c = CHR ''.'')"

definition is_header_char :: "char \<Rightarrow> bool" where
  "is_header_char c = (let n = (of_char c :: nat) in n = 32 \<or> (65 \<le> n \<and> n \<le> 90))"

definition secret_patterns :: "(string \<times> rx) list" where
  "secret_patterns =
     [(''openai_key'',
       Alt (Seq (Lit ''sk-proj-'') (Rep is_key_char 10 None)) (Seq (Lit ''sk-'') (Rep is_alnum 20 None))),
      (''anthropic_key'', Seq (Lit ''sk-ant-'') (Rep is_key_char 20 None)),
      (''telegram_bot_token'',
       Seq WordBoundary (Seq (Rep is_digit 8 (Some 10)) (Seq (Lit '':'') (Seq (Rep is_key_char 20 None) WordBoundary)))),
      (''github_pat'',
       Seq WordBoundary (Seq (Lit ''gh'') (Seq (Rep (\<lambda>c. c \<in> set ''pousr'') 1 (Some 1))
         (Seq (Lit ''_'') (Seq (Rep is_alnum 20 None) WordBoundary))))),
      (''jwt_like'',
       Seq WordBoundary (Seq (Lit ''eyJ'') (Seq (Rep is_key_char 1 None) (Seq (Lit ''.'') (Seq (Rep is_token_char 1 None)
         (Seq (Lit ''.'') (Seq (Rep is_token_char 1 None) WordBoundary))))))),
      (''private_key'',
       Seq (Lit ''-----BEGIN '') (Seq (Rep is_header_char 0 None) (Lit ''PRIVATE KEY-----'')))]"

definition secret_print :: "py_env \<Rightarrow> string \<Rightarrow> string" where
  "secret_print E value = take 12 (sha256_hex E value)"

definition line_secrets :: "py_env \<Rightarrow> string \<Rightarrow> string \<Rightarrow> string option \<Rightarrow> nat \<Rightarrow> string \<Rightarrow> secret_finding list" where
  "line_secrets E scope path commit n line =
     concat (map (\<lambda>(secret_type, pat).
         case rx_search pat line of
           None \<Rightarrow> []
         | Some found \<Rightarrow>
             [\<lparr>se_scope = scope, se_file = path, se_line = n, se_type = secret_type,
               se_print = secret_print E found, se_commit = commit\<rparr>])
       secret_patterns)"

text \<open>A path that is no file is passed over; a test file is not read.\<close>

definition file_secrets :: "py_env \<Rightarrow> scan_platform \<Rightarrow> string \<Rightarrow> source_file option \<Rightarrow> secret_finding list" where
  "file_secrets E P scope f =
     (case f of
        None \<Rightarrow> []
      | Some f \<Rightarrow>
          if file_class P f = ''TEST_ONLY'' then []
          else concat (map (\<lambda>(n, line). line_secrets E scope (sp_str P (sf_parts f)) None n line) (numbered (split_lines (sf_text f)))))"

definition scan_paths_for_secrets :: "py_env \<Rightarrow> scan_platform \<Rightarrow> source_file option list \<Rightarrow> string \<Rightarrow> secret_finding list" where
  "scan_paths_for_secrets E P fs scope = concat (map (file_secrets E P scope) fs)"

subsection \<open>History\<close>

record log_state =
  lo_commit :: "string option"
  lo_file :: string
  lo_line :: nat

definition hunk_start :: "string \<Rightarrow> nat" where
  "hunk_start line =
     (case rx_search (Seq (Lit ''+'') (Rep is_digit 1 None)) line of None \<Rightarrow> 0 | Some found \<Rightarrow> digits_nat (tl found))"

text \<open>One line of \<open>git log -p\<close>: the new position and what is found. The tests are the code's, in its order.\<close>

definition log_line_step :: "py_env \<Rightarrow> scan_platform \<Rightarrow> string \<Rightarrow> log_state \<Rightarrow> log_state \<times> secret_finding list" where
  "log_line_step E P line s =
     (if starts_with ''COMMIT:'' line
      then (\<lparr>lo_commit = Some (drop 7 line), lo_file = ''<unknown>'', lo_line = 0\<rparr>, [])
      else if starts_with ''+++ b/'' line then (s\<lparr>lo_file := drop 6 line\<rparr>, [])
      else if starts_with ''@@'' line then (s\<lparr>lo_line := hunk_start line\<rparr>, [])
      else if starts_with ''+'' line \<or> starts_with ''-'' line
      then (s\<lparr>lo_line := Suc (lo_line s)\<rparr>,
        if classify_path (sp_root P @ str_split CHR ''/'' (lo_file s)) = ''TEST_ONLY'' then []
        else line_secrets E ''history'' (lo_file s) (lo_commit s) (lo_line s) (tl line))
      else (s, []))"

fun log_secrets :: "py_env \<Rightarrow> scan_platform \<Rightarrow> string list \<Rightarrow> log_state \<Rightarrow> secret_finding list" where
  "log_secrets E P [] s = []"
| "log_secrets E P (line # ls) s =
     (let (s', found) = log_line_step E P line s in found @ log_secrets E P ls s')"

definition log_start :: log_state where
  "log_start = \<lparr>lo_commit = None, lo_file = ''<unknown>'', lo_line = 0\<rparr>"

definition scan_git_history :: "py_env \<Rightarrow> scan_platform \<Rightarrow> py_exn + secret_finding list" where
  "scan_git_history E P =
     bind_res (sp_git P [''log'', ''--all'', ''-p'', ''--no-color'', ''--format=COMMIT:%H''])
       (\<lambda>out. Inr (log_secrets E P (split_lines out) log_start))"

subsection \<open>What is staged and what is tracked\<close>

definition file_at :: "source_file list \<Rightarrow> string \<Rightarrow> source_file option" where
  "file_at tree path = List.find (\<lambda>f. sf_parts f = str_split CHR ''/'' path) tree"

definition staged_paths :: "scan_platform \<Rightarrow> py_exn + string list" where
  "staged_paths P =
     bind_res (sp_git P [''diff'', ''--cached'', ''--name-only''])
       (\<lambda>out. Inr (map str_strip (filter (\<lambda>l. str_strip l \<noteq> []) (split_lines out))))"

definition windows_path :: "string \<Rightarrow> string" where
  "windows_path p = map (\<lambda>c. if c = CHR ''/'' then backslash else c) p"

definition tracked_forbidden :: "string \<Rightarrow> bool" where
  "tracked_forbidden p =
     list_ex (\<lambda>q. p = q \<or> starts_with (q @ [backslash]) p) forbidden_tracked_paths"

definition tracked_runtime_state_violations :: "scan_platform \<Rightarrow> py_exn + string list" where
  "tracked_runtime_state_violations P =
     bind_res (sp_git P [''ls-files''])
       (\<lambda>out. Inr (sort (filter tracked_forbidden (map windows_path (split_lines out)))))"

section \<open>The report\<close>

record scan_report =
  sr_text :: "scan_finding list"
  sr_ast :: "scan_finding list"
  sr_constants :: "scan_finding list"
  sr_graph :: "scan_finding list"
  sr_working :: "secret_finding list"
  sr_staged :: "secret_finding list"
  sr_history :: "secret_finding list"
  sr_tracked :: "string list"

definition active_source_violations :: "scan_report \<Rightarrow> scan_finding list" where
  "active_source_violations r =
     filter (\<lambda>x. fi_class x = ''ACTIVE_SOURCE'') (sr_text r @ sr_ast r @ sr_constants r @ sr_graph r)"

definition scan_pass :: "scan_report \<Rightarrow> bool" where
  "scan_pass r =
     (active_source_violations r = [] \<and> sr_working r = [] \<and> sr_staged r = [] \<and> sr_history r = [] \<and> sr_tracked r = [])"

definition perform_security_scan :: "py_env \<Rightarrow> scan_platform \<Rightarrow> source_file list \<Rightarrow> bool \<Rightarrow> py_exn + scan_report" where
  "perform_security_scan E P tree include_history =
     bind_res (scan_ast P tree) (\<lambda>in_ast.
     bind_res (scan_resolved_constants P tree) (\<lambda>in_constants.
     bind_res (scan_import_graph P tree) (\<lambda>in_graph.
     bind_res (staged_paths P) (\<lambda>staged.
     bind_res (if include_history then scan_git_history E P else Inr []) (\<lambda>history.
     bind_res (tracked_runtime_state_violations P) (\<lambda>tracked.
       Inr \<lparr>sr_text = scan_source_text P tree, sr_ast = in_ast, sr_constants = in_constants, sr_graph = in_graph,
            sr_working = scan_paths_for_secrets E P (map Some (iter_files tree)) ''working_tree'',
            sr_staged = scan_paths_for_secrets E P (map (file_at tree) staged) ''staged'',
            sr_history = history, sr_tracked = tracked\<rparr>))))))"

definition finding_json :: "scan_finding \<Rightarrow> json" where
  "finding_json x =
     JObj [(''detector'', JStr (fi_detector x)), (''rule'', JStr (fi_rule x)), (''file'', JStr (fi_file x)),
       (''line'', JInt (int (fi_line x))), (''classification'', JStr (fi_class x)), (''detail'', JStr (fi_detail x))]"

definition secret_json :: "secret_finding \<Rightarrow> json" where
  "secret_json x =
     JObj [(''scope'', JStr (se_scope x)), (''file'', JStr (se_file x)), (''line'', JInt (int (se_line x))),
       (''secret_type'', JStr (se_type x)), (''redacted_fingerprint'', JStr (se_print x)),
       (''commit'', case se_commit x of None \<Rightarrow> JNull | Some c \<Rightarrow> JStr c)]"

definition scan_report_json :: "scan_report \<Rightarrow> json" where
  "scan_report_json r =
     JObj [(''version'', JStr package_version), (''phase'', JStr phase),
       (''summary'', JObj [(''pass'', JBool (scan_pass r)),
          (''active_source_violations'', JInt (int (length (active_source_violations r)))),
          (''documentation_hits'', JInt (int (length (filter (\<lambda>x. fi_class x = ''DOCUMENTATION'') (sr_text r))))),
          (''test_hits'', JInt (int (length (filter (\<lambda>x. fi_class x = ''TEST_ONLY'') (sr_text r)))))]),
       (''source_text'', JList (map finding_json (sr_text r))),
       (''ast'', JList (map finding_json (sr_ast r))),
       (''resolved_constants'', JList (map finding_json (sr_constants r))),
       (''import_graph'', JList (map finding_json (sr_graph r))),
       (''secrets'', JObj [(''working_tree'', JList (map secret_json (sr_working r))),
          (''staged'', JList (map secret_json (sr_staged r))), (''history'', JList (map secret_json (sr_history r)))]),
       (''runtime_state_tracking'', JObj [(''tracked_forbidden_paths'', JList (map JStr (sr_tracked r)))])]"

section \<open>What a passing report means\<close>

lemma perform_scan_Inr:
  assumes "perform_security_scan E P tree h = Inr r"
  shows "sr_text r = scan_source_text P tree" and "scan_ast P tree = Inr (sr_ast r)"
    and "scan_resolved_constants P tree = Inr (sr_constants r)" and "scan_import_graph P tree = Inr (sr_graph r)"
    and "sr_working r = scan_paths_for_secrets E P (map Some (iter_files tree)) ''working_tree''"
    and "h \<Longrightarrow> scan_git_history E P = Inr (sr_history r)"
    and "tracked_runtime_state_violations P = Inr (sr_tracked r)"
  using assms by (auto simp: perform_security_scan_def bind_res_Inr)

lemma line_secrets_Nil: "line_secrets E scope path commit n line = [] \<longleftrightarrow> (\<forall>(s, rx) \<in> set secret_patterns. rx_search rx line = None)"
  by (auto simp: line_secrets_def split: option.splits)

lemma file_secrets_Nil:
  "file_secrets E P scope (Some f) = [] \<longleftrightarrow>
     file_class P f = ''TEST_ONLY'' \<or>
     (\<forall>line \<in> set (split_lines (sf_text f)). \<forall>(s, rx) \<in> set secret_patterns. rx_search rx line = None)"
proof -
  have "(\<forall>(n, line) \<in> set (numbered (split_lines (sf_text f))). line_secrets E scope (sp_str P (sf_parts f)) None n line = []) \<longleftrightarrow>
      (\<forall>line \<in> snd ` set (numbered (split_lines (sf_text f))). \<forall>(s, rx) \<in> set secret_patterns. rx_search rx line = None)"
    unfolding line_secrets_Nil by fastforce
  moreover have "file_secrets E P scope (Some f) = [] \<longleftrightarrow> file_class P f = ''TEST_ONLY'' \<or>
      (\<forall>(n, line) \<in> set (numbered (split_lines (sf_text f))). line_secrets E scope (sp_str P (sf_parts f)) None n line = [])"
    by (auto simp: file_secrets_def)
  ultimately show ?thesis unfolding set_numbered by simp
qed

definition text_clean :: "source_file \<Rightarrow> bool" where
  "text_clean f \<longleftrightarrow>
     (\<forall>line \<in> set (split_lines (sf_text f)). \<forall>w \<in> set forbidden_symbols. stands_alone w line \<longrightarrow>
        path_name (sf_parts f) = ''constants.py'' \<and> CHR 0x22 \<in> set line)"

definition calls_clean :: "scan_platform \<Rightarrow> source_file \<Rightarrow> bool" where
  "calls_clean P f \<longleftrightarrow>
     (\<exists>t. parse_file P f = Inr t \<and>
        (\<forall>n func args ks. node_in (Call n func args ks) t \<longrightarrow> harmless_call (module_constants t) func args))"

definition secret_free :: "source_file \<Rightarrow> bool" where
  "secret_free f \<longleftrightarrow>
     (\<forall>line \<in> set (split_lines (sf_text f)). \<forall>(s, rx) \<in> set secret_patterns. rx_search rx line = None)"


text \<open>The text of a line that holds an Anthropic key: the pattern finds it wherever it stands.\<close>

lemma anthropic_key_found:
  assumes "line = a @ ''sk-ant-'' @ k @ b" and "20 \<le> length k" and "list_all is_key_char k"
  shows "line_secrets E scope path commit n line \<noteq> []"
proof -
  have "rx_search (Seq (Lit ''sk-ant-'') (Rep is_key_char 20 None)) line \<noteq> None" using assms by (rule search_prefixed)
  then show ?thesis unfolding line_secrets_Nil by (auto simp: secret_patterns_def)
qed

section \<open>What the scan does not see\<close>

text \<open>The class of a file is that of its absolute path.\<close>

lemma class_below_docs:
  assumes "\<exists>p \<in> set (sp_root P). str_lower p \<in> {''docs'', ''artifacts'', ''tests''}"
  shows "file_class P f \<noteq> ''ACTIVE_SOURCE''"
  using assms by (auto simp: file_class_def classify_path_def Let_def image_iff) (metis (full_types))

text \<open>In a checkout below a directory named \<open>docs\<close>, \<open>artifacts\<close> or \<open>tests\<close> no file counts as source: whatever the
  code does, the scan has no violation.\<close>

theorem scan_blind_below_docs:
  assumes scan: "perform_security_scan E P tree h = Inr r"
    and root: "\<exists>p \<in> set (sp_root P). str_lower p \<in> {''docs'', ''artifacts'', ''tests''}"
  shows "active_source_violations r = []"
proof -
  note parts = perform_scan_Inr [OF scan]
  have "fi_class x \<noteq> ''ACTIVE_SOURCE''" if "x \<in> set (sr_text r)" for x
    using that class_below_docs [OF root] by (auto simp: parts(1) scan_source_text_def dest: text_findings_class)
  moreover have "fi_class x \<noteq> ''ACTIVE_SOURCE''" if "x \<in> set (sr_ast r)" for x
    using that class_below_docs [OF root] parsed_scan_Inr(2) [OF parts(2) [unfolded scan_ast_def]]
    by (metis ast_findings_class)
  moreover have "fi_class x \<noteq> ''ACTIVE_SOURCE''" if "x \<in> set (sr_constants r)" for x
    using that class_below_docs [OF root] parsed_scan_Inr(2) [OF parts(3) [unfolded scan_resolved_constants_def]]
    by (metis constant_findings_class)
  moreover have "fi_class x \<noteq> ''ACTIVE_SOURCE''" if "x \<in> set (sr_graph r)" for x
  proof -
    obtain modules where "scan_modules P tree = Inr modules" using parts(4) by (auto simp: scan_import_graph_def bind_res_Inr)
    from that [unfolded import_graph_findings [OF this parts(4)]] show ?thesis
      using class_below_docs [OF root] by (auto simp: root_findings_iff)
  qed
  ultimately show ?thesis by (auto simp: active_source_violations_def filter_empty_conv)
qed

text \<open>A deleted file is announced by \<open>+++ /dev/null\<close>, which does not change the current file of the history scan: what
  was deleted after a test file in the same commit is taken for a part of it and skipped.\<close>

lemma history_deletion_skipped:
  assumes "classify_path (sp_root P @ str_split CHR ''/'' (lo_file s)) = ''TEST_ONLY''"
    and "\<forall>l \<in> set ls. \<not> starts_with ''COMMIT:'' l \<and> \<not> starts_with ''+++ b/'' l"
  shows "log_secrets E P ls s = []"
  using assms by (induction ls arbitrary: s) (auto simp: log_line_step_def)

text \<open>A context line does not move the line counter, so what is reported behind one has too small a number.\<close>

lemma history_context_uncounted: "log_line_step E P (CHR '' '' # l) s = (s, [])"
  by (simp add: log_line_step_def)

text \<open>The pattern for the virtual environment starts with a backslash, which no path that \<open>git\<close> lists does.\<close>

lemma tracked_venv_allowed: "\<not> tracked_forbidden (windows_path (''.venv/'' @ p))"
  by (simp add: tracked_forbidden_def forbidden_tracked_paths_def windows_path_def)

section \<open>A run\<close>

definition plain_platform :: scan_platform where
  "plain_platform =
     \<lparr>sp_root = [''/'', ''srv'', ''advisor''], sp_str = (\<lambda>parts. ''/srv/advisor/'' @ str_join ''/'' parts),
      sp_parse = (\<lambda>s. Some (Module [Assign 1 [Name ''x''] (Other []), Other [Call 2 (Name ''print'') [Name ''x''] []]])),
      sp_git = (\<lambda>_. Inr [])\<rparr>"

definition plain_project :: "source_file list" where
  "plain_project =
     [\<lparr>sf_parts = [''main.py''], sf_text = ''x = 1'' @ [char_of (10 :: nat)] @ ''print(x)'', sf_utf8 = True\<rparr>,
      \<lparr>sf_parts = [''logs'', ''old.py''], sf_text = ''order_send()'', sf_utf8 = True\<rparr>]"

definition plain_env :: py_env where
  "plain_env = \<lparr>sha256_hex = (\<lambda>s. s), float_repr = (\<lambda>_. []), round_sum = (\<lambda>_. NaN), iso_text = (\<lambda>_. []), iso_parse = (\<lambda>_. None)\<rparr>"

lemma plain_scan_passes:
  "case perform_security_scan plain_env plain_platform plain_project True of Inl e \<Rightarrow> False | Inr r \<Rightarrow> scan_pass r"
  by code_simp

lemma plain_file_facts:
  "hd plain_project \<in> set (iter_files plain_project)" "file_class plain_platform (hd plain_project) = ''ACTIVE_SOURCE''"
  "is_source (hd plain_project)" "is_python (hd plain_project)"
  by code_simp+


text \<open>A module that calls a broker, behind one that imports it.\<close>

definition broker_platform :: scan_platform where
  "broker_platform = plain_platform
     \<lparr>sp_parse := (\<lambda>s. Some (if s = ''import broker'' then Module [Import [''broker'']]
                           else Module [Other [Call 1 (Name ''order_send'') [] []]]))\<rparr>"

definition broker_project :: "source_file list" where
  "broker_project =
     [\<lparr>sf_parts = [''main.py''], sf_text = ''import broker'', sf_utf8 = True\<rparr>,
      \<lparr>sf_parts = [''broker.py''], sf_text = ''order_send()'', sf_utf8 = True\<rparr>]"

lemma broker_scanned:
  "scan_modules broker_platform broker_project = Inr [(''main'', False, [''broker'']), (''broker'', True, [])]"
  by code_simp

lemma broker_reported:
  "case scan_import_graph broker_platform broker_project of Inl e \<Rightarrow> False | Inr found \<Rightarrow> found \<noteq> []"
  by code_simp

lemma import_findings_reachable_witness:
  "\<exists>r m. r \<in> set (graph_roots [(''main'', [''broker'']), (''broker'', [])]) \<and> m \<noteq> r \<and>
     m \<in> set (flagged_modules [(''main'', False, [''broker'']), (''broker'', True, [])]) \<and>
     graph_path [(''main'', [''broker'']), (''broker'', [])] r m"
proof -
  obtain found where found: "scan_import_graph broker_platform broker_project = Inr found" "found \<noteq> []"
    using broker_reported by (auto split: sum.splits)
  then have "hd found \<in> set found" by simp
  then show ?thesis unfolding import_findings_reachable [OF broker_scanned found(1)] by (auto simp: import_graph_def)
qed

end
