(* ===== verification/Fred.thy ===== *)
theory Fred
  imports MarketData Watchdog
begin

text \<open>
  \<open>market_data/fred_adapter.py\<close>: the adapter of the FRED web service with its cache, its circuit breaker, the bounded
  retries of one request and the result that every failure becomes. The two clocks, \<open>urlopen\<close>, \<open>time.sleep\<close> and
  \<open>strptime\<close> are operations on a world that may answer anything; times are in microseconds.
\<close>

section \<open>The series\<close>

definition fred_series :: "(string, (string, json) dict) dict" where
  "fred_series =
     [(''US10Y'',
       [(''series_id'', JStr ''DGS10''), (''internal_id'', JStr ''US10Y_DAILY''), (''realtime_class'', JStr ''DAILY_MACRO''),
        (''unit'', JStr ''Percent''), (''is_proxy'', JBool False), (''is_exact_dxy'', JBool False)]),
      (''USD_BROAD'',
       [(''series_id'', JStr ''DTWEXBGS''), (''internal_id'', JStr ''DXY_PROXY_FRED''), (''realtime_class'', JStr ''DAILY_MACRO''),
        (''unit'', JStr ''Index''), (''is_proxy'', JBool True), (''is_exact_dxy'', JBool False),
        (''usage'', JStr ''macro_usd_strength_context'')])]"

definition class_daily_macro :: string where
  "class_daily_macro = ''DAILY_MACRO''"

definition class_unknown :: string where
  "class_unknown = ''UNKNOWN''"

record fred_observation =
  fo_series_id :: string
  fo_internal_id :: string
  fo_date :: string
  fo_value :: pyfloat
  fo_class :: string
  fo_proxy :: bool
  fo_exact :: bool
  fo_source :: string
  fo_stale :: bool
  fo_retrieved :: string

record fred_result =
  fr_internal_id :: string
  fr_series_id :: string
  fr_class :: string
  fr_proxy :: bool
  fr_exact :: bool
  fr_latest :: "fred_observation option"
  fr_status :: string
  fr_error :: "string option"
  fr_retrieved :: string

section \<open>The world\<close>

text \<open>What comes of a request: the parsed body of a response, an \<open>HTTPError\<close> with its code, another \<open>URLError\<close>, or any
  other exception (a time-out while reading, bytes that are not UTF-8, a body that is not JSON).\<close>

datatype http_answer =
    Body json
  | HttpError int
  | UrlError
  | Broken py_exn

record 'w fred_io =
  io_open :: "string \<Rightarrow> int \<Rightarrow> 'w \<Rightarrow> http_answer \<times> 'w"
  io_sleep :: "nat \<Rightarrow> 'w \<Rightarrow> 'w"
  io_monotonic :: "'w \<Rightarrow> int"
  io_now :: "'w \<Rightarrow> int"
  io_date :: "string \<Rightarrow> py_exn + int"
  io_exn_text :: "py_exn \<Rightarrow> string"

section \<open>The circuit breaker\<close>

record circuit =
  cb_threshold :: int
  cb_reset :: int
  cb_failures :: int
  cb_opened :: "int option"

definition new_circuit :: circuit where
  "new_circuit = \<lparr>cb_threshold = 3, cb_reset = 300, cb_failures = 0, cb_opened = None\<rparr>"

definition circuit_is_open :: "int \<Rightarrow> circuit \<Rightarrow> bool \<times> circuit" where
  "circuit_is_open now c =
     (case cb_opened c of
        None \<Rightarrow> (False, c)
      | Some since \<Rightarrow>
          if now - since > cb_reset c * 1000000 then (False, c\<lparr>cb_failures := 0, cb_opened := None\<rparr>)
          else (True, c))"

definition record_failure :: "int \<Rightarrow> circuit \<Rightarrow> circuit" where
  "record_failure now c =
     (let c1 = c\<lparr>cb_failures := cb_failures c + 1\<rparr>
      in if cb_failures c1 \<ge> cb_threshold c then c1\<lparr>cb_opened := Some now\<rparr> else c1)"

definition record_success :: "circuit \<Rightarrow> circuit" where
  "record_success c = c\<lparr>cb_failures := 0, cb_opened := None\<rparr>"

section \<open>The adapter\<close>

record fred_adapter =
  fa_api_key :: string
  fa_base_url :: string
  fa_timeout :: int
  fa_max_retries :: int
  fa_ttl :: int
  fa_cache :: "(string, int \<times> fred_result) dict"
  fa_circuit :: circuit
  fa_last_known :: "(string, fred_observation) dict"

definition new_fred_adapter :: "string \<Rightarrow> string \<Rightarrow> int \<Rightarrow> int \<Rightarrow> int \<Rightarrow> fred_adapter" where
  "new_fred_adapter api_key base_url timeout max_retries ttl =
     \<lparr>fa_api_key = api_key, fa_base_url = rev (dropWhile (\<lambda>c. c = CHR ''/'') (rev base_url)), fa_timeout = timeout,
      fa_max_retries = max_retries, fa_ttl = ttl, fa_cache = [], fa_circuit = new_circuit, fa_last_known = []\<rparr>"

definition cache_get :: "int \<Rightarrow> string \<Rightarrow> fred_adapter \<Rightarrow> fred_result option" where
  "cache_get now sid a =
     (case dict_get (fa_cache a) sid of
        None \<Rightarrow> None
      | Some (stored_at, result) \<Rightarrow> if now - stored_at > fa_ttl a * 1000000 then None else Some result)"

definition cache_set :: "int \<Rightarrow> string \<Rightarrow> fred_result \<Rightarrow> fred_adapter \<Rightarrow> fred_adapter" where
  "cache_set now sid result a = a\<lparr>fa_cache := dict_set sid (now, result) (fa_cache a)\<rparr>"

datatype fred_exn =
    FredApiError string
  | Unexpected py_exn

definition fred_url :: "fred_adapter \<Rightarrow> string \<Rightarrow> string" where
  "fred_url a sid =
     fa_base_url a @ ''/fred/series/observations'' @ ''?series_id='' @ sid @ ''&api_key='' @ fa_api_key a @
       ''&file_type=json'' @ ''&sort_order=desc'' @ ''&limit=10''"

text \<open>\<open>list(body.get("observations", []))\<close>\<close>

definition observations_of :: "json \<Rightarrow> py_exn + json list" where
  "observations_of body =
     (case body of
        JObj d \<Rightarrow> py_tuple (dict_get_or d ''observations'' (JList []))
      | _ \<Rightarrow> Inl AttributeError)"

text \<open>The attempts: the number of the next one and how many are left.\<close>

fun fetch_attempts ::
  "'w fred_io \<Rightarrow> fred_adapter \<Rightarrow> string \<Rightarrow> nat \<Rightarrow> nat \<Rightarrow> circuit \<Rightarrow> 'w \<Rightarrow> (fred_exn + json list) \<times> circuit \<times> 'w" where
  "fetch_attempts io a sid attempt 0 c w =
     (Inl (FredApiError (''FRED '' @ sid @ '' failed after '' @ int_str (fa_max_retries a) @ '' retries'')),
      record_failure (io_monotonic io w) c, w)"
| "fetch_attempts io a sid attempt (Suc n) c w =
     (case io_open io (fred_url a sid) (fa_timeout a) w of
        (HttpError code, w1) \<Rightarrow>
          if code \<in> {400, 401, 403}
          then (Inl (FredApiError (''FRED API non-retryable HTTP '' @ int_str code @ '': '' @ sid)), record_failure (io_monotonic io w1) c, w1)
          else fetch_attempts io a sid (Suc attempt) n c (io_sleep io (2 ^ attempt) w1)
      | (UrlError, w1) \<Rightarrow> fetch_attempts io a sid (Suc attempt) n c (io_sleep io (2 ^ attempt) w1)
      | (Broken e, w1) \<Rightarrow>
          (Inl (FredApiError (''FRED fetch error for '' @ sid @ '': '' @ io_exn_text io e)), record_failure (io_monotonic io w1) c, w1)
      | (Body body, w1) \<Rightarrow>
          (case observations_of body of
             Inr xs \<Rightarrow> (Inr xs, record_success c, w1)
           | Inl e \<Rightarrow>
               (Inl (FredApiError (''FRED fetch error for '' @ sid @ '': '' @ io_exn_text io e)),
                record_failure (io_monotonic io w1) (record_success c), w1)))"

text \<open>\<open>Request(url)\<close> raises \<open>ValueError\<close> for a URL without a scheme, outside every \<open>try\<close> of the method.\<close>

definition fetch_observations :: "'w fred_io \<Rightarrow> fred_adapter \<Rightarrow> string \<Rightarrow> 'w \<Rightarrow> (fred_exn + json list) \<times> circuit \<times> 'w" where
  "fetch_observations io a sid w =
     (let (open_now, c) = circuit_is_open (io_monotonic io w) (fa_circuit a)
      in if open_now then (Inl (FredApiError (''circuit breaker open for FRED '' @ sid)), c, w)
         else if url_scheme (fred_url a sid) = None
         then (Inl (Unexpected (ValueError (''unknown url type: '' @ str_repr (fred_url a sid)))), c, w)
         else fetch_attempts io a sid 0 (nat (fa_max_retries a)) c w)"

text \<open>\<open>float(raw)\<close>\<close>

definition float_of :: "market_env \<Rightarrow> json \<Rightarrow> py_exn + pyfloat" where
  "float_of K v =
     (case v of
        JStr s \<Rightarrow> mk_float_of_text K s
      | JInt i \<Rightarrow> Inr (Fin (of_int i))
      | JBool b \<Rightarrow> Inr (Fin (if b then 1 else 0))
      | JFloat x \<Rightarrow> Inr x
      | _ \<Rightarrow> Inl TypeError)"

definition meta_text :: "market_env \<Rightarrow> (string, json) dict \<Rightarrow> string \<Rightarrow> string \<Rightarrow> string" where
  "meta_text K meta k other = py_str (mk_platform K) (dict_get_or meta k (JStr other))"

definition meta_flag :: "(string, json) dict \<Rightarrow> string \<Rightarrow> bool" where
  "meta_flag meta k = json_truthy (dict_get_or meta k (JBool False))"

definition observation_at ::
  "market_env \<Rightarrow> 'w fred_io \<Rightarrow> int \<Rightarrow> string \<Rightarrow> (string, json) dict \<Rightarrow> (string, json) dict \<Rightarrow> pyfloat \<Rightarrow> py_exn + fred_observation" where
  "observation_at K io now sid meta obs v =
     (let date = py_str (mk_platform K) (dict_get_or obs ''date'' (JStr []))
      in bind_res (if date \<noteq> [] then io_date io date else Inr now) (\<lambda>day.
           Inr \<lparr>fo_series_id = sid, fo_internal_id = meta_text K meta ''internal_id'' sid, fo_date = date, fo_value = v,
                fo_class = class_daily_macro, fo_proxy = meta_flag meta ''is_proxy'', fo_exact = meta_flag meta ''is_exact_dxy'',
                fo_source = ''FRED'', fo_stale = ((now - day) div 86400000000 > 5), fo_retrieved = iso_text (mk_platform K) now\<rparr>))"

fun parse_latest ::
  "market_env \<Rightarrow> 'w fred_io \<Rightarrow> int \<Rightarrow> string \<Rightarrow> (string, json) dict \<Rightarrow> json list \<Rightarrow> py_exn + fred_observation option" where
  "parse_latest K io now sid meta [] = Inr None"
| "parse_latest K io now sid meta (JObj obs # rest) =
     (let raw = dict_get_or obs ''value'' (JStr ''.'')
      in if raw = JStr ''.'' then parse_latest K io now sid meta rest
         else (case float_of K raw of
                 Inr v \<Rightarrow> bind_res (observation_at K io now sid meta obs v) (\<lambda>x. Inr (Some x))
               | Inl (ValueError _) \<Rightarrow> parse_latest K io now sid meta rest
               | Inl e \<Rightarrow> Inl e))"
| "parse_latest K io now sid meta (_ # rest) = Inl AttributeError"

definition series_result ::
  "market_env \<Rightarrow> int \<Rightarrow> string \<Rightarrow> (string, json) dict \<Rightarrow> fred_observation option \<Rightarrow> string \<Rightarrow> string option \<Rightarrow> fred_result" where
  "series_result K now sid meta latest status error =
     \<lparr>fr_internal_id = meta_text K meta ''internal_id'' [], fr_series_id = sid, fr_class = class_daily_macro,
      fr_proxy = meta_flag meta ''is_proxy'', fr_exact = meta_flag meta ''is_exact_dxy'', fr_latest = latest,
      fr_status = status, fr_error = error, fr_retrieved = iso_text (mk_platform K) now\<rparr>"

definition series_status :: "fred_observation option \<Rightarrow> string" where
  "series_status obs =
     (case obs of None \<Rightarrow> ''SOURCE_UNAVAILABLE'' | Some x \<Rightarrow> if fo_stale x then ''STALE'' else ''VALID'')"

definition fetch_known ::
  "market_env \<Rightarrow> 'w fred_io \<Rightarrow> string \<Rightarrow> (string, json) dict \<Rightarrow> fred_adapter \<Rightarrow> 'w \<Rightarrow> fred_result \<times> fred_adapter \<times> 'w" where
  "fetch_known K io sid meta a w =
     (let now = io_now io w;
          (got, c, w1) = fetch_observations io a sid w;
          a1 = a\<lparr>fa_circuit := c\<rparr>;
          failed = (\<lambda>text. (series_result K now sid meta (dict_get (fa_last_known a) sid) ''SOURCE_UNAVAILABLE'' (Some text), a1, w1))
      in case got of
           Inl (FredApiError text) \<Rightarrow> failed text
         | Inl (Unexpected e) \<Rightarrow> failed (''unexpected error: '' @ io_exn_text io e)
         | Inr observations \<Rightarrow>
             (case parse_latest K io (io_now io w1) sid meta observations of
                Inl e \<Rightarrow> failed (''unexpected error: '' @ io_exn_text io e)
              | Inr obs \<Rightarrow>
                  let a2 = (case obs of None \<Rightarrow> a1 | Some x \<Rightarrow> a1\<lparr>fa_last_known := dict_set sid x (fa_last_known a1)\<rparr>);
                      result = series_result K now sid meta obs (series_status obs) None
                  in (result, cache_set (io_monotonic io w1) sid result a2, w1)))"

definition fetch_series :: "market_env \<Rightarrow> 'w fred_io \<Rightarrow> string \<Rightarrow> fred_adapter \<Rightarrow> 'w \<Rightarrow> fred_result \<times> fred_adapter \<times> 'w" where
  "fetch_series K io key a w =
     (case dict_get fred_series key of
        None \<Rightarrow>
          (\<lparr>fr_internal_id = key, fr_series_id = key, fr_class = class_unknown, fr_proxy = False, fr_exact = False,
            fr_latest = None, fr_status = ''SOURCE_UNAVAILABLE'', fr_error = Some (''unknown FRED series key: '' @ str_repr key),
            fr_retrieved = iso_text (mk_platform K) (io_now io w)\<rparr>, a, w)
      | Some meta \<Rightarrow>
          let sid = meta_text K meta ''series_id'' []
          in if fa_api_key a = []
             then (series_result K (io_now io w) sid meta (dict_get (fa_last_known a) sid) ''SOURCE_UNAVAILABLE''
                     (Some ''FRED_API_KEY not configured''), a, w)
             else (case cache_get (io_monotonic io w) sid a of
                     Some result \<Rightarrow> (result, a, w)
                   | None \<Rightarrow> fetch_known K io sid meta a w))"

fun fetch_keys :: "market_env \<Rightarrow> 'w fred_io \<Rightarrow> string list \<Rightarrow> fred_adapter \<Rightarrow> 'w \<Rightarrow> (string, fred_result) dict \<times> fred_adapter \<times> 'w" where
  "fetch_keys K io [] a w = ([], a, w)"
| "fetch_keys K io (key # keys) a w =
     (let (r, a1, w1) = fetch_series K io key a w; (rs, a2, w2) = fetch_keys K io keys a1 w1
      in ((key, r) # rs, a2, w2))"

definition fetch_all :: "market_env \<Rightarrow> 'w fred_io \<Rightarrow> fred_adapter \<Rightarrow> 'w \<Rightarrow> (string, fred_result) dict \<times> fred_adapter \<times> 'w" where
  "fetch_all K io a w = fetch_keys K io (dict_keys fred_series) a w"

section \<open>Every fetch has a result\<close>

text \<open>A result is fresh, stale or unavailable, with the observation and the error that go with it, all of its own series.\<close>

definition result_honest :: "fred_result \<Rightarrow> bool" where
  "result_honest r \<longleftrightarrow>
     (\<forall>x. fr_latest r = Some x \<longrightarrow> fo_series_id x = fr_series_id r) \<and>
     (case fr_error r of
        None \<Rightarrow> fr_status r = series_status (fr_latest r)
      | Some _ \<Rightarrow> fr_status r = ''SOURCE_UNAVAILABLE'')"

definition fred_inv :: "fred_adapter \<Rightarrow> bool" where
  "fred_inv a \<longleftrightarrow>
     (\<forall>sid t r. dict_get (fa_cache a) sid = Some (t, r) \<longrightarrow> fr_series_id r = sid \<and> fr_error r = None \<and> result_honest r) \<and>
     (\<forall>sid x. dict_get (fa_last_known a) sid = Some x \<longrightarrow> fo_series_id x = sid)"

lemma fred_inv_new: "fred_inv (new_fred_adapter api_key base_url timeout max_retries ttl)"
  by (simp add: fred_inv_def new_fred_adapter_def)

lemma observation_series: "observation_at K io now sid meta obs v = Inr x \<Longrightarrow> fo_series_id x = sid"
  by (auto simp: observation_at_def Let_def bind_res_Inr)

lemma parse_latest_series: "parse_latest K io now sid meta xs = Inr (Some x) \<Longrightarrow> fo_series_id x = sid"
  by (induction K io now sid meta xs rule: parse_latest.induct)
    (auto simp: Let_def bind_res_Inr observation_series split: if_splits sum.splits py_exn.splits)

lemma series_result_simps [simp]:
  "fr_series_id (series_result K now sid meta latest status error) = sid"
  "fr_latest (series_result K now sid meta latest status error) = latest"
  "fr_status (series_result K now sid meta latest status error) = status"
  "fr_error (series_result K now sid meta latest status error) = error"
  by (simp_all add: series_result_def)

lemma fetch_known_honest:
  assumes inv: "fred_inv a" and fetch: "fetch_known K io sid meta a w = (r, a', w')"
  shows "result_honest r \<and> fr_series_id r = sid \<and> fred_inv a'"
proof -
  obtain got c w1 where got: "fetch_observations io a sid w = (got, c, w1)" by (cases "fetch_observations io a sid w")
  have failed: "result_honest (series_result K now sid meta (dict_get (fa_last_known a) sid) ''SOURCE_UNAVAILABLE'' (Some msg))" for now msg
    using inv by (simp add: result_honest_def fred_inv_def)
  have kept: "fred_inv (a\<lparr>fa_circuit := c\<rparr>)" using inv by (simp add: fred_inv_def)
  show ?thesis
  proof (cases got)
    case (Inl e)
    then show ?thesis using fetch got failed kept
      by (auto simp: fetch_known_def Let_def split: fred_exn.splits)
  next
    case (Inr xs)
    show ?thesis
    proof (cases "parse_latest K io (io_now io w1) sid meta xs")
      case (Inl e)
      then show ?thesis using fetch got Inr failed kept by (auto simp: fetch_known_def Let_def)
    next
      case parsed: (Inr obs)
      have obs: "obs = Some x \<Longrightarrow> fo_series_id x = sid" for x using parsed parse_latest_series by auto
      define result where "result = series_result K (io_now io w) sid meta obs (series_status obs) None"
      define a2 where "a2 = (case obs of None \<Rightarrow> a\<lparr>fa_circuit := c\<rparr> | Some x \<Rightarrow> a\<lparr>fa_circuit := c, fa_last_known := dict_set sid x (fa_last_known a)\<rparr>)"
      have r: "r = result" "a' = cache_set (io_monotonic io w1) sid result a2"
        using fetch got Inr parsed by (auto simp: fetch_known_def Let_def result_def a2_def split: option.splits)
      have honest: "result_honest result" "fr_series_id result = sid" "fr_error result = None"
        using obs by (simp_all add: result_honest_def result_def)
      have "fred_inv a2" using kept obs inv by (auto simp: a2_def fred_inv_def split: option.splits)
      then show ?thesis using honest by (auto simp: r fred_inv_def cache_set_def)
    qed
  qed
qed

lemma fetch_series_honest:
  assumes inv: "fred_inv a" and fetch: "fetch_series K io key a w = (r, a', w')"
  shows "result_honest r \<and> fred_inv a'"
proof (cases "dict_get fred_series key")
  case None
  then show ?thesis using fetch inv by (auto simp: fetch_series_def result_honest_def)
next
  case (Some meta)
  let ?sid = "meta_text K meta ''series_id'' []"
  show ?thesis
  proof (cases "fa_api_key a = []")
    case True
    have "fo_series_id x = ?sid" if "dict_get (fa_last_known a) ?sid = Some x" for x using inv that by (simp add: fred_inv_def)
    then show ?thesis using True fetch inv Some by (auto simp: fetch_series_def Let_def result_honest_def)
  next
    case key: False
    show ?thesis
    proof (cases "cache_get (io_monotonic io w) ?sid a")
      case None
      then have "fetch_known K io ?sid meta a w = (r, a', w')" using key fetch Some by (simp add: fetch_series_def Let_def)
      from fetch_known_honest [OF inv this] show ?thesis by simp
    next
      case cached: (Some r0)
      then obtain t where "dict_get (fa_cache a) ?sid = Some (t, r0)"
        by (auto simp: cache_get_def split: option.splits if_splits)
      then have "result_honest r0" using inv by (simp add: fred_inv_def)
      then show ?thesis using cached key fetch inv Some by (simp add: fetch_series_def Let_def)
    qed
  qed
qed

text \<open>However the service, the clocks and the text of dates behave, any sequence of fetches from a new adapter returns
  a result for every key, in order: a result without an error is VALID exactly with a fresh observation, STALE with a stale
  one and SOURCE_UNAVAILABLE with none; one with an error is SOURCE_UNAVAILABLE. The observation, fresh, cached or last
  known, is always one of the series asked for.\<close>

theorem fred_results_honest:
  assumes "fetch_keys K io keys (new_fred_adapter api_key base_url timeout max_retries ttl) w = (rs, a, w')"
  shows "dict_keys rs = keys \<and> list_all (\<lambda>(_, r). result_honest r) rs"
proof -
  have "fred_inv a0 \<Longrightarrow> fetch_keys K io keys a0 w = (rs, a, w') \<Longrightarrow> dict_keys rs = keys \<and> list_all (\<lambda>(_, r). result_honest r) rs"
    for a0 rs w
    by (induction keys arbitrary: a0 rs w) (auto split: prod.splits dest: fetch_series_honest)
  then show ?thesis using assms fred_inv_new by blast
qed

section \<open>How often the service is asked\<close>

text \<open>The same world with a counter of the requests.\<close>

definition counting :: "'w fred_io \<Rightarrow> ('w \<times> nat) fred_io" where
  "counting io =
     \<lparr>io_open = (\<lambda>url t (w, n). let (x, w1) = io_open io url t w in (x, (w1, Suc n))),
      io_sleep = (\<lambda>k (w, n). (io_sleep io k w, n)), io_monotonic = (\<lambda>(w, n). io_monotonic io w),
      io_now = (\<lambda>(w, n). io_now io w), io_date = io_date io, io_exn_text = io_exn_text io\<rparr>"

lemma fetch_attempts_count:
  "fetch_attempts (counting io) a sid k m c (w, n) = (got, c', (w', n')) \<Longrightarrow> n \<le> n' \<and> n' \<le> n + m"
proof (induction m arbitrary: k w n)
  case (Suc m)
  obtain x w1 where x: "io_open io (fred_url a sid) (fa_timeout a) w = (x, w1)" by (cases "io_open io (fred_url a sid) (fa_timeout a) w")
  show ?case
  proof (cases x)
    case (Body b)
    then show ?thesis using Suc.prems x by (auto simp: counting_def split: sum.splits)
  next
    case (Broken e)
    then show ?thesis using Suc.prems x by (auto simp: counting_def)
  next
    case (HttpError code)
    then show ?thesis
      using Suc.prems x Suc.IH [of "Suc k" "io_sleep io (2 ^ k) w1" "Suc n"]
      by (fastforce simp: counting_def split: if_splits)
  next
    case UrlError
    then show ?thesis
      using Suc.prems x Suc.IH [of "Suc k" "io_sleep io (2 ^ k) w1" "Suc n"]
      by (fastforce simp: counting_def)
  qed
qed simp

lemma fetch_observations_count:
  assumes "fetch_observations (counting io) a sid (w, n) = (got, c', (w', n'))"
  shows "n \<le> n' \<and> n' \<le> n + nat (fa_max_retries a)"
    and "fst (circuit_is_open (io_monotonic io w) (fa_circuit a)) \<Longrightarrow> n' = n \<and> (\<exists>text. got = Inl (FredApiError text))"
  using assms fetch_attempts_count [of io a sid 0 "nat (fa_max_retries a)" _ w n got c' w' n']
  by (auto simp: fetch_observations_def counting_def Let_def split: if_splits prod.splits)

text \<open>C37: One fetch asks the service at most \<open>max_retries\<close> times, and not at all for an unknown key, without an API key,
  with a result in the cache, or while the circuit breaker is open; in the last case the result is SOURCE_UNAVAILABLE,
  whichever series made the circuit open.\<close>

theorem fred_requests_bounded:
  assumes "fetch_series K (counting io) key a (w, n) = (r, a', (w', n'))"
  shows "n \<le> n' \<and> n' \<le> n + nat (fa_max_retries a) \<and>
    (n' \<noteq> n \<longrightarrow> fa_api_key a \<noteq> [] \<and> \<not> fst (circuit_is_open (io_monotonic io w) (fa_circuit a)) \<and>
       (\<exists>meta. dict_get fred_series key = Some meta \<and> cache_get (io_monotonic io w) (meta_text K meta ''series_id'' []) a = None))"
proof (cases "dict_get fred_series key")
  case None
  then show ?thesis using assms by (auto simp: fetch_series_def)
next
  case (Some meta)
  let ?sid = "meta_text K meta ''series_id'' []"
  have mono: "io_monotonic (counting io) (w, n) = io_monotonic io w" by (simp add: counting_def)
  show ?thesis
  proof (cases "fa_api_key a = [] \<or> cache_get (io_monotonic io w) ?sid a \<noteq> None")
    case True
    then show ?thesis using assms Some by (auto simp: fetch_series_def Let_def mono split: if_splits)
  next
    case False
    obtain got c w1 n1 where got: "fetch_observations (counting io) a ?sid (w, n) = (got, c, (w1, n1))"
      by (cases "fetch_observations (counting io) a ?sid (w, n)") auto
    have "fetch_known K (counting io) ?sid meta a (w, n) = (r, a', (w', n'))"
      using assms Some False by (simp add: fetch_series_def Let_def mono)
    then have "n' = n1" using got
      by (auto simp: fetch_known_def Let_def split: sum.splits fred_exn.splits)
    then show ?thesis using fetch_observations_count [OF got] Some False by auto
  qed
qed

text \<open>A service whose bodies are JSON but not what is expected never opens the circuit: each success is recorded before
  the body is looked at, so the failures never add up.\<close>

lemma malformed_bodies_never_open:
  assumes "\<And>w. \<exists>body e w1. io_open io (fred_url a sid) (fa_timeout a) w = (Body body, w1) \<and> observations_of body = Inl e"
    and "fa_max_retries a > 0" and "url_scheme (fred_url a sid) \<noteq> None"
    and "cb_threshold (fa_circuit a) > 1" and "\<not> fst (circuit_is_open (io_monotonic io w) (fa_circuit a))"
    and "fetch_observations io a sid w = (got, c, w')"
  shows "cb_opened c = None \<and> cb_failures c = 1"
proof -
  obtain body e w1 where body: "io_open io (fred_url a sid) (fa_timeout a) w = (Body body, w1)" "observations_of body = Inl e"
    using assms(1) by blast
  obtain m where "nat (fa_max_retries a) = Suc m" using assms(2) by (cases "nat (fa_max_retries a)") auto
  then show ?thesis
    using assms(3-6) body
    by (auto simp: fetch_observations_def record_failure_def record_success_def circuit_is_open_def Let_def split: prod.splits option.splits if_splits)
qed

section \<open>A run\<close>

definition dead_io :: "unit fred_io" where
  "dead_io =
     \<lparr>io_open = (\<lambda>url t w. (UrlError, w)), io_sleep = (\<lambda>k w. w), io_monotonic = (\<lambda>w. 0), io_now = (\<lambda>w. 0),
      io_date = (\<lambda>s. Inl (ValueError s)), io_exn_text = (\<lambda>e. ''error'')\<rparr>"

definition plain_adapter :: fred_adapter where
  "plain_adapter = new_fred_adapter ''key'' ''https://api.stlouisfed.org'' 20 3 3600"

lemma fred_results_honest_witness:
  "dict_keys (fst (fetch_keys sample_market dead_io [''US10Y'', ''GOLD''] plain_adapter ())) = [''US10Y'', ''GOLD''] \<and>
   list_all (\<lambda>(_, r). result_honest r) (fst (fetch_keys sample_market dead_io [''US10Y'', ''GOLD''] plain_adapter ()))"
proof -
  obtain rs a where "fetch_keys sample_market dead_io [''US10Y'', ''GOLD''] plain_adapter () = (rs, a, ())"
    by (cases "fetch_keys sample_market dead_io [''US10Y'', ''GOLD''] plain_adapter ()") auto
  then show ?thesis using fred_results_honest unfolding plain_adapter_def by fastforce
qed

lemma fred_requests_bounded_witness:
  "snd (snd (snd (fetch_series sample_market (counting dead_io) ''US10Y'' plain_adapter ((), 0)))) \<le> (3 :: nat)"
proof -
  obtain r a n where run: "fetch_series sample_market (counting dead_io) ''US10Y'' plain_adapter ((), 0) = (r, a, ((), n))"
    by (cases "fetch_series sample_market (counting dead_io) ''US10Y'' plain_adapter ((), 0)") auto
  have "fa_max_retries plain_adapter = 3" by (simp add: plain_adapter_def new_fred_adapter_def)
  then show ?thesis using fred_requests_bounded [OF run] by (simp add: run)
qed

end
