(* ===== verification/Providers.thy ===== *)
theory Providers
  imports EnvAudit
begin

text \<open>
  \<open>providers.py\<close>: the policy report on the language-model providers that the environment file configures. A check gives
  its issues with whether it sets the status to \<open>FAIL\<close>, which some of them do not.
\<close>

section \<open>Tables\<close>

definition supported_providers :: "string list" where
  "supported_providers = [''openai'', ''claude'', ''gemini'', ''deepseek'']"

definition openclaw_provider_ids :: "(string, string) dict" where
  "openclaw_provider_ids = [(''openai'', ''openai''), (''claude'', ''anthropic''), (''gemini'', ''google''), (''deepseek'', ''deepseek'')]"

definition provider_enable_env :: "(string, string) dict" where
  "provider_enable_env =
     [(''openai'', ''OPENAI_ENABLED''), (''claude'', ''CLAUDE_ENABLED''), (''gemini'', ''GEMINI_ENABLED''),
      (''deepseek'', ''DEEPSEEK_ENABLED'')]"

definition provider_api_key_env :: "(string, string list) dict" where
  "provider_api_key_env =
     [(''openai'', [''OPENAI_API_KEY'']), (''claude'', [''ANTHROPIC_API_KEY'']),
      (''gemini'', [''GEMINI_API_KEY'', ''GOOGLE_API_KEY'']), (''deepseek'', [''DEEPSEEK_API_KEY''])]"

definition provider_model_env :: "(string, string) dict" where
  "provider_model_env =
     [(''openai'', ''OPENAI_MODEL''), (''claude'', ''CLAUDE_MODEL''), (''gemini'', ''GEMINI_MODEL''), (''deepseek'', ''DEEPSEEK_MODEL'')]"

definition provider_timeout_env :: "(string, string) dict" where
  "provider_timeout_env =
     [(''openai'', ''OPENAI_TIMEOUT_SECONDS''), (''claude'', ''CLAUDE_TIMEOUT_SECONDS''),
      (''gemini'', ''GEMINI_TIMEOUT_SECONDS''), (''deepseek'', ''DEEPSEEK_TIMEOUT_SECONDS'')]"

definition legacy_provider_env_names :: "string list" where
  "legacy_provider_env_names =
     [''AI_PRIMARY_PROVIDER'', ''AI_PRIMARY_MODEL'', ''AI_FALLBACK_PROVIDER_1'', ''AI_FALLBACK_MODEL_1'',
      ''AI_FALLBACK_PROVIDER_2'', ''AI_FALLBACK_MODEL_2'', ''AI_FALLBACK_PROVIDER_3'', ''AI_FALLBACK_MODEL_3'']"

definition allowed_provider_api_key_names :: "string list" where
  "allowed_provider_api_key_names = concat (map snd provider_api_key_env)"

section \<open>Values\<close>

definition normalize_provider_name :: "string \<Rightarrow> string + string" where
  "normalize_provider_name raw =
     (let normalized = str_lower (str_strip raw)
      in if normalized = [] then Inl ''provider must not be blank''
         else if normalized \<in> set supported_providers then Inr normalized
         else (case dict_get [(''anthropic'', ''claude''), (''google'', ''gemini'')] normalized of
                 Some p \<Rightarrow> Inr p
               | None \<Rightarrow> Inl (''unsupported provider: '' @ raw)))"

definition provider_model_ref :: "string \<Rightarrow> string \<Rightarrow> string + string" where
  "provider_model_ref provider model =
     bind_res (normalize_provider_name provider) (\<lambda>p.
       if str_strip model = [] then Inl ''model must not be blank''
       else Inr (dict_get_or openclaw_provider_ids p [] @ ''/'' @ str_strip model))"

type_synonym env_values = "(string, string) dict"

definition stripped :: "env_values \<Rightarrow> string \<Rightarrow> string" where
  "stripped raw name = str_strip (dict_get_or raw name [])"

definition raw_true :: "env_values \<Rightarrow> string \<Rightarrow> bool" where
  "raw_true raw name = (str_lower (str_strip (dict_get_or raw name ''false'')) = ''true'')"

definition positive_int :: "string \<Rightarrow> string + int option" where
  "positive_int raw =
     (if str_strip raw = [] then Inr None
      else (case parse_int (str_strip raw) of
              None \<Rightarrow> Inl (''invalid literal for int() with base 10: '' @ str_repr (str_strip raw))
            | Some v \<Rightarrow> if v \<le> 0 then Inl ''expected positive integer timeout'' else Inr (Some v)))"

definition split_csv :: "string \<Rightarrow> string list" where
  "split_csv raw = map (\<lambda>s. str_lower (str_strip s)) (filter (\<lambda>s. str_strip s \<noteq> []) (str_split CHR '','' raw))"

definition legacy_provider_refs :: "env_values \<Rightarrow> string list" where
  "legacy_provider_refs raw = filter (\<lambda>n. stripped raw n \<noteq> []) legacy_provider_env_names"

definition provider_credentials :: "env_values \<Rightarrow> string \<Rightarrow> string list" where
  "provider_credentials raw p = filter (\<lambda>n. stripped raw n \<noteq> []) (dict_get_or provider_api_key_env p [])"

section \<open>The report\<close>

datatype policy_status = Policy_pass | Policy_blocked | Policy_fail

record provider_issue =
  pi_field :: string
  pi_code :: string
  pi_message :: string

record provider_report =
  pr_status :: policy_status
  pr_reason :: string
  pr_selected :: "string option"
  pr_selected_id :: "string option"
  pr_enabled :: "string list"
  pr_fallback_enabled :: bool
  pr_fallback_order :: "string list"
  pr_credentials :: "(string, string) dict"
  pr_models :: "(string, string option) dict"
  pr_timeouts :: "(string, int option) dict"
  pr_legacy :: "string list"
  pr_issues :: "provider_issue list"
  pr_real_test :: string
  pr_real_blocker :: string

definition policy_issue :: "string \<Rightarrow> string \<Rightarrow> string \<Rightarrow> provider_issue" where
  "policy_issue field code message = \<lparr>pi_field = field, pi_code = code, pi_message = message\<rparr>"

text \<open>A check: whether it fails the policy, and its issue.\<close>

definition check_issue :: "bool \<Rightarrow> bool \<Rightarrow> provider_issue \<Rightarrow> (bool \<times> provider_issue) list" where
  "check_issue c fails i = (if c then [(fails, i)] else [])"

definition tuple_repr :: "string list \<Rightarrow> string" where
  "tuple_repr xs = (case xs of [x] \<Rightarrow> ''('' @ str_repr x @ '',)'' | _ \<Rightarrow> ''('' @ str_join '', '' (map str_repr xs) @ '')'')"

definition enabled_providers :: "env_values \<Rightarrow> string list" where
  "enabled_providers raw = filter (\<lambda>p. raw_true raw (dict_get_or provider_enable_env p [])) supported_providers"

definition selected_raw :: "env_values \<Rightarrow> string" where
  "selected_raw raw = str_lower (stripped raw ''AI_PROVIDER'')"

definition selected_provider :: "env_values \<Rightarrow> string option" where
  "selected_provider raw =
     (if selected_raw raw \<noteq> []
      then (case normalize_provider_name (selected_raw raw) of Inl _ \<Rightarrow> None | Inr p \<Rightarrow> Some p)
      else if length (enabled_providers raw) = 1 then Some (hd (enabled_providers raw)) else None)"

definition selection_issues :: "env_values \<Rightarrow> (bool \<times> provider_issue) list" where
  "selection_issues raw =
     (case normalize_provider_name (selected_raw raw) of
        Inl message \<Rightarrow> check_issue (selected_raw raw \<noteq> []) False (policy_issue ''AI_PROVIDER'' ''unsupported_provider'' message)
      | Inr _ \<Rightarrow> []) @
     (case selected_provider raw of
        None \<Rightarrow> []
      | Some p \<Rightarrow> check_issue (p \<notin> set (enabled_providers raw)) True
          (policy_issue ''AI_PROVIDER'' ''disabled_provider_selected'' (''selected provider '' @ str_repr p @ '' is not enabled'')))"

text \<open>The body of the loop over the providers.\<close>

definition provider_issues :: "env_values \<Rightarrow> string \<Rightarrow> (bool \<times> provider_issue) list" where
  "provider_issues raw p =
     (let enabled = p \<in> set (enabled_providers raw);
          key_names = dict_get_or provider_api_key_env p [];
          model_name = dict_get_or provider_model_env p [];
          timeout_name = dict_get_or provider_timeout_env p [];
          model = stripped raw model_name;
          model_start = dict_get_or openclaw_provider_ids p [] @ ''/''
      in check_issue (enabled \<and> provider_credentials raw p = []) True
           (policy_issue (str_join ''/'' key_names) ''missing_credential''
              (p @ '' is enabled but none of '' @ tuple_repr key_names @ '' is set'')) @
         check_issue (enabled \<and> model = []) True
           (policy_issue model_name ''missing_model'' (p @ '' is enabled but '' @ model_name @ '' is blank'')) @
         check_issue (model \<noteq> [] \<and> \<not> starts_with model_start model) True
           (policy_issue model_name ''invalid_model_ref'' (model_name @ '' must start with '' @ str_repr model_start)) @
         (case positive_int (stripped raw timeout_name) of
            Inl message \<Rightarrow> check_issue True True (policy_issue timeout_name ''invalid_timeout'' message)
          | Inr _ \<Rightarrow> []))"

definition unsupported_keys :: "env_values \<Rightarrow> string list" where
  "unsupported_keys raw =
     map fst (filter (\<lambda>(n, v). ends_with ''_API_KEY'' n \<and> n \<notin> set allowed_provider_api_key_names \<and> str_strip v \<noteq> []) raw)"

definition fallback_order :: "env_values \<Rightarrow> string list" where
  "fallback_order raw = split_csv (dict_get_or raw ''AI_PROVIDER_FALLBACK_ORDER'' [])"

definition fallback_issues :: "env_values \<Rightarrow> (bool \<times> provider_issue) list" where
  "fallback_issues raw =
     (let order = fallback_order raw; invalid = filter (\<lambda>p. p \<notin> set supported_providers) order
      in if raw_true raw ''AI_PROVIDER_FALLBACK_ENABLED''
         then check_issue (invalid \<noteq> []) True
                (policy_issue ''AI_PROVIDER_FALLBACK_ORDER'' ''unsupported_fallback_provider''
                   (''fallback order includes unsupported providers: '' @ str_join '', '' invalid)) @
              check_issue (\<not> distinct order) True
                (policy_issue ''AI_PROVIDER_FALLBACK_ORDER'' ''duplicate_fallback_provider'' ''fallback order contains duplicate providers'') @
              (case selected_provider raw of
                 None \<Rightarrow> []
               | Some p \<Rightarrow> check_issue (p \<notin> set order \<and> order \<noteq> []) False
                   (policy_issue ''AI_PROVIDER_FALLBACK_ORDER'' ''primary_missing_from_fallback_order''
                      ''selected provider is not represented in fallback order''))
         else [])"

definition legacy_issues :: "env_values \<Rightarrow> (bool \<times> provider_issue) list" where
  "legacy_issues raw =
     map (\<lambda>n. (True, policy_issue n ''legacy_provider_setting'' (n @ '' is deprecated and must be removed''))) (legacy_provider_refs raw)"

definition policy_issues :: "env_values \<Rightarrow> (bool \<times> provider_issue) list" where
  "policy_issues raw =
     selection_issues raw @ concat (map (provider_issues raw) supported_providers) @
     check_issue (unsupported_keys raw \<noteq> []) True
       (policy_issue ''UNSUPPORTED_PROVIDER_API_KEY'' ''unsupported_provider_api_key''
          ''one or more unsupported provider API keys are set'') @
     fallback_issues raw @ legacy_issues raw"

definition base_status :: "env_values \<Rightarrow> policy_status \<times> string" where
  "base_status raw =
     (if enabled_providers raw = [] then (Policy_blocked, ''NO_ENABLED_PROVIDER'')
      else if length (enabled_providers raw) > 1 \<and> selected_provider raw = None
      then (Policy_blocked, ''MULTIPLE_ENABLED_PROVIDERS_WITHOUT_PRIMARY'')
      else (Policy_pass, ''OK''))"

definition policy_reason :: "env_values \<Rightarrow> string" where
  "policy_reason raw =
     (case selected_provider raw of
        Some p \<Rightarrow> if p \<notin> set (enabled_providers raw) then ''SELECTED_PROVIDER_DISABLED'' else snd (base_status raw)
      | None \<Rightarrow> snd (base_status raw))"

definition policy_report :: "env_values \<Rightarrow> provider_report" where
  "policy_report raw =
     \<lparr>pr_status = (if list_ex fst (policy_issues raw) then Policy_fail else fst (base_status raw)),
      pr_reason = policy_reason raw, pr_selected = selected_provider raw,
      pr_selected_id = map_option (\<lambda>p. dict_get_or openclaw_provider_ids p []) (selected_provider raw),
      pr_enabled = enabled_providers raw, pr_fallback_enabled = raw_true raw ''AI_PROVIDER_FALLBACK_ENABLED'',
      pr_fallback_order = fallback_order raw,
      pr_credentials = map (\<lambda>p. (p, if provider_credentials raw p \<noteq> [] then ''present'' else ''blank'')) supported_providers,
      pr_models = map (\<lambda>p. (p, let m = stripped raw (dict_get_or provider_model_env p []) in if m = [] then None else Some m)) supported_providers,
      pr_timeouts = map (\<lambda>p. (p, case positive_int (dict_get_or raw (dict_get_or provider_timeout_env p []) []) of Inl _ \<Rightarrow> None | Inr v \<Rightarrow> v)) supported_providers,
      pr_legacy = legacy_provider_refs raw, pr_issues = map snd (policy_issues raw),
      pr_real_test = ''BLOCKED'', pr_real_blocker = ''NO_AVAILABLE_AI_CREDIT''\<rparr>"

definition build_provider_policy_report :: "env_platform \<Rightarrow> project_paths \<Rightarrow> string option \<Rightarrow> env_exn + provider_report" where
  "build_provider_policy_report F P env_path =
     bind_res (load_settings F P env_path False) (\<lambda>settings. Inr (policy_report (as_raw settings)))"

fun status_text :: "policy_status \<Rightarrow> string" where
  "status_text Policy_pass = ''PASS''"
| "status_text Policy_blocked = ''BLOCKED''"
| "status_text Policy_fail = ''FAIL''"

definition opt_json :: "('a \<Rightarrow> json) \<Rightarrow> 'a option \<Rightarrow> json" where
  "opt_json f v = (case v of None \<Rightarrow> JNull | Some x \<Rightarrow> f x)"

definition texts_json :: "string list \<Rightarrow> json" where
  "texts_json xs = JList (map JStr xs)"

definition provider_policy_report_as_dict :: "provider_report \<Rightarrow> (string, json) dict" where
  "provider_policy_report_as_dict r =
     [(''status'', JStr (status_text (pr_status r))), (''reason'', JStr (pr_reason r)),
      (''selected_provider'', opt_json JStr (pr_selected r)),
      (''selected_openclaw_provider_id'', opt_json JStr (pr_selected_id r)),
      (''enabled_providers'', texts_json (pr_enabled r)), (''supported_providers'', texts_json supported_providers),
      (''openclaw_provider_ids'', JObj (map (\<lambda>(k, v). (k, JStr v)) openclaw_provider_ids)),
      (''fallback_enabled'', JBool (pr_fallback_enabled r)), (''fallback_order'', texts_json (pr_fallback_order r)),
      (''provider_credentials'', JObj (map (\<lambda>(k, v). (k, JStr v)) (pr_credentials r))),
      (''provider_models'', JObj (map (\<lambda>(k, v). (k, opt_json JStr v)) (pr_models r))),
      (''provider_timeouts_seconds'', JObj (map (\<lambda>(k, v). (k, opt_json JInt v)) (pr_timeouts r))),
      (''legacy_provider_refs'', texts_json (pr_legacy r)),
      (''issues'', JList (map (\<lambda>i. JObj [(''field'', JStr (pi_field i)), (''code'', JStr (pi_code i)), (''message'', JStr (pi_message i))]) (pr_issues r))),
      (''real_provider_test'', JStr (pr_real_test r)), (''real_provider_blocker'', JStr (pr_real_blocker r))]"

section \<open>When the policy passes\<close>

lemma check_issue_fails [simp]: "list_ex fst (check_issue c fails i) \<longleftrightarrow> c \<and> fails"
  by (simp add: check_issue_def)

definition provider_ready :: "env_values \<Rightarrow> string \<Rightarrow> bool" where
  "provider_ready raw p \<longleftrightarrow>
     (let model = stripped raw (dict_get_or provider_model_env p [])
      in (p \<in> set (enabled_providers raw) \<longrightarrow> provider_credentials raw p \<noteq> [] \<and> model \<noteq> []) \<and>
         (model \<noteq> [] \<longrightarrow> starts_with (dict_get_or openclaw_provider_ids p [] @ ''/'') model) \<and>
         (\<exists>v. positive_int (stripped raw (dict_get_or provider_timeout_env p [])) = Inr v))"

lemma provider_issues_fail: "list_ex fst (provider_issues raw p) \<longleftrightarrow> \<not> provider_ready raw p"
  by (auto simp: provider_issues_def provider_ready_def Let_def split: sum.splits)

definition fallbacks_ok :: "env_values \<Rightarrow> bool" where
  "fallbacks_ok raw \<longleftrightarrow>
     (raw_true raw ''AI_PROVIDER_FALLBACK_ENABLED'' \<longrightarrow>
        distinct (fallback_order raw) \<and> set (fallback_order raw) \<subseteq> set supported_providers)"

lemma fallback_issues_fail: "list_ex fst (fallback_issues raw) \<longleftrightarrow> \<not> fallbacks_ok raw"
  by (auto simp: fallback_issues_def fallbacks_ok_def Let_def filter_empty_conv split: option.splits)

lemma selection_issues_fail:
  "list_ex fst (selection_issues raw) \<longleftrightarrow> (\<exists>p. selected_provider raw = Some p \<and> p \<notin> set (enabled_providers raw))"
  by (auto simp: selection_issues_def split: sum.splits option.splits)

lemma legacy_issues_fail: "list_ex fst (legacy_issues raw) \<longleftrightarrow> legacy_provider_refs raw \<noteq> []"
  by (cases "legacy_provider_refs raw") (auto simp: legacy_issues_def)

lemma policy_issues_fail:
  "list_ex fst (policy_issues raw) \<longleftrightarrow>
     (\<exists>p. selected_provider raw = Some p \<and> p \<notin> set (enabled_providers raw)) \<or>
     \<not> list_all (provider_ready raw) supported_providers \<or> unsupported_keys raw \<noteq> [] \<or> \<not> fallbacks_ok raw \<or>
     legacy_provider_refs raw \<noteq> []"
proof -
  have "list_ex fst (concat (map (provider_issues raw) ps)) \<longleftrightarrow> \<not> list_all (provider_ready raw) ps" for ps
    by (induction ps) (simp_all add: provider_issues_fail)
  then show ?thesis
    by (auto simp only: policy_issues_def list_ex_append selection_issues_fail fallback_issues_fail legacy_issues_fail check_issue_fails)
qed


text \<open>A selection that names no supported provider does not fail the policy where one provider is enabled: the report says
  PASS, with an issue, and nothing is selected.\<close>

definition mistaken_selection :: env_values where
  "mistaken_selection =
     [(''AI_PROVIDER'', ''mistral''), (''OPENAI_ENABLED'', ''true''), (''OPENAI_API_KEY'', ''k''), (''OPENAI_MODEL'', ''openai/gpt'')]"

lemma unsupported_selection_passes:
  "pr_status (policy_report mistaken_selection) = Policy_pass \<and> pr_selected (policy_report mistaken_selection) = None \<and>
   map pi_code (pr_issues (policy_report mistaken_selection)) = [''unsupported_provider'']"
  by code_simp

text \<open>A policy that fails for another reason than its selection still gives the reason OK.\<close>

lemma failed_policy_reason:
  assumes "legacy_provider_refs raw \<noteq> []" and "enabled_providers raw = [p]" and "selected_provider raw = Some p"
  shows "pr_status (policy_report raw) = Policy_fail \<and> pr_reason (policy_report raw) = ''OK''"
  using assms by (simp add: policy_report_def policy_issues_fail policy_reason_def base_status_def)

text \<open>A model reference that is built is one that the policy accepts for its provider.\<close>

lemma provider_model_ref_accepted:
  assumes "provider_model_ref p m = Inr r"
  shows "\<exists>q. normalize_provider_name p = Inr q \<and> q \<in> set supported_providers \<and> starts_with (dict_get_or openclaw_provider_ids q [] @ ''/'') r"
proof -
  obtain q where q: "normalize_provider_name p = Inr q" using assms by (auto simp: provider_model_ref_def bind_res_Inr)
  then have "q \<in> set supported_providers"
    by (auto simp: normalize_provider_name_def supported_providers_def Let_def split: if_splits option.splits)
  then show ?thesis using q assms by (auto simp: provider_model_ref_def split: if_splits)
qed

end
