(* ===== verification/SkillCatalog.thy ===== *)
theory SkillCatalog
  imports Scanning Config
begin

text \<open>
  \<open>skills.py\<close>: reading the \<open>SKILL.md\<close> files of the workspace and the checks of the catalog against the blueprint. A
  skill file is what \<open>read_text\<close> gives; \<open>yaml.safe_load\<close> is a parameter, which gives values that are no JSON, such as
  dates, as \<open>null\<close>, since the code only tells strings, lists and mappings apart.
\<close>

section \<open>A skill file\<close>

record skill_issue =
  sk_skill :: string
  sk_path :: string
  sk_rule :: string
  sk_message :: string

record skill_document =
  sd_name :: string
  sd_description :: string
  sd_version :: string
  sd_owner :: string
  sd_purpose :: string
  sd_inputs :: "string list"
  sd_input_schema :: string
  sd_output_schema :: string
  sd_allowed :: "string list"
  sd_denied :: "string list"
  sd_constraints :: "string list"
  sd_failure :: string
  sd_audit :: "string list"
  sd_tests :: "string list"
  sd_promotion :: string
  sd_body :: string

definition required_frontmatter_fields :: "string list" where
  "required_frontmatter_fields =
     [''name'', ''description'', ''version'', ''owner_agent'', ''purpose'', ''allowed_inputs'', ''required_input_schema'',
      ''output_schema'', ''allowed_tools'', ''denied_tools'', ''safety_constraints'', ''failure_behavior'', ''audit_fields'',
      ''tests'', ''promotion_status'']"

text \<open>What stands before and after the first occurrence of a separator.\<close>

fun split_once :: "string \<Rightarrow> string \<Rightarrow> (string \<times> string) option" where
  "split_once sep [] = None"
| "split_once sep (c # s) =
     (if starts_with sep (c # s) then Some ([], drop (length sep) (c # s))
      else (case split_once sep s of None \<Rightarrow> None | Some (a, b) \<Rightarrow> Some (c # a, b)))"

definition fence :: string where
  "fence = ''---'' @ [CHR 0x0A]"

definition split_frontmatter :: "string \<Rightarrow> string \<Rightarrow> py_exn + string \<times> string" where
  "split_frontmatter text path =
     (if \<not> starts_with fence text then Inl (ValueError (path @ '' must start with YAML frontmatter''))
      else (case split_once fence (drop (length fence) text) of
              None \<Rightarrow> Inl (ValueError (path @ '' must contain a closing YAML frontmatter block''))
            | Some parts \<Rightarrow> Inr parts))"

definition as_string_sequence :: "json \<Rightarrow> string \<Rightarrow> string \<Rightarrow> py_exn + string list" where
  "as_string_sequence v field path =
     (case v of
        JStr s \<Rightarrow> Inr (filter (\<lambda>t. t \<noteq> []) (map str_strip (split_lines s)))
      | JList xs \<Rightarrow>
          if list_all is_jstr xs then Inr (map (\<lambda>x. case x of JStr s \<Rightarrow> s | _ \<Rightarrow> []) xs)
          else Inl (ValueError (path @ '' field '' @ field @ '' must be a string list''))
      | _ \<Rightarrow> Inl (ValueError (path @ '' field '' @ field @ '' must be a string list'')))"

definition text_field :: "(string, json) dict \<Rightarrow> string \<Rightarrow> string" where
  "text_field m k = (case dict_get m k of Some (JStr s) \<Rightarrow> s | _ \<Rightarrow> [])"

definition texts_given :: "(string, json) dict \<Rightarrow> string list \<Rightarrow> bool" where
  "texts_given m ks = list_all (\<lambda>k. is_jstr (dict_get_or m k JNull)) ks"

definition document_of :: "(string, json) dict \<Rightarrow> string \<Rightarrow> string \<Rightarrow> py_exn + skill_document" where
  "document_of m path body =
     (let missing = filter (\<lambda>k. dict_get m k = None) required_frontmatter_fields;
          seq = (\<lambda>k. as_string_sequence (dict_get_or m k JNull) k path)
      in if missing \<noteq> [] then Inl (ValueError (path @ '' frontmatter missing fields: '' @ str_join '', '' missing))
         else if \<not> texts_given m [''name'', ''description'', ''version'', ''owner_agent'', ''purpose'']
         then Inl (ValueError (path @ '' frontmatter must define string name, description, version, owner_agent, and purpose''))
         else if \<not> texts_given m [''required_input_schema'', ''output_schema'', ''failure_behavior'', ''promotion_status'']
         then Inl (ValueError (path @ '' schema, behavior, and promotion fields must be strings''))
         else bind_res (seq ''allowed_inputs'') (\<lambda>inputs.
              bind_res (seq ''allowed_tools'') (\<lambda>allowed.
              bind_res (seq ''denied_tools'') (\<lambda>denied.
              bind_res (seq ''safety_constraints'') (\<lambda>constraints.
              bind_res (seq ''audit_fields'') (\<lambda>audit.
              bind_res (seq ''tests'') (\<lambda>tests.
                Inr \<lparr>sd_name = text_field m ''name'', sd_description = text_field m ''description'',
                     sd_version = text_field m ''version'', sd_owner = text_field m ''owner_agent'',
                     sd_purpose = text_field m ''purpose'', sd_inputs = inputs,
                     sd_input_schema = text_field m ''required_input_schema'', sd_output_schema = text_field m ''output_schema'',
                     sd_allowed = allowed, sd_denied = denied, sd_constraints = constraints,
                     sd_failure = text_field m ''failure_behavior'', sd_audit = audit, sd_tests = tests,
                     sd_promotion = text_field m ''promotion_status'', sd_body = body\<rparr>)))))))"

definition parse_skill :: "(string \<Rightarrow> py_exn + json) \<Rightarrow> string \<Rightarrow> py_exn + string \<Rightarrow> py_exn + skill_document" where
  "parse_skill yaml path content =
     bind_res content (\<lambda>text.
     bind_res (split_frontmatter text path) (\<lambda>(front, body).
     bind_res (yaml front) (\<lambda>loaded.
       case loaded of
         JObj m \<Rightarrow> document_of m path body
       | _ \<Rightarrow> Inl (ValueError (path @ '' frontmatter must be a mapping'')))))"

section \<open>The body of a skill\<close>

definition negations :: "string list" where
  "negations = [''do not'', ''don'' @ [CHR 0x27] @ ''t'', ''never'', ''disabled'', ''reject'', ''forbidden'', ''no '']"

definition has_non_negated_phrase :: "string \<Rightarrow> string list \<Rightarrow> bool" where
  "has_non_negated_phrase text phrases =
     list_ex (\<lambda>raw.
       let line = str_lower (str_strip raw)
       in line \<noteq> [] \<and> \<not> list_ex (\<lambda>n. str_contains n line) negations \<and>
          list_ex (\<lambda>p. rx_search (alone_rx p) line \<noteq> None) phrases) (split_lines text)"

definition execution_phrases :: "string list" where
  "execution_phrases = [''place order'', ''send order'', ''execute trade'', ''close position'', ''buy '', ''sell '']"

definition number_phrases :: "string list" where
  "number_phrases = [''entry'', ''stop loss'', ''take profit'', ''tp'', ''sl'']"

definition score_phrases :: "string list" where
  "score_phrases = [''raise score'', ''lower score'', ''change score'', ''recalculate score'', ''modify evidence score'']"

definition required_sections :: "string list" where
  "required_sections = [''## procedure'', ''## decision tree'', ''## failure mode'']"

definition required_skill_denies :: "string \<Rightarrow> string list" where
  "required_skill_denies owner =
     [''group:runtime'', ''group:web'', ''group:ui'', ''group:automation'', ''group:messaging'', ''group:plugins'',
      ''group:memory'', ''group:sessions'', ''process'', ''code_execution'', ''browser'', ''canvas'', ''gateway'', ''message'',
      ''subagents''] @
     (if owner \<noteq> ''blueprint-coder'' then [''write'', ''edit'', ''apply_patch'', ''exec''] else [])"

section \<open>The checks\<close>

definition issue_if_not :: "bool \<Rightarrow> string \<Rightarrow> string \<Rightarrow> string \<Rightarrow> string \<Rightarrow> skill_issue list" where
  "issue_if_not ok folder path rule message =
     (if ok then [] else [\<lparr>sk_skill = folder, sk_path = path, sk_rule = rule, sk_message = message\<rparr>])"

definition expected_owner :: "string \<Rightarrow> string option" where
  "expected_owner folder = map_option fst (List.find (\<lambda>(_, names). folder \<in> set names) agent_skill_names)"

definition owner_issues :: "string \<Rightarrow> string \<Rightarrow> skill_document \<Rightarrow> skill_issue list" where
  "owner_issues folder path d =
     (case expected_owner folder of
        None \<Rightarrow> issue_if_not False folder path ''owner_mismatch'' ''skill is not assigned to a blueprint owner''
      | Some owner \<Rightarrow> issue_if_not (sd_owner d = owner) folder path ''owner_mismatch'' (''owner_agent must be '' @ owner))"

definition tool_issues :: "string \<Rightarrow> string \<Rightarrow> skill_document \<Rightarrow> skill_issue list" where
  "tool_issues folder path d =
     (case dict_get agent_allowed_tools (sd_owner d) of
        None \<Rightarrow> issue_if_not False folder path ''owner_mismatch'' (''unknown owner_agent '' @ str_repr (sd_owner d))
      | Some tools \<Rightarrow> issue_if_not (sd_allowed d = tools) folder path ''tool_allow_mismatch'' ''allowed_tools mismatch'') @
     issue_if_not (set (required_skill_denies (sd_owner d)) \<subseteq> set (sd_denied d)) folder path ''tool_deny_mismatch''
       ''denied_tools must include the full safety denylist''"

definition body_issues :: "string \<Rightarrow> string \<Rightarrow> string \<Rightarrow> skill_issue list" where
  "body_issues folder path body =
     (let lowered = str_lower body
      in issue_if_not (\<not> has_non_negated_phrase body execution_phrases) folder path ''execution_instruction''
           ''execution instruction detected'' @
         issue_if_not (\<not> has_non_negated_phrase body number_phrases) folder path ''market_number_generation''
           ''market number guidance detected'' @
         issue_if_not (\<not> has_non_negated_phrase body score_phrases) folder path ''evidence_score_mutation''
           ''score mutation instruction detected'' @
         issue_if_not (\<not> (str_contains ''sk-'' lowered \<or> str_contains ''ghp_'' lowered \<or> str_contains ''private key'' lowered))
           folder path ''secret_pattern'' ''secret-like content detected'')"

definition section_issues :: "string \<Rightarrow> string \<Rightarrow> string \<Rightarrow> skill_issue list" where
  "section_issues folder path body =
     concat (map (\<lambda>s. issue_if_not (str_contains s (str_lower body)) folder path ''shallow_skill''
       (''body must contain a '' @ [CHR 0x27] @ s @ [CHR 0x27] @ '' section'')) required_sections)"

definition document_issues :: "string \<Rightarrow> string \<Rightarrow> string list \<Rightarrow> skill_document \<Rightarrow> skill_issue list" where
  "document_issues folder path seen d =
     issue_if_not (sd_name d = folder) folder path ''name_mismatch'' (''frontmatter name must be '' @ folder) @
     issue_if_not (sd_version d = package_version) folder path ''version_mismatch'' (''frontmatter version must be '' @ package_version) @
     owner_issues folder path d @
     issue_if_not (sd_name d \<notin> set seen) folder path ''duplicate_name'' ''duplicate skill name'' @
     tool_issues folder path d @ body_issues folder path (sd_body d) @
     issue_if_not (sd_constraints d \<noteq> []) folder path ''missing_contract'' ''safety_constraints must not be empty'' @
     issue_if_not (sd_tests d \<noteq> []) folder path ''missing_contract'' ''tests must not be empty'' @
     section_issues folder path (sd_body d)"

text \<open>The catalog: the folders that hold a \<open>SKILL.md\<close>, with its text or what reading it raises.\<close>

type_synonym skill_catalog = "(string, py_exn + string) dict"

record skill_workspace =
  sw_yaml :: "string \<Rightarrow> py_exn + json"
  sw_path :: "string \<Rightarrow> string"
  sw_template :: string

text \<open>The loop over the declared skills, with the names seen so far: the issues and the documents.\<close>

fun check_folders :: "skill_workspace \<Rightarrow> skill_catalog \<Rightarrow> string list \<Rightarrow> string list \<Rightarrow> py_exn + skill_issue list \<times> skill_document list" where
  "check_folders K catalog seen [] = Inr ([], [])"
| "check_folders K catalog seen (folder # rest) =
     (let path = sw_path K folder
      in case dict_get catalog folder of
           None \<Rightarrow>
             bind_res (check_folders K catalog seen rest) (\<lambda>(iss, docs).
               Inr (issue_if_not False folder path ''missing_file'' ''Skill file is missing'' @ iss, docs))
         | Some content \<Rightarrow>
             (case parse_skill (sw_yaml K) path content of
                Inl (ValueError message) \<Rightarrow>
                  bind_res (check_folders K catalog seen rest) (\<lambda>(iss, docs).
                    Inr (issue_if_not False folder path ''frontmatter'' message @ iss, docs))
              | Inl e \<Rightarrow> Inl e
              | Inr d \<Rightarrow>
                  bind_res (check_folders K catalog (sd_name d # seen) rest) (\<lambda>(iss, docs).
                    Inr (document_issues folder path seen d @ iss, d # docs))))"

definition runtime_skill_names :: "(string, json) dict \<Rightarrow> string list" where
  "runtime_skill_names config =
     (case member config ''agents'' of
        JObj agents \<Rightarrow>
          (case member agents ''defaults'' of
             JObj defaults \<Rightarrow>
               (case member defaults ''skills'' of
                  JList xs \<Rightarrow> if list_all is_jstr xs then map (\<lambda>x. case x of JStr s \<Rightarrow> s | _ \<Rightarrow> []) xs else []
                | _ \<Rightarrow> [])
           | _ \<Rightarrow> [])
      | _ \<Rightarrow> [])"

definition runtime_issue :: "skill_workspace \<Rightarrow> string \<Rightarrow> string \<Rightarrow> skill_issue" where
  "runtime_issue K rule message =
     \<lparr>sk_skill = ''runtime-discovery'', sk_path = sw_template K, sk_rule = rule, sk_message = message\<rparr>"

definition runtime_issues ::
  "skill_workspace \<Rightarrow> py_env \<Rightarrow> (string \<Rightarrow> string \<Rightarrow> string) \<Rightarrow> project_paths \<Rightarrow> (string, json) dict option \<Rightarrow> py_exn + skill_issue list" where
  "runtime_issues K E join P rendered =
     (case rendered of
        None \<Rightarrow> Inr []
      | Some config \<Rightarrow>
          bind_res (validate_rendered_config E join P (JObj config)) (\<lambda>c.
          bind_res (validate_agent_topology E join P (Some config)) (\<lambda>t.
            Inr ((if cr_valid c then []
                  else map (\<lambda>i. runtime_issue K ''config_validation'' (cf_path i @ '': '' @ cf_message i)) (cr_issues c)) @
                 (if to_valid t then []
                  else map (\<lambda>i. runtime_issue K (is_rule i) (is_path i @ '': '' @ is_message i)) (to_issues t)) @
                 (if runtime_skill_names config = skill_names then []
                  else [runtime_issue K ''runtime_skills''
                    (''configured runtime skills must equal ['' @ str_join '', '' (map str_repr skill_names) @ '']'')])))))"

record skill_report =
  sv_version :: string
  sv_phase :: string
  sv_valid :: bool
  sv_names :: "string list"
  sv_issues :: "skill_issue list"
  sv_runtime_issues :: "skill_issue list"

definition orphan_issues :: "skill_workspace \<Rightarrow> skill_catalog \<Rightarrow> skill_issue list" where
  "orphan_issues K catalog =
     map (\<lambda>folder. \<lparr>sk_skill = folder, sk_path = sw_path K folder, sk_rule = ''orphan_skill'',
            sk_message = ''skill exists but is not in the blueprint catalog''\<rparr>)
       (sort (filter (\<lambda>f. f \<notin> set skill_names) (dict_keys catalog)))"

definition validate_skills ::
  "skill_workspace \<Rightarrow> py_env \<Rightarrow> (string \<Rightarrow> string \<Rightarrow> string) \<Rightarrow> project_paths \<Rightarrow> skill_catalog \<Rightarrow> (string, json) dict option \<Rightarrow>
   py_exn + skill_report" where
  "validate_skills K E join P catalog rendered =
     bind_res (check_folders K catalog [] skill_names) (\<lambda>(iss, docs).
     bind_res (runtime_issues K E join P rendered) (\<lambda>rt.
       let issues = iss @ orphan_issues K catalog
       in Inr \<lparr>sv_version = package_version, sv_phase = phase, sv_valid = (issues = [] \<and> rt = []),
               sv_names = map sd_name docs, sv_issues = issues, sv_runtime_issues = rt\<rparr>))"

section \<open>What a valid catalog holds\<close>

lemma issue_if_not_Nil [simp]: "issue_if_not ok folder path rule message = [] \<longleftrightarrow> ok"
  by (simp add: issue_if_not_def)

definition body_safe :: "string \<Rightarrow> bool" where
  "body_safe body \<longleftrightarrow>
     \<not> has_non_negated_phrase body execution_phrases \<and> \<not> has_non_negated_phrase body number_phrases \<and>
     \<not> has_non_negated_phrase body score_phrases \<and>
     \<not> str_contains ''sk-'' (str_lower body) \<and> \<not> str_contains ''ghp_'' (str_lower body) \<and> \<not> str_contains ''private key'' (str_lower body) \<and>
     list_all (\<lambda>s. str_contains s (str_lower body)) required_sections"

definition document_ok :: "string \<Rightarrow> skill_document \<Rightarrow> bool" where
  "document_ok folder d \<longleftrightarrow>
     sd_name d = folder \<and> sd_version d = package_version \<and> expected_owner folder = Some (sd_owner d) \<and>
     dict_get agent_allowed_tools (sd_owner d) = Some (sd_allowed d) \<and>
     set (required_skill_denies (sd_owner d)) \<subseteq> set (sd_denied d) \<and> sd_constraints d \<noteq> [] \<and> sd_tests d \<noteq> [] \<and>
     body_safe (sd_body d)"

lemma document_issues_Nil: "document_issues folder path seen d = [] \<longleftrightarrow> document_ok folder d \<and> sd_name d \<notin> set seen"
proof -
  have "section_issues folder path (sd_body d) = [] \<longleftrightarrow> list_all (\<lambda>s. str_contains s (str_lower (sd_body d))) required_sections"
    by (auto simp: section_issues_def list_all_iff)
  moreover have "body_issues folder path (sd_body d) = [] \<and> section_issues folder path (sd_body d) = [] \<longleftrightarrow> body_safe (sd_body d)"
    unfolding calculation by (auto simp: body_issues_def body_safe_def Let_def)
  moreover have "owner_issues folder path d = [] \<longleftrightarrow> expected_owner folder = Some (sd_owner d)"
    by (auto simp: owner_issues_def split: option.splits)
  moreover have "tool_issues folder path d = [] \<longleftrightarrow>
      dict_get agent_allowed_tools (sd_owner d) = Some (sd_allowed d) \<and> set (required_skill_denies (sd_owner d)) \<subseteq> set (sd_denied d)"
    by (auto simp: tool_issues_def split: option.splits)
  ultimately show ?thesis by (auto simp: document_issues_def document_ok_def)
qed

lemma check_folders_Nil:
  assumes "check_folders K catalog seen folders = Inr ([], docs)"
  shows "list_all2 (\<lambda>folder d. \<exists>content. dict_get catalog folder = Some content \<and>
    parse_skill (sw_yaml K) (sw_path K folder) content = Inr d \<and> document_ok folder d) folders docs"
  using assms
proof (induction folders arbitrary: seen docs)
  case (Cons folder rest)
  show ?case
  proof (cases "dict_get catalog folder")
    case None
    then show ?thesis using Cons.prems by (auto simp: bind_res_Inr issue_if_not_def)
  next
    case (Some content)
    show ?thesis
    proof (cases "parse_skill (sw_yaml K) (sw_path K folder) content")
      case (Inl e)
      then show ?thesis using Cons.prems Some by (cases e) (auto simp: bind_res_Inr issue_if_not_def Let_def)
    next
      case (Inr d)
      then obtain docs' where rest: "check_folders K catalog (sd_name d # seen) rest = Inr ([], docs')" "docs = d # docs'"
        and ok: "document_ok folder d"
        using Cons.prems Some by (auto simp: bind_res_Inr document_issues_Nil)
      then show ?thesis using Cons.IH [OF rest(1)] Some Inr by auto
    qed
  qed
qed simp

lemma config_valid_iff: "validate_rendered_config E join P v = Inr c \<Longrightarrow> cr_valid c \<longleftrightarrow> cr_issues c = []"
  by (auto simp: validate_rendered_config_def bind_res_Inr Let_def split: json.splits)


section \<open>What the checks miss\<close>

text \<open>The phrases \<open>buy\<close> and \<open>sell\<close> end with a blank, after which no letter may follow.\<close>

lemma buy_instruction_missed: "\<not> has_non_negated_phrase ''Buy gold at market, sell silver.'' execution_phrases"
  by code_simp

text \<open>A negation anywhere in a line covers the whole line.\<close>

lemma negation_covers_line: "\<not> has_non_negated_phrase ''Never hesitate: place order now.'' execution_phrases"
  by code_simp

text \<open>The denials that the blueprint gives to \<open>super-advisor\<close> are not enough for its own skills.\<close>

lemma super_advisor_denies_rejected: "\<not> set (required_skill_denies ''super-advisor'') \<subseteq> set super_advisor_deny"
  by code_simp

text \<open>An error of the YAML parser is no \<open>ValueError\<close>: it leaves the validation.\<close>

lemma yaml_error_escapes:
  assumes "dict_get catalog folder = Some (Inr text)" and "split_frontmatter text (sw_path K folder) = Inr (front, body)"
    and "sw_yaml K front = Inl (OtherError e)"
  shows "check_folders K catalog seen (folder # rest) = Inl (OtherError e)"
  using assms by (simp add: parse_skill_def)

section \<open>A catalog that validates\<close>

definition newline :: char where
  "newline = CHR 0x0A"

definition plain_body :: string where
  "plain_body = ''## Procedure'' @ [newline] @ ''## Decision Tree'' @ [newline] @ ''## Failure Mode''"

definition plain_owner :: "string \<Rightarrow> string" where
  "plain_owner folder = (case expected_owner folder of None \<Rightarrow> [] | Some owner \<Rightarrow> owner)"

definition plain_texts :: "string list \<Rightarrow> json" where
  "plain_texts xs = JList (map JStr xs)"

definition plain_meta :: "string \<Rightarrow> (string, json) dict" where
  "plain_meta folder =
     [(''name'', JStr folder), (''description'', JStr ''d''), (''version'', JStr package_version),
      (''owner_agent'', JStr (plain_owner folder)), (''purpose'', JStr ''p''), (''allowed_inputs'', plain_texts []),
      (''required_input_schema'', JStr ''object''), (''output_schema'', JStr ''object''),
      (''allowed_tools'', plain_texts (dict_get_or agent_allowed_tools (plain_owner folder) [])),
      (''denied_tools'', plain_texts (required_skill_denies (plain_owner folder))),
      (''safety_constraints'', plain_texts [''advisor-only'']), (''failure_behavior'', JStr ''stop''),
      (''audit_fields'', plain_texts []), (''tests'', plain_texts [''unit'']), (''promotion_status'', JStr ''stable'')]"

definition plain_content :: "string \<Rightarrow> string" where
  "plain_content folder = fence @ folder @ [newline] @ fence @ plain_body"

definition plain_catalog :: skill_catalog where
  "plain_catalog = map (\<lambda>f. (f, Inr (plain_content f))) skill_names"

definition plain_workspace :: skill_workspace where
  "plain_workspace =
     \<lparr>sw_yaml = (\<lambda>s. Inr (JObj (plain_meta (butlast s)))), sw_path = (\<lambda>f. ''skills/'' @ f), sw_template = ''template''\<rparr>"

definition plain_document :: "string \<Rightarrow> skill_document" where
  "plain_document folder =
     \<lparr>sd_name = folder, sd_description = ''d'', sd_version = package_version, sd_owner = plain_owner folder, sd_purpose = ''p'',
      sd_inputs = [], sd_input_schema = ''object'', sd_output_schema = ''object'',
      sd_allowed = dict_get_or agent_allowed_tools (plain_owner folder) [], sd_denied = required_skill_denies (plain_owner folder),
      sd_constraints = [''advisor-only''], sd_failure = ''stop'', sd_audit = [], sd_tests = [''unit''], sd_promotion = ''stable'',
      sd_body = plain_body\<rparr>"

lemma plain_sequence: "as_string_sequence (plain_texts xs) k path = Inr xs"
  by (simp add: as_string_sequence_def plain_texts_def list_all_iff comp_def)

lemma plain_document_of: "document_of (plain_meta folder) path plain_body = Inr (plain_document folder)"
  by (simp add: document_of_def required_frontmatter_fields_def texts_given_def text_field_def plain_meta_def plain_document_def
      dict_get_or_def plain_sequence)

lemma split_once_here: "sep \<noteq> [] \<Longrightarrow> split_once sep (sep @ b) = Some ([], b)"
  by (cases "sep @ b") (simp_all add: append_eq_Cons_conv, auto)

lemma fence_facts: "fence \<noteq> []" "\<not> starts_with fence (newline # r)"
  by (simp_all add: fence_def newline_def)

lemma fence_split:
  "newline \<notin> set s \<Longrightarrow> \<not> ends_with ''---'' s \<Longrightarrow> split_once fence (s @ newline # fence @ b) = Some (s @ [newline], b)"
proof (induction s)
  case Nil
  show ?case using split_once_here [of fence b] by (simp add: fence_facts)
next
  case (Cons c s)
  have "\<not> starts_with fence (c # s @ newline # fence @ b)"
  proof
    assume "starts_with fence (c # s @ newline # fence @ b)"
    then have "c # s = ''---''" using Cons.prems(1)
      by (cases s; cases "tl s"; cases "tl (tl s)") (auto simp: fence_def newline_def)
    then show False using Cons.prems(2) by simp
  qed
  moreover have "newline \<notin> set s" "\<not> ends_with ''---'' s" using Cons.prems by (auto simp: suffix_Cons)
  ultimately show ?case using Cons.IH by simp
qed

lemma skill_names_plain: "list_all (\<lambda>f. newline \<notin> set f \<and> \<not> ends_with ''---'' f) skill_names"
  by code_simp

lemma plain_split: "f \<in> set skill_names \<Longrightarrow> split_frontmatter (plain_content f) path = Inr (f @ [newline], plain_body)"
proof -
  assume "f \<in> set skill_names"
  with skill_names_plain have f: "newline \<notin> set f" "\<not> ends_with ''---'' f" unfolding list_all_iff by blast+
  have "split_frontmatter (fence @ r) path = (case split_once fence r of
      None \<Rightarrow> Inl (ValueError (path @ '' must contain a closing YAML frontmatter block'')) | Some parts \<Rightarrow> Inr parts)" for r
    by (simp add: split_frontmatter_def)
  then show ?thesis unfolding plain_content_def using fence_split [OF f] by simp
qed

lemma plain_owners:
  "list_all (\<lambda>f. case expected_owner f of None \<Rightarrow> False | Some owner \<Rightarrow> dict_get agent_allowed_tools owner \<noteq> None) skill_names"
  by code_simp

lemma distinct_skill_names: "distinct skill_names"
  by code_simp

lemma plain_body_safe: "body_safe plain_body"
  by code_simp

lemma plain_skill_parsed: "f \<in> set skill_names \<Longrightarrow> parse_skill (sw_yaml plain_workspace) path (Inr (plain_content f)) = Inr (plain_document f)"
  using plain_split [of f path] by (simp add: parse_skill_def plain_workspace_def plain_document_of)

lemma plain_document_ok: "f \<in> set skill_names \<Longrightarrow> document_ok f (plain_document f)"
  using plain_owners plain_body_safe
  by (auto simp: document_ok_def plain_document_def plain_owner_def dict_get_or_def list_all_iff split: option.splits)

lemma plain_catalog_get: "dict_get plain_catalog f = (if f \<in> set skill_names then Some (Inr (plain_content f)) else None)"
proof -
  have "dict_get (map (\<lambda>f. (f, g f)) fs) f = (if f \<in> set fs then Some (g f) else None)" for g and fs :: "string list"
    by (induction fs) auto
  then show ?thesis unfolding plain_catalog_def .
qed

lemma plain_checked:
  "distinct fs \<Longrightarrow> set fs \<subseteq> set skill_names \<Longrightarrow> set fs \<inter> set seen = {} \<Longrightarrow>
   check_folders plain_workspace plain_catalog seen fs = Inr ([], map plain_document fs)"
proof (induction fs arbitrary: seen)
  case (Cons f fs)
  have "sd_name (plain_document f) = f" by (simp add: plain_document_def)
  moreover have "document_issues f path seen (plain_document f) = []" for path
    unfolding document_issues_Nil using Cons.prems plain_document_ok by (simp add: plain_document_def)
  ultimately show ?case using Cons by (simp add: plain_catalog_get plain_skill_parsed Let_def)
qed simp

lemma plain_validates:
  "\<exists>rep. validate_skills plain_workspace E join P plain_catalog None = Inr rep \<and> sv_valid rep"
proof -
  have "dict_keys plain_catalog = skill_names" by (simp add: plain_catalog_def comp_def)
  then have "orphan_issues plain_workspace plain_catalog = []" by (simp add: orphan_issues_def)
  then show ?thesis
    using plain_checked [of skill_names "[]"] distinct_skill_names
    by (simp add: validate_skills_def runtime_issues_def Let_def)
qed


end
