(* ===== verification/Floats.thy ===== *)
theory Floats
  imports MarketData
begin

text \<open>
  Arithmetic on doubles as Python has it: the exact result on the numbers that are finite, rounded, with the infinities,
  the signed zeros and NaN handled by IEEE 754. A \<open>rounding\<close> gives what is left: the double nearest to a rational,
  \<open>round(x, n)\<close>, \<open>math.sqrt\<close> and \<open>sum\<close>, which compensates from Python 3.12 on. \<open>sane_rounding\<close> states what the lemmas use
  of it; the exact arithmetic, without rounding, has these laws.
\<close>

section \<open>Operations\<close>

record rounding =
  rd_nearest :: "rat \<Rightarrow> pyfloat"
  rd_decimal :: "nat \<Rightarrow> pyfloat \<Rightarrow> pyfloat"
  rd_sqrt :: "pyfloat \<Rightarrow> pyfloat"
  rd_sum :: "pyfloat list \<Rightarrow> pyfloat"

fun fl_neg :: "pyfloat \<Rightarrow> pyfloat" where
  "fl_neg (Fin p) = (if p = 0 then NegZero else Fin (- p))"
| "fl_neg NegZero = Fin 0"
| "fl_neg PosInf = NegInf"
| "fl_neg NegInf = PosInf"
| "fl_neg NaN = NaN"

text \<open>The sign bit, and \<open>abs\<close>.\<close>

fun fl_negative :: "pyfloat \<Rightarrow> bool" where
  "fl_negative (Fin p) = (p < 0)"
| "fl_negative NegZero = True"
| "fl_negative NegInf = True"
| "fl_negative _ = False"

definition fl_abs :: "pyfloat \<Rightarrow> pyfloat" where
  "fl_abs x = (if fl_negative x then fl_neg x else x)"

fun fl_rat :: "pyfloat \<Rightarrow> rat" where
  "fl_rat (Fin p) = p"
| "fl_rat _ = 0"

definition fl_signed :: "bool \<Rightarrow> pyfloat \<Rightarrow> pyfloat" where
  "fl_signed neg x = (if neg then fl_neg x else x)"

definition fl_add :: "rounding \<Rightarrow> pyfloat \<Rightarrow> pyfloat \<Rightarrow> pyfloat" where
  "fl_add R a b =
     (if a = NaN \<or> b = NaN then NaN
      else if is_finite a \<and> is_finite b
      then (if a = NegZero \<and> b = NegZero then NegZero
            else if fl_rat a + fl_rat b = 0 then Fin 0 else rd_nearest R (fl_rat a + fl_rat b))
      else if is_finite a then b
      else if is_finite b \<or> a = b then a else NaN)"

definition fl_sub :: "rounding \<Rightarrow> pyfloat \<Rightarrow> pyfloat \<Rightarrow> pyfloat" where
  "fl_sub R a b = fl_add R a (fl_neg b)"

definition fl_mul :: "rounding \<Rightarrow> pyfloat \<Rightarrow> pyfloat \<Rightarrow> pyfloat" where
  "fl_mul R a b =
     (if a = NaN \<or> b = NaN then NaN
      else if is_finite a \<and> is_finite b
      then (if fl_rat a * fl_rat b = 0 then fl_signed (fl_negative a \<noteq> fl_negative b) (Fin 0)
            else rd_nearest R (fl_rat a * fl_rat b))
      else if feq a (Fin 0) \<or> feq b (Fin 0) then NaN
      else fl_signed (fl_negative a \<noteq> fl_negative b) PosInf)"

text \<open>Division by something that is not zero; \<open>/\<close> raises \<open>ZeroDivisionError\<close> for the others.\<close>

definition fl_div :: "rounding \<Rightarrow> pyfloat \<Rightarrow> pyfloat \<Rightarrow> pyfloat" where
  "fl_div R a b =
     (if a = NaN \<or> b = NaN then NaN
      else if is_finite b
      then (if is_finite a
            then (if fl_rat a = 0 then fl_signed (fl_negative a \<noteq> fl_negative b) (Fin 0)
                  else rd_nearest R (fl_rat a / fl_rat b))
            else fl_signed (fl_negative a \<noteq> fl_negative b) PosInf)
      else if is_finite a then fl_signed (fl_negative a \<noteq> fl_negative b) (Fin 0) else NaN)"

definition py_div :: "rounding \<Rightarrow> pyfloat \<Rightarrow> pyfloat \<Rightarrow> py_exn + pyfloat" where
  "py_div R a b = (if feq b (Fin 0) then Inl (OtherError ''ZeroDivisionError'') else Inr (fl_div R a b))"

text \<open>\<open>x ** 2\<close>: a finite number whose square is not raises \<open>OverflowError\<close>.\<close>

definition py_square :: "rounding \<Rightarrow> pyfloat \<Rightarrow> py_exn + pyfloat" where
  "py_square R x =
     (if is_finite x \<and> \<not> is_finite (fl_mul R x x) then Inl (OtherError ''OverflowError'') else Inr (fl_mul R x x))"

definition of_nat_float :: "nat \<Rightarrow> pyfloat" where
  "of_nat_float n = Fin (of_nat n)"

section \<open>What the lemmas use of rounding\<close>

text \<open>Rounding keeps the order and the numbers 0, 1 and 100, a sum of numbers that are not negative is not negative, and
  neither sums nor \<open>round\<close> make a number of NaN.\<close>

definition sane_rounding :: "rounding \<Rightarrow> bool" where
  "sane_rounding R \<longleftrightarrow>
     (\<forall>p q. p \<le> q \<longrightarrow> fle (rd_nearest R p) (rd_nearest R q)) \<and>
     (\<forall>p \<in> {0, 1, 100}. feq (rd_nearest R p) (Fin p)) \<and>
     (\<forall>n x y. fle x y \<longrightarrow> fle (rd_decimal R n x) (rd_decimal R n y)) \<and>
     (\<forall>n. \<forall>p \<in> {0, 1, 100}. feq (rd_decimal R n (Fin p)) (Fin p)) \<and>
     (\<forall>n. rd_decimal R n NaN = NaN) \<and>
     (\<forall>xs. list_all (\<lambda>x. x = NaN \<or> fle (Fin 0) x) xs \<longrightarrow> rd_sum R xs = NaN \<or> fle (Fin 0) (rd_sum R xs))"

definition exact_rounding :: rounding where
  "exact_rounding =
     \<lparr>rd_nearest = Fin, rd_decimal = (\<lambda>n x. x), rd_sqrt = (\<lambda>x. x),
      rd_sum = (\<lambda>xs. foldl (fl_add \<lparr>rd_nearest = Fin, rd_decimal = (\<lambda>n x. x), rd_sqrt = (\<lambda>x. x), rd_sum = (\<lambda>_. Fin 0)\<rparr>) (Fin 0) xs)\<rparr>"

text \<open>Between two bounds, or not a number.\<close>

definition nan_or :: "(pyfloat \<Rightarrow> bool) \<Rightarrow> pyfloat \<Rightarrow> bool" where
  "nan_or P x \<longleftrightarrow> x = NaN \<or> P x"

abbreviation at_least_zero :: "pyfloat \<Rightarrow> bool" where
  "at_least_zero \<equiv> nan_or (fle (Fin 0))"

lemma sane_nearest:
  assumes "sane_rounding R"
  shows "p \<le> q \<Longrightarrow> fle (rd_nearest R p) (rd_nearest R q)"
    and "0 \<le> p \<Longrightarrow> fle (Fin 0) (rd_nearest R p)"
    and "1 \<le> p \<Longrightarrow> fle (Fin 1) (rd_nearest R p)"
    and "p \<le> 100 \<Longrightarrow> fle (rd_nearest R p) (Fin 100)"
    and "p \<le> 1 \<Longrightarrow> fle (rd_nearest R p) (Fin 1)"
proof -
  have mono: "p \<le> q \<Longrightarrow> fle (rd_nearest R p) (rd_nearest R q)" for p q using assms by (simp add: sane_rounding_def)
  have keep: "feq (rd_nearest R 0) (Fin 0)" "feq (rd_nearest R 1) (Fin 1)" "feq (rd_nearest R 100) (Fin 100)"
    using assms by (auto simp: sane_rounding_def)
  have sym: "feq x y \<Longrightarrow> fle x y \<and> fle y x" for x y by (cases x; cases y) (auto simp: fle_def)
  show "p \<le> q \<Longrightarrow> fle (rd_nearest R p) (rd_nearest R q)" by (rule mono)
  show "0 \<le> p \<Longrightarrow> fle (Fin 0) (rd_nearest R p)" using mono [of 0 p] sym [OF keep(1)] fle_trans by blast
  show "1 \<le> p \<Longrightarrow> fle (Fin 1) (rd_nearest R p)" using mono [of 1 p] sym [OF keep(2)] fle_trans by blast
  show "p \<le> 100 \<Longrightarrow> fle (rd_nearest R p) (Fin 100)" using mono [of p 100] sym [OF keep(3)] fle_trans by blast
  show "p \<le> 1 \<Longrightarrow> fle (rd_nearest R p) (Fin 1)" using mono [of p 1] sym [OF keep(2)] fle_trans by blast
qed

lemma fle_zero_cases: "fle (Fin 0) x \<Longrightarrow> x = PosInf \<or> x = NegZero \<or> (\<exists>p \<ge> 0. x = Fin p)"
  by (cases x) (auto simp: fle_def)

lemma fl_abs_zero: "at_least_zero (fl_abs x)"
  by (cases x) (auto simp: nan_or_def fl_abs_def fle_def)

lemma fl_div_zero:
  assumes "sane_rounding R" and "at_least_zero a" and "at_least_zero b" and "\<not> feq b (Fin 0)"
  shows "at_least_zero (fl_div R a b)"
proof (cases "a = NaN \<or> b = NaN")
  case False
  then have "a = PosInf \<or> a = NegZero \<or> (\<exists>p \<ge> 0. a = Fin p)" "b = PosInf \<or> b = NegZero \<or> (\<exists>p \<ge> 0. b = Fin p)"
    using assms(2,3) fle_zero_cases by (auto simp: nan_or_def)
  moreover have "0 \<le> p \<Longrightarrow> 0 \<le> q \<Longrightarrow> fle (Fin 0) (rd_nearest R (p / q))" for p q
    by (rule sane_nearest(2) [OF assms(1)]) simp
  ultimately show ?thesis using assms(4)
    by (elim disjE exE) (auto simp: nan_or_def fl_div_def fl_signed_def fle_def)
qed (auto simp: nan_or_def fl_div_def)

lemma rd_decimal_between:
  assumes "sane_rounding R" and "nan_or (\<lambda>x. fle (Fin 0) x \<and> fle x (Fin 100)) x"
  shows "nan_or (\<lambda>x. fle (Fin 0) x \<and> fle x (Fin 100)) (rd_decimal R n x)"
proof (cases "x = NaN")
  case True
  then show ?thesis using assms(1) by (simp add: nan_or_def sane_rounding_def)
next
  case False
  have sym: "feq x y \<Longrightarrow> fle x y \<and> fle y x" for x y by (cases x; cases y) (auto simp: fle_def)
  have "fle (rd_decimal R n (Fin 0)) (rd_decimal R n x)" "fle (rd_decimal R n x) (rd_decimal R n (Fin 100))"
    using assms False by (auto simp: nan_or_def sane_rounding_def)
  moreover have "fle (Fin 0) (rd_decimal R n (Fin 0))" "fle (rd_decimal R n (Fin 100)) (Fin 100)"
    using assms(1) sym by (auto simp: sane_rounding_def)
  ultimately show ?thesis using fle_trans unfolding nan_or_def by blast
qed

end
