(* ===== verification/Features.thy ===== *)
theory Features
  imports Floats Constants
begin

text \<open>
  \<open>market_data/features.py\<close> and \<open>market_data/fx_basket.py\<close>: the feature calculations and the currency basket, on doubles.
  Periods and windows are natural numbers. Python's \<open>0\<close> among floats is the float zero.
\<close>

section \<open>Lists as Python has them\<close>

text \<open>\<open>xs[-n:]\<close>, which is all of the list for 0, and \<open>xs[i]\<close> for an index that is not negative.\<close>

definition last_n :: "nat \<Rightarrow> 'a list \<Rightarrow> 'a list" where
  "last_n n xs = (if n = 0 then xs else drop (length xs - n) xs)"

definition py_nth :: "'a list \<Rightarrow> nat \<Rightarrow> py_exn + 'a" where
  "py_nth xs i = (if i < length xs then Inr (xs ! i) else Inl (OtherError ''IndexError''))"

definition py_slice :: "nat \<Rightarrow> nat \<Rightarrow> 'a list \<Rightarrow> 'a list" where
  "py_slice i j xs = drop i (take j xs)"

definition py_max_of :: "pyfloat list \<Rightarrow> py_exn + pyfloat" where
  "py_max_of xs = (case xs of [] \<Rightarrow> Inl (ValueError ''max() arg is an empty sequence'') | x # ys \<Rightarrow> Inr (py_max x ys))"

definition py_min_of :: "pyfloat list \<Rightarrow> py_exn + pyfloat" where
  "py_min_of xs = (case xs of [] \<Rightarrow> Inl (ValueError ''min() arg is an empty sequence'') | x # ys \<Rightarrow> Inr (py_min x ys))"

section \<open>Results\<close>

datatype feature_value = Number pyfloat | Word string

record feature =
  ft_name :: string
  ft_value :: feature_value
  ft_quality :: string
  ft_version :: string
  ft_class :: string

definition formula_version :: string where
  "formula_version = ''features-p2.4-v1''"

definition feature_result :: "string \<Rightarrow> feature_value \<Rightarrow> string \<Rightarrow> feature" where
  "feature_result name v quality =
     \<lparr>ft_name = name, ft_value = v, ft_quality = quality, ft_version = formula_version, ft_class = ''COMPUTED''\<rparr>"

abbreviation valid_feature :: "string \<Rightarrow> pyfloat \<Rightarrow> feature" where
  "valid_feature name x \<equiv> feature_result name (Number x) ''VALID''"

definition insufficient :: "string \<Rightarrow> feature" where
  "insufficient name = feature_result name (Word ''INSUFFICIENT_DATA'') ''INSUFFICIENT_DATA''"

definition feature_provenance :: "feature \<Rightarrow> string list \<Rightarrow> string \<Rightarrow> (string, json) dict" where
  "feature_provenance f evidence_ids fetched_at =
     [(''source'', JStr ''python_feature_engine''), (''source_system'', JStr ''python''), (''fetched_at_utc'', JStr fetched_at),
      (''realtime_class'', JStr (ft_class f)), (''formula_version'', JStr (ft_version f)),
      (''evidence_ids'', JList (map JStr evidence_ids))]"

section \<open>Trend and volatility\<close>

fun ema_steps :: "rounding \<Rightarrow> pyfloat \<Rightarrow> pyfloat \<Rightarrow> pyfloat list \<Rightarrow> pyfloat list" where
  "ema_steps R k previous [] = [previous]"
| "ema_steps R k previous (price # prices) =
     previous # ema_steps R k (fl_add R (fl_mul R price k) (fl_mul R previous (fl_sub R (Fin 1) k))) prices"

definition ema :: "rounding \<Rightarrow> pyfloat list \<Rightarrow> nat \<Rightarrow> py_exn + pyfloat list" where
  "ema R vals period =
     (if length vals < period then Inr []
      else bind_res (py_div R (rd_sum R (take period vals)) (of_nat_float period)) (\<lambda>first.
             Inr (ema_steps R (fl_div R (Fin 2) (of_nat_float (period + 1))) first (drop period vals))))"

definition ema_feature :: "rounding \<Rightarrow> pyfloat list \<Rightarrow> nat \<Rightarrow> py_exn + string \<times> feature" where
  "ema_feature R closes period =
     (let name = ''ema_'' @ nat_str period
      in bind_res (ema R closes period) (\<lambda>series.
           Inr (name, if series = [] then insufficient name else valid_feature name (rd_decimal R 5 (last series)))))"

definition compute_ema_features :: "rounding \<Rightarrow> pyfloat list \<Rightarrow> py_exn + (string, feature) dict" where
  "compute_ema_features R closes = map_res (ema_feature R closes) [10, 50, 200]"

definition changes :: "rounding \<Rightarrow> pyfloat list \<Rightarrow> pyfloat list" where
  "changes R closes = map (\<lambda>(a, b). fl_sub R b a) (adjacent closes)"

definition rsi_value :: "rounding \<Rightarrow> pyfloat \<Rightarrow> pyfloat \<Rightarrow> py_exn + pyfloat" where
  "rsi_value R avg_gain avg_loss =
     (if feq avg_loss (Fin 0) then Inr (Fin 100)
      else bind_res (py_div R avg_gain avg_loss) (\<lambda>rs.
           bind_res (py_div R (Fin 100) (fl_add R (Fin 1) rs)) (\<lambda>y. Inr (fl_sub R (Fin 100) y))))"

definition compute_rsi :: "rounding \<Rightarrow> pyfloat list \<Rightarrow> nat \<Rightarrow> py_exn + feature" where
  "compute_rsi R closes period =
     (if length closes < period + 1 then Inr (insufficient ''rsi'')
      else (let recent = last_n period (changes R closes);
                gains = map (\<lambda>c. py_max c [Fin 0]) recent;
                losses = map (\<lambda>c. fl_abs (py_min c [Fin 0])) recent
            in bind_res (py_div R (rd_sum R gains) (of_nat_float period)) (\<lambda>avg_gain.
               bind_res (py_div R (rd_sum R losses) (of_nat_float period)) (\<lambda>avg_loss.
               bind_res (rsi_value R avg_gain avg_loss) (\<lambda>v. Inr (valid_feature ''rsi'' (rd_decimal R 4 v)))))))"

text \<open>The true range at an index; \<open>highs[i]\<close> is there, the others may be shorter.\<close>

definition true_range :: "rounding \<Rightarrow> pyfloat list \<Rightarrow> pyfloat list \<Rightarrow> pyfloat list \<Rightarrow> nat \<Rightarrow> py_exn + pyfloat" where
  "true_range R highs lows closes i =
     bind_res (py_nth highs i) (\<lambda>h.
     bind_res (py_nth lows i) (\<lambda>l.
     bind_res (py_nth closes (i - 1)) (\<lambda>c.
       Inr (py_max (fl_sub R h l) [fl_abs (fl_sub R h c), fl_abs (fl_sub R l c)]))))"

definition compute_atr :: "rounding \<Rightarrow> pyfloat list \<Rightarrow> pyfloat list \<Rightarrow> pyfloat list \<Rightarrow> nat \<Rightarrow> py_exn + feature" where
  "compute_atr R highs lows closes period =
     (if length highs < period + 1 then Inr (insufficient ''atr'')
      else bind_res (map_res (true_range R highs lows closes) [1 ..< length highs]) (\<lambda>trs.
           bind_res (py_div R (rd_sum R (last_n period trs)) (of_nat_float period)) (\<lambda>v.
             Inr (valid_feature ''atr'' (rd_decimal R 5 v)))))"

definition macd_features :: "feature \<Rightarrow> feature \<Rightarrow> feature \<Rightarrow> (string, feature) dict" where
  "macd_features line signal histogram = [(''macd_line'', line), (''macd_signal'', signal), (''macd_histogram'', histogram)]"

definition compute_macd :: "rounding \<Rightarrow> pyfloat list \<Rightarrow> nat \<Rightarrow> nat \<Rightarrow> nat \<Rightarrow> py_exn + (string, feature) dict" where
  "compute_macd R closes fast slow signal_period =
     bind_res (ema R closes fast) (\<lambda>ema_fast.
     bind_res (ema R closes slow) (\<lambda>ema_slow.
       let min_len = min (length ema_fast) (length ema_slow);
           stub = insufficient ''macd''
       in if min_len < signal_period then Inr (macd_features stub stub stub)
          else (let line = map (\<lambda>(f, s). fl_sub R f s) (zip (last_n min_len ema_fast) (last_n min_len ema_slow))
                in bind_res (ema R line signal_period) (\<lambda>signal.
                     if signal = [] then Inr (macd_features stub stub stub)
                     else Inr (macd_features (valid_feature ''macd_line'' (rd_decimal R 6 (last line)))
                       (valid_feature ''macd_signal'' (rd_decimal R 6 (last signal)))
                       (valid_feature ''macd_histogram'' (rd_decimal R 6 (fl_sub R (last line) (last signal)))))))))"

text \<open>The directional movements of one bar.\<close>

definition directional :: "rounding \<Rightarrow> pyfloat list \<Rightarrow> pyfloat list \<Rightarrow> pyfloat list \<Rightarrow> nat \<Rightarrow> py_exn + pyfloat \<times> pyfloat \<times> pyfloat" where
  "directional R highs lows closes i =
     bind_res (py_nth highs i) (\<lambda>h. bind_res (py_nth highs (i - 1)) (\<lambda>h1.
     bind_res (py_nth lows (i - 1)) (\<lambda>l1. bind_res (py_nth lows i) (\<lambda>l.
       let h_diff = fl_sub R h h1; l_diff = fl_sub R l1 l
       in bind_res (true_range R highs lows closes i) (\<lambda>tr.
            Inr (if flt l_diff h_diff then py_max h_diff [Fin 0] else Fin 0,
                 if flt h_diff l_diff then py_max l_diff [Fin 0] else Fin 0, tr))))))"

definition smooth :: "rounding \<Rightarrow> nat \<Rightarrow> pyfloat \<Rightarrow> pyfloat \<Rightarrow> py_exn + pyfloat" where
  "smooth R period s x = bind_res (py_div R s (of_nat_float period)) (\<lambda>d. Inr (fl_add R (fl_sub R s d) x))"

fun smoothed :: "rounding \<Rightarrow> nat \<Rightarrow> pyfloat \<Rightarrow> pyfloat list \<Rightarrow> py_exn + pyfloat" where
  "smoothed R period s [] = Inr s"
| "smoothed R period s (x # xs) = bind_res (smooth R period s x) (\<lambda>s1. smoothed R period s1 xs)"

definition smoothed_sum :: "rounding \<Rightarrow> nat \<Rightarrow> pyfloat list \<Rightarrow> py_exn + pyfloat" where
  "smoothed_sum R period xs = smoothed R period (rd_sum R (take period xs)) (drop period xs)"

definition compute_adx :: "rounding \<Rightarrow> pyfloat list \<Rightarrow> pyfloat list \<Rightarrow> pyfloat list \<Rightarrow> nat \<Rightarrow> py_exn + feature" where
  "compute_adx R highs lows closes period =
     (if length highs < period * 2 then Inr (insufficient ''adx'')
      else bind_res (map_res (directional R highs lows closes) [1 ..< length highs]) (\<lambda>ds.
           bind_res (smoothed_sum R period (map (\<lambda>(p, m, t). t) ds)) (\<lambda>tr.
           bind_res (smoothed_sum R period (map (\<lambda>(p, m, t). p) ds)) (\<lambda>plus.
           bind_res (smoothed_sum R period (map (\<lambda>(p, m, t). m) ds)) (\<lambda>minus.
             if feq tr (Fin 0) then Inr (valid_feature ''adx'' (Fin 0))
             else (let plus_di = fl_div R (fl_mul R (Fin 100) plus) tr;
                       minus_di = fl_div R (fl_mul R (Fin 100) minus) tr;
                       total = fl_add R plus_di minus_di;
                       dx = (if flt (Fin 0) total
                             then fl_div R (fl_mul R (Fin 100) (fl_abs (fl_sub R plus_di minus_di))) total else Fin 0)
                   in Inr (valid_feature ''adx'' (rd_decimal R 4 dx))))))))"

section \<open>Market structure\<close>

record swings =
  sw_highs :: "nat list"
  sw_lows :: "nat list"
  sw_quality :: string
  sw_version :: "string option"

text \<open>Whether a bar is a swing high and a swing low; both tests are made at each index, the high first.\<close>

definition swing_at :: "pyfloat list \<Rightarrow> pyfloat list \<Rightarrow> nat \<Rightarrow> nat \<Rightarrow> py_exn + nat \<times> bool \<times> bool" where
  "swing_at highs lows lookback i =
     bind_res (py_nth highs i) (\<lambda>h.
     bind_res (py_max_of (py_slice (i - lookback) (i + lookback + 1) highs)) (\<lambda>top.
     bind_res (py_nth lows i) (\<lambda>l.
     bind_res (py_min_of (py_slice (i - lookback) (i + lookback + 1) lows)) (\<lambda>bottom.
       Inr (i, feq h top, feq l bottom)))))"

definition detect_swing_highs_lows :: "pyfloat list \<Rightarrow> pyfloat list \<Rightarrow> nat \<Rightarrow> py_exn + swings" where
  "detect_swing_highs_lows highs lows lookback =
     (if length highs < lookback * 2 + 1
      then Inr \<lparr>sw_highs = [], sw_lows = [], sw_quality = ''INSUFFICIENT_DATA'', sw_version = None\<rparr>
      else bind_res (map_res (swing_at highs lows lookback) [lookback ..< length highs - lookback]) (\<lambda>ss.
             Inr \<lparr>sw_highs = map fst (filter (\<lambda>(_, h, _). h) ss), sw_lows = map fst (filter (\<lambda>(_, _, l). l) ss),
                  sw_quality = ''VALID'', sw_version = Some formula_version\<rparr>))"

definition classify_trend :: "pyfloat list \<Rightarrow> pyfloat list \<Rightarrow> pyfloat list \<Rightarrow> feature" where
  "classify_trend closes ema50_series ema200_series =
     (if ema50_series = [] \<or> ema200_series = [] \<or> length closes < 3
      then feature_result ''trend_state'' (Word ''UNKNOWN'') ''INSUFFICIENT_DATA''
      else (let price = last closes; ema50 = last ema50_series; ema200 = last ema200_series;
                state = (if flt ema50 price \<and> flt ema200 ema50 then ''UPTREND''
                         else if flt price ema50 \<and> flt ema50 ema200 then ''DOWNTREND'' else ''RANGING'')
            in feature_result ''trend_state'' (Word state) ''VALID''))"

definition compute_headroom_atr :: "rounding \<Rightarrow> pyfloat \<Rightarrow> pyfloat \<Rightarrow> pyfloat \<Rightarrow> feature" where
  "compute_headroom_atr R price resistance atr =
     (if fle atr (Fin 0) then feature_result ''headroom_atr'' (Word ''INVALID_ATR'') ''INVALID''
      else valid_feature ''headroom_atr'' (rd_decimal R 4 (fl_div R (fl_abs (fl_sub R resistance price)) atr)))"

section \<open>Price action\<close>

definition compute_body_wick_ratio :: "rounding \<Rightarrow> pyfloat \<Rightarrow> pyfloat \<Rightarrow> pyfloat \<Rightarrow> pyfloat \<Rightarrow> feature" where
  "compute_body_wick_ratio R op hi lo cl =
     (let candle_range = fl_sub R hi lo
      in if feq candle_range (Fin 0) then feature_result ''body_wick_ratio'' (Number (Fin 0)) ''DOJI''
         else valid_feature ''body_wick_ratio'' (rd_decimal R 4 (fl_div R (fl_abs (fl_sub R cl op)) candle_range)))"

definition detect_engulfing :: "pyfloat \<Rightarrow> pyfloat \<Rightarrow> pyfloat \<Rightarrow> pyfloat \<Rightarrow> feature" where
  "detect_engulfing prev_open prev_close curr_open curr_close =
     (let prev_bullish = flt prev_open prev_close; curr_bullish = flt curr_open curr_close;
          bullish = (\<not> prev_bullish \<and> curr_bullish \<and> flt prev_open curr_close \<and> flt curr_open prev_close);
          bearish = (prev_bullish \<and> \<not> curr_bullish \<and> flt prev_close curr_open \<and> flt curr_close prev_open)
      in feature_result ''engulfing''
           (Word (if bullish then ''BULLISH_ENGULFING'' else if bearish then ''BEARISH_ENGULFING'' else ''NONE'')) ''VALID'')"

definition detect_rejection :: "rounding \<Rightarrow> pyfloat \<Rightarrow> pyfloat \<Rightarrow> pyfloat \<Rightarrow> pyfloat \<Rightarrow> feature" where
  "detect_rejection R hi lo op cl =
     (let candle_range = fl_sub R hi lo
      in if feq candle_range (Fin 0) then feature_result ''rejection'' (Word ''NONE'') ''DOJI''
         else (let upper = fl_sub R hi (py_max op [cl]); lower = fl_sub R (py_min op [cl]) lo; limit = rd_nearest R (3 / 5)
               in feature_result ''rejection''
                    (Word (if flt limit (fl_div R lower candle_range) then ''BULLISH_REJECTION''
                           else if flt limit (fl_div R upper candle_range) then ''BEARISH_REJECTION'' else ''NONE'')) ''VALID''))"

section \<open>Intermarket\<close>

definition normalized_change :: "rounding \<Rightarrow> pyfloat list \<Rightarrow> feature" where
  "normalized_change R vals =
     (if length vals < 2 \<or> feq (vals ! (length vals - 2)) (Fin 0) then insufficient ''normalized_change''
      else (let v1 = vals ! (length vals - 1); v2 = vals ! (length vals - 2)
            in valid_feature ''normalized_change''
                 (rd_decimal R 6 (fl_mul R (fl_div R (fl_sub R v1 v2) (fl_abs v2)) (Fin 100)))))"

definition rolling_correlation :: "rounding \<Rightarrow> pyfloat list \<Rightarrow> pyfloat list \<Rightarrow> nat \<Rightarrow> py_exn + feature" where
  "rolling_correlation R series_a series_b window =
     (if length series_a < window \<or> length series_b < window then Inr (insufficient ''correlation'')
      else (let a = last_n window series_a; b = last_n window series_b; w = of_nat_float window
            in bind_res (py_div R (rd_sum R a) w) (\<lambda>mean_a.
               bind_res (py_div R (rd_sum R b) w) (\<lambda>mean_b.
               bind_res (py_div R (rd_sum R (map (\<lambda>(x, y). fl_mul R (fl_sub R x mean_a) (fl_sub R y mean_b)) (zip a b))) w) (\<lambda>cov.
               bind_res (map_res (\<lambda>x. py_square R (fl_sub R x mean_a)) a) (\<lambda>sq_a.
               bind_res (py_div R (rd_sum R sq_a) w) (\<lambda>var_a.
               bind_res (map_res (\<lambda>x. py_square R (fl_sub R x mean_b)) b) (\<lambda>sq_b.
               bind_res (py_div R (rd_sum R sq_b) w) (\<lambda>var_b.
                 let std_a = rd_sqrt R var_a; std_b = rd_sqrt R var_b
                 in if feq std_a (Fin 0) \<or> feq std_b (Fin 0)
                    then Inr (feature_result ''correlation'' (Number (Fin 0)) ''ZERO_VARIANCE'')
                    else bind_res (py_div R cov (fl_mul R std_a std_b)) (\<lambda>c.
                           Inr (valid_feature ''correlation'' (rd_decimal R 6 c))))))))))))"

definition classify_regime :: "rounding \<Rightarrow> pyfloat \<Rightarrow> pyfloat \<Rightarrow> string \<Rightarrow> feature" where
  "classify_regime R dxy us10y trend =
     (let regime =
        (if flt (rd_nearest R (1 / 5)) dxy \<and> flt (rd_nearest R (1 / 20)) us10y then ''RISK_OFF_USD_STRENGTH''
         else if flt dxy (rd_nearest R (- (1 / 5))) \<and> trend = ''UPTREND'' then ''RISK_ON_GOLD_BULLISH''
         else if flt (fl_abs dxy) (rd_nearest R (1 / 10)) \<and> flt (fl_abs us10y) (rd_nearest R (1 / 50)) then ''NEUTRAL''
         else ''MIXED'')
      in feature_result ''regime'' (Word regime) ''VALID'')"

section \<open>The currency basket\<close>

record basket_component =
  bc_symbol :: string
  bc_close :: "pyfloat option"
  bc_previous :: "pyfloat option"
  bc_class :: string
  bc_reversed :: bool
  bc_return :: "pyfloat option"
  bc_status :: string

record basket_result =
  bk_internal_id :: string
  bk_version :: string
  bk_value :: "pyfloat option"
  bk_used :: nat
  bk_total :: nat
  bk_components :: "basket_component list"
  bk_class :: string
  bk_status :: string
  bk_computed_at :: string
  bk_provenance :: "(string, json) dict"

definition basket_version :: string where
  "basket_version = ''fx-basket-v1-normalized-returns''"

definition basket_id :: string where
  "basket_id = ''FX_BASKET_COMPUTED''"

type_synonym pair_data = "(string, pyfloat option \<times> pyfloat option \<times> string) dict"

definition basket_component_of :: "rounding \<Rightarrow> pair_data \<Rightarrow> string \<Rightarrow> basket_component" where
  "basket_component_of R pairs p =
     (let rev = (p \<in> set fx_basket_reverse_pairs)
      in case dict_get pairs p of
           None \<Rightarrow>
             \<lparr>bc_symbol = p, bc_close = None, bc_previous = None, bc_class = ''UNKNOWN'', bc_reversed = rev,
              bc_return = None, bc_status = ''MISSING''\<rparr>
         | Some (close, previous, cls) \<Rightarrow>
             (case (close, previous) of
                (Some c, Some q) \<Rightarrow>
                  if feq q (Fin 0)
                  then \<lparr>bc_symbol = p, bc_close = close, bc_previous = previous, bc_class = cls, bc_reversed = rev,
                        bc_return = None, bc_status = ''INCOMPLETE''\<rparr>
                  else (let raw = fl_sub R (fl_div R c q) (Fin 1)
                        in \<lparr>bc_symbol = p, bc_close = close, bc_previous = previous, bc_class = cls, bc_reversed = rev,
                            bc_return = Some (if rev then fl_neg raw else raw), bc_status = ''VALID''\<rparr>)
              | _ \<Rightarrow>
                  \<lparr>bc_symbol = p, bc_close = close, bc_previous = previous, bc_class = cls, bc_reversed = rev,
                   bc_return = None, bc_status = ''INCOMPLETE''\<rparr>))"

text \<open>The result from the components: value, class and status.\<close>

definition basket_outcome :: "rounding \<Rightarrow> basket_component list \<Rightarrow> pyfloat option \<times> string \<times> string" where
  "basket_outcome R valid =
     (if length valid < 3 then (None, ''UNKNOWN'', ''INSUFFICIENT_DATA'')
      else (let avg = fl_div R (rd_sum R (map (\<lambda>c. the (bc_return c)) valid)) (of_nat_float (length valid));
                v = rd_decimal R 4 (fl_mul R avg (Fin 10000))
            in if list_ex (\<lambda>c. bc_class c \<in> {''STALE'', ''UNKNOWN''}) valid then (Some v, ''STALE'', ''STALE'')
               else (Some v, ''REALTIME'', ''VALID'')))"

definition compute_fx_basket :: "rounding \<Rightarrow> string \<Rightarrow> pair_data \<Rightarrow> basket_result" where
  "compute_fx_basket R now pairs =
     (let components = map (basket_component_of R pairs) fx_basket_pairs;
          valid = filter (\<lambda>c. bc_return c \<noteq> None) components;
          (v, cls, status) = basket_outcome R valid
      in \<lparr>bk_internal_id = basket_id, bk_version = basket_version, bk_value = v, bk_used = length valid,
          bk_total = length fx_basket_pairs, bk_components = components, bk_class = cls, bk_status = status,
          bk_computed_at = now,
          bk_provenance =
            [(''formula'', JStr basket_version), (''pairs'', JList (map JStr fx_basket_pairs)),
             (''reverse_pairs'', JList (map JStr (sort fx_basket_reverse_pairs))), (''internal_id'', JStr basket_id),
             (''components_used'', JInt (int (length valid))), (''components_total'', JInt (int (length fx_basket_pairs)))]\<rparr>)"

section \<open>The relative strength index\<close>

abbreviation percentage :: "pyfloat \<Rightarrow> bool" where
  "percentage \<equiv> nan_or (\<lambda>x. fle (Fin 0) x \<and> fle x (Fin 100))"

lemma of_nat_float_nonzero: "period \<noteq> 0 \<Longrightarrow> \<not> feq (of_nat_float period) (Fin 0)"
  by (simp add: of_nat_float_def)

lemma of_nat_float_zero: "at_least_zero (of_nat_float n)"
  by (cases "n = 0") (auto simp: of_nat_float_def nan_or_def fle_def)

lemma gain_zero: "at_least_zero (py_max c [Fin 0])"
  by (cases c) (auto simp: nan_or_def fle_def)

lemma rsi_value_percentage:
  assumes R: "sane_rounding R" and gain: "at_least_zero g" and loss: "at_least_zero l"
  shows "\<exists>v. rsi_value R g l = Inr v \<and> percentage v"
proof (cases "feq l (Fin 0)")
  case True
  then show ?thesis by (simp add: rsi_value_def nan_or_def fle_def)
next
  case False
  define rs where "rs = fl_div R g l"
  have rs: "at_least_zero rs" unfolding rs_def by (rule fl_div_zero [OF R gain loss False])
  define z where "z = fl_add R (Fin 1) rs"
  have z: "z = NaN \<or> z = PosInf \<or> (\<exists>q \<ge> 1. z = Fin q)"
  proof -
    have big: "fle (Fin 1) x \<Longrightarrow> x = PosInf \<or> (\<exists>q \<ge> 1. x = Fin q)" for x by (cases x) (auto simp: fle_def)
    have "rd_nearest R (1 + p) = PosInf \<or> (\<exists>q \<ge> 1. rd_nearest R (1 + p) = Fin q)" if "0 \<le> p" for p
      by (rule big, rule sane_nearest(3) [OF R]) (use that in simp)
    moreover have "rd_nearest R 1 = PosInf \<or> (\<exists>q \<ge> 1. rd_nearest R 1 = Fin q)"
      by (rule big, rule sane_nearest(3) [OF R]) simp
    ultimately show ?thesis using rs
      by (auto simp: nan_or_def z_def fl_add_def dest!: fle_zero_cases) blast+
  qed
  then have nonzero: "\<not> feq z (Fin 0)" by auto
  define y where "y = fl_div R (Fin 100) z"
  have y: "percentage y"
  proof -
    have "1 \<le> q \<Longrightarrow> fle (Fin 0) (rd_nearest R (100 / q)) \<and> fle (rd_nearest R (100 / q)) (Fin 100)" for q
      using sane_nearest(2,4) [OF R, of "100 / q"] by (simp add: field_simps)
    then show ?thesis using z by (auto simp: y_def fl_div_def nan_or_def fl_signed_def fle_def) blast+
  qed
  have "percentage (fl_sub R (Fin 100) y)"
  proof (cases "y = NaN")
    case True
    then show ?thesis by (simp add: fl_sub_def fl_add_def nan_or_def)
  next
    case False
    then consider "y = NegZero" | p where "0 \<le> p" "p \<le> 100" "y = Fin p"
      using y by (cases y) (auto simp: nan_or_def fle_def)
    then show ?thesis
    proof cases
      case 1
      then have "fl_sub R (Fin 100) y = rd_nearest R 100" by (simp add: fl_sub_def fl_add_def)
      then show ?thesis using sane_nearest(2,4) [OF R, of 100] by (simp add: nan_or_def)
    next
      case (2 p)
      then have "fl_sub R (Fin 100) y = Fin 0 \<or> fl_sub R (Fin 100) y = rd_nearest R (100 - p)"
        by (auto simp: fl_sub_def fl_add_def)
      moreover have "percentage (Fin 0)" by (simp add: nan_or_def fle_def)
      moreover have "percentage (rd_nearest R (100 - p))"
        using sane_nearest(2,4) [OF R, of "100 - p"] 2 by (simp add: nan_or_def)
      ultimately show ?thesis by metis
    qed
  qed
  then show ?thesis using False nonzero by (simp add: rsi_value_def py_div_def rs_def z_def y_def)
qed

text \<open>C32: With a positive period the relative strength index never raises: with too few prices it is INSUFFICIENT_DATA, and
  otherwise a VALID number between 0 and 100, or NaN where the prices hold a NaN or their differences overflow. It holds
  for every rounding that keeps order, NaN and the numbers 0, 1 and 100.\<close>

theorem rsi_percentage:
  assumes R: "sane_rounding R" and period: "period \<noteq> 0"
  shows "compute_rsi R closes period = Inr (insufficient ''rsi'') \<and> length closes \<le> period \<or>
    (\<exists>v. compute_rsi R closes period = Inr (valid_feature ''rsi'' v) \<and> percentage v \<and> length closes > period)"
proof (cases "length closes < period + 1")
  case True
  then show ?thesis by (simp add: compute_rsi_def)
next
  case False
  let ?recent = "last_n period (changes R closes)"
  have sums: "at_least_zero (rd_sum R (map f ?recent))" if "\<And>c. at_least_zero (f c)" for f
    using R that by (simp add: sane_rounding_def list_all_iff nan_or_def)
  have quotient: "\<exists>q. py_div R x (of_nat_float period) = Inr q \<and> at_least_zero q" if "at_least_zero x" for x
    using fl_div_zero [OF R that of_nat_float_zero of_nat_float_nonzero [OF period]] of_nat_float_nonzero [OF period]
    by (simp add: py_div_def)
  obtain g where g: "py_div R (rd_sum R (map (\<lambda>c. py_max c [Fin 0]) ?recent)) (of_nat_float period) = Inr g" "at_least_zero g"
    using quotient [OF sums, of "\<lambda>c. py_max c [Fin 0]"] gain_zero by blast
  obtain l where l: "py_div R (rd_sum R (map (\<lambda>c. fl_abs (py_min c [Fin 0])) ?recent)) (of_nat_float period) = Inr l" "at_least_zero l"
    using quotient [OF sums, of "\<lambda>c. fl_abs (py_min c [Fin 0])"] fl_abs_zero by blast
  obtain v where v: "rsi_value R g l = Inr v" "percentage v" using rsi_value_percentage [OF R g(2) l(2)] by blast
  have "compute_rsi R closes period = Inr (valid_feature ''rsi'' (rd_decimal R 4 v))"
    using False g(1) l(1) v(1) by (simp add: compute_rsi_def Let_def)
  then show ?thesis using rd_decimal_between [OF R v(2)] False by auto
qed

section \<open>The basket\<close>

definition usable_pair :: "pair_data \<Rightarrow> string \<Rightarrow> bool" where
  "usable_pair pairs p \<longleftrightarrow>
     (\<exists>c q cls. dict_get pairs p = Some (Some c, Some q, cls) \<and> \<not> feq q (Fin 0))"

definition used_pairs :: "pair_data \<Rightarrow> string list" where
  "used_pairs pairs = filter (usable_pair pairs) fx_basket_pairs"

definition pair_class :: "pair_data \<Rightarrow> string \<Rightarrow> string" where
  "pair_class pairs p = (case dict_get pairs p of None \<Rightarrow> ''UNKNOWN'' | Some (_, _, cls) \<Rightarrow> cls)"

lemma component_usable: "bc_return (basket_component_of R pairs p) \<noteq> None \<longleftrightarrow> usable_pair pairs p"
  by (auto simp: basket_component_of_def usable_pair_def Let_def split: option.splits)

lemma component_class: "bc_class (basket_component_of R pairs p) = pair_class pairs p"
  by (auto simp: basket_component_of_def pair_class_def Let_def split: option.splits)

lemma component_return:
  assumes "dict_get pairs p = Some (Some c, Some q, cls)" and "\<not> feq q (Fin 0)"
  shows "bc_return (basket_component_of R pairs p) =
    Some (if p \<in> set fx_basket_reverse_pairs then fl_neg (fl_sub R (fl_div R c q) (Fin 1)) else fl_sub R (fl_div R c q) (Fin 1))"
  using assms by (simp add: basket_component_of_def Let_def)

text \<open>The basket counts exactly the pairs that have both prices, the previous one not zero; with fewer than three there is
  no value, otherwise it is STALE when the class of a counted pair is STALE or UNKNOWN and VALID when none is, and a VALID
  basket is labelled REALTIME.\<close>

theorem basket_status:
  "bk_used (compute_fx_basket R now pairs) = length (used_pairs pairs) \<and>
    (bk_value (compute_fx_basket R now pairs) = None \<longleftrightarrow> length (used_pairs pairs) < 3) \<and>
    (bk_status (compute_fx_basket R now pairs), bk_class (compute_fx_basket R now pairs)) =
      (if length (used_pairs pairs) < 3 then (''INSUFFICIENT_DATA'', ''UNKNOWN'')
       else if list_ex (\<lambda>p. pair_class pairs p \<in> {''STALE'', ''UNKNOWN''}) (used_pairs pairs) then (''STALE'', ''STALE'')
       else (''VALID'', ''REALTIME''))"
proof -
  have counted: "filter (\<lambda>c. bc_return c \<noteq> None) (map (basket_component_of R pairs) fx_basket_pairs) = map (basket_component_of R pairs) (used_pairs pairs)"
    unfolding used_pairs_def filter_map comp_def component_usable ..
  have stale: "list_ex (\<lambda>c. bc_class c \<in> {''STALE'', ''UNKNOWN''}) (map (basket_component_of R pairs) ps) \<longleftrightarrow>
      list_ex (\<lambda>p. pair_class pairs p \<in> {''STALE'', ''UNKNOWN''}) ps" for ps
    by (induction ps) (simp_all add: component_class)
  obtain v cls status where out: "basket_outcome R (map (basket_component_of R pairs) (used_pairs pairs)) = (v, cls, status)"
    by (cases "basket_outcome R (map (basket_component_of R pairs) (used_pairs pairs))") auto
  then have "(v = None \<longleftrightarrow> length (used_pairs pairs) < 3) \<and> (status, cls) =
      (if length (used_pairs pairs) < 3 then (''INSUFFICIENT_DATA'', ''UNKNOWN'')
       else if list_ex (\<lambda>p. pair_class pairs p \<in> {''STALE'', ''UNKNOWN''}) (used_pairs pairs) then (''STALE'', ''STALE'')
       else (''VALID'', ''REALTIME''))"
    unfolding basket_outcome_def stale Let_def by (auto split: if_splits)
  then show ?thesis unfolding compute_fx_basket_def Let_def counted out prod.case by simp
qed

text \<open>So prices that are delayed, or of a daily class, give a basket that says it is of real time.\<close>

lemma basket_relabels_delayed:
  assumes "\<And>p. p \<in> set fx_basket_pairs \<Longrightarrow> \<exists>c q. dict_get pairs p = Some (Some c, Some q, ''DELAYED_15MIN'') \<and> \<not> feq q (Fin 0)"
  shows "bk_status (compute_fx_basket R now pairs) = ''VALID'' \<and> bk_class (compute_fx_basket R now pairs) = ''REALTIME''"
proof -
  have "usable_pair pairs p \<and> pair_class pairs p = ''DELAYED_15MIN''" if "p \<in> set fx_basket_pairs" for p
    using assms [OF that] by (auto simp: usable_pair_def pair_class_def)
  note all = this
  have used: "filter (usable_pair pairs) fx_basket_pairs = fx_basket_pairs" using all by (simp add: filter_id_conv)
  have valid: "map (basket_component_of R pairs) fx_basket_pairs =
      filter (\<lambda>c. bc_return c \<noteq> None) (map (basket_component_of R pairs) fx_basket_pairs)"
    unfolding filter_map comp_def component_usable used ..
  have "\<not> list_ex (\<lambda>c. bc_class c \<in> {''STALE'', ''UNKNOWN''}) (map (basket_component_of R pairs) fx_basket_pairs)"
    using all by (auto simp: list_ex_iff component_class)
  moreover have "length (map (basket_component_of R pairs) fx_basket_pairs) = 7" by (simp add: fx_basket_pairs_def)
  ultimately show ?thesis
    unfolding compute_fx_basket_def Let_def valid [symmetric] basket_outcome_def by simp
qed

section \<open>Lengths and errors\<close>

lemma length_ema_steps: "length (ema_steps R k x prices) = Suc (length prices)"
  by (induction R k x prices rule: ema_steps.induct) simp_all

text \<open>An average for every price from the period-th on.\<close>

lemma ema_length:
  assumes "period \<noteq> 0"
  shows "\<exists>series. ema R vals period = Inr series \<and> length series = (if length vals < period then 0 else length vals - period + 1)"
  using assms by (auto simp: ema_def py_div_def of_nat_float_def length_ema_steps)

text \<open>A window of no prices divides by zero.\<close>

lemma empty_window_raises: "rolling_correlation R a b 0 = Inl (OtherError ''ZeroDivisionError'')"
  by (simp add: rolling_correlation_def py_div_def of_nat_float_def Let_def)

section \<open>Exact arithmetic\<close>

lemma exact_sum_zero:
  "list_all (\<lambda>x. x = NaN \<or> fle (Fin 0) x) xs \<Longrightarrow> at_least_zero a \<Longrightarrow>
   at_least_zero (foldl (fl_add \<lparr>rd_nearest = Fin, rd_decimal = (\<lambda>n x. x), rd_sqrt = (\<lambda>x. x), rd_sum = (\<lambda>_. Fin 0)\<rparr>) a xs)"
proof (induction xs arbitrary: a)
  case (Cons x xs)
  have "at_least_zero (fl_add \<lparr>rd_nearest = Fin, rd_decimal = (\<lambda>n x. x), rd_sqrt = (\<lambda>x. x), rd_sum = (\<lambda>_. Fin 0)\<rparr> a x)"
    using Cons.prems by (cases a; cases x) (auto simp: nan_or_def fl_add_def fle_def)
  then show ?case using Cons by simp
qed simp

lemma exact_rounding_sane: "sane_rounding exact_rounding"
  using exact_sum_zero [of _ "Fin 0"] by (auto simp: sane_rounding_def exact_rounding_def fle_def nan_or_def)

lemma rsi_percentage_witness:
  "sane_rounding exact_rounding \<and>
   (\<exists>v. compute_rsi exact_rounding [Fin 1, Fin 2, Fin 1] 2 = Inr (valid_feature ''rsi'' v) \<and> percentage v)"
  using rsi_percentage [OF exact_rounding_sane, of 2 "[Fin 1, Fin 2, Fin 1]"] exact_rounding_sane by simp

end
