(* ===== verification/ManagerQuery.thy ===== *)
theory ManagerQuery
  imports MainRuntime Telegram
begin

text \<open>
  The two dialogues about the agents: \<open>handle_manager_query\<close> of \<open>main_agent/runtime.py\<close>, which answers
  from the snapshot of the MAIN runtime, and the one of \<open>ManagerRegistryRuntime\<close> in
  \<open>agent_registry.py\<close>, which answers from the registry, with its catalog of duties. A query is a list
  of code points because the words that classify it are English and Thai. The theorems say which
  query names an agent, and where the two dialogues agree.
\<close>

section \<open>Words of a query\<close>

text \<open>
  \<open>str.strip\<close> only removes white space at the ends, where no word begins or ends with it, and
  \<open>str.lower\<close> is written out on the ASCII letters: the Thai script has no case, and the only other
  characters with an ASCII letter in their lower case are the Kelvin sign (k) and the dotted capital
  I (i before a combining dot), which complete none of the words.
\<close>

definition query_space :: "nat \<Rightarrow> bool" where
  "query_space n =
     ((9 \<le> n \<and> n \<le> 13) \<or> (28 \<le> n \<and> n \<le> 32) \<or> (8192 \<le> n \<and> n \<le> 8202) \<or>
      n \<in> {133, 160, 5760, 8232, 8233, 8239, 8287, 12288})"

definition lower_point :: "nat \<Rightarrow> nat" where
  "lower_point n = (if 65 \<le> n \<and> n \<le> 90 then n + 32 else n)"

definition normal_query :: "utext \<Rightarrow> utext" where
  "normal_query q =
     map lower_point (rev (dropWhile query_space (rev (dropWhile query_space q))))"

definition anything_words :: "utext list" where
  "anything_words =
     [[3629, 3632, 3652, 3619, 3585, 3655, 3652, 3604, 3657],
      [3651, 3585, 3621, 3657, 3648, 3588, 3637, 3618, 3591]]"

definition review_words :: "utext list" where
  "review_words = [text_of ''code'', text_of ''review'', [3605, 3619, 3623, 3592]]"

definition agent_words :: "utext list" where
  "agent_words =
     [[3617, 3637, 32] @ text_of ''agent'', [3627, 3609, 3657, 3634, 3607, 3637, 3656],
      [3627, 3657, 3634, 3617, 3607, 3635, 3629, 3632, 3652, 3619], text_of ''agent'']"

definition has_word :: "utext list \<Rightarrow> utext \<Rightarrow> bool" where
  "has_word ws q = list_ex (\<lambda>w. sublist w (normal_query q)) ws"

section \<open>The MAIN runtime\<close>

record query_report =
  qr_type :: string
  qr_response :: "(string, json) dict"

text \<open>A rejected candidate is a dictionary of its agent and the reason.\<close>

definition rejections :: "(string \<times> string) list \<Rightarrow> json" where
  "rejections rs =
     JList (map (\<lambda>(i, why). JObj [(''agent_id'', JStr i), (''reason'', JStr why)]) rs)"

definition catalog_entry :: "agent_record \<Rightarrow> json" where
  "catalog_entry a =
     JObj [(''agent_id'', JStr (ag_id a)), (''display_name'', JStr (ag_display_name a)),
           (''role_summary'', JStr (ag_role a)),
           (''primary_responsibilities'', strs (ag_responsibilities a)),
           (''forbidden_actions'', strs (ag_forbidden_actions a)),
           (''current_availability'', JStr (ag_availability a)),
           (''definition_source'', JStr (ag_source a)), (''definition_version'', JStr (ag_version a))]"

definition review_task :: "string \<Rightarrow> agent_task" where
  "review_task ty =
     \<lparr>tk_id = ''query-route-1'', tk_agent = ''system-coder-auditor'',
      tk_skill = ''python-pipeline-micro-audit'', tk_depends = [],
      tk_schema = [(''type'', JStr ''object'')], tk_type = ty, tk_action = ''audit''\<rparr>"

definition review_inputs :: "(string, json) dict" where
  "review_inputs =
     [(''task_id'', JStr ''query-route-1''), (''audit_scope'', JStr ''production-grade code review''),
      (''source_files'', JList [JStr ''engine/src''])]"

definition explanation :: "registry_snapshot \<Rightarrow> planning_decision \<Rightarrow> (string, json) dict" where
  "explanation sn d =
     [(''registry_schema_version'', JStr (sn_schema sn)), (''registry_definition_hash'', JStr (sn_hash sn)),
      (''registry_source'', JStr (sn_source sn)), (''selected_agent'', JStr (pd_agent d)),
      (''reason_for_selection'', JStr (pd_reason d)), (''matched_accepted_task_type'', JStr (pd_type d)),
      (''rejected_candidates'', rejections (pd_rejected d)),
      (''required_review_chain'', strs (pd_reviewers d)),
      (''forbidden_actions'', strs (pd_forbidden d)),
      (''human_release_gate_required'', JBool (pd_gate d))]"

text \<open>The answer of a ready runtime; a request that the planner refuses raises out of the dialogue.\<close>

definition ready_answer ::
  "main_runtime \<Rightarrow> registry_snapshot \<Rightarrow> utext \<Rightarrow> runtime_error + query_report" where
  "ready_answer M sn q =
     (let versions = [(''registry_schema_version'', JStr (sn_schema sn)),
                      (''registry_definition_hash'', JStr (sn_hash sn))]
      in if has_word anything_words q
         then Inr \<lparr>qr_type = ''routing_explanation'',
                   qr_response = versions @
                     [(''task_type'', JStr ''unknown_task_type''), (''selected_agent'', JNull),
                      (''rejected_candidates'', JList []), (''required_review_chain'', JList []),
                      (''forbidden_actions'', JList []),
                      (''error'', JStr ''query classification is too ambiguous for contract-safe routing'')]\<rparr>
         else let ty = (if has_word review_words q then ''code_review'' else [])
         in if has_word agent_words q \<and> ty = []
            then Inr \<lparr>qr_type = ''agent_catalog_query'',
                      qr_response = versions @
                        [(''registry_source'', JStr (sn_source sn)),
                         (''source'', JStr ''main_runtime_registry_snapshot''),
                         (''agents'', JList (map catalog_entry (sn_agents sn)))]\<rparr>
            else if ty = []
            then Inr \<lparr>qr_type = ''unclassified'',
                      qr_response = versions @
                        [(''error'', JStr ''query could not be classified against the validated registry'')]\<rparr>
            else bind_res
                   (plan_request M ''query-plan-1'' ty [review_task ty]
                      (Some [(tk_id (review_task ty), review_inputs)]))
                   (\<lambda>plan. Inr \<lparr>qr_type = ''routing_explanation'',
                                qr_response = explanation sn (hd (dp_decisions plan))\<rparr>))"

definition manager_query :: "main_runtime \<Rightarrow> utext \<Rightarrow> runtime_error + query_report" where
  "manager_query M q =
     (case mr_snapshot M of
        None \<Rightarrow>
          Inr \<lparr>qr_type = ''registry_unavailable'',
               qr_response = [(''error'', JStr ''MAIN runtime registry snapshot is unavailable'')]\<rparr>
      | Some sn \<Rightarrow>
          if registry_state M \<noteq> ''AGENT_REGISTRY_READY''
          then Inr \<lparr>qr_type = ''registry_unavailable'',
                    qr_response =
                      [(''registry_state'', JStr (registry_state M)),
                       (''registry_definition_hash'', JStr (sn_hash sn)),
                       (''registry_schema_version'', JStr (sn_schema sn)),
                       (''error'', JStr (let d = str_join ''; '' (sn_errors sn)
                                         in if d = [] then ''registry is not ready'' else d))]\<rparr>
          else ready_answer M sn q)"

section \<open>The dialogue of the registry\<close>

record duties_response =
  du_query :: utext
  du_source :: string
  du_version :: string
  du_hash :: string
  du_agents :: "json list"

definition duties_entry :: "agent_registry \<Rightarrow> agent_record \<Rightarrow> json" where
  "duties_entry r a =
     JObj [(''agent_id'', JStr (ag_id a)), (''display_name'', JStr (ag_display_name a)),
           (''role_summary'', JStr (ag_role a)),
           (''primary_responsibilities'', strs (ag_responsibilities a)),
           (''forbidden_actions'', strs (ag_forbidden_actions a)),
           (''current_availability'', JStr (ag_availability a)),
           (''registry_definition_source'', JStr (ag_source a)),
           (''registry_version'', JStr (ag_version a)),
           (''registry_schema_version'', JStr (rg_schema r)),
           (''registry_definition_hash'', JStr (rg_hash r))]"

definition answer_agent_duties_query :: "agent_registry \<Rightarrow> utext \<Rightarrow> duties_response" where
  "answer_agent_duties_query r q =
     \<lparr>du_query = q, du_source = ''validated_agent_capability_registry'', du_version = rg_version r,
      du_hash = rg_hash r, du_agents = map (duties_entry r) (rg_agents r)\<rparr>"

datatype answer_body = Members "(string, json) dict" | Duties duties_response

record registry_answer =
  ra_type :: string
  ra_body :: answer_body

definition decision_members :: "routing_decision \<Rightarrow> (string, json) dict" where
  "decision_members d =
     [(''selected_agent'', case rd_selected d of None \<Rightarrow> JNull | Some a \<Rightarrow> JStr a),
      (''reason_for_selection'', JStr (rd_reason d)), (''rejected_candidates'', rejections (rd_rejected d)),
      (''required_review_chain'', strs (rd_review_chain d)),
      (''safety_restrictions'', strs (rd_safety d))]"

text \<open>\<open>... if decision.selected_agent else ...\<close>: no agent, and an empty name too, take the default.\<close>

definition of_selected ::
  "agent_registry \<Rightarrow> routing_decision \<Rightarrow> json \<Rightarrow> (agent_record \<Rightarrow> json) \<Rightarrow> py_exn + json" where
  "of_selected r d otherwise f =
     (case rd_selected d of
        None \<Rightarrow> Inr otherwise
      | Some i \<Rightarrow>
          if i = [] then Inr otherwise else bind_res (get_agent_capability r i) (\<lambda>a. Inr (f a)))"

definition registry_query :: "agent_registry \<Rightarrow> utext \<Rightarrow> py_exn + registry_answer" where
  "registry_query r q =
     (let versions = [(''registry_version'', JStr (rg_version r)), (''registry_hash'', JStr (rg_hash r))]
      in if has_word review_words q
         then (let d = route_task r ''code_review'' ''super-advisor''
               in bind_res (of_selected r d (JBool True) (\<lambda>a. JBool (ag_human_gate a))) (\<lambda>gate.
                  bind_res (of_selected r d (JList []) (\<lambda>a. strs (ag_forbidden_actions a))) (\<lambda>forbidden.
                    Inr \<lparr>ra_type = ''routing_explanation'',
                         ra_body = Members (versions @ [(''task_type'', JStr ''code_review'')] @
                           decision_members d @
                           [(''human_release_gate_required'', gate), (''forbidden_actions'', forbidden)])\<rparr>)))
         else if has_word anything_words q
         then Inr \<lparr>ra_type = ''routing_explanation'',
                   ra_body = Members (versions @ [(''task_type'', JStr ''unknown_task_type'')] @
                     decision_members (route_task r ''unknown_task_type'' ''super-advisor''))\<rparr>
         else if has_word agent_words q
         then Inr \<lparr>ra_type = ''agent_catalog_query'', ra_body = Duties (answer_agent_duties_query r q)\<rparr>
         else Inr \<lparr>ra_type = ''unclassified'',
                   ra_body = Members (versions @
                     [(''error'', JStr ''query could not be classified against the validated registry'')])\<rparr>)"

section \<open>Which query names an agent\<close>

lemma plan_one_review:
  assumes "registry_state M = ''AGENT_REGISTRY_READY''" and "mr_planner M = Some P"
  shows "plan_request M pid ty [t] (Some [(tk_id t, ins)]) = Inr plan \<longleftrightarrow>
     (\<exists>a. plannable P ty (Some ins) t a \<and> plan = plan_of P pid ty [t] [decision_of P ty t a])"
proof -
  have "plan_request M pid ty [t] (Some [(tk_id t, ins)]) = Inr plan \<longleftrightarrow>
      build_plan P pid ty [t] (Some [(tk_id t, ins)]) = Inr plan"
    using assms by (auto simp: plan_request_def lift_exn_def split: sum.splits)
  also have "\<dots> \<longleftrightarrow> (\<exists>d. validate_agent P ty (Some ins) t = Inr d \<and> plan = plan_of P pid ty [t] [d])"
    by (auto simp: build_plan_Inr inputs_of_def split: sum.splits)
  finally show ?thesis
    by (auto simp: validate_agent_Inr)
qed

lemma explanation_selected: "dict_get (explanation sn d) ''selected_agent'' = Some (JStr (pd_agent d))"
  by (simp add: explanation_def)

lemma manager_query_ready:
  assumes "mr_snapshot M = Some sn" and "registry_state M = ''AGENT_REGISTRY_READY''"
  shows "manager_query M q = ready_answer M sn q"
  using assms by (simp add: manager_query_def)

text \<open>
  A ready MAIN runtime names an agent in its answer exactly when the query has a word of a
  review, none of the words for "any agent", and the contract of the auditor lets the runtime plan
  a review: the auditor is known, available, reachable, accepts the kind of task and does not review
  itself. It names no other agent, and the words of the query choose nothing else.
\<close>

theorem manager_query_routes:
  assumes "mr_snapshot M = Some sn" and "registry_state M = ''AGENT_REGISTRY_READY''"
    and "mr_planner M = Some P"
  shows "(\<exists>x. manager_query M q = Inr x \<and> dict_get (qr_response x) ''selected_agent'' = Some (JStr i)) \<longleftrightarrow>
     i = ''system-coder-auditor'' \<and> has_word review_words q \<and> \<not> has_word anything_words q \<and>
     (\<exists>a. plannable P ''code_review'' (Some review_inputs) (review_task ''code_review'') a)"
proof (cases "has_word review_words q \<and> \<not> has_word anything_words q")
  case True
  have "ready_answer M sn q =
      bind_res (plan_request M ''query-plan-1'' ''code_review'' [review_task ''code_review'']
                  (Some [(tk_id (review_task ''code_review''), review_inputs)]))
        (\<lambda>plan. Inr \<lparr>qr_type = ''routing_explanation'', qr_response = explanation sn (hd (dp_decisions plan))\<rparr>)"
    using True by (simp add: ready_answer_def Let_def)
  then have "(\<exists>x. manager_query M q = Inr x \<and> dict_get (qr_response x) ''selected_agent'' = Some (JStr i)) \<longleftrightarrow>
      (\<exists>plan. plan_request M ''query-plan-1'' ''code_review'' [review_task ''code_review'']
                  (Some [(tk_id (review_task ''code_review''), review_inputs)]) = Inr plan \<and>
         pd_agent (hd (dp_decisions plan)) = i)"
    unfolding manager_query_ready [OF assms(1,2)] bind_res_Inr
    by (simp only: bind_res_Inr sum.inject) (auto simp only: query_report.simps explanation_selected option.inject json.inject)
  also have "\<dots> \<longleftrightarrow> i = ''system-coder-auditor'' \<and>
      (\<exists>a. plannable P ''code_review'' (Some review_inputs) (review_task ''code_review'') a)"
    unfolding plan_one_review [OF assms(2,3)] by (auto simp: plan_of_def decision_of_def Let_def review_task_def)
  finally show ?thesis
    using True by blast
next
  case False
  then show ?thesis
    unfolding manager_query_ready [OF assms(1,2)]
    by (auto simp: ready_answer_def Let_def split: if_splits)
qed

section \<open>A team of two\<close>

definition sample_team :: registry_snapshot where
  "sample_team =
     (sample_snapshot ''h1'')\<lparr>sn_agents :=
        [sample_agent ''super-advisor'' [''system-coder-auditor''],
         sample_agent ''system-coder-auditor'' []]\<rparr>"

definition sample_main :: main_runtime where
  "sample_main =
     \<lparr>mr_capabilities = [], mr_max_retries = 1, mr_snapshot = Some sample_team,
      mr_planner = Some \<lparr>pl_snapshot = sample_team, pl_source = ''super-advisor''\<rparr>,
      mr_router = None, mr_files = [], mr_audit = None, mr_calls = [], mr_readings = 0\<rparr>"

lemma sample_main_ready:
  "mr_snapshot sample_main = Some sample_team"
  "registry_state sample_main = ''AGENT_REGISTRY_READY''"
  "mr_planner sample_main = Some \<lparr>pl_snapshot = sample_team, pl_source = ''super-advisor''\<rparr>"
  by (simp_all add: sample_main_def registry_state_def sample_team_def sample_snapshot_def)

lemma sample_planned:
  "\<not> isl (plan_request sample_main ''query-plan-1'' ''code_review'' [review_task ''code_review'']
     (Some [(tk_id (review_task ''code_review''), review_inputs)]))"
  by code_simp

lemma sample_words:
  "has_word review_words (text_of '' REVIEW'')" "\<not> has_word anything_words (text_of '' REVIEW'')"
  by (simp_all add: has_word_def review_words_def anything_words_def normal_query_def text_of_def
      query_space_def lower_point_def sublist_Cons_right)

lemma manager_query_routes_witness:
  "\<exists>x. manager_query sample_main (text_of '' REVIEW'') = Inr x \<and>
     dict_get (qr_response x) ''selected_agent'' = Some (JStr ''system-coder-auditor'')"
proof -
  obtain plan where "plan_request sample_main ''query-plan-1'' ''code_review'' [review_task ''code_review'']
      (Some [(tk_id (review_task ''code_review''), review_inputs)]) = Inr plan"
    using sample_planned by (metis sum.collapse(2))
  then show ?thesis
    unfolding manager_query_routes [OF sample_main_ready] plan_one_review [OF sample_main_ready(2,3)]
    using sample_words by blast
qed

section \<open>The two dialogues\<close>

lemma route_candidates_selected:
  "rd_selected (route_candidates r t s rejected cs) = Some i \<Longrightarrow> i \<in> ag_id ` set cs"
  by (induction r t s rejected cs rule: route_candidates.induct) (auto split: if_splits prod.splits bool.splits)

lemma selected_known:
  assumes "rd_selected (route_task r t s) = Some i"
  shows "\<exists>a. get_agent_capability r i = Inr a"
proof -
  have "i \<in> ag_id ` set (rg_agents r)"
    using route_candidates_selected [OF assms [unfolded route_task_def]]
    by (auto simp: list_available_agents_def)
  then have "find (\<lambda>a. ag_id a = i) (rg_agents r) \<noteq> None"
    by (auto simp: find_None_iff)
  then show ?thesis
    by (auto simp: get_agent_capability_def)
qed

lemma of_selected_returns: "\<exists>v. of_selected r (route_task r t s) otherwise f = Inr v"
  using selected_known [of r t s] by (fastforce simp: of_selected_def split: option.splits)

text \<open>
  The dialogue of the registry answers every query, and when the MAIN runtime, ready, answers the
  same query, the two name the same type. They need not name the same agent: a query with words
  for "any agent" and for a review is refused by the runtime as ambiguous, and answered by the
  registry with the agent that it would give a code review.
\<close>

theorem query_dialogues_agree:
  assumes "mr_snapshot M = Some sn" and "registry_state M = ''AGENT_REGISTRY_READY''"
  shows "\<exists>y. registry_query r q = Inr y \<and> (\<forall>x. manager_query M q = Inr x \<longrightarrow> qr_type x = ra_type y) \<and>
     (has_word anything_words q \<and> has_word review_words q \<longrightarrow>
        (\<exists>x ms. manager_query M q = Inr x \<and> dict_get (qr_response x) ''selected_agent'' = Some JNull \<and>
           ra_body y = Members ms \<and>
           dict_get ms ''selected_agent'' =
             Some (case rd_selected (route_task r ''code_review'' ''super-advisor'') of
                     None \<Rightarrow> JNull | Some i \<Rightarrow> JStr i)))"
proof -
  have ready: "manager_query M q = ready_answer M sn q"
    using manager_query_ready [OF assms] .
  show ?thesis
  proof (cases "has_word review_words q")
    case True
    let ?d = "route_task r ''code_review'' ''super-advisor''"
    obtain gate where g: "of_selected r ?d (JBool True) (\<lambda>a. JBool (ag_human_gate a)) = Inr gate"
      using of_selected_returns by blast
    obtain forbidden where f: "of_selected r ?d (JList []) (\<lambda>a. strs (ag_forbidden_actions a)) = Inr forbidden"
      using of_selected_returns by blast
    show ?thesis
      using True
      by (auto simp: ready registry_query_def g f ready_answer_def Let_def bind_res_Inr decision_members_def
          split: if_splits)
  next
    case False
    then show ?thesis
      by (auto simp: ready registry_query_def ready_answer_def Let_def)
  qed
qed

lemma query_dialogues_agree_witness:
  "\<exists>y x. registry_query \<lparr>rg_schema = [], rg_version = [], rg_hash = [], rg_from = [], rg_path = [], rg_by = [],
        rg_agent_count = 2, rg_skill_count = 0, rg_agents = sn_agents sample_team\<rparr>
      (hd anything_words @ text_of ''review'') = Inr y \<and>
     manager_query sample_main (hd anything_words @ text_of ''review'') = Inr x \<and> qr_type x = ra_type y"
proof -
  have "has_word anything_words (hd anything_words @ text_of ''review'')"
      "has_word review_words (hd anything_words @ text_of ''review'')"
    by (simp_all add: has_word_def review_words_def anything_words_def normal_query_def text_of_def
        query_space_def lower_point_def sublist_Cons_right)
  then show ?thesis
    using query_dialogues_agree [OF sample_main_ready(1,2), of
        "\<lparr>rg_schema = [], rg_version = [], rg_hash = [], rg_from = [], rg_path = [], rg_by = [],
        rg_agent_count = 2, rg_skill_count = 0, rg_agents = sn_agents sample_team\<rparr>"
        "hd anything_words @ text_of ''review''"]
    by blast
qed

end
