(* ===== verification/MarketSettings.thy ===== *)
theory MarketSettings
  imports Backfill Config EnvAudit
begin

text \<open>
  The edges of \<open>market_data/collector.py\<close>: the settings that \<open>parse_market_data_settings\<close> makes of the
  configuration and of the environment, the backend that may be built from them, the two reports of
  the terminal, and \<open>snapshot\<close>, which reads the stored records back and says how fresh they are. The
  theorems say what settings that were accepted look like, when a run is a dry run, and that the
  snapshot classifies the records that were stored.
\<close>

section \<open>Settings\<close>

record market_settings =
  ms_base :: string
  ms_sqlite :: string
  ms_kind :: string
  ms_mode :: string
  ms_poll :: int
  ms_enabled :: bool
  ms_terminal :: "string option"
  ms_login :: string
  ms_password :: string
  ms_server :: string
  ms_existing :: bool
  ms_collector :: collector_settings

text \<open>\<open>True\<close> is an \<open>int\<close>, and positive.\<close>

definition positive_int :: "json \<Rightarrow> string \<Rightarrow> py_exn + int" where
  "positive_int v path =
     (case v of
        JInt i \<Rightarrow> if i \<le> 0 then Inl (RuntimeError (path @ '' must be a positive integer'')) else Inr i
      | JBool True \<Rightarrow> Inr 1
      | _ \<Rightarrow> Inl (RuntimeError (path @ '' must be a positive integer'')))"

definition filled_text :: "json \<Rightarrow> string \<Rightarrow> py_exn + string" where
  "filled_text v path =
     (case v of
        JStr s \<Rightarrow> if s = [] then Inl (RuntimeError (path @ '' must be a non-empty string'')) else Inr s
      | _ \<Rightarrow> Inl (RuntimeError (path @ '' must be a non-empty string'')))"

definition env_aliases :: "app_settings \<Rightarrow> (string, string) dict" where
  "env_aliases A =
     (let raw = (\<lambda>k. dict_get_or (as_raw A) k [])
      in [(''XAUUSD'', raw ''MT5_XAUUSD_SYMBOL''), (''DXY'', raw ''MT5_DXY_SYMBOL''),
          (''EURUSD'', raw ''MT5_EURUSD_SYMBOL''), (''AUDUSD'', raw ''MT5_AUDUSD_SYMBOL''),
          (''US10Y'', raw ''MT5_US10Y_SYMBOL'')])"

text \<open>\<open>dict.fromkeys\<close>: the first of equal names is kept.\<close>

fun first_names :: "string list \<Rightarrow> string list" where
  "first_names [] = []"
| "first_names (x # xs) = x # filter (\<lambda>y. y \<noteq> x) (first_names xs)"

definition symbol_path :: "nat \<Rightarrow> string" where
  "symbol_path i = ''marketData.symbols['' @ int_str (int i) @ '']''"

definition parse_target :: "app_settings \<Rightarrow> nat \<times> json \<Rightarrow> py_exn + symbol_target" where
  "parse_target A = (\<lambda>(i, item).
     bind_res (section_object item (symbol_path i)) (\<lambda>s.
     bind_res (section_list (member s ''aliases'') (symbol_path i @ ''.aliases'')) (\<lambda>listed.
     bind_res (filled_text (member s ''canonical'') (symbol_path i @ ''.canonical'')) (\<lambda>logical.
     bind_res (map_res (\<lambda>a. filled_text a (symbol_path i @ ''.aliases'')) listed) (\<lambda>aliases.
       let extra = dict_get_or (env_aliases A) logical []
       in Inr \<lparr>st_logical = logical,
               st_aliases = first_names (aliases @ (if extra = [] then [] else [extra]))\<rparr>)))))"

text \<open>\<open>bool(parsed_values.get(name, default))\<close>; a path and a secret object are always true.\<close>

fun env_truthy :: "env_value \<Rightarrow> bool" where
  "env_truthy (EBool b) = b"
| "env_truthy (EInt i) = (i \<noteq> 0)"
| "env_truthy (EText s) = (s \<noteq> [])"
| "env_truthy (EPath p) = True"
| "env_truthy (ESecret s) = True"

definition parsed_flag :: "app_settings \<Rightarrow> string \<Rightarrow> bool \<Rightarrow> bool" where
  "parsed_flag A name d = (case dict_get (as_parsed A) name of None \<Rightarrow> d | Some v \<Rightarrow> env_truthy v)"

text \<open>
  The check of the timeframes against \<open>SUPPORTED_TIMEFRAMES\<close> comes after each has become a member of
  the enumeration that this set is made of.
\<close>

definition parse_timeframes :: "json list \<Rightarrow> py_exn + timeframe list" where
  "parse_timeframes items =
     bind_res (map_res (\<lambda>v. bind_res (filled_text v ''marketData.timeframes'') timeframe_of) items) (\<lambda>ts.
     let unsupported = filter (\<lambda>n. n \<notin> set (map timeframe_value all_timeframes)) (map timeframe_value ts)
     in if unsupported \<noteq> []
        then Inl (RuntimeError (''Unsupported market-data timeframes: '' @ str_join '', '' unsupported))
        else Inr ts)"

definition under :: "env_platform \<Rightarrow> string \<Rightarrow> string \<Rightarrow> string" where
  "under F root_dir p = ep_resolve F (if ep_absolute F p then p else ep_join F root_dir p)"

definition parse_market_data_settings ::
  "env_platform \<Rightarrow> (string, json) dict \<Rightarrow> app_settings \<Rightarrow> py_exn + market_settings" where
  "parse_market_data_settings F config A =
     bind_res (section_object (member config ''marketData'') ''marketData'') (\<lambda>m.
     bind_res (section_object (member m ''backend'') ''marketData.backend'') (\<lambda>backend.
     bind_res (section_object (member m ''storage'') ''marketData.storage'') (\<lambda>storage.
     bind_res (section_object (member m ''collection'') ''marketData.collection'') (\<lambda>coll.
     bind_res (section_list (member m ''symbols'') ''marketData.symbols'') (\<lambda>symbols.
     bind_res (section_list (member m ''timeframes'') ''marketData.timeframes'') (\<lambda>tfs.
     bind_res (filled_text (member storage ''baseDir'') ''marketData.storage.baseDir'') (\<lambda>base_dir.
     bind_res (filled_text (member storage ''sqlitePath'') ''marketData.storage.sqlitePath'') (\<lambda>sqlite.
     bind_res (filled_text (member storage ''parquetDir'') ''marketData.storage.parquetDir'') (\<lambda>parquet.
     bind_res (map_res (parse_target A) (enumerate 0 symbols)) (\<lambda>targets.
     bind_res (parse_timeframes tfs) (\<lambda>timeframes.
     let data_root = ep_resolve F base_dir;
         number = (\<lambda>k. positive_int (member coll k) (''marketData.collection.'' @ k))
     in bind_res (filled_text (member backend ''kind'') ''marketData.backend.kind'') (\<lambda>kind.
        bind_res (filled_text (member backend ''mode'') ''marketData.backend.mode'') (\<lambda>mode.
        bind_res (number ''pollSeconds'') (\<lambda>poll.
        bind_res (number ''tickLookbackSeconds'') (\<lambda>tick.
        bind_res (number ''barLookbackCount'') (\<lambda>bar.
        bind_res (number ''freshnessThresholdSeconds'') (\<lambda>fresh.
        bind_res (number ''retryMaxAttempts'') (\<lambda>attempts.
        bind_res (number ''retryBackoffSeconds'') (\<lambda>backoff.
          Inr \<lparr>ms_base = data_root, ms_sqlite = under F data_root sqlite, ms_kind = kind, ms_mode = mode,
               ms_poll = poll, ms_enabled = parsed_flag A ''MT5_ENABLED'' False,
               ms_terminal = (case dict_get (as_parsed A) ''MT5_TERMINAL_PATH'' of Some (EPath p) \<Rightarrow> Some p | _ \<Rightarrow> None),
               ms_login = dict_get_or (as_raw A) ''MT5_LOGIN'' [],
               ms_password = dict_get_or (as_raw A) ''MT5_PASSWORD'' [],
               ms_server = dict_get_or (as_raw A) ''MT5_SERVER'' [],
               ms_existing = parsed_flag A ''MT5_USE_EXISTING_SESSION'' True,
               ms_collector =
                 \<lparr>se_symbols = targets, se_timeframes = timeframes, se_tick_lookback = tick,
                  se_bar_lookback = bar, se_freshness = fresh, se_attempts = attempts,
                  se_backoff = backoff, se_root = under F data_root parquet,
                  se_dry_run = parsed_flag A ''DRY_RUN'' True\<rparr>\<rparr>)))))))))))))))))))"

text \<open>The arguments of the adapter; its package is outside.\<close>

record adapter_arguments =
  aa_terminal :: "string option"
  aa_login :: string
  aa_password :: string
  aa_server :: string
  aa_existing :: bool

definition build_market_data_backend :: "market_settings \<Rightarrow> market_exn + adapter_arguments" where
  "build_market_data_backend c =
     (if ms_kind c \<noteq> ''mt5'' \<or> ms_mode c \<noteq> ''readonly''
      then Inl (Disconnected ''Only the readonly MT5 backend is supported'')
      else Inr \<lparr>aa_terminal = ms_terminal c, aa_login = ms_login c, aa_password = ms_password c,
                aa_server = ms_server c, aa_existing = ms_existing c\<rparr>)"

section \<open>Reports of the terminal\<close>

text \<open>What the adapter says about itself; the order of the calls is that of the code.\<close>

record 'w terminal_reports =
  ti_name :: string
  ti_terminal :: "('w, market_row option) act"
  ti_account :: "('w, market_row option) act"
  ti_version :: "('w, json list option) act"

record terminal_health =
  th_enabled :: bool
  th_connected :: bool
  th_backend :: string
  th_path :: "string option"
  th_server :: "string option"
  th_login :: "int option"
  th_ping :: "int option"
  th_version :: "string option"
  th_message :: string

definition health_operation :: "market_env \<Rightarrow> 'w terminal_reports \<Rightarrow> ('w, terminal_health) act" where
  "health_operation K B =
     bind_act (ti_terminal B) (\<lambda>info.
     bind_act (ti_account B) (\<lambda>account.
     bind_act (ti_version B) (\<lambda>version.
     let login_raw = (case account of None \<Rightarrow> [] | Some a \<Rightarrow> as_text K a ''login'')
     in bind_act (if login_raw = [] then ret None
                  else of_res (bind_res (mk_int_of_text K login_raw) (\<lambda>i. Inr (Some i)))) (\<lambda>login.
        ret \<lparr>th_enabled = True, th_connected = (info \<noteq> None), th_backend = ti_name B,
             th_path = map_option (\<lambda>i. as_text K i ''path'') info,
             th_server = map_option (\<lambda>a. as_text K a ''server'') account, th_login = login, th_ping = None,
             th_version = map_option (\<lambda>v. str_join ''.'' (map (py_str (mk_platform K)) v)) version,
             th_message = (if info \<noteq> None then ''connected'' else ''terminal info unavailable'')\<rparr>))))"

definition terminal_health ::
  "market_env \<Rightarrow> 'w terminal \<Rightarrow> 'w terminal_reports \<Rightarrow> collector_settings \<Rightarrow> ('w, terminal_health) act" where
  "terminal_health K T B cfg = retried T cfg (health_operation K B)"

definition market_health ::
  "market_env \<Rightarrow> 'w terminal \<Rightarrow> 'w terminal_reports \<Rightarrow> market_settings \<Rightarrow> ('w, (string, json) dict) act" where
  "market_health K T B c =
     (if \<not> ms_enabled c
      then ret [(''version'', JStr package_version), (''phase'', JStr phase), (''enabled'', JBool False),
                (''connected'', JBool False), (''backend'', JStr (ti_name B)),
                (''message'', JStr ''MT5 market-data runtime is disabled in the environment'')]
      else bind_act (terminal_health K T B (ms_collector c)) (\<lambda>h.
        ret [(''version'', JStr package_version), (''phase'', JStr phase),
             (''schema_version'', JStr market_schema_version), (''enabled'', JBool (th_enabled h)),
             (''connected'', JBool (th_connected h)), (''backend'', JStr (th_backend h)),
             (''terminal_path'', opt_json JStr (th_path h)), (''server'', opt_json JStr (th_server h)),
             (''login'', opt_json JInt (th_login h)), (''ping_ms'', opt_json JInt (th_ping h)),
             (''version_text'', opt_json JStr (th_version h)), (''message'', JStr (th_message h))]))"

definition discovered_json :: "discovered_symbol \<Rightarrow> json" where
  "discovered_json d =
     JObj [(''broker_symbol'', JStr (ds_broker d)), (''description'', JStr (ds_description d)),
           (''path'', JStr (ds_path d)), (''visible'', JBool (ds_visible d)),
           (''point'', JFloat (ds_point d)), (''digits'', JInt (ds_digits d))]"

definition discover_symbols ::
  "market_env \<Rightarrow> 'w terminal \<Rightarrow> collector_settings \<Rightarrow> ('w, (string, json) dict) act" where
  "discover_symbols K T cfg =
     bind_act (list_symbols K T cfg) (\<lambda>ds.
       ret [(''version'', JStr package_version), (''phase'', JStr phase), (''count'', JInt (int (length ds))),
            (''symbols'', JList (map discovered_json ds))])"

section \<open>The snapshot\<close>

text \<open>
  Records are read back from the stored payloads. A time has its offset, as every time that the store
  writes, and is the instant; a member with a default is read by \<open>get\<close>, the others raise when they
  are not there, except for the numbers, where \<open>None\<close> is zero.
\<close>

definition snapshot_datetime :: "market_env \<Rightarrow> json \<Rightarrow> py_exn + int" where
  "snapshot_datetime K v = from_iso_z (mk_platform K) (py_str (mk_platform K) v)"

definition item_text :: "market_env \<Rightarrow> json \<Rightarrow> string \<Rightarrow> py_exn + string" where
  "item_text K v k = bind_res (json_item v k) (\<lambda>x. Inr (py_str (mk_platform K) x))"

definition item_time :: "market_env \<Rightarrow> json \<Rightarrow> string \<Rightarrow> py_exn + int" where
  "item_time K v k = bind_res (json_item v k) (snapshot_datetime K)"

definition row_members :: "json \<Rightarrow> market_row" where
  "row_members v = (case v of JObj m \<Rightarrow> m | _ \<Rightarrow> [])"

definition item_flags :: "market_env \<Rightarrow> json \<Rightarrow> py_exn + string list" where
  "item_flags K v =
     bind_res (json_item v ''quality_flags'') (\<lambda>fs.
       case fs of
         JList xs \<Rightarrow> Inr (map (py_str (mk_platform K)) xs)
       | JStr s \<Rightarrow> Inr (map (\<lambda>c. [c]) s)
       | JObj m \<Rightarrow> Inr (map fst m)
       | _ \<Rightarrow> Inl TypeError)"

text \<open>The last five members and the checks of \<open>__post_init__\<close>, the same for both kinds of record.\<close>

definition provenance_members ::
  "market_env \<Rightarrow> json \<Rightarrow> py_exn + string \<times> string \<times> int option \<times> string \<times> string option" where
  "provenance_members K v =
     (let E = mk_platform K; m = row_members v; kind = py_str E (dict_get_or m ''realtime_class'' (JStr ''UNKNOWN''))
      in bind_res (optional (dict_get_or m ''fetched_at_utc'' JNull) (snapshot_datetime K)) (\<lambda>fetched.
         bind_res (optional (dict_get_or m ''formula_version'' JNull) (\<lambda>x. Inr (py_str E x))) (\<lambda>formula.
           if kind \<notin> {''REALTIME'', ''DELAYED_15MIN'', ''DAILY_MACRO'', ''COMPUTED'', ''STALE'', ''UNKNOWN''}
           then Inl (ValueError (''invalid realtime_class: '' @ kind))
           else if kind = ''COMPUTED'' \<and> \<not> truthy formula
           then Inl (ValueError ''COMPUTED market data requires formula_version'')
           else Inr (py_str E (dict_get_or m ''source'' (JStr ''UNKNOWN'')),
                     py_str E (dict_get_or m ''source_system'' (JStr ''UNKNOWN'')), fetched, kind, formula))))"

definition snapshot_tick :: "market_env \<Rightarrow> json \<Rightarrow> py_exn + tick_record" where
  "snapshot_tick K v =
     (let m = row_members v
      in bind_res (item_text K v ''logical_symbol'') (\<lambda>symbol.
         bind_res (item_text K v ''schema_version'') (\<lambda>schema.
         bind_res (item_text K v ''collector_version'') (\<lambda>collector.
         bind_res (item_text K v ''broker_symbol'') (\<lambda>broker.
         bind_res (item_time K v ''market_time_utc'') (\<lambda>at_time.
         bind_res (as_int K m ''market_time_msc'') (\<lambda>msc.
         bind_res (item_time K v ''received_at_utc'') (\<lambda>received.
         bind_res (as_float K m ''bid'') (\<lambda>bid.
         bind_res (as_float K m ''ask'') (\<lambda>ask.
         bind_res (as_float K m ''last'') (\<lambda>lst.
         bind_res (as_float K m ''volume'') (\<lambda>volume.
         bind_res (as_float K m ''volume_real'') (\<lambda>vreal.
         bind_res (as_int K m ''flags'') (\<lambda>flags.
         bind_res (as_int K m ''spread_points'') (\<lambda>spread.
         bind_res (item_text K v ''sequence_id'') (\<lambda>sequence.
         bind_res (item_text K v ''data_quality'') (\<lambda>quality.
         bind_res (item_flags K v) (\<lambda>qflags.
         bind_res (provenance_members K v) (\<lambda>(source, system, fetched, kind, formula).
           Inr \<lparr>tick_schema = schema, tick_collector = collector, tick_symbol = symbol, tick_broker = broker,
                tick_time = at_time, tick_time_msc = msc, tick_received = received, tick_bid = bid,
                tick_ask = ask, tick_last = lst, tick_volume = volume, tick_volume_real = vreal,
                tick_flags = flags, tick_spread = spread, tick_sequence = sequence, tick_quality = quality,
                tick_quality_flags = qflags, tick_source = source, tick_source_system = system,
                tick_fetched = fetched, tick_class = kind, tick_formula = formula\<rparr>)))))))))))))))))))"

definition snapshot_bar :: "market_env \<Rightarrow> json \<Rightarrow> py_exn + bar_record" where
  "snapshot_bar K v =
     (let m = row_members v
      in bind_res (item_text K v ''schema_version'') (\<lambda>schema.
         bind_res (item_text K v ''collector_version'') (\<lambda>collector.
         bind_res (item_text K v ''logical_symbol'') (\<lambda>symbol.
         bind_res (item_text K v ''broker_symbol'') (\<lambda>broker.
         bind_res (item_text K v ''timeframe'') (\<lambda>tf.
         bind_res (item_time K v ''open_time_utc'') (\<lambda>open_time.
         bind_res (item_time K v ''close_time_utc'') (\<lambda>close_time.
         bind_res (as_float K m ''open'') (\<lambda>op.
         bind_res (as_float K m ''high'') (\<lambda>hi.
         bind_res (as_float K m ''low'') (\<lambda>lo.
         bind_res (as_float K m ''close'') (\<lambda>cl.
         bind_res (as_int K m ''tick_volume'') (\<lambda>ticks.
         bind_res (as_int K m ''real_volume'') (\<lambda>rvol.
         bind_res (as_int K m ''spread'') (\<lambda>spread.
         bind_res (json_item v ''is_closed'') (\<lambda>closed.
         bind_res (item_text K v ''bar_id'') (\<lambda>bid.
         bind_res (item_text K v ''data_quality'') (\<lambda>quality.
         bind_res (item_flags K v) (\<lambda>qflags.
         bind_res (provenance_members K v) (\<lambda>(source, system, fetched, kind, formula).
           Inr \<lparr>bar_schema = schema, bar_collector = collector, bar_symbol = symbol, bar_broker = broker,
                bar_timeframe = tf, bar_open_time = open_time, bar_close_time = close_time,
                bar_open = op, bar_high = hi, bar_low = lo, bar_close = cl, bar_tick_volume = ticks,
                bar_real_volume = rvol, bar_spread = spread, bar_closed = json_truthy closed,
                bar_id = bid, bar_quality = quality, bar_quality_flags = qflags, bar_source = source,
                bar_source_system = system, bar_fetched = fetched, bar_class = kind,
                bar_formula = formula\<rparr>))))))))))))))))))))"

text \<open>\<open>[row for row in bar_rows if str(row.get("logical_symbol")) == logical_symbol]\<close>\<close>

fun related_bars :: "market_env \<Rightarrow> string \<Rightarrow> json list \<Rightarrow> py_exn + json list" where
  "related_bars K symbol [] = Inr []"
| "related_bars K symbol (v # vs) =
     (case v of
        JObj m \<Rightarrow> bind_res (related_bars K symbol vs) (\<lambda>rest.
          Inr (if py_str (mk_platform K) (dict_get_or m ''logical_symbol'' JNull) = symbol then v # rest else rest))
      | _ \<Rightarrow> Inl AttributeError)"

definition symbol_freshness ::
  "market_env \<Rightarrow> collector_settings \<Rightarrow> int \<Rightarrow> json list \<Rightarrow> json \<Rightarrow> py_exn + string \<times> freshness" where
  "symbol_freshness K cfg observed bar_rows v =
     bind_res (item_text K v ''logical_symbol'') (\<lambda>symbol.
     bind_res (related_bars K symbol bar_rows) (\<lambda>related.
     bind_res (snapshot_tick K v) (\<lambda>t.
     bind_res (map_res (snapshot_bar K) related) (\<lambda>bs.
     bind_res (classify_freshness observed [t] bs (se_freshness cfg)) (\<lambda>(fresh, _).
       Inr (symbol, fresh))))))"

definition snapshot_freshness ::
  "market_env \<Rightarrow> collector_settings \<Rightarrow> int \<Rightarrow> json list \<Rightarrow> json list \<Rightarrow> py_exn + (string, freshness) dict" where
  "snapshot_freshness K cfg observed bar_rows tick_rows =
     bind_res (map_res (symbol_freshness K cfg observed bar_rows) tick_rows) (\<lambda>fs.
       Inr (fold (\<lambda>(s, f). dict_set s f) fs []))"

definition freshness_json :: "freshness \<Rightarrow> json" where
  "freshness_json f = JObj [(''ticks'', JStr (fr_ticks f)), (''bars'', JStr (fr_bars f))]"

definition build_snapshot_payload ::
  "market_env \<Rightarrow> (string, json) dict \<Rightarrow> int \<Rightarrow> (string, freshness) dict \<Rightarrow> (string, json) dict" where
  "build_snapshot_payload K stored generated fresh =
     dict_set ''freshness'' (JObj (map (\<lambda>(s, f). (s, freshness_json f)) fresh))
       (dict_set ''generated_at_utc'' (JStr (iso_text (mk_platform K) generated))
         (dict_set ''phase'' (JStr phase) (dict_set ''version'' (JStr package_version) stored)))"

definition snapshot_of_store ::
  "market_env \<Rightarrow> collector_settings \<Rightarrow> string option \<Rightarrow> int \<Rightarrow> state_store \<Rightarrow> py_exn + (string, json) dict" where
  "snapshot_of_store K cfg symbol observed S =
     (let stored = stored_snapshot symbol S;
          rows = (\<lambda>k. case dict_get_or stored k JNull of JList xs \<Rightarrow> xs | _ \<Rightarrow> [])
      in bind_res (snapshot_freshness K cfg observed (rows ''bars'') (rows ''ticks'')) (\<lambda>fresh.
           Inr (build_snapshot_payload K stored observed fresh)))"

definition market_snapshot ::
  "market_env \<Rightarrow> 'w terminal \<Rightarrow> collector_settings \<Rightarrow> string option \<Rightarrow> bool \<Rightarrow> bool option \<Rightarrow> int option \<Rightarrow>
   ('w service, (string, json) dict) act" where
  "market_snapshot K T cfg symbol refresh dry_run now =
     bind_act (outside (reading (te_now T))) (\<lambda>clock.
     let observed = (case now of None \<Rightarrow> clock | Some t \<Rightarrow> t)
     in bind_act (if refresh
                  then bind_act (collect_once K T cfg (map_option (\<lambda>s. [s]) symbol) (Some observed) dry_run) (\<lambda>_. ret ())
                  else ret ()) (\<lambda>_.
        of_store (snapshot_of_store K cfg symbol observed)))"

section \<open>What the settings guarantee\<close>

lemma positive_int_Inr: "positive_int v path = Inr i \<Longrightarrow> 0 < i"
  by (auto simp: positive_int_def split: json.splits bool.splits if_splits)

lemma filled_text_Inr: "filled_text v path = Inr s \<Longrightarrow> s \<noteq> []"
  by (auto simp: filled_text_def split: json.splits if_splits)

lemma first_names_set: "set (first_names xs) = set xs"
  by (induction xs) auto

lemma first_names_distinct: "distinct (first_names xs)"
  by (induction xs) auto

definition target_ok :: "app_settings \<Rightarrow> symbol_target \<Rightarrow> bool" where
  "target_ok A t \<longleftrightarrow>
     st_logical t \<noteq> [] \<and> distinct (st_aliases t) \<and> [] \<notin> set (st_aliases t) \<and>
     set (filter (\<lambda>a. a \<noteq> []) [dict_get_or (env_aliases A) (st_logical t) []]) \<subseteq> set (st_aliases t)"

lemma map_res_all:
  "map_res f xs = Inr ys \<Longrightarrow> (\<And>x y. f x = Inr y \<Longrightarrow> Q y) \<Longrightarrow> list_all Q ys"
  by (induction xs arbitrary: ys) (auto split: sum.splits)

lemma map_res_filled: "map_res (\<lambda>a. filled_text a path) vs = Inr ss \<Longrightarrow> [] \<notin> set ss"
  using map_res_all [of "\<lambda>a. filled_text a path" vs ss "\<lambda>s. s \<noteq> []"] filled_text_Inr
  by (auto simp: list_all_iff)

lemma parse_target_ok:
  assumes "parse_target A x = Inr t"
  shows "target_ok A t"
  using assms unfolding parse_target_def
  by (auto simp: bind_res_Inr target_ok_def Let_def first_names_set first_names_distinct
      dest!: filled_text_Inr map_res_filled split: prod.splits)

text \<open>
  C23: Settings that were accepted are well formed: every number is positive, the kind and the mode of the
  backend are given, and each symbol has a name and a list of aliases without repetitions or blanks,
  which has the alias of the environment when one of the five variables that are read gives it. A
  backend is built from them exactly for the readonly MT5 mode, with the account of the environment.
\<close>

theorem accepted_settings_well_formed:
  assumes "parse_market_data_settings F config A = Inr m"
  shows "0 < ms_poll m \<and> 0 < se_tick_lookback (ms_collector m) \<and> 0 < se_bar_lookback (ms_collector m) \<and>
     0 < se_freshness (ms_collector m) \<and> 0 < se_attempts (ms_collector m) \<and> 0 < se_backoff (ms_collector m) \<and>
     list_all (target_ok A) (se_symbols (ms_collector m)) \<and>
     (build_market_data_backend m =
        (if ms_kind m = ''mt5'' \<and> ms_mode m = ''readonly''
         then Inr \<lparr>aa_terminal = ms_terminal m, aa_login = dict_get_or (as_raw A) ''MT5_LOGIN'' [],
                   aa_password = dict_get_or (as_raw A) ''MT5_PASSWORD'' [],
                   aa_server = dict_get_or (as_raw A) ''MT5_SERVER'' [],
                   aa_existing = parsed_flag A ''MT5_USE_EXISTING_SESSION'' True\<rparr>
         else Inl (Disconnected ''Only the readonly MT5 backend is supported'')))"
proof -
  have targets: "list_all (target_ok A) ts" if "map_res (parse_target A) xs = Inr ts" for xs ts
    using map_res_all [OF that parse_target_ok] .
  show ?thesis
    using assms unfolding parse_market_data_settings_def Let_def bind_res_Inr
    by (elim exE conjE) (auto simp: build_market_data_backend_def targets dest: positive_int_Inr)
qed

section \<open>When a run is a dry run\<close>

lemma parse_values_blank:
  "parse_values F values ss parsed secrets = Inr (p, q) \<Longrightarrow> distinct (map es_name ss) \<Longrightarrow> s \<in> set ss \<Longrightarrow>
   dict_get_or values (es_name s) [] = [] \<Longrightarrow> dict_get p (es_name s) = Some (EText [])"
proof (induction ss arbitrary: parsed secrets)
  case Nil
  then show ?case by simp
next
  case (Cons t ss)
  show ?case
  proof (cases "s = t")
    case True
    obtain sec where "parse_values F values ss (dict_set (es_name t) (EText []) parsed) sec = Inr (p, q)"
      using Cons.prems(1,4) True by (auto simp: Let_def split: if_splits)
    from parse_values_other [OF this, of "es_name t"] Cons.prems(2) True show ?thesis by simp
  next
    case False
    obtain w sec where "parse_values F values ss (dict_set (es_name t) w parsed) sec = Inr (p, q)"
      using Cons.prems(1) by (auto simp: Let_def split: if_splits sum.splits)
    from Cons.IH [OF this] Cons.prems False show ?thesis by simp
  qed
qed

lemma parse_values_runs:
  "parse_values F values ss parsed secrets = Inr (p, q) \<Longrightarrow> s \<in> set ss \<Longrightarrow>
   dict_get_or values (es_name s) [] \<noteq> [] \<Longrightarrow> \<exists>v. run_parser F (es_parser s) (dict_get_or values (es_name s) []) = Inr v"
proof (induction ss arbitrary: parsed secrets)
  case Nil
  then show ?case by simp
next
  case (Cons t ss)
  obtain w sec where "parse_values F values ss (dict_set (es_name t) w parsed) sec = Inr (p, q)"
    using Cons.prems(1) by (auto simp: Let_def split: if_splits sum.splits)
  from Cons.IH [OF this] Cons.prems show ?case
    by (auto simp: Let_def split: if_splits sum.splits)
qed

lemma flag_of_loaded:
  assumes "load_settings F P env_path strict = Inr A" and "env_spec n Bool_parser False None \<in> set (build_env_specs P)"
  shows "parsed_flag A n d \<longleftrightarrow> parse_bool (dict_get_or (as_raw A) n []) = Inr (EBool True)"
proof -
  let ?s = "env_spec n Bool_parser False None"
  have s: "es_name ?s = n" "es_parser ?s = Bool_parser" by (simp_all add: env_spec_def)
  obtain q where parsed: "parse_values F (as_raw A) (build_env_specs P) [] [] = Inr (as_parsed A, q)"
    using assms(1) by (auto simp: load_settings_def audit_environment_def bind_res_Inr Let_def
        split: if_splits option.splits prod.splits)
  show ?thesis
  proof (cases "dict_get_or (as_raw A) n [] = []")
    case True
    have "parse_bool [] \<noteq> Inr (EBool True)" by code_simp
    with parse_values_blank [OF parsed specs_distinct assms(2)] True s show ?thesis
      by (simp add: parsed_flag_def)
  next
    case False
    then obtain raw where raw: "dict_get (as_raw A) n = Some raw" "raw \<noteq> []"
      by (auto simp: dict_get_or_def split: option.splits)
    obtain v where v: "parse_bool raw = Inr v"
      using parse_values_runs [OF parsed assms(2)] raw s by (auto simp: dict_get_or_def)
    have "dict_get (as_parsed A) n = Some v"
      using parse_values_get [OF parsed specs_distinct assms(2)] raw v s by simp
    moreover obtain c where "v = EBool c" using parse_bool_Inr [OF v] by blast
    ultimately show ?thesis using v raw by (simp add: parsed_flag_def dict_get_or_def)
  qed
qed

lemma market_flags:
  "env_spec ''DRY_RUN'' Bool_parser False None \<in> set (build_env_specs P)"
  "env_spec ''MT5_ENABLED'' Bool_parser False None \<in> set (build_env_specs P)"
  "env_spec ''MT5_USE_EXISTING_SESSION'' Bool_parser False None \<in> set (build_env_specs P)"
  unfolding build_env_specs_def by (simp_all only: list.set insert_iff simp_thms)

lemma parsed_flags:
  assumes "parse_market_data_settings F config A = Inr m"
  shows "se_dry_run (ms_collector m) = parsed_flag A ''DRY_RUN'' True"
    and "ms_enabled m = parsed_flag A ''MT5_ENABLED'' False"
    and "ms_existing m = parsed_flag A ''MT5_USE_EXISTING_SESSION'' True"
  using assms unfolding parse_market_data_settings_def Let_def bind_res_Inr
  by (elim exE conjE; simp; fastforce)+


section \<open>A configuration that is accepted\<close>

definition sample_collection :: "(string, json) dict" where
  "sample_collection =
     map (\<lambda>k. (k, JInt 5)) [''pollSeconds'', ''tickLookbackSeconds'', ''barLookbackCount'',
       ''freshnessThresholdSeconds'', ''retryMaxAttempts'', ''retryBackoffSeconds'']"

definition sample_config :: "(string, json) dict" where
  "sample_config =
     [(''marketData'', JObj
        [(''backend'', JObj [(''kind'', JStr ''mt5''), (''mode'', JStr ''readonly'')]),
         (''storage'', JObj [(''baseDir'', JStr ''d''), (''sqlitePath'', JStr ''s''), (''parquetDir'', JStr ''p'')]),
         (''collection'', JObj sample_collection), (''symbols'', JList []), (''timeframes'', JList [JStr ''H1''])])]"

lemma sample_config_accepted: "\<exists>m. parse_market_data_settings F sample_config A = Inr m"
  by (simp add: parse_market_data_settings_def sample_config_def sample_collection_def section_object_def
      section_list_def filled_text_def positive_int_def parse_timeframes_def timeframe_of_def all_timeframes_def
      dict_get_or_def Let_def)

lemma accepted_settings_well_formed_witness:
  "\<exists>m. parse_market_data_settings (plain_platform []) sample_config \<lparr>as_path = [], as_raw = [], as_parsed = [], as_secrets = []\<rparr> =
     Inr m \<and> 0 < ms_poll m"
  using sample_config_accepted accepted_settings_well_formed by blast


section \<open>The snapshot reads what was stored\<close>

definition stored_tick :: "market_env \<Rightarrow> tick_record \<Rightarrow> json" where
  "stored_tick K t = json_norm (tick_json (mk_platform K) t)"

definition stored_bar :: "market_env \<Rightarrow> bar_record \<Rightarrow> json" where
  "stored_bar K b = json_norm (bar_json (mk_platform K) b)"

definition storable_tick :: "py_env \<Rightarrow> tick_record \<Rightarrow> bool" where
  "storable_tick E r \<longleftrightarrow>
     (\<forall>t. t = tick_time r \<or> t = tick_received r \<or> tick_fetched r = Some t \<longrightarrow>
        iso_parse E (iso_text E t) = Some t) \<and>
     tick_class r \<in> {''REALTIME'', ''DELAYED_15MIN'', ''DAILY_MACRO'', ''COMPUTED'', ''STALE'', ''UNKNOWN''} \<and>
     (tick_class r = ''COMPUTED'' \<longrightarrow> truthy (tick_formula r))"

lemma norm_object:
  assumes "distinct (map fst m)" and "map_of m k = Some w"
  shows "json_item (json_norm (JObj m)) k = Inr (json_norm w)"
    and "dict_get_or (row_members (json_norm (JObj m))) k u = json_norm w"
  using assms by (simp_all add: json_item_def row_members_def dict_get_or_def map_of_norm)

definition tick_members :: "py_env \<Rightarrow> tick_record \<Rightarrow> (string, json) dict" where
  "tick_members E r = (case tick_json E r of JObj m \<Rightarrow> m | _ \<Rightarrow> [])"

lemma tick_member:
  "map_of (tick_members E r) ''schema_version'' = Some (JStr (tick_schema r))"
  "map_of (tick_members E r) ''collector_version'' = Some (JStr (tick_collector r))"
  "map_of (tick_members E r) ''logical_symbol'' = Some (JStr (tick_symbol r))"
  "map_of (tick_members E r) ''broker_symbol'' = Some (JStr (tick_broker r))"
  "map_of (tick_members E r) ''market_time_utc'' = Some (JStr (iso_text E (tick_time r)))"
  "map_of (tick_members E r) ''market_time_msc'' = Some (JInt (tick_time_msc r))"
  "map_of (tick_members E r) ''received_at_utc'' = Some (JStr (iso_text E (tick_received r)))"
  "map_of (tick_members E r) ''bid'' = Some (JFloat (tick_bid r))"
  "map_of (tick_members E r) ''ask'' = Some (JFloat (tick_ask r))"
  "map_of (tick_members E r) ''last'' = Some (JFloat (tick_last r))"
  "map_of (tick_members E r) ''volume'' = Some (JFloat (tick_volume r))"
  "map_of (tick_members E r) ''volume_real'' = Some (JFloat (tick_volume_real r))"
  "map_of (tick_members E r) ''flags'' = Some (JInt (tick_flags r))"
  "map_of (tick_members E r) ''spread_points'' = Some (JInt (tick_spread r))"
  "map_of (tick_members E r) ''sequence_id'' = Some (JStr (tick_sequence r))"
  "map_of (tick_members E r) ''data_quality'' = Some (JStr (tick_quality r))"
  "map_of (tick_members E r) ''quality_flags'' = Some (JList (map JStr (tick_quality_flags r)))"
  "map_of (tick_members E r) ''source'' = Some (JStr (tick_source r))"
  "map_of (tick_members E r) ''source_system'' = Some (JStr (tick_source_system r))"
  "map_of (tick_members E r) ''fetched_at_utc'' = Some (opt_json (time_json E) (tick_fetched r))"
  "map_of (tick_members E r) ''realtime_class'' = Some (JStr (tick_class r))"
  "map_of (tick_members E r) ''formula_version'' = Some (opt_json JStr (tick_formula r))"
  by (simp_all add: tick_members_def tick_json_def time_json_def)

lemma tick_object: "tick_json E r = JObj (tick_members E r)" "distinct (map fst (tick_members E r))"
  by (simp_all add: tick_members_def tick_json_def)

lemma bar_object: "bar_json E r = JObj (bar_members E r)" "distinct (map fst (bar_members E r))"
  by (simp_all add: bar_members_def bar_json_def)

lemmas tick_items = tick_member [THEN norm_object(1) [OF tick_object(2)]]
  tick_member [THEN norm_object(2) [OF tick_object(2)]]

lemmas bar_items = bar_member [THEN norm_object(1) [OF bar_object(2)]]
  bar_member [THEN norm_object(2) [OF bar_object(2)]]

lemma provenance_read:
  assumes "dict_get_or (row_members v) ''realtime_class'' (JStr ''UNKNOWN'') = JStr kind"
    and "dict_get_or (row_members v) ''fetched_at_utc'' JNull = opt_json (time_json (mk_platform K)) fetched"
    and "dict_get_or (row_members v) ''formula_version'' JNull = opt_json JStr formula"
    and "dict_get_or (row_members v) ''source'' (JStr ''UNKNOWN'') = JStr source"
    and "dict_get_or (row_members v) ''source_system'' (JStr ''UNKNOWN'') = JStr system"
    and "\<And>t. fetched = Some t \<Longrightarrow> iso_parse (mk_platform K) (iso_text (mk_platform K) t) = Some t"
    and "kind \<in> {''REALTIME'', ''DELAYED_15MIN'', ''DAILY_MACRO'', ''COMPUTED'', ''STALE'', ''UNKNOWN''}"
    and "kind = ''COMPUTED'' \<longrightarrow> truthy formula"
  shows "provenance_members K v = Inr (source, system, fetched, kind, formula)"
proof -
  let ?E = "mk_platform K"
  have "optional (opt_json (time_json ?E) fetched) (snapshot_datetime K) = Inr fetched"
    using assms(6) by (cases fetched)
      (simp_all add: optional_def opt_json_def time_json_def snapshot_datetime_def from_iso_z_def)
  moreover have "optional (opt_json JStr formula) (\<lambda>x. Inr (py_str ?E x)) = Inr formula"
    by (cases formula) (simp_all add: optional_def opt_json_def)
  moreover have "(kind \<notin> {''REALTIME'', ''DELAYED_15MIN'', ''DAILY_MACRO'', ''COMPUTED'', ''STALE'', ''UNKNOWN''}) = False"
    "(kind = ''COMPUTED'' \<and> \<not> truthy formula) = False"
    using assms(7,8) by simp_all
  ultimately show ?thesis
    unfolding provenance_members_def Let_def assms(1-5) bind_res_simps py_str.simps
    by (simp only: bind_res_simps if_False)
qed

lemma flags_read: "json_item v ''quality_flags'' = Inr (JList (map JStr xs)) \<Longrightarrow> item_flags K v = Inr xs"
  by (simp only: item_flags_def bind_res_simps json.case map_py_str)

lemma text_read: "json_item v k = Inr (JStr s) \<Longrightarrow> item_text K v k = Inr s"
  by (simp add: item_text_def)

lemma time_read:
  "json_item v k = Inr (JStr (iso_text (mk_platform K) t)) \<Longrightarrow>
   iso_parse (mk_platform K) (iso_text (mk_platform K) t) = Some t \<Longrightarrow> item_time K v k = Inr t"
  by (simp add: item_time_def snapshot_datetime_def from_iso_z_def)

lemma number_read:
  "dict_get_or m k JNull = JFloat x \<Longrightarrow> as_float K m k = Inr x"
  "dict_get_or m k JNull = JInt i \<Longrightarrow> as_int K m k = Inr i"
  by (simp_all add: as_float_def as_int_def)

lemma leaf_norm:
  "json_norm (JStr s) = JStr s" "json_norm (JInt i) = JInt i" "json_norm (JFloat x) = JFloat x"
  "json_norm (JBool b) = JBool b" "json_norm (JList (map JStr xs)) = JList (map JStr xs)"
  "json_norm (opt_json (time_json E) t) = opt_json (time_json E) t"
  "json_norm (opt_json JStr u) = opt_json JStr u"
  by (simp_all only: json_norm.simps json_norm_texts json_norm_opt)

lemma snapshot_tick_stored:
  assumes "storable_tick (mk_platform K) t"
  shows "snapshot_tick K (stored_tick K t) = Inr t"
proof -
  let ?E = "mk_platform K"
  define v where "v = json_norm (JObj (tick_members ?E t))"
  note items = tick_items [of ?E t, unfolded leaf_norm, folded v_def]
  have flags: "item_flags K v = Inr (tick_quality_flags t)"
    by (intro flags_read items)
  have prov: "provenance_members K v =
      Inr (tick_source t, tick_source_system t, tick_fetched t, tick_class t, tick_formula t)"
    using assms unfolding storable_tick_def by (intro provenance_read items) auto
  have times: "item_time K v ''market_time_utc'' = Inr (tick_time t)"
      "item_time K v ''received_at_utc'' = Inr (tick_received t)"
    using assms unfolding storable_tick_def by (auto intro!: time_read items)
  show ?thesis
    unfolding stored_tick_def tick_object(1) v_def [symmetric] snapshot_tick_def Let_def
    by (simp only: item_text_def as_float_def as_int_def items flags prov times bind_res_simps json.case
        py_str.simps prod.case) simp
qed

lemma snapshot_bar_stored:
  assumes "storable_bar (mk_platform K) b"
  shows "snapshot_bar K (stored_bar K b) = Inr b"
proof -
  let ?E = "mk_platform K"
  define v where "v = json_norm (JObj (bar_members ?E b))"
  note items = bar_items [of ?E b, unfolded leaf_norm, folded v_def]
  have flags: "item_flags K v = Inr (bar_quality_flags b)"
    by (intro flags_read items)
  have prov: "provenance_members K v =
      Inr (bar_source b, bar_source_system b, bar_fetched b, bar_class b, bar_formula b)"
    using assms unfolding storable_bar_def by (intro provenance_read items) auto
  have times: "item_time K v ''open_time_utc'' = Inr (bar_open_time b)"
      "item_time K v ''close_time_utc'' = Inr (bar_close_time b)"
    using assms unfolding storable_bar_def by (auto intro!: time_read items)
  show ?thesis
    unfolding stored_bar_def bar_object(1) v_def [symmetric] snapshot_bar_def Let_def
    by (simp only: item_text_def as_float_def as_int_def items flags prov times bind_res_simps json.case
        py_str.simps prod.case json_truthy.simps) simp
qed

lemma stored_symbol:
  "item_text K (stored_tick K t) ''logical_symbol'' = Inr (tick_symbol t)"
  by (rule text_read) (simp only: stored_tick_def tick_object(1) tick_items leaf_norm)

lemma related_stored:
  "related_bars K symbol (map (stored_bar K) bs) = Inr (map (stored_bar K) (filter (\<lambda>b. bar_symbol b = symbol) bs))"
proof (induction bs)
  case Nil
  show ?case by simp
next
  case (Cons b bs)
  let ?v = "json_norm (JObj (bar_members (mk_platform K) b))"
  have "py_str (mk_platform K) (dict_get_or (row_members ?v) ''logical_symbol'' JNull) = bar_symbol b"
    by (simp only: bar_items leaf_norm py_str.simps)
  moreover obtain m where "?v = JObj m" by simp
  ultimately show ?case
    using Cons.IH by (simp add: stored_bar_def bar_object(1) row_members_def del: json_norm.simps)
qed

lemma map_res_stored: "list_all (storable_bar (mk_platform K)) bs \<Longrightarrow> map_res (snapshot_bar K) (map (stored_bar K) bs) = Inr bs"
  by (induction bs) (simp_all add: snapshot_bar_stored)

lemma symbol_freshness_stored:
  assumes "storable_tick (mk_platform K) t" and "list_all (storable_bar (mk_platform K)) bs"
  shows "symbol_freshness K cfg now (map (stored_bar K) bs) (stored_tick K t) =
     bind_res (classify_freshness now [t] (filter (\<lambda>b. bar_symbol b = tick_symbol t) bs) (se_freshness cfg))
       (\<lambda>(fresh, _). Inr (tick_symbol t, fresh))"
proof -
  have "list_all (storable_bar (mk_platform K)) (filter (\<lambda>b. bar_symbol b = tick_symbol t) bs)"
    using assms(2) by (auto simp: list_all_iff)
  then show ?thesis
    unfolding symbol_freshness_def
    by (simp only: stored_symbol related_stored snapshot_tick_stored [OF assms(1)] map_res_stored bind_res_simps)
qed

lemma map_res_through:
  "(\<And>x. x \<in> set xs \<Longrightarrow> f (g x) = h x) \<Longrightarrow> map_res f (map g xs) = map_res h xs"
proof (induction xs)
  case Nil
  show ?case by simp
next
  case (Cons x xs)
  then show ?case by (cases "h x") simp_all
qed

text \<open>
  C40: The snapshot reads back what was stored: for stored ticks and bars with times that the platform reads
  as it writes them, the freshness that it reports for each tick is the classification of exactly
  that tick and the stored bars of its symbol, in their order, and a raise there is a raise of the
  snapshot.
\<close>

theorem snapshot_classifies_stored:
  assumes "list_all (storable_tick (mk_platform K)) ts" and "list_all (storable_bar (mk_platform K)) bs"
  shows "snapshot_freshness K cfg now (map (stored_bar K) bs) (map (stored_tick K) ts) =
     bind_res
       (map_res (\<lambda>t. bind_res
           (classify_freshness now [t] (filter (\<lambda>b. bar_symbol b = tick_symbol t) bs) (se_freshness cfg))
           (\<lambda>(fresh, _). Inr (tick_symbol t, fresh))) ts)
       (\<lambda>fs. Inr (fold (\<lambda>(s, f). dict_set s f) fs []))"
proof -
  have "map_res (symbol_freshness K cfg now (map (stored_bar K) bs)) (map (stored_tick K) ts) =
      map_res (\<lambda>t. bind_res
           (classify_freshness now [t] (filter (\<lambda>b. bar_symbol b = tick_symbol t) bs) (se_freshness cfg))
           (\<lambda>(fresh, _). Inr (tick_symbol t, fresh))) ts"
    using assms(1) by (intro map_res_through symbol_freshness_stored assms(2)) (simp add: list_all_iff)
  then show ?thesis by (simp add: snapshot_freshness_def)
qed

definition sample_tick :: tick_record where
  "sample_tick =
     \<lparr>tick_schema = ''1'', tick_collector = ''1'', tick_symbol = ''XAUUSD'', tick_broker = ''GOLD'', tick_time = 1,
      tick_time_msc = 1, tick_received = 1, tick_bid = Fin 1, tick_ask = Fin 1, tick_last = Fin 1,
      tick_volume = Fin 1, tick_volume_real = Fin 1, tick_flags = 0, tick_spread = 0, tick_sequence = ''s'',
      tick_quality = ''valid'', tick_quality_flags = [], tick_source = ''mt5_tick'',
      tick_source_system = ''MetaTrader5'', tick_fetched = None, tick_class = ''REALTIME'', tick_formula = None\<rparr>"

lemma snapshot_classifies_stored_witness:
  "snapshot_freshness stroke_market minute_settings 1 [stored_bar stroke_market (sample_bar 0)]
     [stored_tick stroke_market sample_tick] = Inr [(''XAUUSD'', \<lparr>fr_ticks = ''fresh'', fr_bars = ''fresh''\<rparr>)]"
proof -
  have "list_all (storable_tick (mk_platform stroke_market)) [sample_tick]"
      "list_all (storable_bar (mk_platform stroke_market)) [sample_bar 0]"
    by (auto simp: storable_tick_def storable_bar_def stroke_market_def sample_bar_def sample_tick_def truthy_def)
  from snapshot_classifies_stored [OF this, of minute_settings 1] show ?thesis
    by (simp add: classify_freshness_def sample_tick_def sample_bar_def minute_settings_def freshness_status_def
        ensure_timeframe_def all_timeframes_def)
qed

end
