(* ===== verification/Spec2Isabelle.thy ===== *)
theory Spec2Isabelle
  imports JobQueue EventConsumer SignalEngine Telegram Archive Experiments Skills RegistryCheck Planner Execution
    Backfill EnvAudit Backup Shutdown Watchdog Topology Config WorkOrder Journal SecurityScan Fred Providers
    SkillCatalog Features ManagerQuery MarketSettings
begin

text \<open>
  A model of the OpenClaw advisor engine, the Python package
  \<open>src/engine/src/openclaw_super_advisor\<close> (paths below are relative to it).

  What the program is. A MAIN agent coordinates a fixed team of thirteen agents that advise on the
  gold market and never trade. Market data comes from a MetaTrader terminal, is checked and stored;
  a scored signal becomes an event with the provenance of its numbers; the event consumer decides
  whether it is published; the Telegram gate formats it and spaces alerts; evidence and outcomes go
  to hash-chained logs; research passes through a state machine with a human gate; jobs run from a
  persistent queue; and the MAIN runtime plans, orders and dispatches the tasks of a request behind
  the capability registry and the release gate.

  The theories, by part.

  Foundation. Prelude has results (\<open>Inl\<close> is a raise), dictionaries in insertion order, the string
  methods and the list lemmas. Json has floats with NaN and the infinities, JSON values, Python
  truth, equality and \<open>repr\<close>, and \<open>json.dumps\<close>; \<open>py_env\<close> is the platform (digest, text of a float,
  rounded sum, ISO times). Sql has the SQLite statements the program issues, with the locale
  \<open>keyed_table\<close>: a table written only by upserts on its key is a map. HashChain has JSON-lines files
  and the locale of a reader of a hash-chained log, Lifecycle the locale of a state machine given by
  a table of moves.

  JobQueue: \<open>scheduler/job_queue.py\<close>. The tables of jobs and dead letters and the circuit counters
  are a record, each method is a function of it, \<open>queue_reachable\<close> is the transition system of all
  methods with a clock that does not run backwards. Two unexpired leases of one job never exist, rows
  stay consistent, leasing picks the oldest of the most urgent jobs, a failing job is dead-lettered.

  Events, EventConsumer, SignalEngine: \<open>events.py\<close>, \<open>event_consumer.py\<close>, \<open>signal_engine.py\<close>. An envelope
  is valid exactly when it has its fields, its payload hash and provenance for every number; built
  and redacted events are valid; the consumer publishes an event at most once, and which ones; the
  state of a signal decides what the consumer does with its event.

  Telegram: \<open>telegram.py\<close>. Contracts of the two bots, market messages with their cooldown, the
  operator bot; messages are lists of code points because their labels are Thai.

  Archive, Skills, Experiments: \<open>persistence/__init__.py\<close>, \<open>research/experiment.py\<close>,
  \<open>research/research_cycle.py\<close>. What the archive and the ledger contain after any sequence of
  appends, which changes of a line they detect, and which paths lead to a release.

  Constants, Registry, RegistryCheck, Planner: \<open>constants.py\<close>, \<open>agent_registry.py\<close>,
  \<open>main_agent/registry_runtime.py\<close>, \<open>main_agent/planner.py\<close>, \<open>main_agent/router.py\<close>. The registry built
  from the agent files, when its validation reports it ready, and what a built plan guarantees. The
  locale \<open>delegation_gate\<close> is the check that planner and router share.

  MainRuntime, PlanOrder, Execution: \<open>main_agent/runtime.py\<close>. The depth-first order succeeds exactly
  on acyclic plans; the dispatcher is called only behind the gates, in the order of dependencies and
  at most once more than the retries; stop is final; checkpoints are read back.

  MarketData, Quality, Terminal, Symbols, Parquet, StateStore, Collector, Backfill:
  \<open>market_data/\<close> and \<open>storage/\<close>. Rows of the terminal become ticks and bars within bounds, batches are
  ordered and rid of repetitions (locale \<open>record_batch\<close>), gaps and stale data become incidents;
  operations on the terminal are retried a bounded number of times; the state store refines a record
  of maps; one symbol is committed as a whole or not at all; a dry run writes nothing; the loop of a
  backfill returns, and a backfill that failed goes on with the window that failed.

  MarketSettings: the edges of \<open>market_data/collector.py\<close>. Settings that were accepted are well formed; a
  run is a dry run by default exactly when the environment file says so; the snapshot reads the
  stored records back and classifies each tick with the bars of its symbol.

  EnvAudit, Topology, Config: \<open>env.py\<close>, \<open>agent_topology.py\<close>, \<open>config.py\<close>. The environment file, the audit of
  its variables and the settings made of them; the allowed routes between the agents; the checks of
  a rendered configuration. Strict settings only advise, and a valid configuration confines the
  agents to their tools, routes and workspaces.

  Backup, Shutdown, Watchdog, Journal, WorkOrder: \<open>runtime/\<close>, \<open>persistence/__init__.py\<close>,
  \<open>code_work_order.py\<close>. What a backup contains, leaves out and verifies; the callbacks of a shutdown in
  reverse order, each once, and the lock that a signal during a shutdown waits for; probes that
  fail, recover and are reported from the third failure on, and heartbeats that verify; the memory
  of the agents and the journal of publications; the commands and files of a work order.

  Regex, SourceAst, Scanning, SecurityScan: \<open>scanning.py\<close>. Regular expressions with a match relation by
  structural recursion, a syntax tree of the scanned Python files with its nesting, the search for
  secrets and for forbidden calls and imports. A clean scan finds none of them; imports are looked
  for exactly in what is reachable in the tree.

  SkillCatalog: \<open>skills.py\<close>, the check of the skill files against the constants, with the findings a
  catalog has when it passes. Providers, Fred: \<open>providers.py\<close>, \<open>fred_adapter.py\<close>, with the policy of
  providers and models and the requests of the adapter, bounded and honest about what failed.
  ManagerQuery: the two dialogues about the agents, which query names an agent and where they agree.

  Floats, Features: \<open>market_data/features.py\<close> and \<open>market_data/fx_basket.py\<close> on IEEE doubles: an operation
  is the exact result under a rounding that is a parameter with its laws (\<open>sane_rounding\<close>); an index of
  relative strength is a percentage, and the status of the currency basket says which pairs it has.

  Parameters of the model. Code outside the package is an argument: the SHA-256 digest and what
  Python does with floats and ISO texts (\<open>py_env\<close>, \<open>market_env\<close>), YAML and \<open>pathlib\<close> in the registry, the
  dispatcher of tasks, the sender of messages, the terminal and the Parquet writer (\<open>terminal\<close>, a
  record of actions on a world of their own). Theorems hold for every such argument; where one needs
  a platform that reads back what it writes, that is a named hypothesis with a witness.

  Bounds. Loops over data are structural recursions. The depth-first visit ends because the path
  grows within the table, the search for missing bars because the candidate approaches the next bar.
  The loop of a backfill is a partial function, and \<open>backfill_returns\<close> proves that it returns when a
  window has a positive number of bars, which the parser of the settings demands. No fuel is used.

  Limits. Strings hold code points below 256 (Telegram texts any code point); an integer converts to
  a float exactly; an SQL statement succeeds; the clock stands still between two operations of the
  terminal; times are whole microseconds in UTC.

  Not modelled, and why. \<open>cli.py\<close> parses arguments and prints the reports of the parts above;
  \<open>scripts/\<close>, \<open>logging_setup.py\<close>, \<open>paths.py\<close>, \<open>health.py\<close>, \<open>bridge.py\<close> and \<open>storage_check\<close> probe the file
  system and the process; \<open>mt5_readonly.py\<close> and \<open>fake_backend.py\<close> are a binding to the MetaTrader5
  package and its fake, whose interface is the record \<open>terminal\<close>; \<open>render_config\<close> fills placeholders of
  a template; the PRAGMAs of SQLite, the HTTP request of Telegram and the calls of subprocesses are
  effects of other programs.
\<close>

end
